theory Spec2Isabelle
  imports Complex_Main
begin

section \<open>Numbers of the program\<close>

text \<open>
  Every quantity of the solver is a JavaScript number.  The model keeps the three
  special values the code tests for (\<open>isNaN\<close>, \<open>isFinite\<close>) and takes every
  finite value as an exact real: a finite operation on finite operands is the exact real
  operation, so rounding, overflow to an infinity and underflow to zero are outside of
  the model, and so is the sign of a zero (a non-zero finite value divided by zero is
  the infinity with the sign of the dividend).
\<close>

datatype number = Fin real | PInf | NInf | NaN

fun isNaN :: "number \<Rightarrow> bool" where
  "isNaN NaN = True"
| "isNaN _ = False"

fun isFinite :: "number \<Rightarrow> bool" where
  "isFinite (Fin _) = True"
| "isFinite _ = False"

text \<open>The infinity with the sign of a non-zero real.\<close>

definition signed_inf :: "real \<Rightarrow> number" where
  "signed_inf s = (if 0 < s then PInf else NInf)"

fun num_add :: "number \<Rightarrow> number \<Rightarrow> number" where
  "num_add NaN _ = NaN"
| "num_add _ NaN = NaN"
| "num_add (Fin a) (Fin b) = Fin (a + b)"
| "num_add PInf NInf = NaN"
| "num_add NInf PInf = NaN"
| "num_add PInf _ = PInf"
| "num_add NInf _ = NInf"
| "num_add _ PInf = PInf"
| "num_add _ NInf = NInf"

fun num_neg :: "number \<Rightarrow> number" where
  "num_neg (Fin a) = Fin (- a)"
| "num_neg PInf = NInf"
| "num_neg NInf = PInf"
| "num_neg NaN = NaN"

fun num_mul :: "number \<Rightarrow> number \<Rightarrow> number" where
  "num_mul NaN _ = NaN"
| "num_mul _ NaN = NaN"
| "num_mul (Fin a) (Fin b) = Fin (a * b)"
| "num_mul (Fin a) PInf = (if a = 0 then NaN else signed_inf a)"
| "num_mul (Fin a) NInf = (if a = 0 then NaN else signed_inf (- a))"
| "num_mul PInf (Fin b) = (if b = 0 then NaN else signed_inf b)"
| "num_mul NInf (Fin b) = (if b = 0 then NaN else signed_inf (- b))"
| "num_mul PInf PInf = PInf"
| "num_mul NInf NInf = PInf"
| "num_mul PInf NInf = NInf"
| "num_mul NInf PInf = NInf"

fun num_div :: "number \<Rightarrow> number \<Rightarrow> number" where
  "num_div NaN _ = NaN"
| "num_div _ NaN = NaN"
| "num_div (Fin a) (Fin b) =
     (if b = 0 then (if a = 0 then NaN else signed_inf a) else Fin (a / b))"
| "num_div (Fin a) PInf = Fin 0"
| "num_div (Fin a) NInf = Fin 0"
| "num_div PInf (Fin b) = (if 0 \<le> b then PInf else NInf)"
| "num_div NInf (Fin b) = (if 0 \<le> b then NInf else PInf)"
| "num_div _ _ = NaN"

fun num_less :: "number \<Rightarrow> number \<Rightarrow> bool" where
  "num_less NaN _ = False"
| "num_less _ NaN = False"
| "num_less (Fin a) (Fin b) = (a < b)"
| "num_less _ NInf = False"
| "num_less PInf _ = False"
| "num_less NInf _ = True"
| "num_less _ PInf = True"

fun num_less_eq :: "number \<Rightarrow> number \<Rightarrow> bool" where
  "num_less_eq NaN _ = False"
| "num_less_eq _ NaN = False"
| "num_less_eq (Fin a) (Fin b) = (a \<le> b)"
| "num_less_eq NInf _ = True"
| "num_less_eq _ PInf = True"
| "num_less_eq _ NInf = False"
| "num_less_eq PInf _ = False"

text \<open>
  The operators of the source are written with their usual symbols: \<open>a + b\<close>,
  \<open>a - b\<close>, \<open>a * b\<close>, \<open>a / b\<close>, \<open>- a\<close>, \<open>a < b\<close> and \<open>a \<le> b\<close>
  on \<open>number\<close> are the JavaScript operators (\<open>a > b\<close> is \<open>b < a\<close>).  A comparison
  with \<open>NaN\<close> is false, so \<open>\<not> a < b\<close> does not give \<open>b \<le> a\<close>.
\<close>

instantiation number :: "{plus, minus, uminus, times, inverse, ord}"
begin

definition plus_number :: "number \<Rightarrow> number \<Rightarrow> number" where
  "plus_number a b = num_add a b"

definition uminus_number :: "number \<Rightarrow> number" where
  "uminus_number a = num_neg a"

definition minus_number :: "number \<Rightarrow> number \<Rightarrow> number" where
  "minus_number a b = num_add a (num_neg b)"

definition times_number :: "number \<Rightarrow> number \<Rightarrow> number" where
  "times_number a b = num_mul a b"

definition divide_number :: "number \<Rightarrow> number \<Rightarrow> number" where
  "divide_number a b = num_div a b"

definition inverse_number :: "number \<Rightarrow> number" where
  "inverse_number a = num_div (Fin 1) a"

definition less_number :: "number \<Rightarrow> number \<Rightarrow> bool" where
  "less_number a b = num_less a b"

definition less_eq_number :: "number \<Rightarrow> number \<Rightarrow> bool" where
  "less_eq_number a b = num_less_eq a b"

instance ..

end

text \<open>\<open>Math.sqrt\<close>, \<open>Math.exp\<close>, \<open>Math.max\<close> and \<open>Math.pow\<close>.\<close>

fun Math_sqrt :: "number \<Rightarrow> number" where
  "Math_sqrt (Fin a) = (if a < 0 then NaN else Fin (sqrt a))"
| "Math_sqrt PInf = PInf"
| "Math_sqrt NInf = NaN"
| "Math_sqrt NaN = NaN"

fun Math_exp :: "number \<Rightarrow> number" where
  "Math_exp (Fin a) = Fin (exp a)"
| "Math_exp PInf = PInf"
| "Math_exp NInf = Fin 0"
| "Math_exp NaN = NaN"

fun Math_max :: "number \<Rightarrow> number \<Rightarrow> number" where
  "Math_max NaN _ = NaN"
| "Math_max _ NaN = NaN"
| "Math_max a b = (if num_less a b then b else a)"

text \<open>
  \<open>Math.pow x y\<close>: 1 for an exponent zero, also when the base is \<open>NaN\<close>; \<open>NaN\<close> for
  a negative finite base and an exponent that is not an integer; for an infinite exponent
  the result depends on how the absolute value of the base compares with 1.
\<close>

definition is_int :: "real \<Rightarrow> bool" where
  "is_int y = (of_int \<lfloor>y\<rfloor> = y)"

definition is_odd_int :: "real \<Rightarrow> bool" where
  "is_odd_int y = (is_int y \<and> odd \<lfloor>y\<rfloor>)"

fun Math_pow :: "number \<Rightarrow> number \<Rightarrow> number" where
  "Math_pow _ NaN = NaN"
| "Math_pow x (Fin y) =
     (if y = 0 then Fin 1 else
      (case x of
         NaN \<Rightarrow> NaN
       | Fin a \<Rightarrow>
           (if 0 < a then Fin (a powr y)
            else if a = 0 then (if 0 < y then Fin 0 else PInf)
            else if is_int y then Fin ((if is_odd_int y then - 1 else 1) * (\<bar>a\<bar> powr y))
            else NaN)
       | PInf \<Rightarrow> (if 0 < y then PInf else Fin 0)
       | NInf \<Rightarrow> (if 0 < y then (if is_odd_int y then NInf else PInf) else Fin 0)))"
| "Math_pow x PInf =
     (case x of
        NaN \<Rightarrow> NaN
      | Fin a \<Rightarrow> (if 1 < \<bar>a\<bar> then PInf else if \<bar>a\<bar> = 1 then NaN else Fin 0)
      | _ \<Rightarrow> PInf)"
| "Math_pow x NInf =
     (case x of
        NaN \<Rightarrow> NaN
      | Fin a \<Rightarrow> (if 1 < \<bar>a\<bar> then Fin 0 else if \<bar>a\<bar> = 1 then NaN else PInf)
      | _ \<Rightarrow> Fin 0)"

section \<open>Physical constants and the atmosphere\<close>

definition R_GAS :: number where
  "R_GAS = Fin 287.05"

definition G :: number where
  "G = Fin 9.80665"

text \<open>\<open>getAtmosphere\<close> returns the pair \<open>(T0, P0)\<close>.\<close>

definition getAtmosphere :: "number \<Rightarrow> number \<times> number" where
  "getAtmosphere altitudeKm =
     (let H = altitudeKm * Fin 1000 in
      if H \<le> Fin 11000 then
        (Fin 288.15 - Fin 0.0065 * H,
         Fin 101325 * Math_pow (Fin 1 - Fin 0.0065 * H / Fin 288.15) (Fin 5.25588))
      else
        (let T11 = Fin 216.65; P11 = Fin 22632.1 in
         (T11, P11 * Math_exp ((- G) * (H - Fin 11000) / (R_GAS * T11)))))"


section \<open>Data model\<close>

text \<open>
  The interfaces of the source, as records.  A field name that several interfaces share
  (\<open>sfc\<close>, \<open>thrust\<close>, \<open>fanPressureRatio\<close>, ...) is written with its record's name
  where it is not the one declared last: \<open>ChartPoint.sfc\<close>, \<open>EnvelopePoint.thrust\<close>,
  \<open>PerformanceResult.fanPressureRatio\<close>.
\<close>

record StationResult =
  name :: string
  label :: string
  temp :: number
  pressure :: number
  isTotal :: bool

record ChartPoint =
  opr :: number
  sfc :: number
  specificThrust :: number

record EnvelopePoint =
  mach :: number
  altitude :: number
  sfc :: number
  thrust :: number
  isValid :: bool

record PerformanceResult =
  thrust :: number
  specificThrust :: number
  sfc :: number
  massFlowRateAir :: number
  fuelAirRatio :: number
  bypassVelocity :: number
  coreVelocity :: number
  thermalEfficiency :: number
  propulsiveEfficiency :: number
  overallEfficiency :: number
  fanPressureRatio :: number
  hpcPressureRatio :: number
  isValid :: bool

record CalculationResult =
  stations :: "StationResult list"
  performance :: PerformanceResult

record EngineInputs =
  altitude :: number
  mach :: number
  massFlow :: number
  bypassRatio :: number
  overallPressureRatio :: number
  fanPressureRatio :: number
  turbineEntryTemp :: number
  efficiencyFan :: number
  efficiencyLPC :: number
  efficiencyHPC :: number
  efficiencyHPT :: number
  efficiencyLPT :: number
  efficiencyBurner :: number
  pressureRecoveryInlet :: number
  pressureRecoveryBurner :: number
  pressureRecoveryNozzle :: number
  mechEfficiencyHigh :: number
  mechEfficiencyLow :: number
  heatingValue :: number

section \<open>Gas properties and the isentropic relation\<close>

record gas =
  cp :: number
  k :: number

definition PROP_COLD :: gas where
  "PROP_COLD = \<lparr>cp = Fin 1005, k = Fin 1.4\<rparr>"

definition PROP_HOT :: gas where
  "PROP_HOT = \<lparr>cp = Fin 1150, k = Fin 1.33\<rparr>"

definition isentropicT :: "number \<Rightarrow> number \<Rightarrow> number \<Rightarrow> number \<Rightarrow> bool \<Rightarrow> number" where
  "isentropicT T_in ratio kk eta isCompressor =
     (let k_minus_1_over_k = (kk - Fin 1) / kk in
      if isCompressor then
        T_in * (Fin 1 + (Math_pow ratio k_minus_1_over_k - Fin 1) / eta)
      else if ratio \<le> Fin 0 then T_in
      else T_in * (Fin 1 - (Fin 1 - Math_pow (Fin 1 / ratio) k_minus_1_over_k) * eta))"

definition getGammaExp :: "number \<Rightarrow> number" where
  "getGammaExp kk = kk / (kk - Fin 1)"

text \<open>\<open>getInletConditions\<close> returns the pair \<open>(Tt2, Pt2)\<close>.\<close>

definition getInletConditions :: "number \<Rightarrow> number \<Rightarrow> number \<Rightarrow> number \<times> number" where
  "getInletConditions altitude_km mach_no recovery =
     (let (T0, P0) = getAtmosphere altitude_km;
          tau_r = Fin 1 + (k PROP_COLD - Fin 1) / Fin 2 * mach_no * mach_no;
          pi_r = Math_pow tau_r (getGammaExp (k PROP_COLD));
          Tt2 = T0 * tau_r;
          Pt2 = P0 * pi_r * recovery
      in (Tt2, Pt2))"

section \<open>The cycle solver\<close>

text \<open>
  \<open>calculateCycle\<close> is one straight-line function.  Each of its local constants is a
  definition of the same name here, a function of the inputs.  The variables it assigns
  more than once (\<open>isValid\<close>, \<open>Pt45\<close>, \<open>Pt5\<close>, the nozzle exit states and the
  performance numbers) are returned by the block that assigns them, as a tuple, and are
  read from that tuple afterwards.
\<close>

subsection \<open>1. Ambient (station 0)\<close>

definition T0 :: "EngineInputs \<Rightarrow> number" where
  "T0 inputs = fst (getAtmosphere (altitude inputs))"

definition P0 :: "EngineInputs \<Rightarrow> number" where
  "P0 inputs = snd (getAtmosphere (altitude inputs))"

definition V0 :: "EngineInputs \<Rightarrow> number" where
  "V0 inputs = mach inputs * Math_sqrt (k PROP_COLD * R_GAS * T0 inputs)"

subsection \<open>2. Inlet (0 to 2)\<close>

definition tau_r :: "EngineInputs \<Rightarrow> number" where
  "tau_r inputs = Fin 1 + (k PROP_COLD - Fin 1) / Fin 2 * mach inputs * mach inputs"

definition pi_r :: "EngineInputs \<Rightarrow> number" where
  "pi_r inputs = Math_pow (tau_r inputs) (getGammaExp (k PROP_COLD))"

definition Tt0 :: "EngineInputs \<Rightarrow> number" where
  "Tt0 inputs = T0 inputs * tau_r inputs"

definition Pt0 :: "EngineInputs \<Rightarrow> number" where
  "Pt0 inputs = P0 inputs * pi_r inputs"

definition Tt2 :: "EngineInputs \<Rightarrow> number" where
  "Tt2 inputs = Tt0 inputs"

definition Pt2 :: "EngineInputs \<Rightarrow> number" where
  "Pt2 inputs = Pt0 inputs * pressureRecoveryInlet inputs"

subsection \<open>3. Fan (2 to 13 and 21)\<close>

definition Pt13 :: "EngineInputs \<Rightarrow> number" where
  "Pt13 inputs = Pt2 inputs * fanPressureRatio inputs"

definition Tt13 :: "EngineInputs \<Rightarrow> number" where
  "Tt13 inputs =
     isentropicT (Tt2 inputs) (fanPressureRatio inputs) (k PROP_COLD) (efficiencyFan inputs) True"

definition Pt21 :: "EngineInputs \<Rightarrow> number" where
  "Pt21 inputs = Pt13 inputs"

definition Tt21 :: "EngineInputs \<Rightarrow> number" where
  "Tt21 inputs = Tt13 inputs"

subsection \<open>4. High-pressure compressor (21 to 3)\<close>

definition pi_ch :: "EngineInputs \<Rightarrow> number" where
  "pi_ch inputs = Math_max (Fin 1.1) (overallPressureRatio inputs / fanPressureRatio inputs)"

definition Pt3 :: "EngineInputs \<Rightarrow> number" where
  "Pt3 inputs = Pt21 inputs * pi_ch inputs"

definition Tt3 :: "EngineInputs \<Rightarrow> number" where
  "Tt3 inputs =
     isentropicT (Tt21 inputs) (pi_ch inputs) (k PROP_COLD) (efficiencyHPC inputs) True"

subsection \<open>5. Burner (3 to 4)\<close>

definition Pt4 :: "EngineInputs \<Rightarrow> number" where
  "Pt4 inputs = Pt3 inputs * pressureRecoveryBurner inputs"

definition Tt4 :: "EngineInputs \<Rightarrow> number" where
  "Tt4 inputs = turbineEntryTemp inputs"

definition Hu_J :: "EngineInputs \<Rightarrow> number" where
  "Hu_J inputs = heatingValue inputs * Fin 1000000"

definition numerator :: "EngineInputs \<Rightarrow> number" where
  "numerator inputs = cp PROP_HOT * Tt4 inputs - cp PROP_COLD * Tt3 inputs"

definition denominator :: "EngineInputs \<Rightarrow> number" where
  "denominator inputs = efficiencyBurner inputs * Hu_J inputs - cp PROP_HOT * Tt4 inputs"

definition f :: "EngineInputs \<Rightarrow> number" where
  "f inputs = Math_max (Fin 0) (numerator inputs / denominator inputs)"

subsection \<open>6. High-pressure turbine (4 to 4.5)\<close>

definition work_req_HPC :: "EngineInputs \<Rightarrow> number" where
  "work_req_HPC inputs = cp PROP_COLD * (Tt3 inputs - Tt21 inputs)"

definition work_avail_HPT :: "EngineInputs \<Rightarrow> number" where
  "work_avail_HPT inputs = work_req_HPC inputs / mechEfficiencyHigh inputs"

definition deltaT_HPT :: "EngineInputs \<Rightarrow> number" where
  "deltaT_HPT inputs = work_avail_HPT inputs / ((Fin 1 + f inputs) * cp PROP_HOT)"

definition Tt45 :: "EngineInputs \<Rightarrow> number" where
  "Tt45 inputs = Tt4 inputs - deltaT_HPT inputs"

definition temp_ratio_HPT :: "EngineInputs \<Rightarrow> number" where
  "temp_ratio_HPT inputs = Tt45 inputs / Tt4 inputs"

definition pressure_term_HPT :: "EngineInputs \<Rightarrow> number" where
  "pressure_term_HPT inputs = (Fin 1 - temp_ratio_HPT inputs) / efficiencyHPT inputs"

definition pi_HPT :: "EngineInputs \<Rightarrow> number" where
  "pi_HPT inputs =
     Math_pow (Fin 1 / (Fin 1 - pressure_term_HPT inputs)) (getGammaExp (k PROP_HOT))"

text \<open>
  The block of the high-pressure turbine starts from \<open>Pt45 = Pt4\<close> and
  \<open>isValid = true\<close> and returns the pair \<open>(Pt45, isValid)\<close>.
\<close>

definition hpt_block :: "EngineInputs \<Rightarrow> number \<times> bool" where
  "hpt_block inputs =
     (let isValid0 = (if Tt45 inputs < Tt3 inputs then False else True) in
      if temp_ratio_HPT inputs \<le> Fin 0 \<or> temp_ratio_HPT inputs \<ge> Fin 1 then
        (Pt4 inputs, False)
      else if pressure_term_HPT inputs \<ge> Fin 1 then (Pt4 inputs, False)
      else (Pt4 inputs / pi_HPT inputs, isValid0))"

definition Pt45 :: "EngineInputs \<Rightarrow> number" where
  "Pt45 inputs = fst (hpt_block inputs)"

definition isValid_HPT :: "EngineInputs \<Rightarrow> bool" where
  "isValid_HPT inputs = snd (hpt_block inputs)"

subsection \<open>7. Low-pressure turbine (4.5 to 5)\<close>

definition work_req_Fan :: "EngineInputs \<Rightarrow> number" where
  "work_req_Fan inputs =
     (Fin 1 + bypassRatio inputs) * cp PROP_COLD * (Tt13 inputs - Tt2 inputs)"

definition work_extraction_LPT :: "EngineInputs \<Rightarrow> number" where
  "work_extraction_LPT inputs = work_req_Fan inputs / mechEfficiencyLow inputs"

definition deltaT_LPT :: "EngineInputs \<Rightarrow> number" where
  "deltaT_LPT inputs = work_extraction_LPT inputs / ((Fin 1 + f inputs) * cp PROP_HOT)"

definition Tt5 :: "EngineInputs \<Rightarrow> number" where
  "Tt5 inputs = Tt45 inputs - deltaT_LPT inputs"

definition temp_ratio_LPT :: "EngineInputs \<Rightarrow> number" where
  "temp_ratio_LPT inputs = Tt5 inputs / Tt45 inputs"

definition pressure_term_LPT :: "EngineInputs \<Rightarrow> number" where
  "pressure_term_LPT inputs = (Fin 1 - temp_ratio_LPT inputs) / efficiencyLPT inputs"

definition pi_LPT :: "EngineInputs \<Rightarrow> number" where
  "pi_LPT inputs =
     Math_pow (Fin 1 / (Fin 1 - pressure_term_LPT inputs)) (getGammaExp (k PROP_HOT))"

text \<open>
  The block of the low-pressure turbine starts from \<open>Pt5 = Pt45\<close> and the \<open>isValid\<close>
  left by the high-pressure turbine, and returns the pair \<open>(Pt5, isValid)\<close>.
\<close>

definition lpt_block :: "EngineInputs \<Rightarrow> number \<times> bool" where
  "lpt_block inputs =
     (let isValid1 = (if Tt5 inputs < T0 inputs then False else isValid_HPT inputs) in
      if temp_ratio_LPT inputs \<le> Fin 0 \<or> temp_ratio_LPT inputs \<ge> Fin 1 then
        (Pt45 inputs, False)
      else if pressure_term_LPT inputs \<ge> Fin 1 then (Pt45 inputs, False)
      else (Pt45 inputs / pi_LPT inputs, isValid1))"

definition Pt5 :: "EngineInputs \<Rightarrow> number" where
  "Pt5 inputs = fst (lpt_block inputs)"

definition isValid_LPT :: "EngineInputs \<Rightarrow> bool" where
  "isValid_LPT inputs = snd (lpt_block inputs)"

subsection \<open>8. Nozzles\<close>

definition Pt9 :: "EngineInputs \<Rightarrow> number" where
  "Pt9 inputs = Pt5 inputs * pressureRecoveryNozzle inputs"

definition critical_ratio_hot :: number where
  "critical_ratio_hot = Math_pow ((k PROP_HOT + Fin 1) / Fin 2) (getGammaExp (k PROP_HOT))"

text \<open>
  The core nozzle starts from \<open>P9 = P0\<close>, \<open>T9 = Tt5\<close>, \<open>V9 = 0\<close> and the
  \<open>isValid\<close> left by the turbines, and returns \<open>(P9, T9, V9, isValid)\<close>.
\<close>

definition core_nozzle :: "EngineInputs \<Rightarrow> number \<times> number \<times> number \<times> bool" where
  "core_nozzle inputs =
     (if isValid_LPT inputs then
        (if Pt9 inputs / P0 inputs > critical_ratio_hot then
           (let P9' = Pt9 inputs / critical_ratio_hot;
                T9' = Tt5 inputs * (Fin 2 / (k PROP_HOT + Fin 1));
                V9' = Math_sqrt (k PROP_HOT * R_GAS * T9')
            in (P9', T9', V9', True))
         else
           (if Pt9 inputs > P0 inputs then
              (let T9' = Tt5 inputs *
                         Math_pow (P0 inputs / Pt9 inputs) ((k PROP_HOT - Fin 1) / k PROP_HOT);
                   V9' = Math_sqrt (Math_max (Fin 0) (Fin 2 * cp PROP_HOT * (Tt5 inputs - T9')))
               in (P0 inputs, T9', V9', True))
            else (P0 inputs, Tt5 inputs, Fin 0, False)))
      else (P0 inputs, Tt5 inputs, Fin 0, False))"

definition P9 :: "EngineInputs \<Rightarrow> number" where
  "P9 inputs = fst (core_nozzle inputs)"

definition T9 :: "EngineInputs \<Rightarrow> number" where
  "T9 inputs = fst (snd (core_nozzle inputs))"

definition V9 :: "EngineInputs \<Rightarrow> number" where
  "V9 inputs = fst (snd (snd (core_nozzle inputs)))"

definition isValid_core :: "EngineInputs \<Rightarrow> bool" where
  "isValid_core inputs = snd (snd (snd (core_nozzle inputs)))"

definition Pt19 :: "EngineInputs \<Rightarrow> number" where
  "Pt19 inputs = Pt13 inputs * pressureRecoveryNozzle inputs"

definition critical_ratio_cold :: number where
  "critical_ratio_cold = Math_pow ((k PROP_COLD + Fin 1) / Fin 2) (getGammaExp (k PROP_COLD))"

text \<open>
  The bypass nozzle starts from \<open>P19 = P0\<close>, \<open>T19 = Tt13\<close>, \<open>V19 = 0\<close> and returns
  \<open>(P19, T19, V19)\<close>.  It reads \<open>isValid\<close> and has no assignment to it: its inner
  \<open>if (Pt19 > P0)\<close> has no \<open>else\<close> branch.
\<close>

definition bypass_nozzle :: "EngineInputs \<Rightarrow> number \<times> number \<times> number" where
  "bypass_nozzle inputs =
     (if isValid_core inputs then
        (if Pt19 inputs / P0 inputs > critical_ratio_cold then
           (let P19' = Pt19 inputs / critical_ratio_cold;
                T19' = Tt13 inputs * (Fin 2 / (k PROP_COLD + Fin 1));
                V19' = Math_sqrt (k PROP_COLD * R_GAS * T19')
            in (P19', T19', V19'))
         else
           (if Pt19 inputs > P0 inputs then
              (let T19' = Tt13 inputs *
                          Math_pow (P0 inputs / Pt19 inputs) ((k PROP_COLD - Fin 1) / k PROP_COLD);
                   V19' = Math_sqrt (Math_max (Fin 0) (Fin 2 * cp PROP_COLD * (Tt13 inputs - T19')))
               in (P0 inputs, T19', V19'))
            else (P0 inputs, Tt13 inputs, Fin 0)))
      else (P0 inputs, Tt13 inputs, Fin 0))"

definition P19 :: "EngineInputs \<Rightarrow> number" where
  "P19 inputs = fst (bypass_nozzle inputs)"

definition T19 :: "EngineInputs \<Rightarrow> number" where
  "T19 inputs = fst (snd (bypass_nozzle inputs))"

definition V19 :: "EngineInputs \<Rightarrow> number" where
  "V19 inputs = snd (snd (bypass_nozzle inputs))"

text \<open>No statement after the core nozzle assigns \<open>isValid\<close>: this is the returned flag.\<close>

definition isValid_final :: "EngineInputs \<Rightarrow> bool" where
  "isValid_final inputs = isValid_core inputs"

subsection \<open>9. Performance\<close>

definition rho9 :: "EngineInputs \<Rightarrow> number" where
  "rho9 inputs = P9 inputs / (R_GAS * T9 inputs)"

definition A9_per_unit :: "EngineInputs \<Rightarrow> number" where
  "A9_per_unit inputs = (Fin 1 + f inputs) / (rho9 inputs * V9 inputs)"

definition F_core :: "EngineInputs \<Rightarrow> number" where
  "F_core inputs =
     (Fin 1 + f inputs) * V9 inputs - Fin 1 * V0 inputs
       + (P9 inputs - P0 inputs) * A9_per_unit inputs"

definition rho19 :: "EngineInputs \<Rightarrow> number" where
  "rho19 inputs = P19 inputs / (R_GAS * T19 inputs)"

definition A19_per_unit :: "EngineInputs \<Rightarrow> number" where
  "A19_per_unit inputs = bypassRatio inputs / (rho19 inputs * V19 inputs)"

definition F_bypass :: "EngineInputs \<Rightarrow> number" where
  "F_bypass inputs =
     bypassRatio inputs * V19 inputs - bypassRatio inputs * V0 inputs
       + (P19 inputs - P0 inputs) * A19_per_unit inputs"

definition V9_eff :: "EngineInputs \<Rightarrow> number" where
  "V9_eff inputs =
     (if V9 inputs > Fin 1 \<and> rho9 inputs > Fin 0
      then V9 inputs + (P9 inputs - P0 inputs) / (rho9 inputs * V9 inputs)
      else V9 inputs)"

definition V19_eff :: "EngineInputs \<Rightarrow> number" where
  "V19_eff inputs =
     (if V19 inputs > Fin 1 \<and> rho19 inputs > Fin 0
      then V19 inputs + (P19 inputs - P0 inputs) / (rho19 inputs * V19 inputs)
      else V19 inputs)"

definition m_core_abs :: "EngineInputs \<Rightarrow> number" where
  "m_core_abs inputs = massFlow inputs / (Fin 1 + bypassRatio inputs)"

definition KE_out_eff :: "EngineInputs \<Rightarrow> number" where
  "KE_out_eff inputs =
     Fin 0.5 * m_core_abs inputs * (Fin 1 + f inputs) * Math_pow (V9_eff inputs) (Fin 2)
       + Fin 0.5 * (massFlow inputs - m_core_abs inputs) * Math_pow (V19_eff inputs) (Fin 2)"

definition KE_in :: "EngineInputs \<Rightarrow> number" where
  "KE_in inputs = Fin 0.5 * massFlow inputs * Math_pow (V0 inputs) (Fin 2)"

definition Q_in :: "EngineInputs \<Rightarrow> number" where
  "Q_in inputs = m_core_abs inputs * f inputs * Hu_J inputs"

text \<open>
  The performance block starts from six zeros and returns \<open>(specific_thrust,
  total_thrust, sfc, thermalEfficiency, propulsiveEfficiency, overallEfficiency)\<close>.
\<close>

definition performance_block ::
  "EngineInputs \<Rightarrow> number \<times> number \<times> number \<times> number \<times> number \<times> number" where
  "performance_block inputs =
     (if isValid_final inputs then
        (let specific_thrust = (F_core inputs + F_bypass inputs) / (Fin 1 + bypassRatio inputs);
             total_thrust = specific_thrust * massFlow inputs;
             sfc' = (if total_thrust > Fin 0
                     then (let m_fuel = f inputs * (massFlow inputs / (Fin 1 + bypassRatio inputs))
                           in (m_fuel * Fin 3600) / total_thrust)
                     else Fin 0);
             thermalEfficiency' =
                    (if Q_in inputs > Fin 0
                     then (KE_out_eff inputs - KE_in inputs) / Q_in inputs
                     else Fin 0);
             propulsiveEfficiency' =
                    (if Q_in inputs > Fin 0 \<and> KE_out_eff inputs - KE_in inputs > Fin 0
                     then (total_thrust * V0 inputs) / (KE_out_eff inputs - KE_in inputs)
                     else Fin 0);
             overallEfficiency' = thermalEfficiency' * propulsiveEfficiency'
         in (specific_thrust, total_thrust, sfc', thermalEfficiency', propulsiveEfficiency',
             overallEfficiency'))
      else (Fin 0, Fin 0, Fin 0, Fin 0, Fin 0, Fin 0))"

text \<open>
  The fifth number of the performance block: \<open>propulsiveEfficiency\<close> as the block
  leaves it, before the final clamp.
\<close>

definition propulsiveEfficiency_computed :: "EngineInputs \<Rightarrow> number" where
  "propulsiveEfficiency_computed inputs =
     fst (snd (snd (snd (snd (performance_block inputs)))))"

subsection \<open>Cleaning and the result\<close>

text \<open>\<open>if (isNaN(x) || !isFinite(x)) x = 0\<close>, for the three headline numbers.\<close>

definition clean :: "number \<Rightarrow> number" where
  "clean x = (if isNaN x \<or> \<not> isFinite x then Fin 0 else x)"

text \<open>\<open>if (propulsiveEfficiency > 1.0) propulsiveEfficiency = 0.999\<close>.\<close>

definition clamp_propulsive :: "number \<Rightarrow> number" where
  "clamp_propulsive x = (if x > Fin 1.0 then Fin 0.999 else x)"

text \<open>
  The names of the stations are the Latin part of the source's names, which the source
  writes after a Chinese name and in parentheses.
\<close>

definition calculateCycle :: "EngineInputs \<Rightarrow> CalculationResult" where
  "calculateCycle inputs =
     (case performance_block inputs of
        (specific_thrust, total_thrust, sfc', thermalEfficiency', propulsiveEfficiency',
         overallEfficiency') \<Rightarrow>
     \<lparr>stations =
        [\<lparr>name = ''Ambient'', label = ''0'', temp = T0 inputs, pressure = P0 inputs,
          isTotal = False\<rparr>,
         \<lparr>name = ''Inlet'', label = ''2'', temp = Tt2 inputs, pressure = Pt2 inputs,
          isTotal = True\<rparr>,
         \<lparr>name = ''Fan'', label = ''2.5'', temp = Tt13 inputs, pressure = Pt13 inputs,
          isTotal = True\<rparr>,
         \<lparr>name = ''HPC'', label = ''3'', temp = Tt3 inputs, pressure = Pt3 inputs,
          isTotal = True\<rparr>,
         \<lparr>name = ''Burner'', label = ''4'', temp = Tt4 inputs, pressure = Pt4 inputs,
          isTotal = True\<rparr>,
         \<lparr>name = ''HPT'', label = ''4.5'', temp = Tt45 inputs, pressure = Pt45 inputs,
          isTotal = True\<rparr>,
         \<lparr>name = ''LPT'', label = ''5'', temp = Tt5 inputs, pressure = Pt5 inputs,
          isTotal = True\<rparr>,
         \<lparr>name = ''Core Nozzle'', label = ''9'', temp = T9 inputs, pressure = P9 inputs,
          isTotal = False\<rparr>,
         \<lparr>name = ''Bypass Nozzle'', label = ''19'', temp = T19 inputs, pressure = P19 inputs,
          isTotal = False\<rparr>],
      performance =
        \<lparr>thrust = clean total_thrust,
         specificThrust = clean specific_thrust,
         sfc = clean sfc',
         massFlowRateAir = massFlow inputs,
         fuelAirRatio = f inputs,
         bypassVelocity = V19 inputs,
         coreVelocity = V9 inputs,
         thermalEfficiency = thermalEfficiency',
         propulsiveEfficiency = clamp_propulsive propulsiveEfficiency',
         overallEfficiency = overallEfficiency',
         PerformanceResult.fanPressureRatio = fanPressureRatio inputs,
         hpcPressureRatio = pi_ch inputs,
         PerformanceResult.isValid = isValid_final inputs\<rparr>\<rparr>)"

section \<open>Sweep drivers\<close>

subsection \<open>Overall pressure ratio trend\<close>

text \<open>
  The body of the loop of \<open>calculateTrends\<close>, for one value of the counter: the
  \<open>continue\<close> leaves \<open>points\<close> as it is.
\<close>

definition calculateTrends_body :: "EngineInputs \<Rightarrow> number \<Rightarrow> ChartPoint list \<Rightarrow> ChartPoint list" where
  "calculateTrends_body baseInputs opr' points =
     (if opr' \<le> fanPressureRatio baseInputs then points
      else
        (let res = calculateCycle (baseInputs\<lparr>overallPressureRatio := opr'\<rparr>) in
         if isValid (performance res) \<and> specificThrust (performance res) > Fin 0 then
           points @ [\<lparr>opr = opr',
                       ChartPoint.sfc = PerformanceResult.sfc (performance res),
                       ChartPoint.specificThrust = specificThrust (performance res)\<rparr>]
         else points))"

text \<open>
  \<open>for (let opr = 10; opr <= 60; opr += 1.0)\<close>.  The counter starts at 10 and only
  grows by 1, so it is finite throughout: it is a real here, and the number \<open>Fin c\<close>
  where the body reads it.
\<close>

function calculateTrends_loop :: "EngineInputs \<Rightarrow> real \<Rightarrow> ChartPoint list \<Rightarrow> ChartPoint list" where
  "calculateTrends_loop baseInputs c points =
     (if c \<le> 60
      then calculateTrends_loop baseInputs (c + 1) (calculateTrends_body baseInputs (Fin c) points)
      else points)"
  by pat_completeness auto
termination
  apply (relation "measure (\<lambda>(baseInputs, c, points). nat \<lceil>61 - c\<rceil>)")
   apply auto
  apply linarith
  done

declare calculateTrends_loop.simps [simp del]

definition calculateTrends :: "EngineInputs \<Rightarrow> ChartPoint list" where
  "calculateTrends baseInputs = calculateTrends_loop baseInputs 10 []"

subsection \<open>Flight envelope\<close>

definition machSteps :: nat where
  "machSteps = 50"

definition altSteps :: nat where
  "altSteps = 40"

definition maxMach :: number where
  "maxMach = Fin 2.5"

definition maxAlt :: number where
  "maxAlt = Fin 20"

definition designCorrectedFlow :: "EngineInputs \<Rightarrow> number" where
  "designCorrectedFlow baseInputs = massFlow baseInputs"

text \<open>The body of the inner loop of \<open>calculateEnvelope\<close>, for a Mach number and an altitude.\<close>

definition calculateEnvelope_body ::
  "EngineInputs \<Rightarrow> number \<Rightarrow> number \<Rightarrow> EnvelopePoint list \<Rightarrow> EnvelopePoint list" where
  "calculateEnvelope_body baseInputs m h data =
     (let (Tt2', Pt2') = getInletConditions h m (pressureRecoveryInlet baseInputs);
          theta = Tt2' / Fin 288.15;
          delta = Pt2' / Fin 101325;
          physicalMassFlow = designCorrectedFlow baseInputs * (delta / Math_sqrt theta);
          inputs = baseInputs\<lparr>altitude := h, mach := m, massFlow := physicalMassFlow\<rparr>;
          res = calculateCycle inputs
      in if isValid (performance res) \<and> thrust (performance res) > Fin 0 then
           data @ [\<lparr>EnvelopePoint.mach = m,
                     EnvelopePoint.altitude = h,
                     EnvelopePoint.sfc = PerformanceResult.sfc (performance res),
                     EnvelopePoint.thrust = thrust (performance res),
                     EnvelopePoint.isValid = True\<rparr>]
         else data)"

text \<open>\<open>for (let j = 0; j <= altSteps; j++)\<close>, with \<open>h = (j / altSteps) * maxAlt\<close>.\<close>

function calculateEnvelope_inner ::
  "EngineInputs \<Rightarrow> number \<Rightarrow> nat \<Rightarrow> EnvelopePoint list \<Rightarrow> EnvelopePoint list" where
  "calculateEnvelope_inner baseInputs m j data =
     (if j \<le> altSteps
      then calculateEnvelope_inner baseInputs m (j + 1)
             (calculateEnvelope_body baseInputs m
                ((Fin (real j) / Fin (real altSteps)) * maxAlt) data)
      else data)"
  by pat_completeness auto
termination
  by (relation "measure (\<lambda>(baseInputs, m, j, data). Suc altSteps - j)") auto

declare calculateEnvelope_inner.simps [simp del]

text \<open>\<open>for (let i = 0; i <= machSteps; i++)\<close>, with \<open>m = (i / machSteps) * maxMach\<close>.\<close>

function calculateEnvelope_outer ::
  "EngineInputs \<Rightarrow> nat \<Rightarrow> EnvelopePoint list \<Rightarrow> EnvelopePoint list" where
  "calculateEnvelope_outer baseInputs i data =
     (if i \<le> machSteps
      then calculateEnvelope_outer baseInputs (i + 1)
             (calculateEnvelope_inner baseInputs
                ((Fin (real i) / Fin (real machSteps)) * maxMach) 0 data)
      else data)"
  by pat_completeness auto
termination
  by (relation "measure (\<lambda>(baseInputs, i, data). Suc machSteps - i)") auto

declare calculateEnvelope_outer.simps [simp del]

definition calculateEnvelope :: "EngineInputs \<Rightarrow> EnvelopePoint list" where
  "calculateEnvelope baseInputs = calculateEnvelope_outer baseInputs 0 []"

text \<open>The default inputs of the application (\<open>DEFAULT_INPUTS\<close> of \<open>App.tsx\<close>).\<close>

definition DEFAULT_INPUTS :: EngineInputs where
  "DEFAULT_INPUTS =
     \<lparr>altitude = Fin 10.7, mach = Fin 0.83, massFlow = Fin 1350,
      bypassRatio = Fin 9, overallPressureRatio = Fin 42, fanPressureRatio = Fin 1.65,
      turbineEntryTemp = Fin 1650,
      efficiencyFan = Fin 0.92, efficiencyLPC = Fin 0.90, efficiencyHPC = Fin 0.90,
      efficiencyHPT = Fin 0.92, efficiencyLPT = Fin 0.93, efficiencyBurner = Fin 0.995,
      pressureRecoveryInlet = Fin 0.98, pressureRecoveryBurner = Fin 0.96,
      pressureRecoveryNozzle = Fin 0.99,
      mechEfficiencyHigh = Fin 0.99, mechEfficiencyLow = Fin 0.99,
      heatingValue = Fin 43.1\<rparr>"

section \<open>The specification's atmosphere\<close>

text \<open>
  The two layers as the specification words them, on reals and with the altitude in
  metres: the pair of the temperature and the pressure.
\<close>

definition atmosphere_spec :: "real \<Rightarrow> real \<times> real" where
  "atmosphere_spec h =
     (if h \<le> 11000
      then (288.15 - 0.0065 * h, 101325 * (1 - 0.0065 * h / 288.15) powr 5.25588)
      else (216.65, 22632.1 * exp (- 9.80665 * (h - 11000) / (287.05 * 216.65))))"

section \<open>The sweeps as the specification words them\<close>

text \<open>
  The overall-pressure-ratio trend: the samples 10, 11, ..., 60; a sample is kept when
  it is not skipped (it is skipped when it is at most the base fan pressure ratio), its
  solve is valid and its specific thrust is positive; a kept sample gives one point.
\<close>

definition trend_samples :: "number list" where
  "trend_samples = map (\<lambda>n. Fin (real n)) [10..<61]"

definition trend_solve :: "EngineInputs \<Rightarrow> number \<Rightarrow> PerformanceResult" where
  "trend_solve baseInputs x =
     performance (calculateCycle (baseInputs\<lparr>overallPressureRatio := x\<rparr>))"

definition trend_kept :: "EngineInputs \<Rightarrow> number \<Rightarrow> bool" where
  "trend_kept baseInputs x =
     (\<not> x \<le> fanPressureRatio baseInputs \<and> isValid (trend_solve baseInputs x)
      \<and> specificThrust (trend_solve baseInputs x) > Fin 0)"

definition trend_point :: "EngineInputs \<Rightarrow> number \<Rightarrow> ChartPoint" where
  "trend_point baseInputs x =
     \<lparr>opr = x,
      ChartPoint.sfc = PerformanceResult.sfc (trend_solve baseInputs x),
      ChartPoint.specificThrust = specificThrust (trend_solve baseInputs x)\<rparr>"

definition trends_spec :: "EngineInputs \<Rightarrow> ChartPoint list" where
  "trends_spec baseInputs =
     map (trend_point baseInputs) (filter (trend_kept baseInputs) trend_samples)"

text \<open>
  The flight envelope: the cells \<open>(i, j)\<close> with the Mach index \<open>i\<close> from 0 to 50 in
  the outer position and the altitude index \<open>j\<close> from 0 to 40 in the inner one; the
  Mach number and the altitude of a cell; the inputs of its solve, with the mass flow
  scaled by \<open>delta / sqrt theta\<close> from the inlet stagnation conditions of the cell; a cell
  is kept when its solve is valid and its thrust is positive.
\<close>

definition envelope_cells :: "(nat \<times> nat) list" where
  "envelope_cells = concat (map (\<lambda>i. map (\<lambda>j. (i, j)) [0..<41]) [0..<51])"

definition cell_mach :: "nat \<Rightarrow> number" where
  "cell_mach i = (Fin (real i) / Fin 50) * Fin 2.5"

definition cell_altitude :: "nat \<Rightarrow> number" where
  "cell_altitude j = (Fin (real j) / Fin 40) * Fin 20"

definition cell_inputs :: "EngineInputs \<Rightarrow> nat \<times> nat \<Rightarrow> EngineInputs" where
  "cell_inputs baseInputs c =
     (let at_cell = baseInputs\<lparr>altitude := cell_altitude (snd c), mach := cell_mach (fst c)\<rparr>;
          theta = Tt2 at_cell / Fin 288.15;
          delta = Pt2 at_cell / Fin 101325
      in at_cell\<lparr>massFlow := massFlow baseInputs * (delta / Math_sqrt theta)\<rparr>)"

definition cell_kept :: "EngineInputs \<Rightarrow> nat \<times> nat \<Rightarrow> bool" where
  "cell_kept baseInputs c =
     (isValid (performance (calculateCycle (cell_inputs baseInputs c)))
      \<and> thrust (performance (calculateCycle (cell_inputs baseInputs c))) > Fin 0)"

definition cell_point :: "EngineInputs \<Rightarrow> nat \<times> nat \<Rightarrow> EnvelopePoint" where
  "cell_point baseInputs c =
     \<lparr>EnvelopePoint.mach = cell_mach (fst c),
      EnvelopePoint.altitude = cell_altitude (snd c),
      EnvelopePoint.sfc = PerformanceResult.sfc (performance (calculateCycle (cell_inputs baseInputs c))),
      EnvelopePoint.thrust = thrust (performance (calculateCycle (cell_inputs baseInputs c))),
      EnvelopePoint.isValid = True\<rparr>"

definition envelope_spec :: "EngineInputs \<Rightarrow> EnvelopePoint list" where
  "envelope_spec baseInputs =
     map (cell_point baseInputs) (filter (cell_kept baseInputs) envelope_cells)"

section \<open>Concrete inputs\<close>

text \<open>
  Inputs at which the solver is evaluated below.  Each is the default input of the
  application (\<open>DEFAULT_INPUTS\<close>) at sea level, with the fields named in its
  description changed; every changed field is within the range of its slider in the
  input form, except for the overall pressure ratio of \<open>floored_inputs\<close>.
\<close>

text \<open>Sea level, static, with the lowest fan pressure ratio of the input form and an inlet recovery of 0.9: the fan does not make up for the losses of the inlet and of the nozzle.\<close>

definition idle_bypass_inputs :: EngineInputs where
  "idle_bypass_inputs =
     \<lparr>altitude = Fin 0,
      mach = Fin 0,
      massFlow = Fin 1350,
      bypassRatio = Fin 9,
      overallPressureRatio = Fin 42,
      fanPressureRatio = Fin 1.1,
      turbineEntryTemp = Fin 1650,
      efficiencyFan = Fin 0.92,
      efficiencyLPC = Fin 0.90,
      efficiencyHPC = Fin 0.90,
      efficiencyHPT = Fin 0.92,
      efficiencyLPT = Fin 0.93,
      efficiencyBurner = Fin 0.995,
      pressureRecoveryInlet = Fin 0.9,
      pressureRecoveryBurner = Fin 0.96,
      pressureRecoveryNozzle = Fin 0.99,
      mechEfficiencyHigh = Fin 0.99,
      mechEfficiencyLow = Fin 0.99,
      heatingValue = Fin 43.1\<rparr>"

text \<open>Sea level at Mach 2, with bypass ratio 5, overall pressure ratio 10 and 1690 K at the turbine entry.\<close>

definition supersonic_inputs :: EngineInputs where
  "supersonic_inputs =
     \<lparr>altitude = Fin 0,
      mach = Fin 2,
      massFlow = Fin 1350,
      bypassRatio = Fin 5,
      overallPressureRatio = Fin 10,
      fanPressureRatio = Fin 1.65,
      turbineEntryTemp = Fin 1690,
      efficiencyFan = Fin 0.92,
      efficiencyLPC = Fin 0.90,
      efficiencyHPC = Fin 0.90,
      efficiencyHPT = Fin 0.92,
      efficiencyLPT = Fin 0.93,
      efficiencyBurner = Fin 0.995,
      pressureRecoveryInlet = Fin 0.98,
      pressureRecoveryBurner = Fin 0.96,
      pressureRecoveryNozzle = Fin 0.99,
      mechEfficiencyHigh = Fin 0.99,
      mechEfficiencyLow = Fin 0.99,
      heatingValue = Fin 43.1\<rparr>"

text \<open>Sea level at Mach 2, with bypass ratio 5, overall pressure ratio 10 and the default 1650 K at the turbine entry.\<close>

definition clamped_inputs :: EngineInputs where
  "clamped_inputs =
     \<lparr>altitude = Fin 0,
      mach = Fin 2,
      massFlow = Fin 1350,
      bypassRatio = Fin 5,
      overallPressureRatio = Fin 10,
      fanPressureRatio = Fin 1.65,
      turbineEntryTemp = Fin 1650,
      efficiencyFan = Fin 0.92,
      efficiencyLPC = Fin 0.90,
      efficiencyHPC = Fin 0.90,
      efficiencyHPT = Fin 0.92,
      efficiencyLPT = Fin 0.93,
      efficiencyBurner = Fin 0.995,
      pressureRecoveryInlet = Fin 0.98,
      pressureRecoveryBurner = Fin 0.96,
      pressureRecoveryNozzle = Fin 0.99,
      mechEfficiencyHigh = Fin 0.99,
      mechEfficiencyLow = Fin 0.99,
      heatingValue = Fin 43.1\<rparr>"

text \<open>Sea level at Mach 2, with the default bypass ratio 9, overall pressure ratio 10 and 1850 K at the turbine entry.\<close>

definition drag_inputs :: EngineInputs where
  "drag_inputs =
     \<lparr>altitude = Fin 0,
      mach = Fin 2,
      massFlow = Fin 1350,
      bypassRatio = Fin 9,
      overallPressureRatio = Fin 10,
      fanPressureRatio = Fin 1.65,
      turbineEntryTemp = Fin 1850,
      efficiencyFan = Fin 0.92,
      efficiencyLPC = Fin 0.90,
      efficiencyHPC = Fin 0.90,
      efficiencyHPT = Fin 0.92,
      efficiencyLPT = Fin 0.93,
      efficiencyBurner = Fin 0.995,
      pressureRecoveryInlet = Fin 0.98,
      pressureRecoveryBurner = Fin 0.96,
      pressureRecoveryNozzle = Fin 0.99,
      mechEfficiencyHigh = Fin 0.99,
      mechEfficiencyLow = Fin 0.99,
      heatingValue = Fin 43.1\<rparr>"

text \<open>Sea level, static, without bypass flow and with an overall pressure ratio below the fan pressure ratio.\<close>

definition floored_inputs :: EngineInputs where
  "floored_inputs =
     \<lparr>altitude = Fin 0,
      mach = Fin 0,
      massFlow = Fin 1350,
      bypassRatio = Fin 0,
      overallPressureRatio = Fin 1.5,
      fanPressureRatio = Fin 1.65,
      turbineEntryTemp = Fin 1650,
      efficiencyFan = Fin 0.92,
      efficiencyLPC = Fin 0.90,
      efficiencyHPC = Fin 0.90,
      efficiencyHPT = Fin 0.92,
      efficiencyLPT = Fin 0.93,
      efficiencyBurner = Fin 0.995,
      pressureRecoveryInlet = Fin 0.98,
      pressureRecoveryBurner = Fin 0.96,
      pressureRecoveryNozzle = Fin 0.99,
      mechEfficiencyHigh = Fin 0.99,
      mechEfficiencyLow = Fin 0.99,
      heatingValue = Fin 43.1\<rparr>"

text \<open>The default engine at sea level with 1000 K at the turbine entry.\<close>

definition cold_inputs :: EngineInputs where
  "cold_inputs =
     \<lparr>altitude = Fin 0,
      mach = Fin 0.83,
      massFlow = Fin 1350,
      bypassRatio = Fin 9,
      overallPressureRatio = Fin 42,
      fanPressureRatio = Fin 1.65,
      turbineEntryTemp = Fin 1000,
      efficiencyFan = Fin 0.92,
      efficiencyLPC = Fin 0.90,
      efficiencyHPC = Fin 0.90,
      efficiencyHPT = Fin 0.92,
      efficiencyLPT = Fin 0.93,
      efficiencyBurner = Fin 0.995,
      pressureRecoveryInlet = Fin 0.98,
      pressureRecoveryBurner = Fin 0.96,
      pressureRecoveryNozzle = Fin 0.99,
      mechEfficiencyHigh = Fin 0.99,
      mechEfficiencyLow = Fin 0.99,
      heatingValue = Fin 43.1\<rparr>"

section \<open>Arithmetic of the numbers\<close>

lemma Fin_arith [simp]:
  "Fin a + Fin b = Fin (a + b)"
  "Fin a - Fin b = Fin (a - b)"
  "Fin a * Fin b = Fin (a * b)"
  "- Fin a = Fin (- a)"
  "Fin a < Fin b \<longleftrightarrow> a < b"
  "Fin a \<le> Fin b \<longleftrightarrow> a \<le> b"
  by (simp_all add: plus_number_def minus_number_def times_number_def uminus_number_def
      less_number_def less_eq_number_def)

lemma Fin_div [simp]:
  "b \<noteq> 0 \<Longrightarrow> Fin a / Fin b = Fin (a / b)"
  by (simp add: divide_number_def)

lemma Fin_div_zero:
  "Fin a / Fin 0 = (if a = 0 then NaN else signed_inf a)"
  by (simp add: divide_number_def)

lemma NaN_arith [simp]:
  "NaN + x = NaN" "x + NaN = NaN" "NaN - x = NaN" "x - NaN = NaN"
  "NaN * x = NaN" "x * NaN = NaN" "NaN / x = NaN" "x / NaN = NaN" "- NaN = NaN"
  "\<not> NaN < x" "\<not> x < NaN" "\<not> NaN \<le> x" "\<not> x \<le> NaN"
  by (cases x; simp add: plus_number_def minus_number_def times_number_def uminus_number_def
      divide_number_def less_number_def less_eq_number_def)+

lemma Math_max_Fin [simp]:
  "Math_max (Fin a) (Fin b) = Fin (max a b)"
  by (simp add: max_def)

lemma Math_sqrt_Fin [simp]:
  "0 \<le> a \<Longrightarrow> Math_sqrt (Fin a) = Fin (sqrt a)"
  by simp

lemma Math_pow_Fin [simp]:
  "0 < a \<Longrightarrow> y \<noteq> 0 \<Longrightarrow> Math_pow (Fin a) (Fin y) = Fin (a powr y)"
  by simp

lemma Math_pow_square [simp]:
  "Math_pow (Fin a) (Fin 2) = Fin (a\<^sup>2)"
proof -
  have "is_int 2" "\<not> is_odd_int 2"
    by (simp_all add: is_int_def is_odd_int_def)
  moreover have "\<bar>a\<bar> powr 2 = a\<^sup>2" if "a \<noteq> 0"
    using that by (simp add: powr_numeral)
  moreover have "a powr 2 = a\<^sup>2" if "0 < a"
    using that by (simp add: powr_numeral)
  ultimately show ?thesis
    by (cases "a = 0") auto
qed

section \<open>Reading the result\<close>

lemma performance_calculateCycle:
  "specificThrust (performance (calculateCycle inputs)) = clean (fst (performance_block inputs))"
  "thrust (performance (calculateCycle inputs)) = clean (fst (snd (performance_block inputs)))"
  "PerformanceResult.sfc (performance (calculateCycle inputs)) =
     clean (fst (snd (snd (performance_block inputs))))"
  "thermalEfficiency (performance (calculateCycle inputs)) =
     fst (snd (snd (snd (performance_block inputs))))"
  "propulsiveEfficiency (performance (calculateCycle inputs)) =
     clamp_propulsive (fst (snd (snd (snd (snd (performance_block inputs))))))"
  "overallEfficiency (performance (calculateCycle inputs)) =
     snd (snd (snd (snd (snd (performance_block inputs)))))"
  "massFlowRateAir (performance (calculateCycle inputs)) = massFlow inputs"
  "fuelAirRatio (performance (calculateCycle inputs)) = f inputs"
  "bypassVelocity (performance (calculateCycle inputs)) = V19 inputs"
  "coreVelocity (performance (calculateCycle inputs)) = V9 inputs"
  "PerformanceResult.fanPressureRatio (performance (calculateCycle inputs)) =
     fanPressureRatio inputs"
  "hpcPressureRatio (performance (calculateCycle inputs)) = pi_ch inputs"
  "isValid (performance (calculateCycle inputs)) = isValid_final inputs"
  by (simp_all add: calculateCycle_def split: prod.splits)

lemma performance_block_invalid:
  "\<not> isValid_final inputs \<Longrightarrow>
   performance_block inputs = (Fin 0, Fin 0, Fin 0, Fin 0, Fin 0, Fin 0)"
  by (simp add: performance_block_def)

lemma clean_zero [simp]: "clean (Fin 0) = Fin 0"
  by (simp add: clean_def)

section \<open>The solver on finite values\<close>

text \<open>
  Where the operands of a definition are finite (and a divisor is not zero, a base or a
  radicand is in the domain of the function), its value is finite and is the real
  expression of the source.  One lemma for each definition of the solver.
\<close>

declare Math_pow.simps [simp del]

lemma sea_level_Fin:
  assumes "altitude i = Fin 0"
  shows "T0 i = Fin 288.15" and "P0 i = Fin 101325"
  using assms by (simp_all add: T0_def P0_def getAtmosphere_def Let_def Math_pow.simps)

lemma V0_Fin:
  assumes "mach i = Fin m" "T0 i = Fin t0" "0 \<le> t0"
  shows "V0 i = Fin (m * sqrt (1.4 * 287.05 * t0))"
  using assms by (simp add: V0_def PROP_COLD_def R_GAS_def)

lemma tau_r_Fin:
  assumes "mach i = Fin m"
  shows "tau_r i = Fin (1 + (1.4 - 1) / 2 * m * m)"
  using assms by (simp add: tau_r_def PROP_COLD_def)

lemma getGammaExp_cold: "getGammaExp (k PROP_COLD) = Fin (7 / 2)"
  by (simp add: getGammaExp_def PROP_COLD_def)

lemma getGammaExp_hot: "getGammaExp (k PROP_HOT) = Fin (133 / 33)"
  by (simp add: getGammaExp_def PROP_HOT_def)

lemma pi_r_Fin:
  assumes "tau_r i = Fin t" "0 < t"
  shows "pi_r i = Fin (t powr (7 / 2))"
  using assms by (simp add: pi_r_def getGammaExp_cold)

lemma Tt0_Fin:
  assumes "T0 i = Fin t0" "tau_r i = Fin t"
  shows "Tt0 i = Fin (t0 * t)"
  using assms by (simp add: Tt0_def)

lemma Pt0_Fin:
  assumes "P0 i = Fin p0" "pi_r i = Fin p"
  shows "Pt0 i = Fin (p0 * p)"
  using assms by (simp add: Pt0_def)

lemma Tt2_Fin:
  assumes "Tt0 i = Fin t"
  shows "Tt2 i = Fin t"
  using assms by (simp add: Tt2_def)

lemma Pt2_Fin:
  assumes "Pt0 i = Fin p" "pressureRecoveryInlet i = Fin r"
  shows "Pt2 i = Fin (p * r)"
  using assms by (simp add: Pt2_def)

lemma Pt13_Fin:
  assumes "Pt2 i = Fin p" "fanPressureRatio i = Fin r"
  shows "Pt13 i = Fin (p * r)"
  using assms by (simp add: Pt13_def)

lemma isentropicT_compressor_Fin:
  assumes "0 < r" "e \<noteq> 0"
  shows "isentropicT (Fin a) (Fin r) (k PROP_COLD) (Fin e) True =
         Fin (a * (1 + (r powr (2 / 7) - 1) / e))"
  using assms by (simp add: isentropicT_def PROP_COLD_def Let_def)

lemma Tt13_Fin:
  assumes "Tt2 i = Fin a" "fanPressureRatio i = Fin r" "efficiencyFan i = Fin e"
    "0 < r" "e \<noteq> 0"
  shows "Tt13 i = Fin (a * (1 + (r powr (2 / 7) - 1) / e))"
  using assms by (simp add: Tt13_def isentropicT_compressor_Fin)

lemma Pt21_Fin:
  assumes "Pt13 i = Fin p"
  shows "Pt21 i = Fin p"
  using assms by (simp add: Pt21_def)

lemma Tt21_Fin:
  assumes "Tt13 i = Fin t"
  shows "Tt21 i = Fin t"
  using assms by (simp add: Tt21_def)

lemma pi_ch_Fin:
  assumes "overallPressureRatio i = Fin c" "fanPressureRatio i = Fin r" "r \<noteq> 0"
  shows "pi_ch i = Fin (max 1.1 (c / r))"
  using assms by (simp add: pi_ch_def)

lemma Pt3_Fin:
  assumes "Pt21 i = Fin p" "pi_ch i = Fin c"
  shows "Pt3 i = Fin (p * c)"
  using assms by (simp add: Pt3_def)

lemma Tt3_Fin:
  assumes "Tt21 i = Fin a" "pi_ch i = Fin r" "efficiencyHPC i = Fin e" "0 < r" "e \<noteq> 0"
  shows "Tt3 i = Fin (a * (1 + (r powr (2 / 7) - 1) / e))"
  using assms by (simp add: Tt3_def isentropicT_compressor_Fin)

lemma Pt4_Fin:
  assumes "Pt3 i = Fin p" "pressureRecoveryBurner i = Fin r"
  shows "Pt4 i = Fin (p * r)"
  using assms by (simp add: Pt4_def)

lemma Tt4_Fin:
  assumes "turbineEntryTemp i = Fin t"
  shows "Tt4 i = Fin t"
  using assms by (simp add: Tt4_def)

lemma Hu_J_Fin:
  assumes "heatingValue i = Fin h"
  shows "Hu_J i = Fin (h * 1000000)"
  using assms by (simp add: Hu_J_def)

lemma numerator_Fin:
  assumes "Tt4 i = Fin t4" "Tt3 i = Fin t3"
  shows "numerator i = Fin (1150 * t4 - 1005 * t3)"
  using assms by (simp add: numerator_def PROP_HOT_def PROP_COLD_def)

lemma denominator_Fin:
  assumes "efficiencyBurner i = Fin e" "Hu_J i = Fin h" "Tt4 i = Fin t4"
  shows "denominator i = Fin (e * h - 1150 * t4)"
  using assms by (simp add: denominator_def PROP_HOT_def)

lemma f_Fin:
  assumes "numerator i = Fin n" "denominator i = Fin d" "d \<noteq> 0"
  shows "f i = Fin (max 0 (n / d))"
  using assms by (simp add: f_def)

lemma work_req_HPC_Fin:
  assumes "Tt3 i = Fin t3" "Tt21 i = Fin t21"
  shows "work_req_HPC i = Fin (1005 * (t3 - t21))"
  using assms by (simp add: work_req_HPC_def PROP_COLD_def)

lemma work_avail_HPT_Fin:
  assumes "work_req_HPC i = Fin w" "mechEfficiencyHigh i = Fin e" "e \<noteq> 0"
  shows "work_avail_HPT i = Fin (w / e)"
  using assms by (simp add: work_avail_HPT_def)

lemma deltaT_HPT_Fin:
  assumes "work_avail_HPT i = Fin w" "f i = Fin x" "(1 + x) * 1150 \<noteq> 0"
  shows "deltaT_HPT i = Fin (w / ((1 + x) * 1150))"
  using assms by (simp add: deltaT_HPT_def PROP_HOT_def)

lemma Tt45_Fin:
  assumes "Tt4 i = Fin t4" "deltaT_HPT i = Fin d"
  shows "Tt45 i = Fin (t4 - d)"
  using assms by (simp add: Tt45_def)

lemma temp_ratio_HPT_Fin:
  assumes "Tt45 i = Fin t45" "Tt4 i = Fin t4" "t4 \<noteq> 0"
  shows "temp_ratio_HPT i = Fin (t45 / t4)"
  using assms by (simp add: temp_ratio_HPT_def)

lemma pressure_term_HPT_Fin:
  assumes "temp_ratio_HPT i = Fin r" "efficiencyHPT i = Fin e" "e \<noteq> 0"
  shows "pressure_term_HPT i = Fin ((1 - r) / e)"
  using assms by (simp add: pressure_term_HPT_def)

lemma pi_HPT_Fin:
  assumes "pressure_term_HPT i = Fin p" "p < 1"
  shows "pi_HPT i = Fin ((1 / (1 - p)) powr (133 / 33))"
  using assms by (simp add: pi_HPT_def getGammaExp_hot)

lemma hpt_block_Fin:
  assumes "Tt45 i = Fin t45" "Tt3 i = Fin t3" "temp_ratio_HPT i = Fin r"
    "pressure_term_HPT i = Fin p" "Pt4 i = Fin p4" "pi_HPT i = Fin ph"
    "t3 \<le> t45" "0 < r" "r < 1" "p < 1" "ph \<noteq> 0"
  shows "Pt45 i = Fin (p4 / ph)" and "isValid_HPT i"
  using assms by (simp_all add: Pt45_def isValid_HPT_def hpt_block_def)

lemma work_req_Fan_Fin:
  assumes "bypassRatio i = Fin b" "Tt13 i = Fin t13" "Tt2 i = Fin t2"
  shows "work_req_Fan i = Fin ((1 + b) * 1005 * (t13 - t2))"
  using assms by (simp add: work_req_Fan_def PROP_COLD_def)

lemma work_extraction_LPT_Fin:
  assumes "work_req_Fan i = Fin w" "mechEfficiencyLow i = Fin e" "e \<noteq> 0"
  shows "work_extraction_LPT i = Fin (w / e)"
  using assms by (simp add: work_extraction_LPT_def)

lemma deltaT_LPT_Fin:
  assumes "work_extraction_LPT i = Fin w" "f i = Fin x" "(1 + x) * 1150 \<noteq> 0"
  shows "deltaT_LPT i = Fin (w / ((1 + x) * 1150))"
  using assms by (simp add: deltaT_LPT_def PROP_HOT_def)

lemma Tt5_Fin:
  assumes "Tt45 i = Fin t45" "deltaT_LPT i = Fin d"
  shows "Tt5 i = Fin (t45 - d)"
  using assms by (simp add: Tt5_def)

lemma temp_ratio_LPT_Fin:
  assumes "Tt5 i = Fin t5" "Tt45 i = Fin t45" "t45 \<noteq> 0"
  shows "temp_ratio_LPT i = Fin (t5 / t45)"
  using assms by (simp add: temp_ratio_LPT_def)

lemma pressure_term_LPT_Fin:
  assumes "temp_ratio_LPT i = Fin r" "efficiencyLPT i = Fin e" "e \<noteq> 0"
  shows "pressure_term_LPT i = Fin ((1 - r) / e)"
  using assms by (simp add: pressure_term_LPT_def)

lemma pi_LPT_Fin:
  assumes "pressure_term_LPT i = Fin p" "p < 1"
  shows "pi_LPT i = Fin ((1 / (1 - p)) powr (133 / 33))"
  using assms by (simp add: pi_LPT_def getGammaExp_hot)

lemma lpt_block_Fin:
  assumes "isValid_HPT i" "Tt5 i = Fin t5" "T0 i = Fin t0" "temp_ratio_LPT i = Fin r"
    "pressure_term_LPT i = Fin p" "Pt45 i = Fin p45" "pi_LPT i = Fin pl"
    "t0 \<le> t5" "0 < r" "r < 1" "p < 1" "pl \<noteq> 0"
  shows "Pt5 i = Fin (p45 / pl)" and "isValid_LPT i"
  using assms by (simp_all add: Pt5_def isValid_LPT_def lpt_block_def)

lemma Pt9_Fin:
  assumes "Pt5 i = Fin p" "pressureRecoveryNozzle i = Fin r"
  shows "Pt9 i = Fin (p * r)"
  using assms by (simp add: Pt9_def)

lemma critical_ratio_hot_Fin:
  "critical_ratio_hot = Fin (((1.33 + 1) / 2) powr (133 / 33))"
  by (simp add: critical_ratio_hot_def getGammaExp_def PROP_HOT_def)

lemma critical_ratio_cold_Fin:
  "critical_ratio_cold = Fin (((1.4 + 1) / 2) powr (7 / 2))"
  by (simp add: critical_ratio_cold_def getGammaExp_def PROP_COLD_def)

lemma core_nozzle_choked_Fin:
  assumes "isValid_LPT i" "Pt9 i = Fin p" "P0 i = Fin p0" "Tt5 i = Fin t5"
    "p0 \<noteq> 0" "((1.33 + 1) / 2) powr (133 / 33) < p / p0" "0 \<le> t5"
  shows "P9 i = Fin (p / ((1.33 + 1) / 2) powr (133 / 33))"
    and "T9 i = Fin (t5 * (2 / (1.33 + 1)))"
    and "V9 i = Fin (sqrt (1.33 * 287.05 * (t5 * (2 / (1.33 + 1)))))"
    and "isValid_core i"
  using assms
  by (simp_all add: P9_def T9_def V9_def isValid_core_def core_nozzle_def
      critical_ratio_hot_Fin PROP_HOT_def R_GAS_def Let_def)

lemma core_nozzle_expanding_Fin:
  assumes "isValid_LPT i" "Pt9 i = Fin p" "P0 i = Fin p0" "Tt5 i = Fin t5"
    "0 < p0" "p / p0 \<le> ((1.33 + 1) / 2) powr (133 / 33)" "p0 < p"
  shows "P9 i = Fin p0"
    and "T9 i = Fin (t5 * (p0 / p) powr ((1.33 - 1) / 1.33))"
    and "V9 i = Fin (sqrt (max 0 (2 * 1150 * (t5 - t5 * (p0 / p) powr ((1.33 - 1) / 1.33)))))"
    and "isValid_core i"
  using assms
  by (simp_all add: P9_def T9_def V9_def isValid_core_def core_nozzle_def
      critical_ratio_hot_Fin PROP_HOT_def R_GAS_def Let_def)

lemma Pt19_Fin:
  assumes "Pt13 i = Fin p" "pressureRecoveryNozzle i = Fin r"
  shows "Pt19 i = Fin (p * r)"
  using assms by (simp add: Pt19_def)

lemma bypass_nozzle_choked_Fin:
  assumes "isValid_core i" "Pt19 i = Fin p" "P0 i = Fin p0" "Tt13 i = Fin t13"
    "p0 \<noteq> 0" "((1.4 + 1) / 2) powr (7 / 2) < p / p0" "0 \<le> t13"
  shows "P19 i = Fin (p / ((1.4 + 1) / 2) powr (7 / 2))"
    and "T19 i = Fin (t13 * (2 / (1.4 + 1)))"
    and "V19 i = Fin (sqrt (1.4 * 287.05 * (t13 * (2 / (1.4 + 1)))))"
  using assms
  by (simp_all add: P19_def T19_def V19_def bypass_nozzle_def
      critical_ratio_cold_Fin PROP_COLD_def R_GAS_def Let_def)

lemma bypass_nozzle_expanding_Fin:
  assumes "isValid_core i" "Pt19 i = Fin p" "P0 i = Fin p0" "Tt13 i = Fin t13"
    "0 < p0" "p / p0 \<le> ((1.4 + 1) / 2) powr (7 / 2)" "p0 < p"
  shows "P19 i = Fin p0"
    and "T19 i = Fin (t13 * (p0 / p) powr ((1.4 - 1) / 1.4))"
    and "V19 i = Fin (sqrt (max 0 (2 * 1005 * (t13 - t13 * (p0 / p) powr ((1.4 - 1) / 1.4)))))"
  using assms
  by (simp_all add: P19_def T19_def V19_def bypass_nozzle_def
      critical_ratio_cold_Fin PROP_COLD_def R_GAS_def Let_def)

lemma bypass_nozzle_idle_Fin:
  assumes "isValid_core i" "Pt19 i = Fin p" "P0 i = Fin p0" "Tt13 i = Fin t13"
    "p0 \<noteq> 0" "p / p0 \<le> ((1.4 + 1) / 2) powr (7 / 2)" "p \<le> p0"
  shows "P19 i = Fin p0" and "T19 i = Fin t13" and "V19 i = Fin 0"
  using assms
  by (simp_all add: P19_def T19_def V19_def bypass_nozzle_def
      critical_ratio_cold_Fin PROP_COLD_def R_GAS_def Let_def)

lemma rho9_Fin:
  assumes "P9 i = Fin p" "T9 i = Fin t" "287.05 * t \<noteq> 0"
  shows "rho9 i = Fin (p / (287.05 * t))"
  using assms by (simp add: rho9_def R_GAS_def)

lemma A9_per_unit_Fin:
  assumes "f i = Fin x" "rho9 i = Fin r" "V9 i = Fin v" "r * v \<noteq> 0"
  shows "A9_per_unit i = Fin ((1 + x) / (r * v))"
  using assms by (simp add: A9_per_unit_def)

lemma F_core_Fin:
  assumes "f i = Fin x" "V9 i = Fin v" "V0 i = Fin v0" "P9 i = Fin p" "P0 i = Fin p0"
    "A9_per_unit i = Fin a"
  shows "F_core i = Fin ((1 + x) * v - 1 * v0 + (p - p0) * a)"
  using assms by (simp add: F_core_def)

lemma rho19_Fin:
  assumes "P19 i = Fin p" "T19 i = Fin t" "287.05 * t \<noteq> 0"
  shows "rho19 i = Fin (p / (287.05 * t))"
  using assms by (simp add: rho19_def R_GAS_def)

lemma A19_per_unit_Fin:
  assumes "bypassRatio i = Fin b" "rho19 i = Fin r" "V19 i = Fin v" "r * v \<noteq> 0"
  shows "A19_per_unit i = Fin (b / (r * v))"
  using assms by (simp add: A19_per_unit_def)

lemma F_bypass_Fin:
  assumes "bypassRatio i = Fin b" "V19 i = Fin v" "V0 i = Fin v0" "P19 i = Fin p"
    "P0 i = Fin p0" "A19_per_unit i = Fin a"
  shows "F_bypass i = Fin (b * v - b * v0 + (p - p0) * a)"
  using assms by (simp add: F_bypass_def)

lemma V9_eff_Fin:
  assumes "V9 i = Fin v" "rho9 i = Fin r" "P9 i = Fin p" "P0 i = Fin p0" "1 < v" "0 < r"
  shows "V9_eff i = Fin (v + (p - p0) / (r * v))"
  using assms by (simp add: V9_eff_def)

lemma V19_eff_Fin:
  assumes "V19 i = Fin v" "rho19 i = Fin r" "P19 i = Fin p" "P0 i = Fin p0" "1 < v" "0 < r"
  shows "V19_eff i = Fin (v + (p - p0) / (r * v))"
  using assms by (simp add: V19_eff_def)

lemma m_core_abs_Fin:
  assumes "massFlow i = Fin m" "bypassRatio i = Fin b" "1 + b \<noteq> 0"
  shows "m_core_abs i = Fin (m / (1 + b))"
  using assms by (simp add: m_core_abs_def)

lemma KE_out_eff_Fin:
  assumes "m_core_abs i = Fin mc" "f i = Fin x" "V9_eff i = Fin v9" "massFlow i = Fin m"
    "V19_eff i = Fin v19"
  shows "KE_out_eff i = Fin (0.5 * mc * (1 + x) * v9\<^sup>2 + 0.5 * (m - mc) * v19\<^sup>2)"
  using assms by (simp add: KE_out_eff_def)

lemma KE_in_Fin:
  assumes "massFlow i = Fin m" "V0 i = Fin v0"
  shows "KE_in i = Fin (0.5 * m * v0\<^sup>2)"
  using assms by (simp add: KE_in_def)

lemma Q_in_Fin:
  assumes "m_core_abs i = Fin mc" "f i = Fin x" "Hu_J i = Fin h"
  shows "Q_in i = Fin (mc * x * h)"
  using assms by (simp add: Q_in_def)

lemma specific_thrust_Fin:
  assumes "isValid_final i" "F_core i = Fin fc" "F_bypass i = Fin fb" "bypassRatio i = Fin b"
    "1 + b \<noteq> 0"
  shows "fst (performance_block i) = Fin ((fc + fb) / (1 + b))"
  using assms by (simp add: performance_block_def Let_def)

lemma total_thrust_Fin:
  assumes "isValid_final i" "fst (performance_block i) = Fin s" "massFlow i = Fin m"
  shows "fst (snd (performance_block i)) = Fin (s * m)"
  using assms by (simp add: performance_block_def Let_def split: if_splits)

lemma sfc_Fin:
  assumes "isValid_final i" "fst (snd (performance_block i)) = Fin t" "0 < t"
    "f i = Fin x" "massFlow i = Fin m" "bypassRatio i = Fin b" "1 + b \<noteq> 0"
  shows "fst (snd (snd (performance_block i))) = Fin (x * (m / (1 + b)) * 3600 / t)"
  using assms by (simp add: performance_block_def Let_def split: if_splits)

lemma sfc_zero_Fin:
  assumes "isValid_final i" "fst (snd (performance_block i)) = Fin t" "t \<le> 0"
  shows "fst (snd (snd (performance_block i))) = Fin 0"
  using assms by (simp add: performance_block_def Let_def split: if_splits)

lemma propulsiveEfficiency_Fin:
  assumes "isValid_final i" "fst (snd (performance_block i)) = Fin t" "V0 i = Fin v0"
    "KE_out_eff i = Fin ko" "KE_in i = Fin ki" "Q_in i = Fin q" "0 < q" "0 < ko - ki"
  shows "fst (snd (snd (snd (snd (performance_block i))))) = Fin (t * v0 / (ko - ki))"
  using assms by (simp add: performance_block_def Let_def split: if_splits)

section \<open>Enclosures of real expressions\<close>

text \<open>
  The solver is evaluated at a concrete input by enclosing every intermediate value
  between two decimal numbers.  An enclosure of an expression follows from the
  enclosures of its operands by one of the rules below; what is left of a rule after
  its operands are given are comparisons of numerals.
\<close>

lemma iv_add:
  fixes a b :: real
  assumes "al \<le> a \<and> a \<le> ah" "bl \<le> b \<and> b \<le> bh" "lo \<le> al + bl" "ah + bh \<le> hi"
  shows "lo \<le> a + b \<and> a + b \<le> hi"
  using assms by linarith

lemma iv_sub:
  fixes a b :: real
  assumes "al \<le> a \<and> a \<le> ah" "bl \<le> b \<and> b \<le> bh" "lo \<le> al - bh" "ah - bl \<le> hi"
  shows "lo \<le> a - b \<and> a - b \<le> hi"
  using assms by linarith

text \<open>A product with a right factor that is not negative.\<close>

lemma iv_mul:
  fixes a b :: real
  assumes a: "al \<le> a \<and> a \<le> ah" and b: "bl \<le> b \<and> b \<le> bh" and nn: "0 \<le> bl"
    and lo: "lo \<le> al * bl" "lo \<le> al * bh" and hi: "ah * bl \<le> hi" "ah * bh \<le> hi"
  shows "lo \<le> a * b \<and> a * b \<le> hi"
proof
  have b0: "0 \<le> b" using b nn by linarith
  have "al * b \<le> a * b" using a b0 by (simp add: mult_right_mono)
  moreover have "lo \<le> al * b"
  proof (cases "0 \<le> al")
    case True
    then have "al * bl \<le> al * b" using b by (simp add: mult_left_mono)
    with lo show ?thesis by linarith
  next
    case False
    then have "al * bh \<le> al * b" using b by (simp add: mult_left_mono_neg)
    with lo show ?thesis by linarith
  qed
  ultimately show "lo \<le> a * b" by linarith
  have "a * b \<le> ah * b" using a b0 by (simp add: mult_right_mono)
  moreover have "ah * b \<le> hi"
  proof (cases "0 \<le> ah")
    case True
    then have "ah * b \<le> ah * bh" using b by (simp add: mult_left_mono)
    with hi show ?thesis by linarith
  next
    case False
    then have "ah * b \<le> ah * bl" using b by (simp add: mult_left_mono_neg)
    with hi show ?thesis by linarith
  qed
  ultimately show "a * b \<le> hi" by linarith
qed

text \<open>A quotient with a positive divisor.\<close>

lemma iv_div:
  fixes a b :: real
  assumes a: "al \<le> a \<and> a \<le> ah" and b: "bl \<le> b \<and> b \<le> bh" and pos: "0 < bl"
    and lo: "lo \<le> al / bl" "lo \<le> al / bh" and hi: "ah / bl \<le> hi" "ah / bh \<le> hi"
  shows "lo \<le> a / b \<and> a / b \<le> hi"
proof -
  have b0: "0 < b" and bh0: "0 < bh" using b pos by linarith+
  have inv: "1 / bh \<le> 1 / b \<and> 1 / b \<le> 1 / bl"
    using b pos b0 bh0 by (simp add: frac_le)
  have "lo \<le> a * (1 / b) \<and> a * (1 / b) \<le> hi"
  proof (rule iv_mul[OF a inv])
    show "0 \<le> 1 / bh" using bh0 by simp
  qed (use lo hi in simp_all)
  then show ?thesis by simp
qed

text \<open>A square of a value that is not negative.\<close>

lemma iv_sq:
  fixes a :: real
  assumes a: "al \<le> a \<and> a \<le> ah" and nn: "0 \<le> al" and lo: "lo \<le> al\<^sup>2" and hi: "ah\<^sup>2 \<le> hi"
  shows "lo \<le> a\<^sup>2 \<and> a\<^sup>2 \<le> hi"
proof
  have "al\<^sup>2 \<le> a\<^sup>2" using a nn by (simp add: power_mono)
  with lo show "lo \<le> a\<^sup>2" by linarith
  have "a\<^sup>2 \<le> ah\<^sup>2" using a nn by (simp add: power_mono)
  with hi show "a\<^sup>2 \<le> hi" by linarith
qed

lemma iv_max:
  fixes a c :: real
  assumes "cl \<le> c \<and> c \<le> ch" "al \<le> a \<and> a \<le> ah" "lo \<le> max cl al" "max ch ah \<le> hi"
  shows "lo \<le> max c a \<and> max c a \<le> hi"
  using assms by (auto simp: max_def split: if_splits)

text \<open>A square root: the bounds are compared through their squares.\<close>

lemma iv_sqrt:
  fixes a :: real
  assumes a: "al \<le> a \<and> a \<le> ah" and nn: "0 \<le> al" "0 \<le> lo" "0 \<le> hi"
    and lo: "lo\<^sup>2 \<le> al" and hi: "ah \<le> hi\<^sup>2"
  shows "lo \<le> sqrt a \<and> sqrt a \<le> hi"
proof
  have "lo\<^sup>2 \<le> a" using a lo by linarith
  then show "lo \<le> sqrt a" by (rule real_le_rsqrt)
  have "a \<le> hi\<^sup>2" using a hi by linarith
  then show "sqrt a \<le> hi" using nn by (simp add: real_le_lsqrt)
qed

text \<open>
  A power with the positive rational exponent \<open>p / q\<close> of a positive base: the bounds
  are compared through their \<open>q\<close>-th powers.
\<close>

lemma powr_rat_lower:
  fixes x :: real
  assumes "0 < x" "0 \<le> lo" "0 < q" "r * real q = real p" "lo ^ q \<le> x ^ p"
  shows "lo \<le> x powr r"
proof -
  have r: "r = real p / real q" using assms by (simp add: field_simps)
  have "(x powr r) ^ q = x powr (r * real q)"
    using assms by (simp add: powr_powr flip: powr_realpow)
  also have "\<dots> = x ^ p" using assms by (simp add: powr_realpow)
  finally have eq: "(x powr r) ^ q = x ^ p" .
  show ?thesis
  proof (rule ccontr)
    assume "\<not> lo \<le> x powr r"
    then have "x powr r < lo" by simp
    then have "(x powr r) ^ q < lo ^ q"
      using assms by (intro power_strict_mono) simp_all
    with eq assms show False by simp
  qed
qed

lemma powr_rat_upper:
  fixes x :: real
  assumes "0 < x" "0 \<le> hi" "0 < q" "r * real q = real p" "x ^ p \<le> hi ^ q"
  shows "x powr r \<le> hi"
proof -
  have "(x powr r) ^ q = x powr (r * real q)"
    using assms by (simp add: powr_powr flip: powr_realpow)
  also have "\<dots> = x ^ p" using assms by (simp add: powr_realpow)
  finally have eq: "(x powr r) ^ q = x ^ p" .
  show ?thesis
  proof (rule ccontr)
    assume "\<not> x powr r \<le> hi"
    then have "hi < x powr r" by simp
    then have "hi ^ q < (x powr r) ^ q"
      using assms by (intro power_strict_mono) simp_all
    with eq assms show False by simp
  qed
qed

lemma iv_powr:
  fixes a :: real
  assumes a: "al \<le> a \<and> a \<le> ah" and pos: "0 < al" "0 \<le> lo" "0 \<le> hi" "0 < q" "0 \<le> r"
    and r: "r * real q = real p"
    and lo: "lo ^ q \<le> al ^ p" and hi: "ah ^ p \<le> hi ^ q"
  shows "lo \<le> a powr r \<and> a powr r \<le> hi"
proof
  have a0: "0 < a" "0 < ah" using a pos by linarith+
  have "lo \<le> al powr r" using pos r lo by (intro powr_rat_lower[where p=p and q=q]) simp_all
  also have "\<dots> \<le> a powr r" using a pos by (intro powr_mono2) simp_all
  finally show "lo \<le> a powr r" .
  have "a powr r \<le> ah powr r" using a a0 pos by (intro powr_mono2) simp_all
  also have "\<dots> \<le> hi" using a0 pos r hi by (intro powr_rat_upper[where p=p and q=q]) simp_all
  finally show "a powr r \<le> hi" .
qed

text \<open>
  Powers with large exponents are enclosed through roots and small powers: a root of
  order \<open>n\<close>, then a power built by squaring and multiplying, each step with its own
  enclosure.
\<close>

lemma iv_root:
  fixes a :: real
  assumes a: "al \<le> a \<and> a \<le> ah" and pos: "0 < al" "0 \<le> lo" "0 \<le> hi"
    and q: "q = real n" "0 < n"
    and lo: "lo ^ n \<le> al" and hi: "ah \<le> hi ^ n"
  shows "lo \<le> a powr (1 / q) \<and> a powr (1 / q) \<le> hi"
proof (rule iv_powr[where p=1 and q=n, OF a])
  show "1 / q * real n = real 1" using q by simp
qed (use pos q lo hi in simp_all)

lemma iv_pow_one:
  fixes y :: real
  assumes "al \<le> y \<and> y \<le> ah"
  shows "al \<le> y ^ 1 \<and> y ^ 1 \<le> ah"
  using assms by simp

lemma iv_pow_sq:
  fixes y :: real
  assumes y: "al \<le> y ^ n \<and> y ^ n \<le> ah" and nn: "0 \<le> al" and m: "m = 2 * n"
    and lo: "lo \<le> al\<^sup>2" and hi: "ah\<^sup>2 \<le> hi"
  shows "lo \<le> y ^ m \<and> y ^ m \<le> hi"
proof -
  have "y ^ m = (y ^ n)\<^sup>2" using m by (simp add: power_mult mult.commute)
  with iv_sq[OF y nn lo hi] show ?thesis by simp
qed

lemma iv_pow_mul:
  fixes y :: real
  assumes y: "al \<le> y ^ n \<and> y ^ n \<le> ah" and z: "bl \<le> y ^ j \<and> y ^ j \<le> bh"
    and nn: "0 \<le> al" "0 \<le> bl" and m: "m = n + j"
    and lo: "lo \<le> al * bl" and hi: "ah * bh \<le> hi"
  shows "lo \<le> y ^ m \<and> y ^ m \<le> hi"
proof -
  have ah: "0 \<le> ah" using y nn by linarith
  have "y ^ m = y ^ n * y ^ j" using m by (simp add: power_add)
  moreover have "lo \<le> y ^ n * y ^ j \<and> y ^ n * y ^ j \<le> hi"
  proof (rule iv_mul[OF y z])
    show "lo \<le> al * bh"
    proof -
      have "al * bl \<le> al * bh" using z nn by (intro mult_left_mono) linarith+
      with lo show ?thesis by linarith
    qed
    show "ah * bl \<le> hi"
    proof -
      have "ah * bl \<le> ah * bh" using z ah by (intro mult_left_mono) linarith+
      with hi show ?thesis by linarith
    qed
  qed (use nn lo hi in simp_all)
  ultimately show ?thesis by simp
qed

lemma powr_via_root:
  fixes a :: real
  assumes "lo \<le> (a powr (1 / q)) ^ p \<and> (a powr (1 / q)) ^ p \<le> hi"
    and "0 < a" "0 < q" "r * q = real p"
  shows "lo \<le> a powr r \<and> a powr r \<le> hi"
proof -
  have "(a powr (1 / q)) ^ p = (a powr (1 / q)) powr real p"
    using assms by (simp add: powr_realpow)
  also have "\<dots> = a powr (1 / q * real p)" by (simp add: powr_powr)
  also have "1 / q * real p = r" using assms by (simp add: field_simps)
  finally show ?thesis using assms by simp
qed

lemma powr_via_roots:
  fixes a :: real
  assumes "lo \<le> ((a powr (1 / q1)) powr (1 / q2)) ^ p
           \<and> ((a powr (1 / q1)) powr (1 / q2)) ^ p \<le> hi"
    and "0 < a" "0 < q1" "0 < q2" "r * q1 * q2 = real p"
  shows "lo \<le> a powr r \<and> a powr r \<le> hi"
proof -
  have "((a powr (1 / q1)) powr (1 / q2)) ^ p = ((a powr (1 / q1)) powr (1 / q2)) powr real p"
    using assms by (simp add: powr_realpow)
  also have "\<dots> = a powr (1 / q1 * (1 / q2) * real p)" by (simp add: powr_powr)
  also have "1 / q1 * (1 / q2) * real p = r" using assms by (simp add: field_simps)
  finally show ?thesis using assms by simp
qed

text \<open>Comparisons read off enclosures.\<close>

lemma iv_pos:
  fixes a :: real
  assumes "al \<le> a \<and> a \<le> ah" "0 < al"
  shows "0 < a"
  using assms by linarith

lemma iv_nonneg:
  fixes a :: real
  assumes "al \<le> a \<and> a \<le> ah" "0 \<le> al"
  shows "0 \<le> a"
  using assms by linarith

lemma iv_nonzero:
  fixes a :: real
  assumes "al \<le> a \<and> a \<le> ah" "0 < al"
  shows "a \<noteq> 0"
  using assms by linarith

lemma iv_less:
  fixes a b :: real
  assumes "al \<le> a \<and> a \<le> ah" "bl \<le> b \<and> b \<le> bh" "ah < bl"
  shows "a < b"
  using assms by linarith

lemma iv_le:
  fixes a b :: real
  assumes "al \<le> a \<and> a \<le> ah" "bl \<le> b \<and> b \<le> bh" "ah \<le> bl"
  shows "a \<le> b"
  using assms by linarith

section \<open>Enclosures at the concrete inputs\<close>

text \<open>
  For each concrete input and each quantity of the solver up to the one a claim needs:
  the quantity is finite, between the two decimals stated.  Every step is one rule of
  the section on enclosures and comparisons of numerals.
\<close>

subsection \<open>The solver at \<open>idle_bypass_inputs\<close>\<close>

lemma idle_bypass_inputs_fields:
  "altitude idle_bypass_inputs = Fin 0"
  "mach idle_bypass_inputs = Fin 0"
  "massFlow idle_bypass_inputs = Fin 1350"
  "bypassRatio idle_bypass_inputs = Fin 9"
  "overallPressureRatio idle_bypass_inputs = Fin 42"
  "fanPressureRatio idle_bypass_inputs = Fin 1.1"
  "turbineEntryTemp idle_bypass_inputs = Fin 1650"
  "efficiencyFan idle_bypass_inputs = Fin 0.92"
  "efficiencyLPC idle_bypass_inputs = Fin 0.90"
  "efficiencyHPC idle_bypass_inputs = Fin 0.90"
  "efficiencyHPT idle_bypass_inputs = Fin 0.92"
  "efficiencyLPT idle_bypass_inputs = Fin 0.93"
  "efficiencyBurner idle_bypass_inputs = Fin 0.995"
  "pressureRecoveryInlet idle_bypass_inputs = Fin 0.9"
  "pressureRecoveryBurner idle_bypass_inputs = Fin 0.96"
  "pressureRecoveryNozzle idle_bypass_inputs = Fin 0.99"
  "mechEfficiencyHigh idle_bypass_inputs = Fin 0.99"
  "mechEfficiencyLow idle_bypass_inputs = Fin 0.99"
  "heatingValue idle_bypass_inputs = Fin 43.1"
  by (simp_all add: idle_bypass_inputs_def)

lemma idle_bypass_inputs_T0:
  "\<exists>t. T0 idle_bypass_inputs = Fin t \<and> 288.15 \<le> t \<and> t \<le> 288.15"
proof -
  have eq: "T0 idle_bypass_inputs = Fin 288.15"
    by (rule sea_level_Fin(1)[OF idle_bypass_inputs_fields(1)])
  have iv: "(288.15::real) \<le> 288.15 \<and> 288.15 \<le> (288.15::real)"
    by simp
  from eq iv show ?thesis
    by blast
qed

lemma idle_bypass_inputs_P0:
  "\<exists>t. P0 idle_bypass_inputs = Fin t \<and> 101325 \<le> t \<and> t \<le> 101325"
proof -
  have eq: "P0 idle_bypass_inputs = Fin 101325"
    by (rule sea_level_Fin(2)[OF idle_bypass_inputs_fields(1)])
  have iv: "(101325::real) \<le> 101325 \<and> 101325 \<le> (101325::real)"
    by simp
  from eq iv show ?thesis
    by blast
qed

lemma idle_bypass_inputs_V0:
  "\<exists>t. V0 idle_bypass_inputs = Fin t \<and> 0 \<le> t \<and> t \<le> 0"
proof -
  have c1: "(0::real) \<le> 0 \<and> 0 \<le> (0::real)"
    by simp
  from idle_bypass_inputs_T0 obtain v1 where v1_eq: "T0 idle_bypass_inputs = Fin v1"
    and v1_iv: "(288.15::real) \<le> v1 \<and> v1 \<le> (288.15::real)"
    by blast
  have s2: "(0::real) \<le> v1"
    by (rule iv_nonneg[OF v1_iv]) simp
  have c3: "(1.4::real) \<le> 1.4 \<and> 1.4 \<le> (1.4::real)"
    by simp
  have c4: "(287.05::real) \<le> 287.05 \<and> 287.05 \<le> (287.05::real)"
    by simp
  have n5: "(401.87::real) \<le> 1.4 * 287.05 \<and> 1.4 * 287.05 \<le> (401.87::real)"
    by (rule iv_mul[OF c3 c4]) simp_all
  have n6: "(115798.8405::real) \<le> (1.4 * 287.05) * v1 \<and> (1.4 * 287.05) * v1 \<le> (115798.8405::real)"
    by (rule iv_mul[OF n5 v1_iv]) simp_all
  have n7: "(340.2922868652::real) \<le> sqrt ((1.4 * 287.05) * v1) \<and> sqrt ((1.4 * 287.05) * v1) \<le> (340.2922868653::real)"
    by (rule iv_sqrt[OF n6]) (simp_all add: power_divide)
  have n8: "(0::real) \<le> 0 * (sqrt ((1.4 * 287.05) * v1)) \<and> 0 * (sqrt ((1.4 * 287.05) * v1)) \<le> (0::real)"
    by (rule iv_mul[OF c1 n7]) simp_all
  have eq: "V0 idle_bypass_inputs = Fin (0 * (sqrt ((1.4 * 287.05) * v1)))"
    by (rule V0_Fin[OF idle_bypass_inputs_fields(2) v1_eq s2])
  from eq n8 show ?thesis
    by blast
qed

lemma idle_bypass_inputs_tau_r:
  "\<exists>t. tau_r idle_bypass_inputs = Fin t \<and> 1 \<le> t \<and> t \<le> 1"
proof -
  have c1: "(0::real) \<le> 0 \<and> 0 \<le> (0::real)"
    by simp
  have c2: "(1::real) \<le> 1 \<and> 1 \<le> (1::real)"
    by simp
  have c3: "(1.4::real) \<le> 1.4 \<and> 1.4 \<le> (1.4::real)"
    by simp
  have n4: "(0.4::real) \<le> 1.4 - 1 \<and> 1.4 - 1 \<le> (0.4::real)"
    by (rule iv_sub[OF c3 c2]) simp_all
  have c5: "(2::real) \<le> 2 \<and> 2 \<le> (2::real)"
    by simp
  have n6: "(0.2::real) \<le> (1.4 - 1) / 2 \<and> (1.4 - 1) / 2 \<le> (0.2::real)"
    by (rule iv_div[OF n4 c5]) simp_all
  have n7: "(0::real) \<le> ((1.4 - 1) / 2) * 0 \<and> ((1.4 - 1) / 2) * 0 \<le> (0::real)"
    by (rule iv_mul[OF n6 c1]) simp_all
  have n8: "(0::real) \<le> (((1.4 - 1) / 2) * 0) * 0 \<and> (((1.4 - 1) / 2) * 0) * 0 \<le> (0::real)"
    by (rule iv_mul[OF n7 c1]) simp_all
  have n9: "(1::real) \<le> 1 + ((((1.4 - 1) / 2) * 0) * 0) \<and> 1 + ((((1.4 - 1) / 2) * 0) * 0) \<le> (1::real)"
    by (rule iv_add[OF c2 n8]) simp_all
  have eq: "tau_r idle_bypass_inputs = Fin (1 + ((((1.4 - 1) / 2) * 0) * 0))"
    by (rule tau_r_Fin[OF idle_bypass_inputs_fields(2)])
  from eq n9 show ?thesis
    by blast
qed

lemma idle_bypass_inputs_pi_r:
  "\<exists>t. pi_r idle_bypass_inputs = Fin t \<and> 1 \<le> t \<and> t \<le> 1"
proof -
  from idle_bypass_inputs_tau_r obtain v1 where v1_eq: "tau_r idle_bypass_inputs = Fin v1"
    and v1_iv: "(1::real) \<le> v1 \<and> v1 \<le> (1::real)"
    by blast
  have s1: "(0::real) < v1"
    by (rule iv_pos[OF v1_iv]) simp
  have s2: "(0::real) < v1"
    by (rule iv_pos[OF v1_iv]) simp
  have n3: "(1::real) \<le> v1 powr (1 / 2) \<and> v1 powr (1 / 2) \<le> (1::real)"
    by (rule iv_root[where n=2, OF v1_iv]) (simp_all add: power_divide)
  have n4: "(1::real) \<le> (v1 powr (1 / 2)) ^ 1 \<and> (v1 powr (1 / 2)) ^ 1 \<le> (1::real)"
    by (rule iv_pow_one[OF n3])
  have n5: "(1::real) \<le> (v1 powr (1 / 2)) ^ 2 \<and> (v1 powr (1 / 2)) ^ 2 \<le> (1::real)"
    by (rule iv_pow_sq[OF n4]) (simp_all add: power_divide)
  have n6: "(1::real) \<le> (v1 powr (1 / 2)) ^ 4 \<and> (v1 powr (1 / 2)) ^ 4 \<le> (1::real)"
    by (rule iv_pow_sq[OF n5]) (simp_all add: power_divide)
  have n7: "(1::real) \<le> (v1 powr (1 / 2)) ^ 6 \<and> (v1 powr (1 / 2)) ^ 6 \<le> (1::real)"
    by (rule iv_pow_mul[OF n6 n5]) simp_all
  have n8: "(1::real) \<le> (v1 powr (1 / 2)) ^ 7 \<and> (v1 powr (1 / 2)) ^ 7 \<le> (1::real)"
    by (rule iv_pow_mul[OF n7 n4]) simp_all
  have n9: "(1::real) \<le> v1 powr (7 / 2) \<and> v1 powr (7 / 2) \<le> (1::real)"
    by (rule powr_via_root[OF n8 s2]) simp_all
  have eq: "pi_r idle_bypass_inputs = Fin (v1 powr (7 / 2))"
    by (rule pi_r_Fin[OF v1_eq s1])
  from eq n9 show ?thesis
    by blast
qed

lemma idle_bypass_inputs_Tt0:
  "\<exists>t. Tt0 idle_bypass_inputs = Fin t \<and> 288.15 \<le> t \<and> t \<le> 288.15"
proof -
  from idle_bypass_inputs_T0 obtain v1 where v1_eq: "T0 idle_bypass_inputs = Fin v1"
    and v1_iv: "(288.15::real) \<le> v1 \<and> v1 \<le> (288.15::real)"
    by blast
  from idle_bypass_inputs_tau_r obtain v2 where v2_eq: "tau_r idle_bypass_inputs = Fin v2"
    and v2_iv: "(1::real) \<le> v2 \<and> v2 \<le> (1::real)"
    by blast
  have n1: "(288.15::real) \<le> v1 * v2 \<and> v1 * v2 \<le> (288.15::real)"
    by (rule iv_mul[OF v1_iv v2_iv]) simp_all
  have eq: "Tt0 idle_bypass_inputs = Fin (v1 * v2)"
    by (rule Tt0_Fin[OF v1_eq v2_eq])
  from eq n1 show ?thesis
    by blast
qed

lemma idle_bypass_inputs_Pt0:
  "\<exists>t. Pt0 idle_bypass_inputs = Fin t \<and> 101325 \<le> t \<and> t \<le> 101325"
proof -
  from idle_bypass_inputs_P0 obtain v1 where v1_eq: "P0 idle_bypass_inputs = Fin v1"
    and v1_iv: "(101325::real) \<le> v1 \<and> v1 \<le> (101325::real)"
    by blast
  from idle_bypass_inputs_pi_r obtain v2 where v2_eq: "pi_r idle_bypass_inputs = Fin v2"
    and v2_iv: "(1::real) \<le> v2 \<and> v2 \<le> (1::real)"
    by blast
  have n1: "(101325::real) \<le> v1 * v2 \<and> v1 * v2 \<le> (101325::real)"
    by (rule iv_mul[OF v1_iv v2_iv]) simp_all
  have eq: "Pt0 idle_bypass_inputs = Fin (v1 * v2)"
    by (rule Pt0_Fin[OF v1_eq v2_eq])
  from eq n1 show ?thesis
    by blast
qed

lemma idle_bypass_inputs_Tt2:
  "\<exists>t. Tt2 idle_bypass_inputs = Fin t \<and> 288.15 \<le> t \<and> t \<le> 288.15"
proof -
  from idle_bypass_inputs_Tt0 obtain v1 where v1_eq: "Tt0 idle_bypass_inputs = Fin v1"
    and v1_iv: "(288.15::real) \<le> v1 \<and> v1 \<le> (288.15::real)"
    by blast
  have eq: "Tt2 idle_bypass_inputs = Fin v1"
    by (rule Tt2_Fin[OF v1_eq])
  from eq v1_iv show ?thesis
    by blast
qed

lemma idle_bypass_inputs_Pt2:
  "\<exists>t. Pt2 idle_bypass_inputs = Fin t \<and> 91192.5 \<le> t \<and> t \<le> 91192.5"
proof -
  from idle_bypass_inputs_Pt0 obtain v1 where v1_eq: "Pt0 idle_bypass_inputs = Fin v1"
    and v1_iv: "(101325::real) \<le> v1 \<and> v1 \<le> (101325::real)"
    by blast
  have c1: "(0.9::real) \<le> 0.9 \<and> 0.9 \<le> (0.9::real)"
    by simp
  have n2: "(91192.5::real) \<le> v1 * 0.9 \<and> v1 * 0.9 \<le> (91192.5::real)"
    by (rule iv_mul[OF v1_iv c1]) simp_all
  have eq: "Pt2 idle_bypass_inputs = Fin (v1 * 0.9)"
    by (rule Pt2_Fin[OF v1_eq idle_bypass_inputs_fields(14)])
  from eq n2 show ?thesis
    by blast
qed

lemma idle_bypass_inputs_Pt13:
  "\<exists>t. Pt13 idle_bypass_inputs = Fin t \<and> 100311.75 \<le> t \<and> t \<le> 100311.75"
proof -
  from idle_bypass_inputs_Pt2 obtain v1 where v1_eq: "Pt2 idle_bypass_inputs = Fin v1"
    and v1_iv: "(91192.5::real) \<le> v1 \<and> v1 \<le> (91192.5::real)"
    by blast
  have c1: "(1.1::real) \<le> 1.1 \<and> 1.1 \<le> (1.1::real)"
    by simp
  have n2: "(100311.75::real) \<le> v1 * 1.1 \<and> v1 * 1.1 \<le> (100311.75::real)"
    by (rule iv_mul[OF v1_iv c1]) simp_all
  have eq: "Pt13 idle_bypass_inputs = Fin (v1 * 1.1)"
    by (rule Pt13_Fin[OF v1_eq idle_bypass_inputs_fields(6)])
  from eq n2 show ?thesis
    by blast
qed

lemma idle_bypass_inputs_Tt13:
  "\<exists>t. Tt13 idle_bypass_inputs = Fin t \<and> 296.7962681541 \<le> t \<and> t \<le> 296.7962681552"
proof -
  from idle_bypass_inputs_Tt2 obtain v1 where v1_eq: "Tt2 idle_bypass_inputs = Fin v1"
    and v1_iv: "(288.15::real) \<le> v1 \<and> v1 \<le> (288.15::real)"
    by blast
  have c1: "(1.1::real) \<le> 1.1 \<and> 1.1 \<le> (1.1::real)"
    by simp
  have c2: "(0.92::real) \<le> 0.92 \<and> 0.92 \<le> (0.92::real)"
    by simp
  have s3: "(0::real) < 1.1"
    by (rule iv_pos[OF c1]) simp
  have s4: "(0.92::real) \<noteq> 0"
    by (rule iv_nonzero[OF c2]) simp
  have c5: "(1::real) \<le> 1 \<and> 1 \<le> (1::real)"
    by simp
  have s6: "(0::real) < 1.1"
    by (rule iv_pos[OF c1]) simp
  have n7: "(1.013708856295::real) \<le> 1.1 powr (1 / 7) \<and> 1.1 powr (1 / 7) \<le> (1.013708856296::real)"
    by (rule iv_root[where n=7, OF c1]) (simp_all add: power_divide)
  have n8: "(1.013708856295::real) \<le> (1.1 powr (1 / 7)) ^ 1 \<and> (1.1 powr (1 / 7)) ^ 1 \<le> (1.013708856296::real)"
    by (rule iv_pow_one[OF n7])
  have n9: "(1.02760564533::real) \<le> (1.1 powr (1 / 7)) ^ 2 \<and> (1.1 powr (1 / 7)) ^ 2 \<le> (1.027605645333::real)"
    by (rule iv_pow_sq[OF n8]) (simp_all add: power_divide)
  have n10: "(1.02760564533::real) \<le> 1.1 powr (2 / 7) \<and> 1.1 powr (2 / 7) \<le> (1.027605645333::real)"
    by (rule powr_via_root[OF n9 s6]) simp_all
  have n11: "(0.02760564533::real) \<le> (1.1 powr (2 / 7)) - 1 \<and> (1.1 powr (2 / 7)) - 1 \<le> (0.027605645333::real)"
    by (rule iv_sub[OF n10 c5]) simp_all
  have n12: "(0.03000613622826::real) \<le> ((1.1 powr (2 / 7)) - 1) / 0.92 \<and> ((1.1 powr (2 / 7)) - 1) / 0.92 \<le> (0.03000613623153::real)"
    by (rule iv_div[OF n11 c2]) simp_all
  have n13: "(1.03000613622826::real) \<le> 1 + (((1.1 powr (2 / 7)) - 1) / 0.92) \<and> 1 + (((1.1 powr (2 / 7)) - 1) / 0.92) \<le> (1.03000613623153::real)"
    by (rule iv_add[OF c5 n12]) simp_all
  have n14: "(296.7962681541::real) \<le> v1 * (1 + (((1.1 powr (2 / 7)) - 1) / 0.92)) \<and> v1 * (1 + (((1.1 powr (2 / 7)) - 1) / 0.92)) \<le> (296.7962681552::real)"
    by (rule iv_mul[OF v1_iv n13]) simp_all
  have eq: "Tt13 idle_bypass_inputs = Fin (v1 * (1 + (((1.1 powr (2 / 7)) - 1) / 0.92)))"
    by (rule Tt13_Fin[OF v1_eq idle_bypass_inputs_fields(6) idle_bypass_inputs_fields(8) s3 s4])
  from eq n14 show ?thesis
    by blast
qed

lemma idle_bypass_inputs_Pt21:
  "\<exists>t. Pt21 idle_bypass_inputs = Fin t \<and> 100311.75 \<le> t \<and> t \<le> 100311.75"
proof -
  from idle_bypass_inputs_Pt13 obtain v1 where v1_eq: "Pt13 idle_bypass_inputs = Fin v1"
    and v1_iv: "(100311.75::real) \<le> v1 \<and> v1 \<le> (100311.75::real)"
    by blast
  have eq: "Pt21 idle_bypass_inputs = Fin v1"
    by (rule Pt21_Fin[OF v1_eq])
  from eq v1_iv show ?thesis
    by blast
qed

lemma idle_bypass_inputs_Tt21:
  "\<exists>t. Tt21 idle_bypass_inputs = Fin t \<and> 296.7962681541 \<le> t \<and> t \<le> 296.7962681552"
proof -
  from idle_bypass_inputs_Tt13 obtain v1 where v1_eq: "Tt13 idle_bypass_inputs = Fin v1"
    and v1_iv: "(296.7962681541::real) \<le> v1 \<and> v1 \<le> (296.7962681552::real)"
    by blast
  have eq: "Tt21 idle_bypass_inputs = Fin v1"
    by (rule Tt21_Fin[OF v1_eq])
  from eq v1_iv show ?thesis
    by blast
qed

lemma idle_bypass_inputs_pi_ch:
  "\<exists>t. pi_ch idle_bypass_inputs = Fin t \<and> 38.18181818181 \<le> t \<and> t \<le> 38.18181818182"
proof -
  have c1: "(42::real) \<le> 42 \<and> 42 \<le> (42::real)"
    by simp
  have c2: "(1.1::real) \<le> 1.1 \<and> 1.1 \<le> (1.1::real)"
    by simp
  have s3: "(1.1::real) \<noteq> 0"
    by (rule iv_nonzero[OF c2]) simp
  have n4: "(38.18181818181::real) \<le> 42 / 1.1 \<and> 42 / 1.1 \<le> (38.18181818182::real)"
    by (rule iv_div[OF c1 c2]) simp_all
  have n5: "(38.18181818181::real) \<le> max 1.1 (42 / 1.1) \<and> max 1.1 (42 / 1.1) \<le> (38.18181818182::real)"
    by (rule iv_max[OF c2 n4]) simp_all
  have eq: "pi_ch idle_bypass_inputs = Fin (max 1.1 (42 / 1.1))"
    by (rule pi_ch_Fin[OF idle_bypass_inputs_fields(5) idle_bypass_inputs_fields(6) s3])
  from eq n5 show ?thesis
    by blast
qed

lemma idle_bypass_inputs_Pt3:
  "\<exists>t. Pt3 idle_bypass_inputs = Fin t \<and> 3830084.999999 \<le> t \<and> t \<le> 3830085.000001"
proof -
  from idle_bypass_inputs_Pt21 obtain v1 where v1_eq: "Pt21 idle_bypass_inputs = Fin v1"
    and v1_iv: "(100311.75::real) \<le> v1 \<and> v1 \<le> (100311.75::real)"
    by blast
  from idle_bypass_inputs_pi_ch obtain v2 where v2_eq: "pi_ch idle_bypass_inputs = Fin v2"
    and v2_iv: "(38.18181818181::real) \<le> v2 \<and> v2 \<le> (38.18181818182::real)"
    by blast
  have n1: "(3830084.999999::real) \<le> v1 * v2 \<and> v1 * v2 \<le> (3830085.000001::real)"
    by (rule iv_mul[OF v1_iv v2_iv]) simp_all
  have eq: "Pt3 idle_bypass_inputs = Fin (v1 * v2)"
    by (rule Pt3_Fin[OF v1_eq v2_eq])
  from eq n1 show ?thesis
    by blast
qed

lemma idle_bypass_inputs_Tt3:
  "\<exists>t. Tt3 idle_bypass_inputs = Fin t \<and> 900.6529771 \<le> t \<and> t \<le> 900.6529771049"
proof -
  from idle_bypass_inputs_Tt21 obtain v1 where v1_eq: "Tt21 idle_bypass_inputs = Fin v1"
    and v1_iv: "(296.7962681541::real) \<le> v1 \<and> v1 \<le> (296.7962681552::real)"
    by blast
  from idle_bypass_inputs_pi_ch obtain v2 where v2_eq: "pi_ch idle_bypass_inputs = Fin v2"
    and v2_iv: "(38.18181818181::real) \<le> v2 \<and> v2 \<le> (38.18181818182::real)"
    by blast
  have c1: "(0.9::real) \<le> 0.90 \<and> 0.90 \<le> (0.9::real)"
    by simp
  have s2: "(0::real) < v2"
    by (rule iv_pos[OF v2_iv]) simp
  have s3: "(0.90::real) \<noteq> 0"
    by (rule iv_nonzero[OF c1]) simp
  have c4: "(1::real) \<le> 1 \<and> 1 \<le> (1::real)"
    by simp
  have s5: "(0::real) < v2"
    by (rule iv_pos[OF v2_iv]) simp
  have n6: "(1.682594693938::real) \<le> v2 powr (1 / 7) \<and> v2 powr (1 / 7) \<le> (1.682594693939::real)"
    by (rule iv_root[where n=7, OF v2_iv]) (simp_all add: power_divide)
  have n7: "(1.682594693938::real) \<le> (v2 powr (1 / 7)) ^ 1 \<and> (v2 powr (1 / 7)) ^ 1 \<le> (1.682594693939::real)"
    by (rule iv_pow_one[OF n6])
  have n8: "(2.831124904068::real) \<le> (v2 powr (1 / 7)) ^ 2 \<and> (v2 powr (1 / 7)) ^ 2 \<le> (2.831124904072::real)"
    by (rule iv_pow_sq[OF n7]) (simp_all add: power_divide)
  have n9: "(2.831124904068::real) \<le> v2 powr (2 / 7) \<and> v2 powr (2 / 7) \<le> (2.831124904072::real)"
    by (rule powr_via_root[OF n8 s5]) simp_all
  have n10: "(1.831124904068::real) \<le> (v2 powr (2 / 7)) - 1 \<and> (v2 powr (2 / 7)) - 1 \<le> (1.831124904072::real)"
    by (rule iv_sub[OF n9 c4]) simp_all
  have n11: "(2.034583226742::real) \<le> ((v2 powr (2 / 7)) - 1) / 0.90 \<and> ((v2 powr (2 / 7)) - 1) / 0.90 \<le> (2.034583226747::real)"
    by (rule iv_div[OF n10 c1]) simp_all
  have n12: "(3.034583226742::real) \<le> 1 + (((v2 powr (2 / 7)) - 1) / 0.90) \<and> 1 + (((v2 powr (2 / 7)) - 1) / 0.90) \<le> (3.034583226747::real)"
    by (rule iv_add[OF c4 n11]) simp_all
  have n13: "(900.6529771::real) \<le> v1 * (1 + (((v2 powr (2 / 7)) - 1) / 0.90)) \<and> v1 * (1 + (((v2 powr (2 / 7)) - 1) / 0.90)) \<le> (900.6529771049::real)"
    by (rule iv_mul[OF v1_iv n12]) simp_all
  have eq: "Tt3 idle_bypass_inputs = Fin (v1 * (1 + (((v2 powr (2 / 7)) - 1) / 0.90)))"
    by (rule Tt3_Fin[OF v1_eq v2_eq idle_bypass_inputs_fields(10) s2 s3])
  from eq n13 show ?thesis
    by blast
qed

lemma idle_bypass_inputs_Pt4:
  "\<exists>t. Pt4 idle_bypass_inputs = Fin t \<and> 3676881.59999904 \<le> t \<and> t \<le> 3676881.60000096"
proof -
  from idle_bypass_inputs_Pt3 obtain v1 where v1_eq: "Pt3 idle_bypass_inputs = Fin v1"
    and v1_iv: "(3830084.999999::real) \<le> v1 \<and> v1 \<le> (3830085.000001::real)"
    by blast
  have c1: "(0.96::real) \<le> 0.96 \<and> 0.96 \<le> (0.96::real)"
    by simp
  have n2: "(3676881.59999904::real) \<le> v1 * 0.96 \<and> v1 * 0.96 \<le> (3676881.60000096::real)"
    by (rule iv_mul[OF v1_iv c1]) simp_all
  have eq: "Pt4 idle_bypass_inputs = Fin (v1 * 0.96)"
    by (rule Pt4_Fin[OF v1_eq idle_bypass_inputs_fields(15)])
  from eq n2 show ?thesis
    by blast
qed

lemma idle_bypass_inputs_Tt4:
  "\<exists>t. Tt4 idle_bypass_inputs = Fin t \<and> 1650 \<le> t \<and> t \<le> 1650"
proof -
  have c1: "(1650::real) \<le> 1650 \<and> 1650 \<le> (1650::real)"
    by simp
  have eq: "Tt4 idle_bypass_inputs = Fin 1650"
    by (rule Tt4_Fin[OF idle_bypass_inputs_fields(7)])
  from eq c1 show ?thesis
    by blast
qed

lemma idle_bypass_inputs_Hu_J:
  "\<exists>t. Hu_J idle_bypass_inputs = Fin t \<and> 43100000 \<le> t \<and> t \<le> 43100000"
proof -
  have c1: "(43.1::real) \<le> 43.1 \<and> 43.1 \<le> (43.1::real)"
    by simp
  have c2: "(1000000::real) \<le> 1000000 \<and> 1000000 \<le> (1000000::real)"
    by simp
  have n3: "(43100000::real) \<le> 43.1 * 1000000 \<and> 43.1 * 1000000 \<le> (43100000::real)"
    by (rule iv_mul[OF c1 c2]) simp_all
  have eq: "Hu_J idle_bypass_inputs = Fin (43.1 * 1000000)"
    by (rule Hu_J_Fin[OF idle_bypass_inputs_fields(19)])
  from eq n3 show ?thesis
    by blast
qed

lemma idle_bypass_inputs_numerator:
  "\<exists>t. numerator idle_bypass_inputs = Fin t \<and> 992343.7580095755 \<le> t \<and> t \<le> 992343.7580145"
proof -
  from idle_bypass_inputs_Tt4 obtain v1 where v1_eq: "Tt4 idle_bypass_inputs = Fin v1"
    and v1_iv: "(1650::real) \<le> v1 \<and> v1 \<le> (1650::real)"
    by blast
  from idle_bypass_inputs_Tt3 obtain v2 where v2_eq: "Tt3 idle_bypass_inputs = Fin v2"
    and v2_iv: "(900.6529771::real) \<le> v2 \<and> v2 \<le> (900.6529771049::real)"
    by blast
  have c1: "(1150::real) \<le> 1150 \<and> 1150 \<le> (1150::real)"
    by simp
  have n2: "(1897500::real) \<le> 1150 * v1 \<and> 1150 * v1 \<le> (1897500::real)"
    by (rule iv_mul[OF c1 v1_iv]) simp_all
  have c3: "(1005::real) \<le> 1005 \<and> 1005 \<le> (1005::real)"
    by simp
  have n4: "(905156.2419855::real) \<le> 1005 * v2 \<and> 1005 * v2 \<le> (905156.2419904245::real)"
    by (rule iv_mul[OF c3 v2_iv]) simp_all
  have n5: "(992343.7580095755::real) \<le> (1150 * v1) - (1005 * v2) \<and> (1150 * v1) - (1005 * v2) \<le> (992343.7580145::real)"
    by (rule iv_sub[OF n2 n4]) simp_all
  have eq: "numerator idle_bypass_inputs = Fin ((1150 * v1) - (1005 * v2))"
    by (rule numerator_Fin[OF v1_eq v2_eq])
  from eq n5 show ?thesis
    by blast
qed

lemma idle_bypass_inputs_denominator:
  "\<exists>t. denominator idle_bypass_inputs = Fin t \<and> 40987000 \<le> t \<and> t \<le> 40987000"
proof -
  have c1: "(0.995::real) \<le> 0.995 \<and> 0.995 \<le> (0.995::real)"
    by simp
  from idle_bypass_inputs_Hu_J obtain v1 where v1_eq: "Hu_J idle_bypass_inputs = Fin v1"
    and v1_iv: "(43100000::real) \<le> v1 \<and> v1 \<le> (43100000::real)"
    by blast
  from idle_bypass_inputs_Tt4 obtain v2 where v2_eq: "Tt4 idle_bypass_inputs = Fin v2"
    and v2_iv: "(1650::real) \<le> v2 \<and> v2 \<le> (1650::real)"
    by blast
  have n2: "(42884500::real) \<le> 0.995 * v1 \<and> 0.995 * v1 \<le> (42884500::real)"
    by (rule iv_mul[OF c1 v1_iv]) simp_all
  have c3: "(1150::real) \<le> 1150 \<and> 1150 \<le> (1150::real)"
    by simp
  have n4: "(1897500::real) \<le> 1150 * v2 \<and> 1150 * v2 \<le> (1897500::real)"
    by (rule iv_mul[OF c3 v2_iv]) simp_all
  have n5: "(40987000::real) \<le> (0.995 * v1) - (1150 * v2) \<and> (0.995 * v1) - (1150 * v2) \<le> (40987000::real)"
    by (rule iv_sub[OF n2 n4]) simp_all
  have eq: "denominator idle_bypass_inputs = Fin ((0.995 * v1) - (1150 * v2))"
    by (rule denominator_Fin[OF idle_bypass_inputs_fields(13) v1_eq v2_eq])
  from eq n5 show ?thesis
    by blast
qed

lemma idle_bypass_inputs_f:
  "\<exists>t. f idle_bypass_inputs = Fin t \<and> 0.02421118300948 \<le> t \<and> t \<le> 0.02421118300961"
proof -
  from idle_bypass_inputs_numerator obtain v1 where v1_eq: "numerator idle_bypass_inputs = Fin v1"
    and v1_iv: "(992343.7580095755::real) \<le> v1 \<and> v1 \<le> (992343.7580145::real)"
    by blast
  from idle_bypass_inputs_denominator obtain v2 where v2_eq: "denominator idle_bypass_inputs = Fin v2"
    and v2_iv: "(40987000::real) \<le> v2 \<and> v2 \<le> (40987000::real)"
    by blast
  have s1: "(v2::real) \<noteq> 0"
    by (rule iv_nonzero[OF v2_iv]) simp
  have c2: "(0::real) \<le> 0 \<and> 0 \<le> (0::real)"
    by simp
  have n3: "(0.02421118300948::real) \<le> v1 / v2 \<and> v1 / v2 \<le> (0.02421118300961::real)"
    by (rule iv_div[OF v1_iv v2_iv]) simp_all
  have n4: "(0.02421118300948::real) \<le> max 0 (v1 / v2) \<and> max 0 (v1 / v2) \<le> (0.02421118300961::real)"
    by (rule iv_max[OF c2 n3]) simp_all
  have eq: "f idle_bypass_inputs = Fin (max 0 (v1 / v2))"
    by (rule f_Fin[OF v1_eq v2_eq s1])
  from eq n4 show ?thesis
    by blast
qed

lemma idle_bypass_inputs_work_req_HPC:
  "\<exists>t. work_req_HPC idle_bypass_inputs = Fin t \<and> 606875.992489524 \<le> t \<and> t \<le> 606875.992495554"
proof -
  from idle_bypass_inputs_Tt3 obtain v1 where v1_eq: "Tt3 idle_bypass_inputs = Fin v1"
    and v1_iv: "(900.6529771::real) \<le> v1 \<and> v1 \<le> (900.6529771049::real)"
    by blast
  from idle_bypass_inputs_Tt21 obtain v2 where v2_eq: "Tt21 idle_bypass_inputs = Fin v2"
    and v2_iv: "(296.7962681541::real) \<le> v2 \<and> v2 \<le> (296.7962681552::real)"
    by blast
  have c1: "(1005::real) \<le> 1005 \<and> 1005 \<le> (1005::real)"
    by simp
  have n2: "(603.8567089448::real) \<le> v1 - v2 \<and> v1 - v2 \<le> (603.8567089508::real)"
    by (rule iv_sub[OF v1_iv v2_iv]) simp_all
  have n3: "(606875.992489524::real) \<le> 1005 * (v1 - v2) \<and> 1005 * (v1 - v2) \<le> (606875.992495554::real)"
    by (rule iv_mul[OF c1 n2]) simp_all
  have eq: "work_req_HPC idle_bypass_inputs = Fin (1005 * (v1 - v2))"
    by (rule work_req_HPC_Fin[OF v1_eq v2_eq])
  from eq n3 show ?thesis
    by blast
qed

lemma idle_bypass_inputs_work_avail_HPT:
  "\<exists>t. work_avail_HPT idle_bypass_inputs = Fin t \<and> 613006.0530197 \<le> t \<and> t \<le> 613006.0530259"
proof -
  from idle_bypass_inputs_work_req_HPC obtain v1 where v1_eq: "work_req_HPC idle_bypass_inputs = Fin v1"
    and v1_iv: "(606875.992489524::real) \<le> v1 \<and> v1 \<le> (606875.992495554::real)"
    by blast
  have c1: "(0.99::real) \<le> 0.99 \<and> 0.99 \<le> (0.99::real)"
    by simp
  have s2: "(0.99::real) \<noteq> 0"
    by (rule iv_nonzero[OF c1]) simp
  have n3: "(613006.0530197::real) \<le> v1 / 0.99 \<and> v1 / 0.99 \<le> (613006.0530259::real)"
    by (rule iv_div[OF v1_iv c1]) simp_all
  have eq: "work_avail_HPT idle_bypass_inputs = Fin (v1 / 0.99)"
    by (rule work_avail_HPT_Fin[OF v1_eq idle_bypass_inputs_fields(17) s2])
  from eq n3 show ?thesis
    by blast
qed

lemma idle_bypass_inputs_deltaT_HPT:
  "\<exists>t. deltaT_HPT idle_bypass_inputs = Fin t \<and> 520.4480780901 \<le> t \<and> t \<le> 520.448078096"
proof -
  from idle_bypass_inputs_work_avail_HPT obtain v1 where v1_eq: "work_avail_HPT idle_bypass_inputs = Fin v1"
    and v1_iv: "(613006.0530197::real) \<le> v1 \<and> v1 \<le> (613006.0530259::real)"
    by blast
  from idle_bypass_inputs_f obtain v2 where v2_eq: "f idle_bypass_inputs = Fin v2"
    and v2_iv: "(0.02421118300948::real) \<le> v2 \<and> v2 \<le> (0.02421118300961::real)"
    by blast
  have c1: "(1::real) \<le> 1 \<and> 1 \<le> (1::real)"
    by simp
  have n2: "(1.02421118300948::real) \<le> 1 + v2 \<and> 1 + v2 \<le> (1.02421118300961::real)"
    by (rule iv_add[OF c1 v2_iv]) simp_all
  have c3: "(1150::real) \<le> 1150 \<and> 1150 \<le> (1150::real)"
    by simp
  have n4: "(1177.842860460902::real) \<le> (1 + v2) * 1150 \<and> (1 + v2) * 1150 \<le> (1177.842860462::real)"
    by (rule iv_mul[OF n2 c3]) simp_all
  have s5: "((1 + v2) * 1150::real) \<noteq> 0"
    by (rule iv_nonzero[OF n4]) simp
  have n6: "(520.4480780901::real) \<le> v1 / ((1 + v2) * 1150) \<and> v1 / ((1 + v2) * 1150) \<le> (520.448078096::real)"
    by (rule iv_div[OF v1_iv n4]) simp_all
  have eq: "deltaT_HPT idle_bypass_inputs = Fin (v1 / ((1 + v2) * 1150))"
    by (rule deltaT_HPT_Fin[OF v1_eq v2_eq s5])
  from eq n6 show ?thesis
    by blast
qed

lemma idle_bypass_inputs_Tt45:
  "\<exists>t. Tt45 idle_bypass_inputs = Fin t \<and> 1129.551921904 \<le> t \<and> t \<le> 1129.5519219099"
proof -
  from idle_bypass_inputs_Tt4 obtain v1 where v1_eq: "Tt4 idle_bypass_inputs = Fin v1"
    and v1_iv: "(1650::real) \<le> v1 \<and> v1 \<le> (1650::real)"
    by blast
  from idle_bypass_inputs_deltaT_HPT obtain v2 where v2_eq: "deltaT_HPT idle_bypass_inputs = Fin v2"
    and v2_iv: "(520.4480780901::real) \<le> v2 \<and> v2 \<le> (520.448078096::real)"
    by blast
  have n1: "(1129.551921904::real) \<le> v1 - v2 \<and> v1 - v2 \<le> (1129.5519219099::real)"
    by (rule iv_sub[OF v1_iv v2_iv]) simp_all
  have eq: "Tt45 idle_bypass_inputs = Fin (v1 - v2)"
    by (rule Tt45_Fin[OF v1_eq v2_eq])
  from eq n1 show ?thesis
    by blast
qed

lemma idle_bypass_inputs_temp_ratio_HPT:
  "\<exists>t. temp_ratio_HPT idle_bypass_inputs = Fin t \<and> 0.684576922366 \<le> t \<and> t \<le> 0.6845769223697"
proof -
  from idle_bypass_inputs_Tt45 obtain v1 where v1_eq: "Tt45 idle_bypass_inputs = Fin v1"
    and v1_iv: "(1129.551921904::real) \<le> v1 \<and> v1 \<le> (1129.5519219099::real)"
    by blast
  from idle_bypass_inputs_Tt4 obtain v2 where v2_eq: "Tt4 idle_bypass_inputs = Fin v2"
    and v2_iv: "(1650::real) \<le> v2 \<and> v2 \<le> (1650::real)"
    by blast
  have s1: "(v2::real) \<noteq> 0"
    by (rule iv_nonzero[OF v2_iv]) simp
  have n2: "(0.684576922366::real) \<le> v1 / v2 \<and> v1 / v2 \<le> (0.6845769223697::real)"
    by (rule iv_div[OF v1_iv v2_iv]) simp_all
  have eq: "temp_ratio_HPT idle_bypass_inputs = Fin (v1 / v2)"
    by (rule temp_ratio_HPT_Fin[OF v1_eq v2_eq s1])
  from eq n2 show ?thesis
    by blast
qed

lemma idle_bypass_inputs_pressure_term_HPT:
  "\<exists>t. pressure_term_HPT idle_bypass_inputs = Fin t \<and> 0.3428511713372 \<le> t \<and> t \<le> 0.3428511713414"
proof -
  from idle_bypass_inputs_temp_ratio_HPT obtain v1 where v1_eq: "temp_ratio_HPT idle_bypass_inputs = Fin v1"
    and v1_iv: "(0.684576922366::real) \<le> v1 \<and> v1 \<le> (0.6845769223697::real)"
    by blast
  have c1: "(0.92::real) \<le> 0.92 \<and> 0.92 \<le> (0.92::real)"
    by simp
  have s2: "(0.92::real) \<noteq> 0"
    by (rule iv_nonzero[OF c1]) simp
  have c3: "(1::real) \<le> 1 \<and> 1 \<le> (1::real)"
    by simp
  have n4: "(0.3154230776303::real) \<le> 1 - v1 \<and> 1 - v1 \<le> (0.315423077634::real)"
    by (rule iv_sub[OF c3 v1_iv]) simp_all
  have n5: "(0.3428511713372::real) \<le> (1 - v1) / 0.92 \<and> (1 - v1) / 0.92 \<le> (0.3428511713414::real)"
    by (rule iv_div[OF n4 c1]) simp_all
  have eq: "pressure_term_HPT idle_bypass_inputs = Fin ((1 - v1) / 0.92)"
    by (rule pressure_term_HPT_Fin[OF v1_eq idle_bypass_inputs_fields(11) s2])
  from eq n5 show ?thesis
    by blast
qed

lemma idle_bypass_inputs_pi_HPT:
  "\<exists>t. pi_HPT idle_bypass_inputs = Fin t \<and> 5.430882275155 \<le> t \<and> t \<le> 5.430882276681"
proof -
  from idle_bypass_inputs_pressure_term_HPT obtain v1 where v1_eq: "pressure_term_HPT idle_bypass_inputs = Fin v1"
    and v1_iv: "(0.3428511713372::real) \<le> v1 \<and> v1 \<le> (0.3428511713414::real)"
    by blast
  have c1: "(1::real) \<le> 1 \<and> 1 \<le> (1::real)"
    by simp
  have s2: "(v1::real) < 1"
    by (rule iv_less[OF v1_iv c1]) simp
  have n3: "(0.6571488286586::real) \<le> 1 - v1 \<and> 1 - v1 \<le> (0.6571488286628::real)"
    by (rule iv_sub[OF c1 v1_iv]) simp_all
  have n4: "(1.521725302371::real) \<le> 1 / (1 - v1) \<and> 1 / (1 - v1) \<le> (1.521725302382::real)"
    by (rule iv_div[OF c1 n3]) simp_all
  have s5: "(0::real) < (1 / (1 - v1))"
    by (rule iv_pos[OF n4]) simp
  have n6: "(1.150214276989::real) \<le> (1 / (1 - v1)) powr (1 / 3) \<and> (1 / (1 - v1)) powr (1 / 3) \<le> (1.150214276993::real)"
    by (rule iv_root[where n=3, OF n4]) (simp_all add: power_divide)
  have n7: "(1.012803844628::real) \<le> ((1 / (1 - v1)) powr (1 / 3)) powr (1 / 11) \<and> ((1 / (1 - v1)) powr (1 / 3)) powr (1 / 11) \<le> (1.012803844629::real)"
    by (rule iv_root[where n=11, OF n6]) (simp_all add: power_divide)
  have n8: "(1.012803844628::real) \<le> (((1 / (1 - v1)) powr (1 / 3)) powr (1 / 11)) ^ 1 \<and> (((1 / (1 - v1)) powr (1 / 3)) powr (1 / 11)) ^ 1 \<le> (1.012803844629::real)"
    by (rule iv_pow_one[OF n7])
  have n9: "(1.025771627693::real) \<le> (((1 / (1 - v1)) powr (1 / 3)) powr (1 / 11)) ^ 2 \<and> (((1 / (1 - v1)) powr (1 / 3)) powr (1 / 11)) ^ 2 \<le> (1.025771627696::real)"
    by (rule iv_pow_sq[OF n8]) (simp_all add: power_divide)
  have n10: "(1.052207432179::real) \<le> (((1 / (1 - v1)) powr (1 / 3)) powr (1 / 11)) ^ 4 \<and> (((1 / (1 - v1)) powr (1 / 3)) powr (1 / 11)) ^ 4 \<le> (1.052207432187::real)"
    by (rule iv_pow_sq[OF n9]) (simp_all add: power_divide)
  have n11: "(1.107140480332::real) \<le> (((1 / (1 - v1)) powr (1 / 3)) powr (1 / 11)) ^ 8 \<and> (((1 / (1 - v1)) powr (1 / 3)) powr (1 / 11)) ^ 8 \<le> (1.10714048035::real)"
    by (rule iv_pow_sq[OF n10]) (simp_all add: power_divide)
  have n12: "(1.225760043189::real) \<le> (((1 / (1 - v1)) powr (1 / 3)) powr (1 / 11)) ^ 16 \<and> (((1 / (1 - v1)) powr (1 / 3)) powr (1 / 11)) ^ 16 \<le> (1.22576004323::real)"
    by (rule iv_pow_sq[OF n11]) (simp_all add: power_divide)
  have n13: "(1.502487683478::real) \<le> (((1 / (1 - v1)) powr (1 / 3)) powr (1 / 11)) ^ 32 \<and> (((1 / (1 - v1)) powr (1 / 3)) powr (1 / 11)) ^ 32 \<le> (1.50248768358::real)"
    by (rule iv_pow_sq[OF n12]) (simp_all add: power_divide)
  have n14: "(2.257469239003::real) \<le> (((1 / (1 - v1)) powr (1 / 3)) powr (1 / 11)) ^ 64 \<and> (((1 / (1 - v1)) powr (1 / 3)) powr (1 / 11)) ^ 64 \<le> (2.25746923931::real)"
    by (rule iv_pow_sq[OF n13]) (simp_all add: power_divide)
  have n15: "(5.096167365044::real) \<le> (((1 / (1 - v1)) powr (1 / 3)) powr (1 / 11)) ^ 128 \<and> (((1 / (1 - v1)) powr (1 / 3)) powr (1 / 11)) ^ 128 \<le> (5.096167366431::real)"
    by (rule iv_pow_sq[OF n14]) (simp_all add: power_divide)
  have n16: "(5.362225177127::real) \<le> (((1 / (1 - v1)) powr (1 / 3)) powr (1 / 11)) ^ 132 \<and> (((1 / (1 - v1)) powr (1 / 3)) powr (1 / 11)) ^ 132 \<le> (5.362225178628::real)"
    by (rule iv_pow_mul[OF n15 n10]) simp_all
  have n17: "(5.430882275155::real) \<le> (((1 / (1 - v1)) powr (1 / 3)) powr (1 / 11)) ^ 133 \<and> (((1 / (1 - v1)) powr (1 / 3)) powr (1 / 11)) ^ 133 \<le> (5.430882276681::real)"
    by (rule iv_pow_mul[OF n16 n8]) simp_all
  have n18: "(5.430882275155::real) \<le> (1 / (1 - v1)) powr (133 / 33) \<and> (1 / (1 - v1)) powr (133 / 33) \<le> (5.430882276681::real)"
    by (rule powr_via_roots[OF n17 s5]) simp_all
  have eq: "pi_HPT idle_bypass_inputs = Fin ((1 / (1 - v1)) powr (133 / 33))"
    by (rule pi_HPT_Fin[OF v1_eq s2])
  from eq n18 show ?thesis
    by blast
qed

lemma idle_bypass_inputs_Pt45:
  "\<exists>t. Pt45 idle_bypass_inputs = Fin t \<and> 677032.0939908 \<le> t \<and> t \<le> 677032.0941815"
proof -
  from idle_bypass_inputs_Tt45 obtain v1 where v1_eq: "Tt45 idle_bypass_inputs = Fin v1"
    and v1_iv: "(1129.551921904::real) \<le> v1 \<and> v1 \<le> (1129.5519219099::real)"
    by blast
  from idle_bypass_inputs_Tt3 obtain v2 where v2_eq: "Tt3 idle_bypass_inputs = Fin v2"
    and v2_iv: "(900.6529771::real) \<le> v2 \<and> v2 \<le> (900.6529771049::real)"
    by blast
  from idle_bypass_inputs_temp_ratio_HPT obtain v3 where v3_eq: "temp_ratio_HPT idle_bypass_inputs = Fin v3"
    and v3_iv: "(0.684576922366::real) \<le> v3 \<and> v3 \<le> (0.6845769223697::real)"
    by blast
  from idle_bypass_inputs_pressure_term_HPT obtain v4 where v4_eq: "pressure_term_HPT idle_bypass_inputs = Fin v4"
    and v4_iv: "(0.3428511713372::real) \<le> v4 \<and> v4 \<le> (0.3428511713414::real)"
    by blast
  from idle_bypass_inputs_Pt4 obtain v5 where v5_eq: "Pt4 idle_bypass_inputs = Fin v5"
    and v5_iv: "(3676881.59999904::real) \<le> v5 \<and> v5 \<le> (3676881.60000096::real)"
    by blast
  from idle_bypass_inputs_pi_HPT obtain v6 where v6_eq: "pi_HPT idle_bypass_inputs = Fin v6"
    and v6_iv: "(5.430882275155::real) \<le> v6 \<and> v6 \<le> (5.430882276681::real)"
    by blast
  have c1: "(1::real) \<le> 1 \<and> 1 \<le> (1::real)"
    by simp
  have s2: "(v2::real) \<le> v1"
    by (rule iv_le[OF v2_iv v1_iv]) simp
  have s3: "(0::real) < v3"
    by (rule iv_pos[OF v3_iv]) simp
  have s4: "(v3::real) < 1"
    by (rule iv_less[OF v3_iv c1]) simp
  have s5: "(v4::real) < 1"
    by (rule iv_less[OF v4_iv c1]) simp
  have s6: "(v6::real) \<noteq> 0"
    by (rule iv_nonzero[OF v6_iv]) simp
  have n7: "(677032.0939908::real) \<le> v5 / v6 \<and> v5 / v6 \<le> (677032.0941815::real)"
    by (rule iv_div[OF v5_iv v6_iv]) simp_all
  have eq: "Pt45 idle_bypass_inputs = Fin (v5 / v6)"
    by (rule hpt_block_Fin(1)[OF v1_eq v2_eq v3_eq v4_eq v5_eq v6_eq s2 s3 s4 s5 s6])
  from eq n7 show ?thesis
    by blast
qed

lemma idle_bypass_inputs_isValid_HPT:
  "isValid_HPT idle_bypass_inputs"
proof -
  from idle_bypass_inputs_Tt45 obtain v1 where v1_eq: "Tt45 idle_bypass_inputs = Fin v1"
    and v1_iv: "(1129.551921904::real) \<le> v1 \<and> v1 \<le> (1129.5519219099::real)"
    by blast
  from idle_bypass_inputs_Tt3 obtain v2 where v2_eq: "Tt3 idle_bypass_inputs = Fin v2"
    and v2_iv: "(900.6529771::real) \<le> v2 \<and> v2 \<le> (900.6529771049::real)"
    by blast
  from idle_bypass_inputs_temp_ratio_HPT obtain v3 where v3_eq: "temp_ratio_HPT idle_bypass_inputs = Fin v3"
    and v3_iv: "(0.684576922366::real) \<le> v3 \<and> v3 \<le> (0.6845769223697::real)"
    by blast
  from idle_bypass_inputs_pressure_term_HPT obtain v4 where v4_eq: "pressure_term_HPT idle_bypass_inputs = Fin v4"
    and v4_iv: "(0.3428511713372::real) \<le> v4 \<and> v4 \<le> (0.3428511713414::real)"
    by blast
  from idle_bypass_inputs_Pt4 obtain v5 where v5_eq: "Pt4 idle_bypass_inputs = Fin v5"
    and v5_iv: "(3676881.59999904::real) \<le> v5 \<and> v5 \<le> (3676881.60000096::real)"
    by blast
  from idle_bypass_inputs_pi_HPT obtain v6 where v6_eq: "pi_HPT idle_bypass_inputs = Fin v6"
    and v6_iv: "(5.430882275155::real) \<le> v6 \<and> v6 \<le> (5.430882276681::real)"
    by blast
  have c1: "(1::real) \<le> 1 \<and> 1 \<le> (1::real)"
    by simp
  have s2: "(v2::real) \<le> v1"
    by (rule iv_le[OF v2_iv v1_iv]) simp
  have s3: "(0::real) < v3"
    by (rule iv_pos[OF v3_iv]) simp
  have s4: "(v3::real) < 1"
    by (rule iv_less[OF v3_iv c1]) simp
  have s5: "(v4::real) < 1"
    by (rule iv_less[OF v4_iv c1]) simp
  have s6: "(v6::real) \<noteq> 0"
    by (rule iv_nonzero[OF v6_iv]) simp
  show ?thesis
    by (rule hpt_block_Fin(2)[OF v1_eq v2_eq v3_eq v4_eq v5_eq v6_eq s2 s3 s4 s5 s6])
qed

lemma idle_bypass_inputs_work_req_Fan:
  "\<exists>t. work_req_Fan idle_bypass_inputs = Fin t \<and> 86894.994948705 \<le> t \<and> t \<le> 86894.99495976"
proof -
  have c1: "(9::real) \<le> 9 \<and> 9 \<le> (9::real)"
    by simp
  from idle_bypass_inputs_Tt13 obtain v1 where v1_eq: "Tt13 idle_bypass_inputs = Fin v1"
    and v1_iv: "(296.7962681541::real) \<le> v1 \<and> v1 \<le> (296.7962681552::real)"
    by blast
  from idle_bypass_inputs_Tt2 obtain v2 where v2_eq: "Tt2 idle_bypass_inputs = Fin v2"
    and v2_iv: "(288.15::real) \<le> v2 \<and> v2 \<le> (288.15::real)"
    by blast
  have c2: "(1::real) \<le> 1 \<and> 1 \<le> (1::real)"
    by simp
  have n3: "(10::real) \<le> 1 + 9 \<and> 1 + 9 \<le> (10::real)"
    by (rule iv_add[OF c2 c1]) simp_all
  have c4: "(1005::real) \<le> 1005 \<and> 1005 \<le> (1005::real)"
    by simp
  have n5: "(10050::real) \<le> (1 + 9) * 1005 \<and> (1 + 9) * 1005 \<le> (10050::real)"
    by (rule iv_mul[OF n3 c4]) simp_all
  have n6: "(8.6462681541::real) \<le> v1 - v2 \<and> v1 - v2 \<le> (8.6462681552::real)"
    by (rule iv_sub[OF v1_iv v2_iv]) simp_all
  have n7: "(86894.994948705::real) \<le> ((1 + 9) * 1005) * (v1 - v2) \<and> ((1 + 9) * 1005) * (v1 - v2) \<le> (86894.99495976::real)"
    by (rule iv_mul[OF n5 n6]) simp_all
  have eq: "work_req_Fan idle_bypass_inputs = Fin (((1 + 9) * 1005) * (v1 - v2))"
    by (rule work_req_Fan_Fin[OF idle_bypass_inputs_fields(4) v1_eq v2_eq])
  from eq n7 show ?thesis
    by blast
qed

lemma idle_bypass_inputs_work_extraction_LPT:
  "\<exists>t. work_extraction_LPT idle_bypass_inputs = Fin t \<and> 87772.7221704 \<le> t \<and> t \<le> 87772.72218158"
proof -
  from idle_bypass_inputs_work_req_Fan obtain v1 where v1_eq: "work_req_Fan idle_bypass_inputs = Fin v1"
    and v1_iv: "(86894.994948705::real) \<le> v1 \<and> v1 \<le> (86894.99495976::real)"
    by blast
  have c1: "(0.99::real) \<le> 0.99 \<and> 0.99 \<le> (0.99::real)"
    by simp
  have s2: "(0.99::real) \<noteq> 0"
    by (rule iv_nonzero[OF c1]) simp
  have n3: "(87772.7221704::real) \<le> v1 / 0.99 \<and> v1 / 0.99 \<le> (87772.72218158::real)"
    by (rule iv_div[OF v1_iv c1]) simp_all
  have eq: "work_extraction_LPT idle_bypass_inputs = Fin (v1 / 0.99)"
    by (rule work_extraction_LPT_Fin[OF v1_eq idle_bypass_inputs_fields(18) s2])
  from eq n3 show ?thesis
    by blast
qed

lemma idle_bypass_inputs_deltaT_LPT:
  "\<exists>t. deltaT_LPT idle_bypass_inputs = Fin t \<and> 74.519891504 \<le> t \<and> t \<le> 74.51989151358"
proof -
  from idle_bypass_inputs_work_extraction_LPT obtain v1 where v1_eq: "work_extraction_LPT idle_bypass_inputs = Fin v1"
    and v1_iv: "(87772.7221704::real) \<le> v1 \<and> v1 \<le> (87772.72218158::real)"
    by blast
  from idle_bypass_inputs_f obtain v2 where v2_eq: "f idle_bypass_inputs = Fin v2"
    and v2_iv: "(0.02421118300948::real) \<le> v2 \<and> v2 \<le> (0.02421118300961::real)"
    by blast
  have c1: "(1::real) \<le> 1 \<and> 1 \<le> (1::real)"
    by simp
  have n2: "(1.02421118300948::real) \<le> 1 + v2 \<and> 1 + v2 \<le> (1.02421118300961::real)"
    by (rule iv_add[OF c1 v2_iv]) simp_all
  have c3: "(1150::real) \<le> 1150 \<and> 1150 \<le> (1150::real)"
    by simp
  have n4: "(1177.842860460902::real) \<le> (1 + v2) * 1150 \<and> (1 + v2) * 1150 \<le> (1177.842860462::real)"
    by (rule iv_mul[OF n2 c3]) simp_all
  have s5: "((1 + v2) * 1150::real) \<noteq> 0"
    by (rule iv_nonzero[OF n4]) simp
  have n6: "(74.519891504::real) \<le> v1 / ((1 + v2) * 1150) \<and> v1 / ((1 + v2) * 1150) \<le> (74.51989151358::real)"
    by (rule iv_div[OF v1_iv n4]) simp_all
  have eq: "deltaT_LPT idle_bypass_inputs = Fin (v1 / ((1 + v2) * 1150))"
    by (rule deltaT_LPT_Fin[OF v1_eq v2_eq s5])
  from eq n6 show ?thesis
    by blast
qed

lemma idle_bypass_inputs_Tt5:
  "\<exists>t. Tt5 idle_bypass_inputs = Fin t \<and> 1055.03203039042 \<le> t \<and> t \<le> 1055.0320304059"
proof -
  from idle_bypass_inputs_Tt45 obtain v1 where v1_eq: "Tt45 idle_bypass_inputs = Fin v1"
    and v1_iv: "(1129.551921904::real) \<le> v1 \<and> v1 \<le> (1129.5519219099::real)"
    by blast
  from idle_bypass_inputs_deltaT_LPT obtain v2 where v2_eq: "deltaT_LPT idle_bypass_inputs = Fin v2"
    and v2_iv: "(74.519891504::real) \<le> v2 \<and> v2 \<le> (74.51989151358::real)"
    by blast
  have n1: "(1055.03203039042::real) \<le> v1 - v2 \<and> v1 - v2 \<le> (1055.0320304059::real)"
    by (rule iv_sub[OF v1_iv v2_iv]) simp_all
  have eq: "Tt5 idle_bypass_inputs = Fin (v1 - v2)"
    by (rule Tt5_Fin[OF v1_eq v2_eq])
  from eq n1 show ?thesis
    by blast
qed

lemma idle_bypass_inputs_temp_ratio_LPT:
  "\<exists>t. temp_ratio_LPT idle_bypass_inputs = Fin t \<and> 0.9340270331323 \<le> t \<and> t \<le> 0.934027033151"
proof -
  from idle_bypass_inputs_Tt5 obtain v1 where v1_eq: "Tt5 idle_bypass_inputs = Fin v1"
    and v1_iv: "(1055.03203039042::real) \<le> v1 \<and> v1 \<le> (1055.0320304059::real)"
    by blast
  from idle_bypass_inputs_Tt45 obtain v2 where v2_eq: "Tt45 idle_bypass_inputs = Fin v2"
    and v2_iv: "(1129.551921904::real) \<le> v2 \<and> v2 \<le> (1129.5519219099::real)"
    by blast
  have s1: "(v2::real) \<noteq> 0"
    by (rule iv_nonzero[OF v2_iv]) simp
  have n2: "(0.9340270331323::real) \<le> v1 / v2 \<and> v1 / v2 \<le> (0.934027033151::real)"
    by (rule iv_div[OF v1_iv v2_iv]) simp_all
  have eq: "temp_ratio_LPT idle_bypass_inputs = Fin (v1 / v2)"
    by (rule temp_ratio_LPT_Fin[OF v1_eq v2_eq s1])
  from eq n2 show ?thesis
    by blast
qed

lemma idle_bypass_inputs_pressure_term_LPT:
  "\<exists>t. pressure_term_LPT idle_bypass_inputs = Fin t \<and> 0.07093867403118 \<le> t \<and> t \<le> 0.0709386740513"
proof -
  from idle_bypass_inputs_temp_ratio_LPT obtain v1 where v1_eq: "temp_ratio_LPT idle_bypass_inputs = Fin v1"
    and v1_iv: "(0.9340270331323::real) \<le> v1 \<and> v1 \<le> (0.934027033151::real)"
    by blast
  have c1: "(0.93::real) \<le> 0.93 \<and> 0.93 \<le> (0.93::real)"
    by simp
  have s2: "(0.93::real) \<noteq> 0"
    by (rule iv_nonzero[OF c1]) simp
  have c3: "(1::real) \<le> 1 \<and> 1 \<le> (1::real)"
    by simp
  have n4: "(0.065972966849::real) \<le> 1 - v1 \<and> 1 - v1 \<le> (0.0659729668677::real)"
    by (rule iv_sub[OF c3 v1_iv]) simp_all
  have n5: "(0.07093867403118::real) \<le> (1 - v1) / 0.93 \<and> (1 - v1) / 0.93 \<le> (0.0709386740513::real)"
    by (rule iv_div[OF n4 c1]) simp_all
  have eq: "pressure_term_LPT idle_bypass_inputs = Fin ((1 - v1) / 0.93)"
    by (rule pressure_term_LPT_Fin[OF v1_eq idle_bypass_inputs_fields(12) s2])
  from eq n5 show ?thesis
    by blast
qed

lemma idle_bypass_inputs_pi_LPT:
  "\<exists>t. pi_LPT idle_bypass_inputs = Fin t \<and> 1.345212281455 \<le> t \<and> t \<le> 1.345212281979"
proof -
  from idle_bypass_inputs_pressure_term_LPT obtain v1 where v1_eq: "pressure_term_LPT idle_bypass_inputs = Fin v1"
    and v1_iv: "(0.07093867403118::real) \<le> v1 \<and> v1 \<le> (0.0709386740513::real)"
    by blast
  have c1: "(1::real) \<le> 1 \<and> 1 \<le> (1::real)"
    by simp
  have s2: "(v1::real) < 1"
    by (rule iv_less[OF v1_iv c1]) simp
  have n3: "(0.9290613259487::real) \<le> 1 - v1 \<and> 1 - v1 \<le> (0.92906132596882::real)"
    by (rule iv_sub[OF c1 v1_iv]) simp_all
  have n4: "(1.076355211489::real) \<le> 1 / (1 - v1) \<and> 1 / (1 - v1) \<le> (1.076355211513::real)"
    by (rule iv_div[OF c1 n3]) simp_all
  have s5: "(0::real) < (1 / (1 - v1))"
    by (rule iv_pos[OF n4]) simp
  have n6: "(1.02483010041::real) \<le> (1 / (1 - v1)) powr (1 / 3) \<and> (1 / (1 - v1)) powr (1 / 3) \<le> (1.024830100419::real)"
    by (rule iv_root[where n=3, OF n4]) (simp_all add: power_divide)
  have n7: "(1.002232200672::real) \<le> ((1 / (1 - v1)) powr (1 / 3)) powr (1 / 11) \<and> ((1 / (1 - v1)) powr (1 / 3)) powr (1 / 11) \<le> (1.002232200674::real)"
    by (rule iv_root[where n=11, OF n6]) (simp_all add: power_divide)
  have n8: "(1.002232200672::real) \<le> (((1 / (1 - v1)) powr (1 / 3)) powr (1 / 11)) ^ 1 \<and> (((1 / (1 - v1)) powr (1 / 3)) powr (1 / 11)) ^ 1 \<le> (1.002232200674::real)"
    by (rule iv_pow_one[OF n7])
  have n9: "(1.004469384063::real) \<le> (((1 / (1 - v1)) powr (1 / 3)) powr (1 / 11)) ^ 2 \<and> (((1 / (1 - v1)) powr (1 / 3)) powr (1 / 11)) ^ 2 \<le> (1.004469384068::real)"
    by (rule iv_pow_sq[OF n8]) (simp_all add: power_divide)
  have n10: "(1.008958743519::real) \<le> (((1 / (1 - v1)) powr (1 / 3)) powr (1 / 11)) ^ 4 \<and> (((1 / (1 - v1)) powr (1 / 3)) powr (1 / 11)) ^ 4 \<le> (1.00895874353::real)"
    by (rule iv_pow_sq[OF n9]) (simp_all add: power_divide)
  have n11: "(1.017997746123::real) \<le> (((1 / (1 - v1)) powr (1 / 3)) powr (1 / 11)) ^ 8 \<and> (((1 / (1 - v1)) powr (1 / 3)) powr (1 / 11)) ^ 8 \<le> (1.017997746146::real)"
    by (rule iv_pow_sq[OF n10]) (simp_all add: power_divide)
  have n12: "(1.036319411111::real) \<le> (((1 / (1 - v1)) powr (1 / 3)) powr (1 / 11)) ^ 16 \<and> (((1 / (1 - v1)) powr (1 / 3)) powr (1 / 11)) ^ 16 \<le> (1.036319411159::real)"
    by (rule iv_pow_sq[OF n11]) (simp_all add: power_divide)
  have n13: "(1.073957921845::real) \<le> (((1 / (1 - v1)) powr (1 / 3)) powr (1 / 11)) ^ 32 \<and> (((1 / (1 - v1)) powr (1 / 3)) powr (1 / 11)) ^ 32 \<le> (1.073957921945::real)"
    by (rule iv_pow_sq[OF n12]) (simp_all add: power_divide)
  have n14: "(1.153385617893::real) \<le> (((1 / (1 - v1)) powr (1 / 3)) powr (1 / 11)) ^ 64 \<and> (((1 / (1 - v1)) powr (1 / 3)) powr (1 / 11)) ^ 64 \<le> (1.153385618109::real)"
    by (rule iv_pow_sq[OF n13]) (simp_all add: power_divide)
  have n15: "(1.330298383562::real) \<le> (((1 / (1 - v1)) powr (1 / 3)) powr (1 / 11)) ^ 128 \<and> (((1 / (1 - v1)) powr (1 / 3)) powr (1 / 11)) ^ 128 \<le> (1.330298384061::real)"
    by (rule iv_pow_sq[OF n14]) (simp_all add: power_divide)
  have n16: "(1.342216185584::real) \<le> (((1 / (1 - v1)) powr (1 / 3)) powr (1 / 11)) ^ 132 \<and> (((1 / (1 - v1)) powr (1 / 3)) powr (1 / 11)) ^ 132 \<le> (1.342216186103::real)"
    by (rule iv_pow_mul[OF n15 n10]) simp_all
  have n17: "(1.345212281455::real) \<le> (((1 / (1 - v1)) powr (1 / 3)) powr (1 / 11)) ^ 133 \<and> (((1 / (1 - v1)) powr (1 / 3)) powr (1 / 11)) ^ 133 \<le> (1.345212281979::real)"
    by (rule iv_pow_mul[OF n16 n8]) simp_all
  have n18: "(1.345212281455::real) \<le> (1 / (1 - v1)) powr (133 / 33) \<and> (1 / (1 - v1)) powr (133 / 33) \<le> (1.345212281979::real)"
    by (rule powr_via_roots[OF n17 s5]) simp_all
  have eq: "pi_LPT idle_bypass_inputs = Fin ((1 / (1 - v1)) powr (133 / 33))"
    by (rule pi_LPT_Fin[OF v1_eq s2])
  from eq n18 show ?thesis
    by blast
qed

lemma idle_bypass_inputs_Pt5:
  "\<exists>t. Pt5 idle_bypass_inputs = Fin t \<and> 503290.1520901 \<le> t \<and> t \<le> 503290.152428"
proof -
  from idle_bypass_inputs_Tt5 obtain v1 where v1_eq: "Tt5 idle_bypass_inputs = Fin v1"
    and v1_iv: "(1055.03203039042::real) \<le> v1 \<and> v1 \<le> (1055.0320304059::real)"
    by blast
  from idle_bypass_inputs_T0 obtain v2 where v2_eq: "T0 idle_bypass_inputs = Fin v2"
    and v2_iv: "(288.15::real) \<le> v2 \<and> v2 \<le> (288.15::real)"
    by blast
  from idle_bypass_inputs_temp_ratio_LPT obtain v3 where v3_eq: "temp_ratio_LPT idle_bypass_inputs = Fin v3"
    and v3_iv: "(0.9340270331323::real) \<le> v3 \<and> v3 \<le> (0.934027033151::real)"
    by blast
  from idle_bypass_inputs_pressure_term_LPT obtain v4 where v4_eq: "pressure_term_LPT idle_bypass_inputs = Fin v4"
    and v4_iv: "(0.07093867403118::real) \<le> v4 \<and> v4 \<le> (0.0709386740513::real)"
    by blast
  from idle_bypass_inputs_Pt45 obtain v5 where v5_eq: "Pt45 idle_bypass_inputs = Fin v5"
    and v5_iv: "(677032.0939908::real) \<le> v5 \<and> v5 \<le> (677032.0941815::real)"
    by blast
  from idle_bypass_inputs_pi_LPT obtain v6 where v6_eq: "pi_LPT idle_bypass_inputs = Fin v6"
    and v6_iv: "(1.345212281455::real) \<le> v6 \<and> v6 \<le> (1.345212281979::real)"
    by blast
  have c1: "(1::real) \<le> 1 \<and> 1 \<le> (1::real)"
    by simp
  have s2: "(v2::real) \<le> v1"
    by (rule iv_le[OF v2_iv v1_iv]) simp
  have s3: "(0::real) < v3"
    by (rule iv_pos[OF v3_iv]) simp
  have s4: "(v3::real) < 1"
    by (rule iv_less[OF v3_iv c1]) simp
  have s5: "(v4::real) < 1"
    by (rule iv_less[OF v4_iv c1]) simp
  have s6: "(v6::real) \<noteq> 0"
    by (rule iv_nonzero[OF v6_iv]) simp
  have n7: "(503290.1520901::real) \<le> v5 / v6 \<and> v5 / v6 \<le> (503290.152428::real)"
    by (rule iv_div[OF v5_iv v6_iv]) simp_all
  have eq: "Pt5 idle_bypass_inputs = Fin (v5 / v6)"
    by (rule lpt_block_Fin(1)[OF idle_bypass_inputs_isValid_HPT v1_eq v2_eq v3_eq v4_eq v5_eq v6_eq s2 s3 s4 s5 s6])
  from eq n7 show ?thesis
    by blast
qed

lemma idle_bypass_inputs_isValid_LPT:
  "isValid_LPT idle_bypass_inputs"
proof -
  from idle_bypass_inputs_Tt5 obtain v1 where v1_eq: "Tt5 idle_bypass_inputs = Fin v1"
    and v1_iv: "(1055.03203039042::real) \<le> v1 \<and> v1 \<le> (1055.0320304059::real)"
    by blast
  from idle_bypass_inputs_T0 obtain v2 where v2_eq: "T0 idle_bypass_inputs = Fin v2"
    and v2_iv: "(288.15::real) \<le> v2 \<and> v2 \<le> (288.15::real)"
    by blast
  from idle_bypass_inputs_temp_ratio_LPT obtain v3 where v3_eq: "temp_ratio_LPT idle_bypass_inputs = Fin v3"
    and v3_iv: "(0.9340270331323::real) \<le> v3 \<and> v3 \<le> (0.934027033151::real)"
    by blast
  from idle_bypass_inputs_pressure_term_LPT obtain v4 where v4_eq: "pressure_term_LPT idle_bypass_inputs = Fin v4"
    and v4_iv: "(0.07093867403118::real) \<le> v4 \<and> v4 \<le> (0.0709386740513::real)"
    by blast
  from idle_bypass_inputs_Pt45 obtain v5 where v5_eq: "Pt45 idle_bypass_inputs = Fin v5"
    and v5_iv: "(677032.0939908::real) \<le> v5 \<and> v5 \<le> (677032.0941815::real)"
    by blast
  from idle_bypass_inputs_pi_LPT obtain v6 where v6_eq: "pi_LPT idle_bypass_inputs = Fin v6"
    and v6_iv: "(1.345212281455::real) \<le> v6 \<and> v6 \<le> (1.345212281979::real)"
    by blast
  have c1: "(1::real) \<le> 1 \<and> 1 \<le> (1::real)"
    by simp
  have s2: "(v2::real) \<le> v1"
    by (rule iv_le[OF v2_iv v1_iv]) simp
  have s3: "(0::real) < v3"
    by (rule iv_pos[OF v3_iv]) simp
  have s4: "(v3::real) < 1"
    by (rule iv_less[OF v3_iv c1]) simp
  have s5: "(v4::real) < 1"
    by (rule iv_less[OF v4_iv c1]) simp
  have s6: "(v6::real) \<noteq> 0"
    by (rule iv_nonzero[OF v6_iv]) simp
  show ?thesis
    by (rule lpt_block_Fin(2)[OF idle_bypass_inputs_isValid_HPT v1_eq v2_eq v3_eq v4_eq v5_eq v6_eq s2 s3 s4 s5 s6])
qed

lemma idle_bypass_inputs_Pt9:
  "\<exists>t. Pt9 idle_bypass_inputs = Fin t \<and> 498257.250569199 \<le> t \<and> t \<le> 498257.25090372"
proof -
  from idle_bypass_inputs_Pt5 obtain v1 where v1_eq: "Pt5 idle_bypass_inputs = Fin v1"
    and v1_iv: "(503290.1520901::real) \<le> v1 \<and> v1 \<le> (503290.152428::real)"
    by blast
  have c1: "(0.99::real) \<le> 0.99 \<and> 0.99 \<le> (0.99::real)"
    by simp
  have n2: "(498257.250569199::real) \<le> v1 * 0.99 \<and> v1 * 0.99 \<le> (498257.25090372::real)"
    by (rule iv_mul[OF v1_iv c1]) simp_all
  have eq: "Pt9 idle_bypass_inputs = Fin (v1 * 0.99)"
    by (rule Pt9_Fin[OF v1_eq idle_bypass_inputs_fields(16)])
  from eq n2 show ?thesis
    by blast
qed

lemma idle_bypass_inputs_P9:
  "\<exists>t. P9 idle_bypass_inputs = Fin t \<and> 269240.2896869 \<le> t \<and> t \<le> 269240.289936"
proof -
  from idle_bypass_inputs_Pt9 obtain v1 where v1_eq: "Pt9 idle_bypass_inputs = Fin v1"
    and v1_iv: "(498257.250569199::real) \<le> v1 \<and> v1 \<le> (498257.25090372::real)"
    by blast
  from idle_bypass_inputs_P0 obtain v2 where v2_eq: "P0 idle_bypass_inputs = Fin v2"
    and v2_iv: "(101325::real) \<le> v2 \<and> v2 \<le> (101325::real)"
    by blast
  from idle_bypass_inputs_Tt5 obtain v3 where v3_eq: "Tt5 idle_bypass_inputs = Fin v3"
    and v3_iv: "(1055.03203039042::real) \<le> v3 \<and> v3 \<le> (1055.0320304059::real)"
    by blast
  have c1: "(1.33::real) \<le> 1.33 \<and> 1.33 \<le> (1.33::real)"
    by simp
  have c2: "(1::real) \<le> 1 \<and> 1 \<le> (1::real)"
    by simp
  have n3: "(2.33::real) \<le> 1.33 + 1 \<and> 1.33 + 1 \<le> (2.33::real)"
    by (rule iv_add[OF c1 c2]) simp_all
  have c4: "(2::real) \<le> 2 \<and> 2 \<le> (2::real)"
    by simp
  have n5: "(1.165::real) \<le> (1.33 + 1) / 2 \<and> (1.33 + 1) / 2 \<le> (1.165::real)"
    by (rule iv_div[OF n3 c4]) simp_all
  have s6: "(0::real) < ((1.33 + 1) / 2)"
    by (rule iv_pos[OF n5]) simp
  have n7: "(1.052225062325::real) \<le> ((1.33 + 1) / 2) powr (1 / 3) \<and> ((1.33 + 1) / 2) powr (1 / 3) \<le> (1.052225062326::real)"
    by (rule iv_root[where n=3, OF n5]) (simp_all add: power_divide)
  have n8: "(1.00463863705::real) \<le> (((1.33 + 1) / 2) powr (1 / 3)) powr (1 / 11) \<and> (((1.33 + 1) / 2) powr (1 / 3)) powr (1 / 11) \<le> (1.004638637051::real)"
    by (rule iv_root[where n=11, OF n7]) (simp_all add: power_divide)
  have n9: "(1.00463863705::real) \<le> ((((1.33 + 1) / 2) powr (1 / 3)) powr (1 / 11)) ^ 1 \<and> ((((1.33 + 1) / 2) powr (1 / 3)) powr (1 / 11)) ^ 1 \<le> (1.004638637051::real)"
    by (rule iv_pow_one[OF n8])
  have n10: "(1.009298791053::real) \<le> ((((1.33 + 1) / 2) powr (1 / 3)) powr (1 / 11)) ^ 2 \<and> ((((1.33 + 1) / 2) powr (1 / 3)) powr (1 / 11)) ^ 2 \<le> (1.009298791056::real)"
    by (rule iv_pow_sq[OF n9]) (simp_all add: power_divide)
  have n11: "(1.018684049621::real) \<le> ((((1.33 + 1) / 2) powr (1 / 3)) powr (1 / 11)) ^ 4 \<and> ((((1.33 + 1) / 2) powr (1 / 3)) powr (1 / 11)) ^ 4 \<le> (1.018684049628::real)"
    by (rule iv_pow_sq[OF n10]) (simp_all add: power_divide)
  have n12: "(1.037717192952::real) \<le> ((((1.33 + 1) / 2) powr (1 / 3)) powr (1 / 11)) ^ 8 \<and> ((((1.33 + 1) / 2) powr (1 / 3)) powr (1 / 11)) ^ 8 \<le> (1.037717192967::real)"
    by (rule iv_pow_sq[OF n11]) (simp_all add: power_divide)
  have n13: "(1.076856972548::real) \<le> ((((1.33 + 1) / 2) powr (1 / 3)) powr (1 / 11)) ^ 16 \<and> ((((1.33 + 1) / 2) powr (1 / 3)) powr (1 / 11)) ^ 16 \<le> (1.07685697258::real)"
    by (rule iv_pow_sq[OF n12]) (simp_all add: power_divide)
  have n14: "(1.159620939325::real) \<le> ((((1.33 + 1) / 2) powr (1 / 3)) powr (1 / 11)) ^ 32 \<and> ((((1.33 + 1) / 2) powr (1 / 3)) powr (1 / 11)) ^ 32 \<le> (1.159620939395::real)"
    by (rule iv_pow_sq[OF n13]) (simp_all add: power_divide)
  have n15: "(1.34472072292::real) \<le> ((((1.33 + 1) / 2) powr (1 / 3)) powr (1 / 11)) ^ 64 \<and> ((((1.33 + 1) / 2) powr (1 / 3)) powr (1 / 11)) ^ 64 \<le> (1.344720723084::real)"
    by (rule iv_pow_sq[OF n14]) (simp_all add: power_divide)
  have n16: "(1.80827382265::real) \<le> ((((1.33 + 1) / 2) powr (1 / 3)) powr (1 / 11)) ^ 128 \<and> ((((1.33 + 1) / 2) powr (1 / 3)) powr (1 / 11)) ^ 128 \<le> (1.808273823092::real)"
    by (rule iv_pow_sq[OF n15]) (simp_all add: power_divide)
  have n17: "(1.84205970048::real) \<le> ((((1.33 + 1) / 2) powr (1 / 3)) powr (1 / 11)) ^ 132 \<and> ((((1.33 + 1) / 2) powr (1 / 3)) powr (1 / 11)) ^ 132 \<le> (1.842059700944::real)"
    by (rule iv_pow_mul[OF n16 n11]) simp_all
  have n18: "(1.850604346854::real) \<le> ((((1.33 + 1) / 2) powr (1 / 3)) powr (1 / 11)) ^ 133 \<and> ((((1.33 + 1) / 2) powr (1 / 3)) powr (1 / 11)) ^ 133 \<le> (1.850604347323::real)"
    by (rule iv_pow_mul[OF n17 n9]) simp_all
  have n19: "(1.850604346854::real) \<le> ((1.33 + 1) / 2) powr (133 / 33) \<and> ((1.33 + 1) / 2) powr (133 / 33) \<le> (1.850604347323::real)"
    by (rule powr_via_roots[OF n18 s6]) simp_all
  have n20: "(4.917416733966::real) \<le> v1 / v2 \<and> v1 / v2 \<le> (4.917416737269::real)"
    by (rule iv_div[OF v1_iv v2_iv]) simp_all
  have s21: "(v2::real) \<noteq> 0"
    by (rule iv_nonzero[OF v2_iv]) simp
  have s22: "(((1.33 + 1) / 2) powr (133 / 33)::real) < (v1 / v2)"
    by (rule iv_less[OF n19 n20]) simp
  have s23: "(0::real) \<le> v3"
    by (rule iv_nonneg[OF v3_iv]) simp
  have n24: "(269240.2896869::real) \<le> v1 / (((1.33 + 1) / 2) powr (133 / 33)) \<and> v1 / (((1.33 + 1) / 2) powr (133 / 33)) \<le> (269240.289936::real)"
    by (rule iv_div[OF v1_iv n19]) simp_all
  have eq: "P9 idle_bypass_inputs = Fin (v1 / (((1.33 + 1) / 2) powr (133 / 33)))"
    by (rule core_nozzle_choked_Fin(1)[OF idle_bypass_inputs_isValid_LPT v1_eq v2_eq v3_eq s21 s22 s23])
  from eq n24 show ?thesis
    by blast
qed

lemma idle_bypass_inputs_T9:
  "\<exists>t. T9 idle_bypass_inputs = Fin t \<and> 905.6068930389 \<le> t \<and> t \<le> 905.6068930524"
proof -
  from idle_bypass_inputs_Pt9 obtain v1 where v1_eq: "Pt9 idle_bypass_inputs = Fin v1"
    and v1_iv: "(498257.250569199::real) \<le> v1 \<and> v1 \<le> (498257.25090372::real)"
    by blast
  from idle_bypass_inputs_P0 obtain v2 where v2_eq: "P0 idle_bypass_inputs = Fin v2"
    and v2_iv: "(101325::real) \<le> v2 \<and> v2 \<le> (101325::real)"
    by blast
  from idle_bypass_inputs_Tt5 obtain v3 where v3_eq: "Tt5 idle_bypass_inputs = Fin v3"
    and v3_iv: "(1055.03203039042::real) \<le> v3 \<and> v3 \<le> (1055.0320304059::real)"
    by blast
  have c1: "(1.33::real) \<le> 1.33 \<and> 1.33 \<le> (1.33::real)"
    by simp
  have c2: "(1::real) \<le> 1 \<and> 1 \<le> (1::real)"
    by simp
  have n3: "(2.33::real) \<le> 1.33 + 1 \<and> 1.33 + 1 \<le> (2.33::real)"
    by (rule iv_add[OF c1 c2]) simp_all
  have c4: "(2::real) \<le> 2 \<and> 2 \<le> (2::real)"
    by simp
  have n5: "(1.165::real) \<le> (1.33 + 1) / 2 \<and> (1.33 + 1) / 2 \<le> (1.165::real)"
    by (rule iv_div[OF n3 c4]) simp_all
  have s6: "(0::real) < ((1.33 + 1) / 2)"
    by (rule iv_pos[OF n5]) simp
  have n7: "(1.052225062325::real) \<le> ((1.33 + 1) / 2) powr (1 / 3) \<and> ((1.33 + 1) / 2) powr (1 / 3) \<le> (1.052225062326::real)"
    by (rule iv_root[where n=3, OF n5]) (simp_all add: power_divide)
  have n8: "(1.00463863705::real) \<le> (((1.33 + 1) / 2) powr (1 / 3)) powr (1 / 11) \<and> (((1.33 + 1) / 2) powr (1 / 3)) powr (1 / 11) \<le> (1.004638637051::real)"
    by (rule iv_root[where n=11, OF n7]) (simp_all add: power_divide)
  have n9: "(1.00463863705::real) \<le> ((((1.33 + 1) / 2) powr (1 / 3)) powr (1 / 11)) ^ 1 \<and> ((((1.33 + 1) / 2) powr (1 / 3)) powr (1 / 11)) ^ 1 \<le> (1.004638637051::real)"
    by (rule iv_pow_one[OF n8])
  have n10: "(1.009298791053::real) \<le> ((((1.33 + 1) / 2) powr (1 / 3)) powr (1 / 11)) ^ 2 \<and> ((((1.33 + 1) / 2) powr (1 / 3)) powr (1 / 11)) ^ 2 \<le> (1.009298791056::real)"
    by (rule iv_pow_sq[OF n9]) (simp_all add: power_divide)
  have n11: "(1.018684049621::real) \<le> ((((1.33 + 1) / 2) powr (1 / 3)) powr (1 / 11)) ^ 4 \<and> ((((1.33 + 1) / 2) powr (1 / 3)) powr (1 / 11)) ^ 4 \<le> (1.018684049628::real)"
    by (rule iv_pow_sq[OF n10]) (simp_all add: power_divide)
  have n12: "(1.037717192952::real) \<le> ((((1.33 + 1) / 2) powr (1 / 3)) powr (1 / 11)) ^ 8 \<and> ((((1.33 + 1) / 2) powr (1 / 3)) powr (1 / 11)) ^ 8 \<le> (1.037717192967::real)"
    by (rule iv_pow_sq[OF n11]) (simp_all add: power_divide)
  have n13: "(1.076856972548::real) \<le> ((((1.33 + 1) / 2) powr (1 / 3)) powr (1 / 11)) ^ 16 \<and> ((((1.33 + 1) / 2) powr (1 / 3)) powr (1 / 11)) ^ 16 \<le> (1.07685697258::real)"
    by (rule iv_pow_sq[OF n12]) (simp_all add: power_divide)
  have n14: "(1.159620939325::real) \<le> ((((1.33 + 1) / 2) powr (1 / 3)) powr (1 / 11)) ^ 32 \<and> ((((1.33 + 1) / 2) powr (1 / 3)) powr (1 / 11)) ^ 32 \<le> (1.159620939395::real)"
    by (rule iv_pow_sq[OF n13]) (simp_all add: power_divide)
  have n15: "(1.34472072292::real) \<le> ((((1.33 + 1) / 2) powr (1 / 3)) powr (1 / 11)) ^ 64 \<and> ((((1.33 + 1) / 2) powr (1 / 3)) powr (1 / 11)) ^ 64 \<le> (1.344720723084::real)"
    by (rule iv_pow_sq[OF n14]) (simp_all add: power_divide)
  have n16: "(1.80827382265::real) \<le> ((((1.33 + 1) / 2) powr (1 / 3)) powr (1 / 11)) ^ 128 \<and> ((((1.33 + 1) / 2) powr (1 / 3)) powr (1 / 11)) ^ 128 \<le> (1.808273823092::real)"
    by (rule iv_pow_sq[OF n15]) (simp_all add: power_divide)
  have n17: "(1.84205970048::real) \<le> ((((1.33 + 1) / 2) powr (1 / 3)) powr (1 / 11)) ^ 132 \<and> ((((1.33 + 1) / 2) powr (1 / 3)) powr (1 / 11)) ^ 132 \<le> (1.842059700944::real)"
    by (rule iv_pow_mul[OF n16 n11]) simp_all
  have n18: "(1.850604346854::real) \<le> ((((1.33 + 1) / 2) powr (1 / 3)) powr (1 / 11)) ^ 133 \<and> ((((1.33 + 1) / 2) powr (1 / 3)) powr (1 / 11)) ^ 133 \<le> (1.850604347323::real)"
    by (rule iv_pow_mul[OF n17 n9]) simp_all
  have n19: "(1.850604346854::real) \<le> ((1.33 + 1) / 2) powr (133 / 33) \<and> ((1.33 + 1) / 2) powr (133 / 33) \<le> (1.850604347323::real)"
    by (rule powr_via_roots[OF n18 s6]) simp_all
  have n20: "(4.917416733966::real) \<le> v1 / v2 \<and> v1 / v2 \<le> (4.917416737269::real)"
    by (rule iv_div[OF v1_iv v2_iv]) simp_all
  have s21: "(v2::real) \<noteq> 0"
    by (rule iv_nonzero[OF v2_iv]) simp
  have s22: "(((1.33 + 1) / 2) powr (133 / 33)::real) < (v1 / v2)"
    by (rule iv_less[OF n19 n20]) simp
  have s23: "(0::real) \<le> v3"
    by (rule iv_nonneg[OF v3_iv]) simp
  have n24: "(2.33::real) \<le> 1.33 + 1 \<and> 1.33 + 1 \<le> (2.33::real)"
    by (rule iv_add[OF c1 c2]) simp_all
  have n25: "(0.8583690987124::real) \<le> 2 / (1.33 + 1) \<and> 2 / (1.33 + 1) \<le> (0.8583690987125::real)"
    by (rule iv_div[OF c4 n24]) simp_all
  have n26: "(905.6068930389::real) \<le> v3 * (2 / (1.33 + 1)) \<and> v3 * (2 / (1.33 + 1)) \<le> (905.6068930524::real)"
    by (rule iv_mul[OF v3_iv n25]) simp_all
  have eq: "T9 idle_bypass_inputs = Fin (v3 * (2 / (1.33 + 1)))"
    by (rule core_nozzle_choked_Fin(2)[OF idle_bypass_inputs_isValid_LPT v1_eq v2_eq v3_eq s21 s22 s23])
  from eq n26 show ?thesis
    by blast
qed

lemma idle_bypass_inputs_V9:
  "\<exists>t. V9 idle_bypass_inputs = Fin t \<and> 587.9961139329 \<le> t \<and> t \<le> 587.9961139375"
proof -
  from idle_bypass_inputs_Pt9 obtain v1 where v1_eq: "Pt9 idle_bypass_inputs = Fin v1"
    and v1_iv: "(498257.250569199::real) \<le> v1 \<and> v1 \<le> (498257.25090372::real)"
    by blast
  from idle_bypass_inputs_P0 obtain v2 where v2_eq: "P0 idle_bypass_inputs = Fin v2"
    and v2_iv: "(101325::real) \<le> v2 \<and> v2 \<le> (101325::real)"
    by blast
  from idle_bypass_inputs_Tt5 obtain v3 where v3_eq: "Tt5 idle_bypass_inputs = Fin v3"
    and v3_iv: "(1055.03203039042::real) \<le> v3 \<and> v3 \<le> (1055.0320304059::real)"
    by blast
  have c1: "(1.33::real) \<le> 1.33 \<and> 1.33 \<le> (1.33::real)"
    by simp
  have c2: "(1::real) \<le> 1 \<and> 1 \<le> (1::real)"
    by simp
  have n3: "(2.33::real) \<le> 1.33 + 1 \<and> 1.33 + 1 \<le> (2.33::real)"
    by (rule iv_add[OF c1 c2]) simp_all
  have c4: "(2::real) \<le> 2 \<and> 2 \<le> (2::real)"
    by simp
  have n5: "(1.165::real) \<le> (1.33 + 1) / 2 \<and> (1.33 + 1) / 2 \<le> (1.165::real)"
    by (rule iv_div[OF n3 c4]) simp_all
  have s6: "(0::real) < ((1.33 + 1) / 2)"
    by (rule iv_pos[OF n5]) simp
  have n7: "(1.052225062325::real) \<le> ((1.33 + 1) / 2) powr (1 / 3) \<and> ((1.33 + 1) / 2) powr (1 / 3) \<le> (1.052225062326::real)"
    by (rule iv_root[where n=3, OF n5]) (simp_all add: power_divide)
  have n8: "(1.00463863705::real) \<le> (((1.33 + 1) / 2) powr (1 / 3)) powr (1 / 11) \<and> (((1.33 + 1) / 2) powr (1 / 3)) powr (1 / 11) \<le> (1.004638637051::real)"
    by (rule iv_root[where n=11, OF n7]) (simp_all add: power_divide)
  have n9: "(1.00463863705::real) \<le> ((((1.33 + 1) / 2) powr (1 / 3)) powr (1 / 11)) ^ 1 \<and> ((((1.33 + 1) / 2) powr (1 / 3)) powr (1 / 11)) ^ 1 \<le> (1.004638637051::real)"
    by (rule iv_pow_one[OF n8])
  have n10: "(1.009298791053::real) \<le> ((((1.33 + 1) / 2) powr (1 / 3)) powr (1 / 11)) ^ 2 \<and> ((((1.33 + 1) / 2) powr (1 / 3)) powr (1 / 11)) ^ 2 \<le> (1.009298791056::real)"
    by (rule iv_pow_sq[OF n9]) (simp_all add: power_divide)
  have n11: "(1.018684049621::real) \<le> ((((1.33 + 1) / 2) powr (1 / 3)) powr (1 / 11)) ^ 4 \<and> ((((1.33 + 1) / 2) powr (1 / 3)) powr (1 / 11)) ^ 4 \<le> (1.018684049628::real)"
    by (rule iv_pow_sq[OF n10]) (simp_all add: power_divide)
  have n12: "(1.037717192952::real) \<le> ((((1.33 + 1) / 2) powr (1 / 3)) powr (1 / 11)) ^ 8 \<and> ((((1.33 + 1) / 2) powr (1 / 3)) powr (1 / 11)) ^ 8 \<le> (1.037717192967::real)"
    by (rule iv_pow_sq[OF n11]) (simp_all add: power_divide)
  have n13: "(1.076856972548::real) \<le> ((((1.33 + 1) / 2) powr (1 / 3)) powr (1 / 11)) ^ 16 \<and> ((((1.33 + 1) / 2) powr (1 / 3)) powr (1 / 11)) ^ 16 \<le> (1.07685697258::real)"
    by (rule iv_pow_sq[OF n12]) (simp_all add: power_divide)
  have n14: "(1.159620939325::real) \<le> ((((1.33 + 1) / 2) powr (1 / 3)) powr (1 / 11)) ^ 32 \<and> ((((1.33 + 1) / 2) powr (1 / 3)) powr (1 / 11)) ^ 32 \<le> (1.159620939395::real)"
    by (rule iv_pow_sq[OF n13]) (simp_all add: power_divide)
  have n15: "(1.34472072292::real) \<le> ((((1.33 + 1) / 2) powr (1 / 3)) powr (1 / 11)) ^ 64 \<and> ((((1.33 + 1) / 2) powr (1 / 3)) powr (1 / 11)) ^ 64 \<le> (1.344720723084::real)"
    by (rule iv_pow_sq[OF n14]) (simp_all add: power_divide)
  have n16: "(1.80827382265::real) \<le> ((((1.33 + 1) / 2) powr (1 / 3)) powr (1 / 11)) ^ 128 \<and> ((((1.33 + 1) / 2) powr (1 / 3)) powr (1 / 11)) ^ 128 \<le> (1.808273823092::real)"
    by (rule iv_pow_sq[OF n15]) (simp_all add: power_divide)
  have n17: "(1.84205970048::real) \<le> ((((1.33 + 1) / 2) powr (1 / 3)) powr (1 / 11)) ^ 132 \<and> ((((1.33 + 1) / 2) powr (1 / 3)) powr (1 / 11)) ^ 132 \<le> (1.842059700944::real)"
    by (rule iv_pow_mul[OF n16 n11]) simp_all
  have n18: "(1.850604346854::real) \<le> ((((1.33 + 1) / 2) powr (1 / 3)) powr (1 / 11)) ^ 133 \<and> ((((1.33 + 1) / 2) powr (1 / 3)) powr (1 / 11)) ^ 133 \<le> (1.850604347323::real)"
    by (rule iv_pow_mul[OF n17 n9]) simp_all
  have n19: "(1.850604346854::real) \<le> ((1.33 + 1) / 2) powr (133 / 33) \<and> ((1.33 + 1) / 2) powr (133 / 33) \<le> (1.850604347323::real)"
    by (rule powr_via_roots[OF n18 s6]) simp_all
  have n20: "(4.917416733966::real) \<le> v1 / v2 \<and> v1 / v2 \<le> (4.917416737269::real)"
    by (rule iv_div[OF v1_iv v2_iv]) simp_all
  have s21: "(v2::real) \<noteq> 0"
    by (rule iv_nonzero[OF v2_iv]) simp
  have s22: "(((1.33 + 1) / 2) powr (133 / 33)::real) < (v1 / v2)"
    by (rule iv_less[OF n19 n20]) simp
  have s23: "(0::real) \<le> v3"
    by (rule iv_nonneg[OF v3_iv]) simp
  have n24: "(2.33::real) \<le> 1.33 + 1 \<and> 1.33 + 1 \<le> (2.33::real)"
    by (rule iv_add[OF c1 c2]) simp_all
  have n25: "(0.8583690987124::real) \<le> 2 / (1.33 + 1) \<and> 2 / (1.33 + 1) \<le> (0.8583690987125::real)"
    by (rule iv_div[OF c4 n24]) simp_all
  have n26: "(905.6068930389::real) \<le> v3 * (2 / (1.33 + 1)) \<and> v3 * (2 / (1.33 + 1)) \<le> (905.6068930524::real)"
    by (rule iv_mul[OF v3_iv n25]) simp_all
  have c27: "(287.05::real) \<le> 287.05 \<and> 287.05 \<le> (287.05::real)"
    by simp
  have n28: "(381.7765::real) \<le> 1.33 * 287.05 \<and> 1.33 * 287.05 \<le> (381.7765::real)"
    by (rule iv_mul[OF c1 c27]) simp_all
  have n29: "(345739.4300002::real) \<le> (1.33 * 287.05) * (v3 * (2 / (1.33 + 1))) \<and> (1.33 * 287.05) * (v3 * (2 / (1.33 + 1))) \<le> (345739.4300055::real)"
    by (rule iv_mul[OF n28 n26]) simp_all
  have n30: "(587.9961139329::real) \<le> sqrt ((1.33 * 287.05) * (v3 * (2 / (1.33 + 1)))) \<and> sqrt ((1.33 * 287.05) * (v3 * (2 / (1.33 + 1)))) \<le> (587.9961139375::real)"
    by (rule iv_sqrt[OF n29]) (simp_all add: power_divide)
  have eq: "V9 idle_bypass_inputs = Fin (sqrt ((1.33 * 287.05) * (v3 * (2 / (1.33 + 1)))))"
    by (rule core_nozzle_choked_Fin(3)[OF idle_bypass_inputs_isValid_LPT v1_eq v2_eq v3_eq s21 s22 s23])
  from eq n30 show ?thesis
    by blast
qed

lemma idle_bypass_inputs_isValid_core:
  "isValid_core idle_bypass_inputs"
proof -
  from idle_bypass_inputs_Pt9 obtain v1 where v1_eq: "Pt9 idle_bypass_inputs = Fin v1"
    and v1_iv: "(498257.250569199::real) \<le> v1 \<and> v1 \<le> (498257.25090372::real)"
    by blast
  from idle_bypass_inputs_P0 obtain v2 where v2_eq: "P0 idle_bypass_inputs = Fin v2"
    and v2_iv: "(101325::real) \<le> v2 \<and> v2 \<le> (101325::real)"
    by blast
  from idle_bypass_inputs_Tt5 obtain v3 where v3_eq: "Tt5 idle_bypass_inputs = Fin v3"
    and v3_iv: "(1055.03203039042::real) \<le> v3 \<and> v3 \<le> (1055.0320304059::real)"
    by blast
  have c1: "(1.33::real) \<le> 1.33 \<and> 1.33 \<le> (1.33::real)"
    by simp
  have c2: "(1::real) \<le> 1 \<and> 1 \<le> (1::real)"
    by simp
  have n3: "(2.33::real) \<le> 1.33 + 1 \<and> 1.33 + 1 \<le> (2.33::real)"
    by (rule iv_add[OF c1 c2]) simp_all
  have c4: "(2::real) \<le> 2 \<and> 2 \<le> (2::real)"
    by simp
  have n5: "(1.165::real) \<le> (1.33 + 1) / 2 \<and> (1.33 + 1) / 2 \<le> (1.165::real)"
    by (rule iv_div[OF n3 c4]) simp_all
  have s6: "(0::real) < ((1.33 + 1) / 2)"
    by (rule iv_pos[OF n5]) simp
  have n7: "(1.052225062325::real) \<le> ((1.33 + 1) / 2) powr (1 / 3) \<and> ((1.33 + 1) / 2) powr (1 / 3) \<le> (1.052225062326::real)"
    by (rule iv_root[where n=3, OF n5]) (simp_all add: power_divide)
  have n8: "(1.00463863705::real) \<le> (((1.33 + 1) / 2) powr (1 / 3)) powr (1 / 11) \<and> (((1.33 + 1) / 2) powr (1 / 3)) powr (1 / 11) \<le> (1.004638637051::real)"
    by (rule iv_root[where n=11, OF n7]) (simp_all add: power_divide)
  have n9: "(1.00463863705::real) \<le> ((((1.33 + 1) / 2) powr (1 / 3)) powr (1 / 11)) ^ 1 \<and> ((((1.33 + 1) / 2) powr (1 / 3)) powr (1 / 11)) ^ 1 \<le> (1.004638637051::real)"
    by (rule iv_pow_one[OF n8])
  have n10: "(1.009298791053::real) \<le> ((((1.33 + 1) / 2) powr (1 / 3)) powr (1 / 11)) ^ 2 \<and> ((((1.33 + 1) / 2) powr (1 / 3)) powr (1 / 11)) ^ 2 \<le> (1.009298791056::real)"
    by (rule iv_pow_sq[OF n9]) (simp_all add: power_divide)
  have n11: "(1.018684049621::real) \<le> ((((1.33 + 1) / 2) powr (1 / 3)) powr (1 / 11)) ^ 4 \<and> ((((1.33 + 1) / 2) powr (1 / 3)) powr (1 / 11)) ^ 4 \<le> (1.018684049628::real)"
    by (rule iv_pow_sq[OF n10]) (simp_all add: power_divide)
  have n12: "(1.037717192952::real) \<le> ((((1.33 + 1) / 2) powr (1 / 3)) powr (1 / 11)) ^ 8 \<and> ((((1.33 + 1) / 2) powr (1 / 3)) powr (1 / 11)) ^ 8 \<le> (1.037717192967::real)"
    by (rule iv_pow_sq[OF n11]) (simp_all add: power_divide)
  have n13: "(1.076856972548::real) \<le> ((((1.33 + 1) / 2) powr (1 / 3)) powr (1 / 11)) ^ 16 \<and> ((((1.33 + 1) / 2) powr (1 / 3)) powr (1 / 11)) ^ 16 \<le> (1.07685697258::real)"
    by (rule iv_pow_sq[OF n12]) (simp_all add: power_divide)
  have n14: "(1.159620939325::real) \<le> ((((1.33 + 1) / 2) powr (1 / 3)) powr (1 / 11)) ^ 32 \<and> ((((1.33 + 1) / 2) powr (1 / 3)) powr (1 / 11)) ^ 32 \<le> (1.159620939395::real)"
    by (rule iv_pow_sq[OF n13]) (simp_all add: power_divide)
  have n15: "(1.34472072292::real) \<le> ((((1.33 + 1) / 2) powr (1 / 3)) powr (1 / 11)) ^ 64 \<and> ((((1.33 + 1) / 2) powr (1 / 3)) powr (1 / 11)) ^ 64 \<le> (1.344720723084::real)"
    by (rule iv_pow_sq[OF n14]) (simp_all add: power_divide)
  have n16: "(1.80827382265::real) \<le> ((((1.33 + 1) / 2) powr (1 / 3)) powr (1 / 11)) ^ 128 \<and> ((((1.33 + 1) / 2) powr (1 / 3)) powr (1 / 11)) ^ 128 \<le> (1.808273823092::real)"
    by (rule iv_pow_sq[OF n15]) (simp_all add: power_divide)
  have n17: "(1.84205970048::real) \<le> ((((1.33 + 1) / 2) powr (1 / 3)) powr (1 / 11)) ^ 132 \<and> ((((1.33 + 1) / 2) powr (1 / 3)) powr (1 / 11)) ^ 132 \<le> (1.842059700944::real)"
    by (rule iv_pow_mul[OF n16 n11]) simp_all
  have n18: "(1.850604346854::real) \<le> ((((1.33 + 1) / 2) powr (1 / 3)) powr (1 / 11)) ^ 133 \<and> ((((1.33 + 1) / 2) powr (1 / 3)) powr (1 / 11)) ^ 133 \<le> (1.850604347323::real)"
    by (rule iv_pow_mul[OF n17 n9]) simp_all
  have n19: "(1.850604346854::real) \<le> ((1.33 + 1) / 2) powr (133 / 33) \<and> ((1.33 + 1) / 2) powr (133 / 33) \<le> (1.850604347323::real)"
    by (rule powr_via_roots[OF n18 s6]) simp_all
  have n20: "(4.917416733966::real) \<le> v1 / v2 \<and> v1 / v2 \<le> (4.917416737269::real)"
    by (rule iv_div[OF v1_iv v2_iv]) simp_all
  have s21: "(v2::real) \<noteq> 0"
    by (rule iv_nonzero[OF v2_iv]) simp
  have s22: "(((1.33 + 1) / 2) powr (133 / 33)::real) < (v1 / v2)"
    by (rule iv_less[OF n19 n20]) simp
  have s23: "(0::real) \<le> v3"
    by (rule iv_nonneg[OF v3_iv]) simp
  show ?thesis
    by (rule core_nozzle_choked_Fin(4)[OF idle_bypass_inputs_isValid_LPT v1_eq v2_eq v3_eq s21 s22 s23])
qed

lemma idle_bypass_inputs_Pt19:
  "\<exists>t. Pt19 idle_bypass_inputs = Fin t \<and> 99308.6325 \<le> t \<and> t \<le> 99308.6325"
proof -
  from idle_bypass_inputs_Pt13 obtain v1 where v1_eq: "Pt13 idle_bypass_inputs = Fin v1"
    and v1_iv: "(100311.75::real) \<le> v1 \<and> v1 \<le> (100311.75::real)"
    by blast
  have c1: "(0.99::real) \<le> 0.99 \<and> 0.99 \<le> (0.99::real)"
    by simp
  have n2: "(99308.6325::real) \<le> v1 * 0.99 \<and> v1 * 0.99 \<le> (99308.6325::real)"
    by (rule iv_mul[OF v1_iv c1]) simp_all
  have eq: "Pt19 idle_bypass_inputs = Fin (v1 * 0.99)"
    by (rule Pt19_Fin[OF v1_eq idle_bypass_inputs_fields(16)])
  from eq n2 show ?thesis
    by blast
qed

lemma idle_bypass_inputs_P19:
  "\<exists>t. P19 idle_bypass_inputs = Fin t \<and> 101325 \<le> t \<and> t \<le> 101325"
proof -
  from idle_bypass_inputs_Pt19 obtain v1 where v1_eq: "Pt19 idle_bypass_inputs = Fin v1"
    and v1_iv: "(99308.6325::real) \<le> v1 \<and> v1 \<le> (99308.6325::real)"
    by blast
  from idle_bypass_inputs_P0 obtain v2 where v2_eq: "P0 idle_bypass_inputs = Fin v2"
    and v2_iv: "(101325::real) \<le> v2 \<and> v2 \<le> (101325::real)"
    by blast
  from idle_bypass_inputs_Tt13 obtain v3 where v3_eq: "Tt13 idle_bypass_inputs = Fin v3"
    and v3_iv: "(296.7962681541::real) \<le> v3 \<and> v3 \<le> (296.7962681552::real)"
    by blast
  have c1: "(1.4::real) \<le> 1.4 \<and> 1.4 \<le> (1.4::real)"
    by simp
  have c2: "(1::real) \<le> 1 \<and> 1 \<le> (1::real)"
    by simp
  have n3: "(2.4::real) \<le> 1.4 + 1 \<and> 1.4 + 1 \<le> (2.4::real)"
    by (rule iv_add[OF c1 c2]) simp_all
  have c4: "(2::real) \<le> 2 \<and> 2 \<le> (2::real)"
    by simp
  have n5: "(1.2::real) \<le> (1.4 + 1) / 2 \<and> (1.4 + 1) / 2 \<le> (1.2::real)"
    by (rule iv_div[OF n3 c4]) simp_all
  have s6: "(0::real) < ((1.4 + 1) / 2)"
    by (rule iv_pos[OF n5]) simp
  have n7: "(1.09544511501::real) \<le> ((1.4 + 1) / 2) powr (1 / 2) \<and> ((1.4 + 1) / 2) powr (1 / 2) \<le> (1.095445115011::real)"
    by (rule iv_root[where n=2, OF n5]) (simp_all add: power_divide)
  have n8: "(1.09544511501::real) \<le> (((1.4 + 1) / 2) powr (1 / 2)) ^ 1 \<and> (((1.4 + 1) / 2) powr (1 / 2)) ^ 1 \<le> (1.095445115011::real)"
    by (rule iv_pow_one[OF n7])
  have n9: "(1.199999999999::real) \<le> (((1.4 + 1) / 2) powr (1 / 2)) ^ 2 \<and> (((1.4 + 1) / 2) powr (1 / 2)) ^ 2 \<le> (1.200000000002::real)"
    by (rule iv_pow_sq[OF n8]) (simp_all add: power_divide)
  have n10: "(1.439999999997::real) \<le> (((1.4 + 1) / 2) powr (1 / 2)) ^ 4 \<and> (((1.4 + 1) / 2) powr (1 / 2)) ^ 4 \<le> (1.440000000005::real)"
    by (rule iv_pow_sq[OF n9]) (simp_all add: power_divide)
  have n11: "(1.727999999994::real) \<le> (((1.4 + 1) / 2) powr (1 / 2)) ^ 6 \<and> (((1.4 + 1) / 2) powr (1 / 2)) ^ 6 \<le> (1.728000000009::real)"
    by (rule iv_pow_mul[OF n10 n9]) simp_all
  have n12: "(1.89292915873::real) \<le> (((1.4 + 1) / 2) powr (1 / 2)) ^ 7 \<and> (((1.4 + 1) / 2) powr (1 / 2)) ^ 7 \<le> (1.892929158749::real)"
    by (rule iv_pow_mul[OF n11 n8]) simp_all
  have n13: "(1.89292915873::real) \<le> ((1.4 + 1) / 2) powr (7 / 2) \<and> ((1.4 + 1) / 2) powr (7 / 2) \<le> (1.892929158749::real)"
    by (rule powr_via_root[OF n12 s6]) simp_all
  have n14: "(0.9801::real) \<le> v1 / v2 \<and> v1 / v2 \<le> (0.9801::real)"
    by (rule iv_div[OF v1_iv v2_iv]) simp_all
  have s15: "(v2::real) \<noteq> 0"
    by (rule iv_nonzero[OF v2_iv]) simp
  have s16: "(v1 / v2::real) \<le> (((1.4 + 1) / 2) powr (7 / 2))"
    by (rule iv_le[OF n14 n13]) simp
  have s17: "(v1::real) \<le> v2"
    by (rule iv_le[OF v1_iv v2_iv]) simp
  have eq: "P19 idle_bypass_inputs = Fin v2"
    by (rule bypass_nozzle_idle_Fin(1)[OF idle_bypass_inputs_isValid_core v1_eq v2_eq v3_eq s15 s16 s17])
  from eq v2_iv show ?thesis
    by blast
qed

lemma idle_bypass_inputs_T19:
  "\<exists>t. T19 idle_bypass_inputs = Fin t \<and> 296.7962681541 \<le> t \<and> t \<le> 296.7962681552"
proof -
  from idle_bypass_inputs_Pt19 obtain v1 where v1_eq: "Pt19 idle_bypass_inputs = Fin v1"
    and v1_iv: "(99308.6325::real) \<le> v1 \<and> v1 \<le> (99308.6325::real)"
    by blast
  from idle_bypass_inputs_P0 obtain v2 where v2_eq: "P0 idle_bypass_inputs = Fin v2"
    and v2_iv: "(101325::real) \<le> v2 \<and> v2 \<le> (101325::real)"
    by blast
  from idle_bypass_inputs_Tt13 obtain v3 where v3_eq: "Tt13 idle_bypass_inputs = Fin v3"
    and v3_iv: "(296.7962681541::real) \<le> v3 \<and> v3 \<le> (296.7962681552::real)"
    by blast
  have c1: "(1.4::real) \<le> 1.4 \<and> 1.4 \<le> (1.4::real)"
    by simp
  have c2: "(1::real) \<le> 1 \<and> 1 \<le> (1::real)"
    by simp
  have n3: "(2.4::real) \<le> 1.4 + 1 \<and> 1.4 + 1 \<le> (2.4::real)"
    by (rule iv_add[OF c1 c2]) simp_all
  have c4: "(2::real) \<le> 2 \<and> 2 \<le> (2::real)"
    by simp
  have n5: "(1.2::real) \<le> (1.4 + 1) / 2 \<and> (1.4 + 1) / 2 \<le> (1.2::real)"
    by (rule iv_div[OF n3 c4]) simp_all
  have s6: "(0::real) < ((1.4 + 1) / 2)"
    by (rule iv_pos[OF n5]) simp
  have n7: "(1.09544511501::real) \<le> ((1.4 + 1) / 2) powr (1 / 2) \<and> ((1.4 + 1) / 2) powr (1 / 2) \<le> (1.095445115011::real)"
    by (rule iv_root[where n=2, OF n5]) (simp_all add: power_divide)
  have n8: "(1.09544511501::real) \<le> (((1.4 + 1) / 2) powr (1 / 2)) ^ 1 \<and> (((1.4 + 1) / 2) powr (1 / 2)) ^ 1 \<le> (1.095445115011::real)"
    by (rule iv_pow_one[OF n7])
  have n9: "(1.199999999999::real) \<le> (((1.4 + 1) / 2) powr (1 / 2)) ^ 2 \<and> (((1.4 + 1) / 2) powr (1 / 2)) ^ 2 \<le> (1.200000000002::real)"
    by (rule iv_pow_sq[OF n8]) (simp_all add: power_divide)
  have n10: "(1.439999999997::real) \<le> (((1.4 + 1) / 2) powr (1 / 2)) ^ 4 \<and> (((1.4 + 1) / 2) powr (1 / 2)) ^ 4 \<le> (1.440000000005::real)"
    by (rule iv_pow_sq[OF n9]) (simp_all add: power_divide)
  have n11: "(1.727999999994::real) \<le> (((1.4 + 1) / 2) powr (1 / 2)) ^ 6 \<and> (((1.4 + 1) / 2) powr (1 / 2)) ^ 6 \<le> (1.728000000009::real)"
    by (rule iv_pow_mul[OF n10 n9]) simp_all
  have n12: "(1.89292915873::real) \<le> (((1.4 + 1) / 2) powr (1 / 2)) ^ 7 \<and> (((1.4 + 1) / 2) powr (1 / 2)) ^ 7 \<le> (1.892929158749::real)"
    by (rule iv_pow_mul[OF n11 n8]) simp_all
  have n13: "(1.89292915873::real) \<le> ((1.4 + 1) / 2) powr (7 / 2) \<and> ((1.4 + 1) / 2) powr (7 / 2) \<le> (1.892929158749::real)"
    by (rule powr_via_root[OF n12 s6]) simp_all
  have n14: "(0.9801::real) \<le> v1 / v2 \<and> v1 / v2 \<le> (0.9801::real)"
    by (rule iv_div[OF v1_iv v2_iv]) simp_all
  have s15: "(v2::real) \<noteq> 0"
    by (rule iv_nonzero[OF v2_iv]) simp
  have s16: "(v1 / v2::real) \<le> (((1.4 + 1) / 2) powr (7 / 2))"
    by (rule iv_le[OF n14 n13]) simp
  have s17: "(v1::real) \<le> v2"
    by (rule iv_le[OF v1_iv v2_iv]) simp
  have eq: "T19 idle_bypass_inputs = Fin v3"
    by (rule bypass_nozzle_idle_Fin(2)[OF idle_bypass_inputs_isValid_core v1_eq v2_eq v3_eq s15 s16 s17])
  from eq v3_iv show ?thesis
    by blast
qed

lemma idle_bypass_inputs_V19:
  "\<exists>t. V19 idle_bypass_inputs = Fin t \<and> 0 \<le> t \<and> t \<le> 0"
proof -
  from idle_bypass_inputs_Pt19 obtain v1 where v1_eq: "Pt19 idle_bypass_inputs = Fin v1"
    and v1_iv: "(99308.6325::real) \<le> v1 \<and> v1 \<le> (99308.6325::real)"
    by blast
  from idle_bypass_inputs_P0 obtain v2 where v2_eq: "P0 idle_bypass_inputs = Fin v2"
    and v2_iv: "(101325::real) \<le> v2 \<and> v2 \<le> (101325::real)"
    by blast
  from idle_bypass_inputs_Tt13 obtain v3 where v3_eq: "Tt13 idle_bypass_inputs = Fin v3"
    and v3_iv: "(296.7962681541::real) \<le> v3 \<and> v3 \<le> (296.7962681552::real)"
    by blast
  have c1: "(1.4::real) \<le> 1.4 \<and> 1.4 \<le> (1.4::real)"
    by simp
  have c2: "(1::real) \<le> 1 \<and> 1 \<le> (1::real)"
    by simp
  have n3: "(2.4::real) \<le> 1.4 + 1 \<and> 1.4 + 1 \<le> (2.4::real)"
    by (rule iv_add[OF c1 c2]) simp_all
  have c4: "(2::real) \<le> 2 \<and> 2 \<le> (2::real)"
    by simp
  have n5: "(1.2::real) \<le> (1.4 + 1) / 2 \<and> (1.4 + 1) / 2 \<le> (1.2::real)"
    by (rule iv_div[OF n3 c4]) simp_all
  have s6: "(0::real) < ((1.4 + 1) / 2)"
    by (rule iv_pos[OF n5]) simp
  have n7: "(1.09544511501::real) \<le> ((1.4 + 1) / 2) powr (1 / 2) \<and> ((1.4 + 1) / 2) powr (1 / 2) \<le> (1.095445115011::real)"
    by (rule iv_root[where n=2, OF n5]) (simp_all add: power_divide)
  have n8: "(1.09544511501::real) \<le> (((1.4 + 1) / 2) powr (1 / 2)) ^ 1 \<and> (((1.4 + 1) / 2) powr (1 / 2)) ^ 1 \<le> (1.095445115011::real)"
    by (rule iv_pow_one[OF n7])
  have n9: "(1.199999999999::real) \<le> (((1.4 + 1) / 2) powr (1 / 2)) ^ 2 \<and> (((1.4 + 1) / 2) powr (1 / 2)) ^ 2 \<le> (1.200000000002::real)"
    by (rule iv_pow_sq[OF n8]) (simp_all add: power_divide)
  have n10: "(1.439999999997::real) \<le> (((1.4 + 1) / 2) powr (1 / 2)) ^ 4 \<and> (((1.4 + 1) / 2) powr (1 / 2)) ^ 4 \<le> (1.440000000005::real)"
    by (rule iv_pow_sq[OF n9]) (simp_all add: power_divide)
  have n11: "(1.727999999994::real) \<le> (((1.4 + 1) / 2) powr (1 / 2)) ^ 6 \<and> (((1.4 + 1) / 2) powr (1 / 2)) ^ 6 \<le> (1.728000000009::real)"
    by (rule iv_pow_mul[OF n10 n9]) simp_all
  have n12: "(1.89292915873::real) \<le> (((1.4 + 1) / 2) powr (1 / 2)) ^ 7 \<and> (((1.4 + 1) / 2) powr (1 / 2)) ^ 7 \<le> (1.892929158749::real)"
    by (rule iv_pow_mul[OF n11 n8]) simp_all
  have n13: "(1.89292915873::real) \<le> ((1.4 + 1) / 2) powr (7 / 2) \<and> ((1.4 + 1) / 2) powr (7 / 2) \<le> (1.892929158749::real)"
    by (rule powr_via_root[OF n12 s6]) simp_all
  have n14: "(0.9801::real) \<le> v1 / v2 \<and> v1 / v2 \<le> (0.9801::real)"
    by (rule iv_div[OF v1_iv v2_iv]) simp_all
  have s15: "(v2::real) \<noteq> 0"
    by (rule iv_nonzero[OF v2_iv]) simp
  have s16: "(v1 / v2::real) \<le> (((1.4 + 1) / 2) powr (7 / 2))"
    by (rule iv_le[OF n14 n13]) simp
  have s17: "(v1::real) \<le> v2"
    by (rule iv_le[OF v1_iv v2_iv]) simp
  have c18: "(0::real) \<le> 0 \<and> 0 \<le> (0::real)"
    by simp
  have eq: "V19 idle_bypass_inputs = Fin 0"
    by (rule bypass_nozzle_idle_Fin(3)[OF idle_bypass_inputs_isValid_core v1_eq v2_eq v3_eq s15 s16 s17])
  from eq c18 show ?thesis
    by blast
qed

subsection \<open>The solver at \<open>supersonic_inputs\<close>\<close>

lemma supersonic_inputs_fields:
  "altitude supersonic_inputs = Fin 0"
  "mach supersonic_inputs = Fin 2"
  "massFlow supersonic_inputs = Fin 1350"
  "bypassRatio supersonic_inputs = Fin 5"
  "overallPressureRatio supersonic_inputs = Fin 10"
  "fanPressureRatio supersonic_inputs = Fin 1.65"
  "turbineEntryTemp supersonic_inputs = Fin 1690"
  "efficiencyFan supersonic_inputs = Fin 0.92"
  "efficiencyLPC supersonic_inputs = Fin 0.90"
  "efficiencyHPC supersonic_inputs = Fin 0.90"
  "efficiencyHPT supersonic_inputs = Fin 0.92"
  "efficiencyLPT supersonic_inputs = Fin 0.93"
  "efficiencyBurner supersonic_inputs = Fin 0.995"
  "pressureRecoveryInlet supersonic_inputs = Fin 0.98"
  "pressureRecoveryBurner supersonic_inputs = Fin 0.96"
  "pressureRecoveryNozzle supersonic_inputs = Fin 0.99"
  "mechEfficiencyHigh supersonic_inputs = Fin 0.99"
  "mechEfficiencyLow supersonic_inputs = Fin 0.99"
  "heatingValue supersonic_inputs = Fin 43.1"
  by (simp_all add: supersonic_inputs_def)

lemma supersonic_inputs_T0:
  "\<exists>t. T0 supersonic_inputs = Fin t \<and> 288.15 \<le> t \<and> t \<le> 288.15"
proof -
  have eq: "T0 supersonic_inputs = Fin 288.15"
    by (rule sea_level_Fin(1)[OF supersonic_inputs_fields(1)])
  have iv: "(288.15::real) \<le> 288.15 \<and> 288.15 \<le> (288.15::real)"
    by simp
  from eq iv show ?thesis
    by blast
qed

lemma supersonic_inputs_P0:
  "\<exists>t. P0 supersonic_inputs = Fin t \<and> 101325 \<le> t \<and> t \<le> 101325"
proof -
  have eq: "P0 supersonic_inputs = Fin 101325"
    by (rule sea_level_Fin(2)[OF supersonic_inputs_fields(1)])
  have iv: "(101325::real) \<le> 101325 \<and> 101325 \<le> (101325::real)"
    by simp
  from eq iv show ?thesis
    by blast
qed

lemma supersonic_inputs_V0:
  "\<exists>t. V0 supersonic_inputs = Fin t \<and> 680.5845737304 \<le> t \<and> t \<le> 680.5845737306"
proof -
  have c1: "(2::real) \<le> 2 \<and> 2 \<le> (2::real)"
    by simp
  from supersonic_inputs_T0 obtain v1 where v1_eq: "T0 supersonic_inputs = Fin v1"
    and v1_iv: "(288.15::real) \<le> v1 \<and> v1 \<le> (288.15::real)"
    by blast
  have s2: "(0::real) \<le> v1"
    by (rule iv_nonneg[OF v1_iv]) simp
  have c3: "(1.4::real) \<le> 1.4 \<and> 1.4 \<le> (1.4::real)"
    by simp
  have c4: "(287.05::real) \<le> 287.05 \<and> 287.05 \<le> (287.05::real)"
    by simp
  have n5: "(401.87::real) \<le> 1.4 * 287.05 \<and> 1.4 * 287.05 \<le> (401.87::real)"
    by (rule iv_mul[OF c3 c4]) simp_all
  have n6: "(115798.8405::real) \<le> (1.4 * 287.05) * v1 \<and> (1.4 * 287.05) * v1 \<le> (115798.8405::real)"
    by (rule iv_mul[OF n5 v1_iv]) simp_all
  have n7: "(340.2922868652::real) \<le> sqrt ((1.4 * 287.05) * v1) \<and> sqrt ((1.4 * 287.05) * v1) \<le> (340.2922868653::real)"
    by (rule iv_sqrt[OF n6]) (simp_all add: power_divide)
  have n8: "(680.5845737304::real) \<le> 2 * (sqrt ((1.4 * 287.05) * v1)) \<and> 2 * (sqrt ((1.4 * 287.05) * v1)) \<le> (680.5845737306::real)"
    by (rule iv_mul[OF c1 n7]) simp_all
  have eq: "V0 supersonic_inputs = Fin (2 * (sqrt ((1.4 * 287.05) * v1)))"
    by (rule V0_Fin[OF supersonic_inputs_fields(2) v1_eq s2])
  from eq n8 show ?thesis
    by blast
qed

lemma supersonic_inputs_tau_r:
  "\<exists>t. tau_r supersonic_inputs = Fin t \<and> 1.8 \<le> t \<and> t \<le> 1.8"
proof -
  have c1: "(2::real) \<le> 2 \<and> 2 \<le> (2::real)"
    by simp
  have c2: "(1::real) \<le> 1 \<and> 1 \<le> (1::real)"
    by simp
  have c3: "(1.4::real) \<le> 1.4 \<and> 1.4 \<le> (1.4::real)"
    by simp
  have n4: "(0.4::real) \<le> 1.4 - 1 \<and> 1.4 - 1 \<le> (0.4::real)"
    by (rule iv_sub[OF c3 c2]) simp_all
  have n5: "(0.2::real) \<le> (1.4 - 1) / 2 \<and> (1.4 - 1) / 2 \<le> (0.2::real)"
    by (rule iv_div[OF n4 c1]) simp_all
  have n6: "(0.4::real) \<le> ((1.4 - 1) / 2) * 2 \<and> ((1.4 - 1) / 2) * 2 \<le> (0.4::real)"
    by (rule iv_mul[OF n5 c1]) simp_all
  have n7: "(0.8::real) \<le> (((1.4 - 1) / 2) * 2) * 2 \<and> (((1.4 - 1) / 2) * 2) * 2 \<le> (0.8::real)"
    by (rule iv_mul[OF n6 c1]) simp_all
  have n8: "(1.8::real) \<le> 1 + ((((1.4 - 1) / 2) * 2) * 2) \<and> 1 + ((((1.4 - 1) / 2) * 2) * 2) \<le> (1.8::real)"
    by (rule iv_add[OF c2 n7]) simp_all
  have eq: "tau_r supersonic_inputs = Fin (1 + ((((1.4 - 1) / 2) * 2) * 2))"
    by (rule tau_r_Fin[OF supersonic_inputs_fields(2)])
  from eq n8 show ?thesis
    by blast
qed

lemma supersonic_inputs_pi_r:
  "\<exists>t. pi_r supersonic_inputs = Fin t \<and> 7.824449066821 \<le> t \<and> t \<le> 7.824449066883"
proof -
  from supersonic_inputs_tau_r obtain v1 where v1_eq: "tau_r supersonic_inputs = Fin v1"
    and v1_iv: "(1.8::real) \<le> v1 \<and> v1 \<le> (1.8::real)"
    by blast
  have s1: "(0::real) < v1"
    by (rule iv_pos[OF v1_iv]) simp
  have s2: "(0::real) < v1"
    by (rule iv_pos[OF v1_iv]) simp
  have n3: "(1.341640786499::real) \<le> v1 powr (1 / 2) \<and> v1 powr (1 / 2) \<le> (1.3416407865::real)"
    by (rule iv_root[where n=2, OF v1_iv]) (simp_all add: power_divide)
  have n4: "(1.341640786499::real) \<le> (v1 powr (1 / 2)) ^ 1 \<and> (v1 powr (1 / 2)) ^ 1 \<le> (1.3416407865::real)"
    by (rule iv_pow_one[OF n3])
  have n5: "(1.799999999997::real) \<le> (v1 powr (1 / 2)) ^ 2 \<and> (v1 powr (1 / 2)) ^ 2 \<le> (1.800000000001::real)"
    by (rule iv_pow_sq[OF n4]) (simp_all add: power_divide)
  have n6: "(3.239999999989::real) \<le> (v1 powr (1 / 2)) ^ 4 \<and> (v1 powr (1 / 2)) ^ 4 \<le> (3.240000000004::real)"
    by (rule iv_pow_sq[OF n5]) (simp_all add: power_divide)
  have n7: "(5.83199999997::real) \<le> (v1 powr (1 / 2)) ^ 6 \<and> (v1 powr (1 / 2)) ^ 6 \<le> (5.832000000011::real)"
    by (rule iv_pow_mul[OF n6 n5]) simp_all
  have n8: "(7.824449066821::real) \<le> (v1 powr (1 / 2)) ^ 7 \<and> (v1 powr (1 / 2)) ^ 7 \<le> (7.824449066883::real)"
    by (rule iv_pow_mul[OF n7 n4]) simp_all
  have n9: "(7.824449066821::real) \<le> v1 powr (7 / 2) \<and> v1 powr (7 / 2) \<le> (7.824449066883::real)"
    by (rule powr_via_root[OF n8 s2]) simp_all
  have eq: "pi_r supersonic_inputs = Fin (v1 powr (7 / 2))"
    by (rule pi_r_Fin[OF v1_eq s1])
  from eq n9 show ?thesis
    by blast
qed

lemma supersonic_inputs_Tt0:
  "\<exists>t. Tt0 supersonic_inputs = Fin t \<and> 518.67 \<le> t \<and> t \<le> 518.67"
proof -
  from supersonic_inputs_T0 obtain v1 where v1_eq: "T0 supersonic_inputs = Fin v1"
    and v1_iv: "(288.15::real) \<le> v1 \<and> v1 \<le> (288.15::real)"
    by blast
  from supersonic_inputs_tau_r obtain v2 where v2_eq: "tau_r supersonic_inputs = Fin v2"
    and v2_iv: "(1.8::real) \<le> v2 \<and> v2 \<le> (1.8::real)"
    by blast
  have n1: "(518.67::real) \<le> v1 * v2 \<and> v1 * v2 \<le> (518.67::real)"
    by (rule iv_mul[OF v1_iv v2_iv]) simp_all
  have eq: "Tt0 supersonic_inputs = Fin (v1 * v2)"
    by (rule Tt0_Fin[OF v1_eq v2_eq])
  from eq n1 show ?thesis
    by blast
qed

lemma supersonic_inputs_Pt0:
  "\<exists>t. Pt0 supersonic_inputs = Fin t \<and> 792812.3016956 \<le> t \<and> t \<le> 792812.301702"
proof -
  from supersonic_inputs_P0 obtain v1 where v1_eq: "P0 supersonic_inputs = Fin v1"
    and v1_iv: "(101325::real) \<le> v1 \<and> v1 \<le> (101325::real)"
    by blast
  from supersonic_inputs_pi_r obtain v2 where v2_eq: "pi_r supersonic_inputs = Fin v2"
    and v2_iv: "(7.824449066821::real) \<le> v2 \<and> v2 \<le> (7.824449066883::real)"
    by blast
  have n1: "(792812.3016956::real) \<le> v1 * v2 \<and> v1 * v2 \<le> (792812.301702::real)"
    by (rule iv_mul[OF v1_iv v2_iv]) simp_all
  have eq: "Pt0 supersonic_inputs = Fin (v1 * v2)"
    by (rule Pt0_Fin[OF v1_eq v2_eq])
  from eq n1 show ?thesis
    by blast
qed

lemma supersonic_inputs_Tt2:
  "\<exists>t. Tt2 supersonic_inputs = Fin t \<and> 518.67 \<le> t \<and> t \<le> 518.67"
proof -
  from supersonic_inputs_Tt0 obtain v1 where v1_eq: "Tt0 supersonic_inputs = Fin v1"
    and v1_iv: "(518.67::real) \<le> v1 \<and> v1 \<le> (518.67::real)"
    by blast
  have eq: "Tt2 supersonic_inputs = Fin v1"
    by (rule Tt2_Fin[OF v1_eq])
  from eq v1_iv show ?thesis
    by blast
qed

lemma supersonic_inputs_Pt2:
  "\<exists>t. Pt2 supersonic_inputs = Fin t \<and> 776956.055661688 \<le> t \<and> t \<le> 776956.05566796"
proof -
  from supersonic_inputs_Pt0 obtain v1 where v1_eq: "Pt0 supersonic_inputs = Fin v1"
    and v1_iv: "(792812.3016956::real) \<le> v1 \<and> v1 \<le> (792812.301702::real)"
    by blast
  have c1: "(0.98::real) \<le> 0.98 \<and> 0.98 \<le> (0.98::real)"
    by simp
  have n2: "(776956.055661688::real) \<le> v1 * 0.98 \<and> v1 * 0.98 \<le> (776956.05566796::real)"
    by (rule iv_mul[OF v1_iv c1]) simp_all
  have eq: "Pt2 supersonic_inputs = Fin (v1 * 0.98)"
    by (rule Pt2_Fin[OF v1_eq supersonic_inputs_fields(14)])
  from eq n2 show ?thesis
    by blast
qed

lemma supersonic_inputs_Pt13:
  "\<exists>t. Pt13 supersonic_inputs = Fin t \<and> 1281977.491841 \<le> t \<and> t \<le> 1281977.491852134"
proof -
  from supersonic_inputs_Pt2 obtain v1 where v1_eq: "Pt2 supersonic_inputs = Fin v1"
    and v1_iv: "(776956.055661688::real) \<le> v1 \<and> v1 \<le> (776956.05566796::real)"
    by blast
  have c1: "(1.65::real) \<le> 1.65 \<and> 1.65 \<le> (1.65::real)"
    by simp
  have n2: "(1281977.491841::real) \<le> v1 * 1.65 \<and> v1 * 1.65 \<le> (1281977.491852134::real)"
    by (rule iv_mul[OF v1_iv c1]) simp_all
  have eq: "Pt13 supersonic_inputs = Fin (v1 * 1.65)"
    by (rule Pt13_Fin[OF v1_eq supersonic_inputs_fields(6)])
  from eq n2 show ?thesis
    by blast
qed

lemma supersonic_inputs_Tt13:
  "\<exists>t. Tt13 supersonic_inputs = Fin t \<and> 605.389679178 \<le> t \<and> t \<le> 605.3896791804"
proof -
  from supersonic_inputs_Tt2 obtain v1 where v1_eq: "Tt2 supersonic_inputs = Fin v1"
    and v1_iv: "(518.67::real) \<le> v1 \<and> v1 \<le> (518.67::real)"
    by blast
  have c1: "(1.65::real) \<le> 1.65 \<and> 1.65 \<le> (1.65::real)"
    by simp
  have c2: "(0.92::real) \<le> 0.92 \<and> 0.92 \<le> (0.92::real)"
    by simp
  have s3: "(0::real) < 1.65"
    by (rule iv_pos[OF c1]) simp
  have s4: "(0.92::real) \<noteq> 0"
    by (rule iv_nonzero[OF c2]) simp
  have c5: "(1::real) \<le> 1 \<and> 1 \<le> (1::real)"
    by simp
  have s6: "(0::real) < 1.65"
    by (rule iv_pos[OF c1]) simp
  have n7: "(1.074160393209::real) \<le> 1.65 powr (1 / 7) \<and> 1.65 powr (1 / 7) \<le> (1.07416039321::real)"
    by (rule iv_root[where n=7, OF c1]) (simp_all add: power_divide)
  have n8: "(1.074160393209::real) \<le> (1.65 powr (1 / 7)) ^ 1 \<and> (1.65 powr (1 / 7)) ^ 1 \<le> (1.07416039321::real)"
    by (rule iv_pow_one[OF n7])
  have n9: "(1.153820550338::real) \<le> (1.65 powr (1 / 7)) ^ 2 \<and> (1.65 powr (1 / 7)) ^ 2 \<le> (1.153820550342::real)"
    by (rule iv_pow_sq[OF n8]) (simp_all add: power_divide)
  have n10: "(1.153820550338::real) \<le> 1.65 powr (2 / 7) \<and> 1.65 powr (2 / 7) \<le> (1.153820550342::real)"
    by (rule powr_via_root[OF n9 s6]) simp_all
  have n11: "(0.153820550338::real) \<le> (1.65 powr (2 / 7)) - 1 \<and> (1.65 powr (2 / 7)) - 1 \<le> (0.153820550342::real)"
    by (rule iv_sub[OF n10 c5]) simp_all
  have n12: "(0.1671962503673::real) \<le> ((1.65 powr (2 / 7)) - 1) / 0.92 \<and> ((1.65 powr (2 / 7)) - 1) / 0.92 \<le> (0.1671962503718::real)"
    by (rule iv_div[OF n11 c2]) simp_all
  have n13: "(1.1671962503673::real) \<le> 1 + (((1.65 powr (2 / 7)) - 1) / 0.92) \<and> 1 + (((1.65 powr (2 / 7)) - 1) / 0.92) \<le> (1.1671962503718::real)"
    by (rule iv_add[OF c5 n12]) simp_all
  have n14: "(605.389679178::real) \<le> v1 * (1 + (((1.65 powr (2 / 7)) - 1) / 0.92)) \<and> v1 * (1 + (((1.65 powr (2 / 7)) - 1) / 0.92)) \<le> (605.3896791804::real)"
    by (rule iv_mul[OF v1_iv n13]) simp_all
  have eq: "Tt13 supersonic_inputs = Fin (v1 * (1 + (((1.65 powr (2 / 7)) - 1) / 0.92)))"
    by (rule Tt13_Fin[OF v1_eq supersonic_inputs_fields(6) supersonic_inputs_fields(8) s3 s4])
  from eq n14 show ?thesis
    by blast
qed

lemma supersonic_inputs_Pt21:
  "\<exists>t. Pt21 supersonic_inputs = Fin t \<and> 1281977.491841 \<le> t \<and> t \<le> 1281977.491852134"
proof -
  from supersonic_inputs_Pt13 obtain v1 where v1_eq: "Pt13 supersonic_inputs = Fin v1"
    and v1_iv: "(1281977.491841::real) \<le> v1 \<and> v1 \<le> (1281977.491852134::real)"
    by blast
  have eq: "Pt21 supersonic_inputs = Fin v1"
    by (rule Pt21_Fin[OF v1_eq])
  from eq v1_iv show ?thesis
    by blast
qed

lemma supersonic_inputs_Tt21:
  "\<exists>t. Tt21 supersonic_inputs = Fin t \<and> 605.389679178 \<le> t \<and> t \<le> 605.3896791804"
proof -
  from supersonic_inputs_Tt13 obtain v1 where v1_eq: "Tt13 supersonic_inputs = Fin v1"
    and v1_iv: "(605.389679178::real) \<le> v1 \<and> v1 \<le> (605.3896791804::real)"
    by blast
  have eq: "Tt21 supersonic_inputs = Fin v1"
    by (rule Tt21_Fin[OF v1_eq])
  from eq v1_iv show ?thesis
    by blast
qed

lemma supersonic_inputs_pi_ch:
  "\<exists>t. pi_ch supersonic_inputs = Fin t \<and> 6.060606060606 \<le> t \<and> t \<le> 6.060606060607"
proof -
  have c1: "(10::real) \<le> 10 \<and> 10 \<le> (10::real)"
    by simp
  have c2: "(1.65::real) \<le> 1.65 \<and> 1.65 \<le> (1.65::real)"
    by simp
  have s3: "(1.65::real) \<noteq> 0"
    by (rule iv_nonzero[OF c2]) simp
  have c4: "(1.1::real) \<le> 1.1 \<and> 1.1 \<le> (1.1::real)"
    by simp
  have n5: "(6.060606060606::real) \<le> 10 / 1.65 \<and> 10 / 1.65 \<le> (6.060606060607::real)"
    by (rule iv_div[OF c1 c2]) simp_all
  have n6: "(6.060606060606::real) \<le> max 1.1 (10 / 1.65) \<and> max 1.1 (10 / 1.65) \<le> (6.060606060607::real)"
    by (rule iv_max[OF c4 n5]) simp_all
  have eq: "pi_ch supersonic_inputs = Fin (max 1.1 (10 / 1.65))"
    by (rule pi_ch_Fin[OF supersonic_inputs_fields(5) supersonic_inputs_fields(6) s3])
  from eq n6 show ?thesis
    by blast
qed

lemma supersonic_inputs_Pt3:
  "\<exists>t. Pt3 supersonic_inputs = Fin t \<and> 7769560.556612 \<le> t \<and> t \<le> 7769560.556681"
proof -
  from supersonic_inputs_Pt21 obtain v1 where v1_eq: "Pt21 supersonic_inputs = Fin v1"
    and v1_iv: "(1281977.491841::real) \<le> v1 \<and> v1 \<le> (1281977.491852134::real)"
    by blast
  from supersonic_inputs_pi_ch obtain v2 where v2_eq: "pi_ch supersonic_inputs = Fin v2"
    and v2_iv: "(6.060606060606::real) \<le> v2 \<and> v2 \<le> (6.060606060607::real)"
    by blast
  have n1: "(7769560.556612::real) \<le> v1 * v2 \<and> v1 * v2 \<le> (7769560.556681::real)"
    by (rule iv_mul[OF v1_iv v2_iv]) simp_all
  have eq: "Pt3 supersonic_inputs = Fin (v1 * v2)"
    by (rule Pt3_Fin[OF v1_eq v2_eq])
  from eq n1 show ?thesis
    by blast
qed

lemma supersonic_inputs_Tt3:
  "\<exists>t. Tt3 supersonic_inputs = Fin t \<and> 1058.294139099 \<le> t \<and> t \<le> 1058.294139107"
proof -
  from supersonic_inputs_Tt21 obtain v1 where v1_eq: "Tt21 supersonic_inputs = Fin v1"
    and v1_iv: "(605.389679178::real) \<le> v1 \<and> v1 \<le> (605.3896791804::real)"
    by blast
  from supersonic_inputs_pi_ch obtain v2 where v2_eq: "pi_ch supersonic_inputs = Fin v2"
    and v2_iv: "(6.060606060606::real) \<le> v2 \<and> v2 \<le> (6.060606060607::real)"
    by blast
  have c1: "(0.9::real) \<le> 0.90 \<and> 0.90 \<le> (0.9::real)"
    by simp
  have s2: "(0::real) < v2"
    by (rule iv_pos[OF v2_iv]) simp
  have s3: "(0.90::real) \<noteq> 0"
    by (rule iv_nonzero[OF c1]) simp
  have c4: "(1::real) \<le> 1 \<and> 1 \<le> (1::real)"
    by simp
  have s5: "(0::real) < v2"
    by (rule iv_pos[OF v2_iv]) simp
  have n6: "(1.293564260195::real) \<le> v2 powr (1 / 7) \<and> v2 powr (1 / 7) \<le> (1.293564260196::real)"
    by (rule iv_root[where n=7, OF v2_iv]) (simp_all add: power_divide)
  have n7: "(1.293564260195::real) \<le> (v2 powr (1 / 7)) ^ 1 \<and> (v2 powr (1 / 7)) ^ 1 \<le> (1.293564260196::real)"
    by (rule iv_pow_one[OF n6])
  have n8: "(1.673308495253::real) \<le> (v2 powr (1 / 7)) ^ 2 \<and> (v2 powr (1 / 7)) ^ 2 \<le> (1.673308495257::real)"
    by (rule iv_pow_sq[OF n7]) (simp_all add: power_divide)
  have n9: "(1.673308495253::real) \<le> v2 powr (2 / 7) \<and> v2 powr (2 / 7) \<le> (1.673308495257::real)"
    by (rule powr_via_root[OF n8 s5]) simp_all
  have n10: "(0.673308495253::real) \<le> (v2 powr (2 / 7)) - 1 \<and> (v2 powr (2 / 7)) - 1 \<le> (0.673308495257::real)"
    by (rule iv_sub[OF n9 c4]) simp_all
  have n11: "(0.7481205502811::real) \<le> ((v2 powr (2 / 7)) - 1) / 0.90 \<and> ((v2 powr (2 / 7)) - 1) / 0.90 \<le> (0.7481205502856::real)"
    by (rule iv_div[OF n10 c1]) simp_all
  have n12: "(1.7481205502811::real) \<le> 1 + (((v2 powr (2 / 7)) - 1) / 0.90) \<and> 1 + (((v2 powr (2 / 7)) - 1) / 0.90) \<le> (1.7481205502856::real)"
    by (rule iv_add[OF c4 n11]) simp_all
  have n13: "(1058.294139099::real) \<le> v1 * (1 + (((v2 powr (2 / 7)) - 1) / 0.90)) \<and> v1 * (1 + (((v2 powr (2 / 7)) - 1) / 0.90)) \<le> (1058.294139107::real)"
    by (rule iv_mul[OF v1_iv n12]) simp_all
  have eq: "Tt3 supersonic_inputs = Fin (v1 * (1 + (((v2 powr (2 / 7)) - 1) / 0.90)))"
    by (rule Tt3_Fin[OF v1_eq v2_eq supersonic_inputs_fields(10) s2 s3])
  from eq n13 show ?thesis
    by blast
qed

lemma supersonic_inputs_Pt4:
  "\<exists>t. Pt4 supersonic_inputs = Fin t \<and> 7458778.13434752 \<le> t \<and> t \<le> 7458778.13441376"
proof -
  from supersonic_inputs_Pt3 obtain v1 where v1_eq: "Pt3 supersonic_inputs = Fin v1"
    and v1_iv: "(7769560.556612::real) \<le> v1 \<and> v1 \<le> (7769560.556681::real)"
    by blast
  have c1: "(0.96::real) \<le> 0.96 \<and> 0.96 \<le> (0.96::real)"
    by simp
  have n2: "(7458778.13434752::real) \<le> v1 * 0.96 \<and> v1 * 0.96 \<le> (7458778.13441376::real)"
    by (rule iv_mul[OF v1_iv c1]) simp_all
  have eq: "Pt4 supersonic_inputs = Fin (v1 * 0.96)"
    by (rule Pt4_Fin[OF v1_eq supersonic_inputs_fields(15)])
  from eq n2 show ?thesis
    by blast
qed

lemma supersonic_inputs_Tt4:
  "\<exists>t. Tt4 supersonic_inputs = Fin t \<and> 1690 \<le> t \<and> t \<le> 1690"
proof -
  have c1: "(1690::real) \<le> 1690 \<and> 1690 \<le> (1690::real)"
    by simp
  have eq: "Tt4 supersonic_inputs = Fin 1690"
    by (rule Tt4_Fin[OF supersonic_inputs_fields(7)])
  from eq c1 show ?thesis
    by blast
qed

lemma supersonic_inputs_Hu_J:
  "\<exists>t. Hu_J supersonic_inputs = Fin t \<and> 43100000 \<le> t \<and> t \<le> 43100000"
proof -
  have c1: "(43.1::real) \<le> 43.1 \<and> 43.1 \<le> (43.1::real)"
    by simp
  have c2: "(1000000::real) \<le> 1000000 \<and> 1000000 \<le> (1000000::real)"
    by simp
  have n3: "(43100000::real) \<le> 43.1 * 1000000 \<and> 43.1 * 1000000 \<le> (43100000::real)"
    by (rule iv_mul[OF c1 c2]) simp_all
  have eq: "Hu_J supersonic_inputs = Fin (43.1 * 1000000)"
    by (rule Hu_J_Fin[OF supersonic_inputs_fields(19)])
  from eq n3 show ?thesis
    by blast
qed

lemma supersonic_inputs_numerator:
  "\<exists>t. numerator supersonic_inputs = Fin t \<and> 879914.390197465 \<le> t \<and> t \<le> 879914.390205505"
proof -
  from supersonic_inputs_Tt4 obtain v1 where v1_eq: "Tt4 supersonic_inputs = Fin v1"
    and v1_iv: "(1690::real) \<le> v1 \<and> v1 \<le> (1690::real)"
    by blast
  from supersonic_inputs_Tt3 obtain v2 where v2_eq: "Tt3 supersonic_inputs = Fin v2"
    and v2_iv: "(1058.294139099::real) \<le> v2 \<and> v2 \<le> (1058.294139107::real)"
    by blast
  have c1: "(1150::real) \<le> 1150 \<and> 1150 \<le> (1150::real)"
    by simp
  have n2: "(1943500::real) \<le> 1150 * v1 \<and> 1150 * v1 \<le> (1943500::real)"
    by (rule iv_mul[OF c1 v1_iv]) simp_all
  have c3: "(1005::real) \<le> 1005 \<and> 1005 \<le> (1005::real)"
    by simp
  have n4: "(1063585.609794495::real) \<le> 1005 * v2 \<and> 1005 * v2 \<le> (1063585.609802535::real)"
    by (rule iv_mul[OF c3 v2_iv]) simp_all
  have n5: "(879914.390197465::real) \<le> (1150 * v1) - (1005 * v2) \<and> (1150 * v1) - (1005 * v2) \<le> (879914.390205505::real)"
    by (rule iv_sub[OF n2 n4]) simp_all
  have eq: "numerator supersonic_inputs = Fin ((1150 * v1) - (1005 * v2))"
    by (rule numerator_Fin[OF v1_eq v2_eq])
  from eq n5 show ?thesis
    by blast
qed

lemma supersonic_inputs_denominator:
  "\<exists>t. denominator supersonic_inputs = Fin t \<and> 40941000 \<le> t \<and> t \<le> 40941000"
proof -
  have c1: "(0.995::real) \<le> 0.995 \<and> 0.995 \<le> (0.995::real)"
    by simp
  from supersonic_inputs_Hu_J obtain v1 where v1_eq: "Hu_J supersonic_inputs = Fin v1"
    and v1_iv: "(43100000::real) \<le> v1 \<and> v1 \<le> (43100000::real)"
    by blast
  from supersonic_inputs_Tt4 obtain v2 where v2_eq: "Tt4 supersonic_inputs = Fin v2"
    and v2_iv: "(1690::real) \<le> v2 \<and> v2 \<le> (1690::real)"
    by blast
  have n2: "(42884500::real) \<le> 0.995 * v1 \<and> 0.995 * v1 \<le> (42884500::real)"
    by (rule iv_mul[OF c1 v1_iv]) simp_all
  have c3: "(1150::real) \<le> 1150 \<and> 1150 \<le> (1150::real)"
    by simp
  have n4: "(1943500::real) \<le> 1150 * v2 \<and> 1150 * v2 \<le> (1943500::real)"
    by (rule iv_mul[OF c3 v2_iv]) simp_all
  have n5: "(40941000::real) \<le> (0.995 * v1) - (1150 * v2) \<and> (0.995 * v1) - (1150 * v2) \<le> (40941000::real)"
    by (rule iv_sub[OF n2 n4]) simp_all
  have eq: "denominator supersonic_inputs = Fin ((0.995 * v1) - (1150 * v2))"
    by (rule denominator_Fin[OF supersonic_inputs_fields(13) v1_eq v2_eq])
  from eq n5 show ?thesis
    by blast
qed

lemma supersonic_inputs_f:
  "\<exists>t. f supersonic_inputs = Fin t \<and> 0.02149225446856 \<le> t \<and> t \<le> 0.02149225446877"
proof -
  from supersonic_inputs_numerator obtain v1 where v1_eq: "numerator supersonic_inputs = Fin v1"
    and v1_iv: "(879914.390197465::real) \<le> v1 \<and> v1 \<le> (879914.390205505::real)"
    by blast
  from supersonic_inputs_denominator obtain v2 where v2_eq: "denominator supersonic_inputs = Fin v2"
    and v2_iv: "(40941000::real) \<le> v2 \<and> v2 \<le> (40941000::real)"
    by blast
  have s1: "(v2::real) \<noteq> 0"
    by (rule iv_nonzero[OF v2_iv]) simp
  have c2: "(0::real) \<le> 0 \<and> 0 \<le> (0::real)"
    by simp
  have n3: "(0.02149225446856::real) \<le> v1 / v2 \<and> v1 / v2 \<le> (0.02149225446877::real)"
    by (rule iv_div[OF v1_iv v2_iv]) simp_all
  have n4: "(0.02149225446856::real) \<le> max 0 (v1 / v2) \<and> max 0 (v1 / v2) \<le> (0.02149225446877::real)"
    by (rule iv_max[OF c2 n3]) simp_all
  have eq: "f supersonic_inputs = Fin (max 0 (v1 / v2))"
    by (rule f_Fin[OF v1_eq v2_eq s1])
  from eq n4 show ?thesis
    by blast
qed

lemma supersonic_inputs_work_req_HPC:
  "\<exists>t. work_req_HPC supersonic_inputs = Fin t \<and> 455168.982218193 \<le> t \<and> t \<le> 455168.982228645"
proof -
  from supersonic_inputs_Tt3 obtain v1 where v1_eq: "Tt3 supersonic_inputs = Fin v1"
    and v1_iv: "(1058.294139099::real) \<le> v1 \<and> v1 \<le> (1058.294139107::real)"
    by blast
  from supersonic_inputs_Tt21 obtain v2 where v2_eq: "Tt21 supersonic_inputs = Fin v2"
    and v2_iv: "(605.389679178::real) \<le> v2 \<and> v2 \<le> (605.3896791804::real)"
    by blast
  have c1: "(1005::real) \<le> 1005 \<and> 1005 \<le> (1005::real)"
    by simp
  have n2: "(452.9044599186::real) \<le> v1 - v2 \<and> v1 - v2 \<le> (452.904459929::real)"
    by (rule iv_sub[OF v1_iv v2_iv]) simp_all
  have n3: "(455168.982218193::real) \<le> 1005 * (v1 - v2) \<and> 1005 * (v1 - v2) \<le> (455168.982228645::real)"
    by (rule iv_mul[OF c1 n2]) simp_all
  have eq: "work_req_HPC supersonic_inputs = Fin (1005 * (v1 - v2))"
    by (rule work_req_HPC_Fin[OF v1_eq v2_eq])
  from eq n3 show ?thesis
    by blast
qed

lemma supersonic_inputs_work_avail_HPT:
  "\<exists>t. work_avail_HPT supersonic_inputs = Fin t \<and> 459766.6487052 \<le> t \<and> t \<le> 459766.6487159"
proof -
  from supersonic_inputs_work_req_HPC obtain v1 where v1_eq: "work_req_HPC supersonic_inputs = Fin v1"
    and v1_iv: "(455168.982218193::real) \<le> v1 \<and> v1 \<le> (455168.982228645::real)"
    by blast
  have c1: "(0.99::real) \<le> 0.99 \<and> 0.99 \<le> (0.99::real)"
    by simp
  have s2: "(0.99::real) \<noteq> 0"
    by (rule iv_nonzero[OF c1]) simp
  have n3: "(459766.6487052::real) \<le> v1 / 0.99 \<and> v1 / 0.99 \<le> (459766.6487159::real)"
    by (rule iv_div[OF v1_iv c1]) simp_all
  have eq: "work_avail_HPT supersonic_inputs = Fin (v1 / 0.99)"
    by (rule work_avail_HPT_Fin[OF v1_eq supersonic_inputs_fields(17) s2])
  from eq n3 show ?thesis
    by blast
qed

lemma supersonic_inputs_deltaT_HPT:
  "\<exists>t. deltaT_HPT supersonic_inputs = Fin t \<and> 391.3853326653 \<le> t \<and> t \<le> 391.3853326749"
proof -
  from supersonic_inputs_work_avail_HPT obtain v1 where v1_eq: "work_avail_HPT supersonic_inputs = Fin v1"
    and v1_iv: "(459766.6487052::real) \<le> v1 \<and> v1 \<le> (459766.6487159::real)"
    by blast
  from supersonic_inputs_f obtain v2 where v2_eq: "f supersonic_inputs = Fin v2"
    and v2_iv: "(0.02149225446856::real) \<le> v2 \<and> v2 \<le> (0.02149225446877::real)"
    by blast
  have c1: "(1::real) \<le> 1 \<and> 1 \<le> (1::real)"
    by simp
  have n2: "(1.02149225446856::real) \<le> 1 + v2 \<and> 1 + v2 \<le> (1.02149225446877::real)"
    by (rule iv_add[OF c1 v2_iv]) simp_all
  have c3: "(1150::real) \<le> 1150 \<and> 1150 \<le> (1150::real)"
    by simp
  have n4: "(1174.716092638844::real) \<le> (1 + v2) * 1150 \<and> (1 + v2) * 1150 \<le> (1174.71609264::real)"
    by (rule iv_mul[OF n2 c3]) simp_all
  have s5: "((1 + v2) * 1150::real) \<noteq> 0"
    by (rule iv_nonzero[OF n4]) simp
  have n6: "(391.3853326653::real) \<le> v1 / ((1 + v2) * 1150) \<and> v1 / ((1 + v2) * 1150) \<le> (391.3853326749::real)"
    by (rule iv_div[OF v1_iv n4]) simp_all
  have eq: "deltaT_HPT supersonic_inputs = Fin (v1 / ((1 + v2) * 1150))"
    by (rule deltaT_HPT_Fin[OF v1_eq v2_eq s5])
  from eq n6 show ?thesis
    by blast
qed

lemma supersonic_inputs_Tt45:
  "\<exists>t. Tt45 supersonic_inputs = Fin t \<and> 1298.6146673251 \<le> t \<and> t \<le> 1298.6146673347"
proof -
  from supersonic_inputs_Tt4 obtain v1 where v1_eq: "Tt4 supersonic_inputs = Fin v1"
    and v1_iv: "(1690::real) \<le> v1 \<and> v1 \<le> (1690::real)"
    by blast
  from supersonic_inputs_deltaT_HPT obtain v2 where v2_eq: "deltaT_HPT supersonic_inputs = Fin v2"
    and v2_iv: "(391.3853326653::real) \<le> v2 \<and> v2 \<le> (391.3853326749::real)"
    by blast
  have n1: "(1298.6146673251::real) \<le> v1 - v2 \<and> v1 - v2 \<le> (1298.6146673347::real)"
    by (rule iv_sub[OF v1_iv v2_iv]) simp_all
  have eq: "Tt45 supersonic_inputs = Fin (v1 - v2)"
    by (rule Tt45_Fin[OF v1_eq v2_eq])
  from eq n1 show ?thesis
    by blast
qed

lemma supersonic_inputs_temp_ratio_HPT:
  "\<exists>t. temp_ratio_HPT supersonic_inputs = Fin t \<and> 0.7684110457544 \<le> t \<and> t \<le> 0.7684110457602"
proof -
  from supersonic_inputs_Tt45 obtain v1 where v1_eq: "Tt45 supersonic_inputs = Fin v1"
    and v1_iv: "(1298.6146673251::real) \<le> v1 \<and> v1 \<le> (1298.6146673347::real)"
    by blast
  from supersonic_inputs_Tt4 obtain v2 where v2_eq: "Tt4 supersonic_inputs = Fin v2"
    and v2_iv: "(1690::real) \<le> v2 \<and> v2 \<le> (1690::real)"
    by blast
  have s1: "(v2::real) \<noteq> 0"
    by (rule iv_nonzero[OF v2_iv]) simp
  have n2: "(0.7684110457544::real) \<le> v1 / v2 \<and> v1 / v2 \<le> (0.7684110457602::real)"
    by (rule iv_div[OF v1_iv v2_iv]) simp_all
  have eq: "temp_ratio_HPT supersonic_inputs = Fin (v1 / v2)"
    by (rule temp_ratio_HPT_Fin[OF v1_eq v2_eq s1])
  from eq n2 show ?thesis
    by blast
qed

lemma supersonic_inputs_pressure_term_HPT:
  "\<exists>t. pressure_term_HPT supersonic_inputs = Fin t \<and> 0.2517271241736 \<le> t \<and> t \<le> 0.25172712418"
proof -
  from supersonic_inputs_temp_ratio_HPT obtain v1 where v1_eq: "temp_ratio_HPT supersonic_inputs = Fin v1"
    and v1_iv: "(0.7684110457544::real) \<le> v1 \<and> v1 \<le> (0.7684110457602::real)"
    by blast
  have c1: "(0.92::real) \<le> 0.92 \<and> 0.92 \<le> (0.92::real)"
    by simp
  have s2: "(0.92::real) \<noteq> 0"
    by (rule iv_nonzero[OF c1]) simp
  have c3: "(1::real) \<le> 1 \<and> 1 \<le> (1::real)"
    by simp
  have n4: "(0.2315889542398::real) \<le> 1 - v1 \<and> 1 - v1 \<le> (0.2315889542456::real)"
    by (rule iv_sub[OF c3 v1_iv]) simp_all
  have n5: "(0.2517271241736::real) \<le> (1 - v1) / 0.92 \<and> (1 - v1) / 0.92 \<le> (0.25172712418::real)"
    by (rule iv_div[OF n4 c1]) simp_all
  have eq: "pressure_term_HPT supersonic_inputs = Fin ((1 - v1) / 0.92)"
    by (rule pressure_term_HPT_Fin[OF v1_eq supersonic_inputs_fields(11) s2])
  from eq n5 show ?thesis
    by blast
qed

lemma supersonic_inputs_pi_HPT:
  "\<exists>t. pi_HPT supersonic_inputs = Fin t \<and> 3.217928221039 \<le> t \<and> t \<le> 3.21792822182"
proof -
  from supersonic_inputs_pressure_term_HPT obtain v1 where v1_eq: "pressure_term_HPT supersonic_inputs = Fin v1"
    and v1_iv: "(0.2517271241736::real) \<le> v1 \<and> v1 \<le> (0.25172712418::real)"
    by blast
  have c1: "(1::real) \<le> 1 \<and> 1 \<le> (1::real)"
    by simp
  have s2: "(v1::real) < 1"
    by (rule iv_less[OF v1_iv c1]) simp
  have n3: "(0.74827287582::real) \<le> 1 - v1 \<and> 1 - v1 \<le> (0.7482728758264::real)"
    by (rule iv_sub[OF c1 v1_iv]) simp_all
  have n4: "(1.336410863343::real) \<le> 1 / (1 - v1) \<and> 1 / (1 - v1) \<le> (1.336410863356::real)"
    by (rule iv_div[OF c1 n3]) simp_all
  have s5: "(0::real) < (1 / (1 - v1))"
    by (rule iv_pos[OF n4]) simp
  have n6: "(1.101488580624::real) \<le> (1 / (1 - v1)) powr (1 / 3) \<and> (1 / (1 - v1)) powr (1 / 3) \<le> (1.101488580628::real)"
    by (rule iv_root[where n=3, OF n4]) (simp_all add: power_divide)
  have n7: "(1.008826225265::real) \<le> ((1 / (1 - v1)) powr (1 / 3)) powr (1 / 11) \<and> ((1 / (1 - v1)) powr (1 / 3)) powr (1 / 11) \<le> (1.008826225266::real)"
    by (rule iv_root[where n=11, OF n6]) (simp_all add: power_divide)
  have n8: "(1.008826225265::real) \<le> (((1 / (1 - v1)) powr (1 / 3)) powr (1 / 11)) ^ 1 \<and> (((1 / (1 - v1)) powr (1 / 3)) powr (1 / 11)) ^ 1 \<le> (1.008826225266::real)"
    by (rule iv_pow_one[OF n7])
  have n9: "(1.017730352782::real) \<le> (((1 / (1 - v1)) powr (1 / 3)) powr (1 / 11)) ^ 2 \<and> (((1 / (1 - v1)) powr (1 / 3)) powr (1 / 11)) ^ 2 \<le> (1.017730352785::real)"
    by (rule iv_pow_sq[OF n8]) (simp_all add: power_divide)
  have n10: "(1.035775070973::real) \<le> (((1 / (1 - v1)) powr (1 / 3)) powr (1 / 11)) ^ 4 \<and> (((1 / (1 - v1)) powr (1 / 3)) powr (1 / 11)) ^ 4 \<le> (1.03577507098::real)"
    by (rule iv_pow_sq[OF n9]) (simp_all add: power_divide)
  have n11: "(1.072829997649::real) \<le> (((1 / (1 - v1)) powr (1 / 3)) powr (1 / 11)) ^ 8 \<and> (((1 / (1 - v1)) powr (1 / 3)) powr (1 / 11)) ^ 8 \<le> (1.072829997664::real)"
    by (rule iv_pow_sq[OF n10]) (simp_all add: power_divide)
  have n12: "(1.150964203855::real) \<le> (((1 / (1 - v1)) powr (1 / 3)) powr (1 / 11)) ^ 16 \<and> (((1 / (1 - v1)) powr (1 / 3)) powr (1 / 11)) ^ 16 \<le> (1.150964203888::real)"
    by (rule iv_pow_sq[OF n11]) (simp_all add: power_divide)
  have n13: "(1.324718598555::real) \<le> (((1 / (1 - v1)) powr (1 / 3)) powr (1 / 11)) ^ 32 \<and> (((1 / (1 - v1)) powr (1 / 3)) powr (1 / 11)) ^ 32 \<le> (1.324718598632::real)"
    by (rule iv_pow_sq[OF n12]) (simp_all add: power_divide)
  have n14: "(1.754879365357::real) \<le> (((1 / (1 - v1)) powr (1 / 3)) powr (1 / 11)) ^ 64 \<and> (((1 / (1 - v1)) powr (1 / 3)) powr (1 / 11)) ^ 64 \<le> (1.754879365562::real)"
    by (rule iv_pow_sq[OF n13]) (simp_all add: power_divide)
  have n15: "(3.079601586955::real) \<le> (((1 / (1 - v1)) powr (1 / 3)) powr (1 / 11)) ^ 128 \<and> (((1 / (1 - v1)) powr (1 / 3)) powr (1 / 11)) ^ 128 \<le> (3.079601587676::real)"
    by (rule iv_pow_sq[OF n14]) (simp_all add: power_divide)
  have n16: "(3.189774552296::real) \<le> (((1 / (1 - v1)) powr (1 / 3)) powr (1 / 11)) ^ 132 \<and> (((1 / (1 - v1)) powr (1 / 3)) powr (1 / 11)) ^ 132 \<le> (3.189774553066::real)"
    by (rule iv_pow_mul[OF n15 n10]) simp_all
  have n17: "(3.217928221039::real) \<le> (((1 / (1 - v1)) powr (1 / 3)) powr (1 / 11)) ^ 133 \<and> (((1 / (1 - v1)) powr (1 / 3)) powr (1 / 11)) ^ 133 \<le> (3.21792822182::real)"
    by (rule iv_pow_mul[OF n16 n8]) simp_all
  have n18: "(3.217928221039::real) \<le> (1 / (1 - v1)) powr (133 / 33) \<and> (1 / (1 - v1)) powr (133 / 33) \<le> (3.21792822182::real)"
    by (rule powr_via_roots[OF n17 s5]) simp_all
  have eq: "pi_HPT supersonic_inputs = Fin ((1 / (1 - v1)) powr (133 / 33))"
    by (rule pi_HPT_Fin[OF v1_eq s2])
  from eq n18 show ?thesis
    by blast
qed

lemma supersonic_inputs_Pt45:
  "\<exists>t. Pt45 supersonic_inputs = Fin t \<and> 2317882.072002 \<le> t \<and> t \<le> 2317882.072586"
proof -
  from supersonic_inputs_Tt45 obtain v1 where v1_eq: "Tt45 supersonic_inputs = Fin v1"
    and v1_iv: "(1298.6146673251::real) \<le> v1 \<and> v1 \<le> (1298.6146673347::real)"
    by blast
  from supersonic_inputs_Tt3 obtain v2 where v2_eq: "Tt3 supersonic_inputs = Fin v2"
    and v2_iv: "(1058.294139099::real) \<le> v2 \<and> v2 \<le> (1058.294139107::real)"
    by blast
  from supersonic_inputs_temp_ratio_HPT obtain v3 where v3_eq: "temp_ratio_HPT supersonic_inputs = Fin v3"
    and v3_iv: "(0.7684110457544::real) \<le> v3 \<and> v3 \<le> (0.7684110457602::real)"
    by blast
  from supersonic_inputs_pressure_term_HPT obtain v4 where v4_eq: "pressure_term_HPT supersonic_inputs = Fin v4"
    and v4_iv: "(0.2517271241736::real) \<le> v4 \<and> v4 \<le> (0.25172712418::real)"
    by blast
  from supersonic_inputs_Pt4 obtain v5 where v5_eq: "Pt4 supersonic_inputs = Fin v5"
    and v5_iv: "(7458778.13434752::real) \<le> v5 \<and> v5 \<le> (7458778.13441376::real)"
    by blast
  from supersonic_inputs_pi_HPT obtain v6 where v6_eq: "pi_HPT supersonic_inputs = Fin v6"
    and v6_iv: "(3.217928221039::real) \<le> v6 \<and> v6 \<le> (3.21792822182::real)"
    by blast
  have c1: "(1::real) \<le> 1 \<and> 1 \<le> (1::real)"
    by simp
  have s2: "(v2::real) \<le> v1"
    by (rule iv_le[OF v2_iv v1_iv]) simp
  have s3: "(0::real) < v3"
    by (rule iv_pos[OF v3_iv]) simp
  have s4: "(v3::real) < 1"
    by (rule iv_less[OF v3_iv c1]) simp
  have s5: "(v4::real) < 1"
    by (rule iv_less[OF v4_iv c1]) simp
  have s6: "(v6::real) \<noteq> 0"
    by (rule iv_nonzero[OF v6_iv]) simp
  have n7: "(2317882.072002::real) \<le> v5 / v6 \<and> v5 / v6 \<le> (2317882.072586::real)"
    by (rule iv_div[OF v5_iv v6_iv]) simp_all
  have eq: "Pt45 supersonic_inputs = Fin (v5 / v6)"
    by (rule hpt_block_Fin(1)[OF v1_eq v2_eq v3_eq v4_eq v5_eq v6_eq s2 s3 s4 s5 s6])
  from eq n7 show ?thesis
    by blast
qed

lemma supersonic_inputs_isValid_HPT:
  "isValid_HPT supersonic_inputs"
proof -
  from supersonic_inputs_Tt45 obtain v1 where v1_eq: "Tt45 supersonic_inputs = Fin v1"
    and v1_iv: "(1298.6146673251::real) \<le> v1 \<and> v1 \<le> (1298.6146673347::real)"
    by blast
  from supersonic_inputs_Tt3 obtain v2 where v2_eq: "Tt3 supersonic_inputs = Fin v2"
    and v2_iv: "(1058.294139099::real) \<le> v2 \<and> v2 \<le> (1058.294139107::real)"
    by blast
  from supersonic_inputs_temp_ratio_HPT obtain v3 where v3_eq: "temp_ratio_HPT supersonic_inputs = Fin v3"
    and v3_iv: "(0.7684110457544::real) \<le> v3 \<and> v3 \<le> (0.7684110457602::real)"
    by blast
  from supersonic_inputs_pressure_term_HPT obtain v4 where v4_eq: "pressure_term_HPT supersonic_inputs = Fin v4"
    and v4_iv: "(0.2517271241736::real) \<le> v4 \<and> v4 \<le> (0.25172712418::real)"
    by blast
  from supersonic_inputs_Pt4 obtain v5 where v5_eq: "Pt4 supersonic_inputs = Fin v5"
    and v5_iv: "(7458778.13434752::real) \<le> v5 \<and> v5 \<le> (7458778.13441376::real)"
    by blast
  from supersonic_inputs_pi_HPT obtain v6 where v6_eq: "pi_HPT supersonic_inputs = Fin v6"
    and v6_iv: "(3.217928221039::real) \<le> v6 \<and> v6 \<le> (3.21792822182::real)"
    by blast
  have c1: "(1::real) \<le> 1 \<and> 1 \<le> (1::real)"
    by simp
  have s2: "(v2::real) \<le> v1"
    by (rule iv_le[OF v2_iv v1_iv]) simp
  have s3: "(0::real) < v3"
    by (rule iv_pos[OF v3_iv]) simp
  have s4: "(v3::real) < 1"
    by (rule iv_less[OF v3_iv c1]) simp
  have s5: "(v4::real) < 1"
    by (rule iv_less[OF v4_iv c1]) simp
  have s6: "(v6::real) \<noteq> 0"
    by (rule iv_nonzero[OF v6_iv]) simp
  show ?thesis
    by (rule hpt_block_Fin(2)[OF v1_eq v2_eq v3_eq v4_eq v5_eq v6_eq s2 s3 s4 s5 s6])
qed

lemma supersonic_inputs_work_req_Fan:
  "\<exists>t. work_req_Fan supersonic_inputs = Fin t \<and> 522919.66544334 \<le> t \<and> t \<le> 522919.665457812"
proof -
  have c1: "(5::real) \<le> 5 \<and> 5 \<le> (5::real)"
    by simp
  from supersonic_inputs_Tt13 obtain v1 where v1_eq: "Tt13 supersonic_inputs = Fin v1"
    and v1_iv: "(605.389679178::real) \<le> v1 \<and> v1 \<le> (605.3896791804::real)"
    by blast
  from supersonic_inputs_Tt2 obtain v2 where v2_eq: "Tt2 supersonic_inputs = Fin v2"
    and v2_iv: "(518.67::real) \<le> v2 \<and> v2 \<le> (518.67::real)"
    by blast
  have c2: "(1::real) \<le> 1 \<and> 1 \<le> (1::real)"
    by simp
  have n3: "(6::real) \<le> 1 + 5 \<and> 1 + 5 \<le> (6::real)"
    by (rule iv_add[OF c2 c1]) simp_all
  have c4: "(1005::real) \<le> 1005 \<and> 1005 \<le> (1005::real)"
    by simp
  have n5: "(6030::real) \<le> (1 + 5) * 1005 \<and> (1 + 5) * 1005 \<le> (6030::real)"
    by (rule iv_mul[OF n3 c4]) simp_all
  have n6: "(86.719679178::real) \<le> v1 - v2 \<and> v1 - v2 \<le> (86.7196791804::real)"
    by (rule iv_sub[OF v1_iv v2_iv]) simp_all
  have n7: "(522919.66544334::real) \<le> ((1 + 5) * 1005) * (v1 - v2) \<and> ((1 + 5) * 1005) * (v1 - v2) \<le> (522919.665457812::real)"
    by (rule iv_mul[OF n5 n6]) simp_all
  have eq: "work_req_Fan supersonic_inputs = Fin (((1 + 5) * 1005) * (v1 - v2))"
    by (rule work_req_Fan_Fin[OF supersonic_inputs_fields(4) v1_eq v2_eq])
  from eq n7 show ?thesis
    by blast
qed

lemma supersonic_inputs_work_extraction_LPT:
  "\<exists>t. work_extraction_LPT supersonic_inputs = Fin t \<and> 528201.682266 \<le> t \<and> t \<le> 528201.6822807"
proof -
  from supersonic_inputs_work_req_Fan obtain v1 where v1_eq: "work_req_Fan supersonic_inputs = Fin v1"
    and v1_iv: "(522919.66544334::real) \<le> v1 \<and> v1 \<le> (522919.665457812::real)"
    by blast
  have c1: "(0.99::real) \<le> 0.99 \<and> 0.99 \<le> (0.99::real)"
    by simp
  have s2: "(0.99::real) \<noteq> 0"
    by (rule iv_nonzero[OF c1]) simp
  have n3: "(528201.682266::real) \<le> v1 / 0.99 \<and> v1 / 0.99 \<le> (528201.6822807::real)"
    by (rule iv_div[OF v1_iv c1]) simp_all
  have eq: "work_extraction_LPT supersonic_inputs = Fin (v1 / 0.99)"
    by (rule work_extraction_LPT_Fin[OF v1_eq supersonic_inputs_fields(18) s2])
  from eq n3 show ?thesis
    by blast
qed

lemma supersonic_inputs_deltaT_LPT:
  "\<exists>t. deltaT_LPT supersonic_inputs = Fin t \<and> 449.6419905842 \<le> t \<and> t \<le> 449.6419905973"
proof -
  from supersonic_inputs_work_extraction_LPT obtain v1 where v1_eq: "work_extraction_LPT supersonic_inputs = Fin v1"
    and v1_iv: "(528201.682266::real) \<le> v1 \<and> v1 \<le> (528201.6822807::real)"
    by blast
  from supersonic_inputs_f obtain v2 where v2_eq: "f supersonic_inputs = Fin v2"
    and v2_iv: "(0.02149225446856::real) \<le> v2 \<and> v2 \<le> (0.02149225446877::real)"
    by blast
  have c1: "(1::real) \<le> 1 \<and> 1 \<le> (1::real)"
    by simp
  have n2: "(1.02149225446856::real) \<le> 1 + v2 \<and> 1 + v2 \<le> (1.02149225446877::real)"
    by (rule iv_add[OF c1 v2_iv]) simp_all
  have c3: "(1150::real) \<le> 1150 \<and> 1150 \<le> (1150::real)"
    by simp
  have n4: "(1174.716092638844::real) \<le> (1 + v2) * 1150 \<and> (1 + v2) * 1150 \<le> (1174.71609264::real)"
    by (rule iv_mul[OF n2 c3]) simp_all
  have s5: "((1 + v2) * 1150::real) \<noteq> 0"
    by (rule iv_nonzero[OF n4]) simp
  have n6: "(449.6419905842::real) \<le> v1 / ((1 + v2) * 1150) \<and> v1 / ((1 + v2) * 1150) \<le> (449.6419905973::real)"
    by (rule iv_div[OF v1_iv n4]) simp_all
  have eq: "deltaT_LPT supersonic_inputs = Fin (v1 / ((1 + v2) * 1150))"
    by (rule deltaT_LPT_Fin[OF v1_eq v2_eq s5])
  from eq n6 show ?thesis
    by blast
qed

lemma supersonic_inputs_Tt5:
  "\<exists>t. Tt5 supersonic_inputs = Fin t \<and> 848.9726767278 \<le> t \<and> t \<le> 848.9726767505"
proof -
  from supersonic_inputs_Tt45 obtain v1 where v1_eq: "Tt45 supersonic_inputs = Fin v1"
    and v1_iv: "(1298.6146673251::real) \<le> v1 \<and> v1 \<le> (1298.6146673347::real)"
    by blast
  from supersonic_inputs_deltaT_LPT obtain v2 where v2_eq: "deltaT_LPT supersonic_inputs = Fin v2"
    and v2_iv: "(449.6419905842::real) \<le> v2 \<and> v2 \<le> (449.6419905973::real)"
    by blast
  have n1: "(848.9726767278::real) \<le> v1 - v2 \<and> v1 - v2 \<le> (848.9726767505::real)"
    by (rule iv_sub[OF v1_iv v2_iv]) simp_all
  have eq: "Tt5 supersonic_inputs = Fin (v1 - v2)"
    by (rule Tt5_Fin[OF v1_eq v2_eq])
  from eq n1 show ?thesis
    by blast
qed

lemma supersonic_inputs_temp_ratio_LPT:
  "\<exists>t. temp_ratio_LPT supersonic_inputs = Fin t \<and> 0.6537525703989 \<le> t \<and> t \<le> 0.6537525704213"
proof -
  from supersonic_inputs_Tt5 obtain v1 where v1_eq: "Tt5 supersonic_inputs = Fin v1"
    and v1_iv: "(848.9726767278::real) \<le> v1 \<and> v1 \<le> (848.9726767505::real)"
    by blast
  from supersonic_inputs_Tt45 obtain v2 where v2_eq: "Tt45 supersonic_inputs = Fin v2"
    and v2_iv: "(1298.6146673251::real) \<le> v2 \<and> v2 \<le> (1298.6146673347::real)"
    by blast
  have s1: "(v2::real) \<noteq> 0"
    by (rule iv_nonzero[OF v2_iv]) simp
  have n2: "(0.6537525703989::real) \<le> v1 / v2 \<and> v1 / v2 \<le> (0.6537525704213::real)"
    by (rule iv_div[OF v1_iv v2_iv]) simp_all
  have eq: "temp_ratio_LPT supersonic_inputs = Fin (v1 / v2)"
    by (rule temp_ratio_LPT_Fin[OF v1_eq v2_eq s1])
  from eq n2 show ?thesis
    by blast
qed

lemma supersonic_inputs_pressure_term_LPT:
  "\<exists>t. pressure_term_LPT supersonic_inputs = Fin t \<and> 0.3723090640631 \<le> t \<and> t \<le> 0.3723090640873"
proof -
  from supersonic_inputs_temp_ratio_LPT obtain v1 where v1_eq: "temp_ratio_LPT supersonic_inputs = Fin v1"
    and v1_iv: "(0.6537525703989::real) \<le> v1 \<and> v1 \<le> (0.6537525704213::real)"
    by blast
  have c1: "(0.93::real) \<le> 0.93 \<and> 0.93 \<le> (0.93::real)"
    by simp
  have s2: "(0.93::real) \<noteq> 0"
    by (rule iv_nonzero[OF c1]) simp
  have c3: "(1::real) \<le> 1 \<and> 1 \<le> (1::real)"
    by simp
  have n4: "(0.3462474295787::real) \<le> 1 - v1 \<and> 1 - v1 \<le> (0.3462474296011::real)"
    by (rule iv_sub[OF c3 v1_iv]) simp_all
  have n5: "(0.3723090640631::real) \<le> (1 - v1) / 0.93 \<and> (1 - v1) / 0.93 \<le> (0.3723090640873::real)"
    by (rule iv_div[OF n4 c1]) simp_all
  have eq: "pressure_term_LPT supersonic_inputs = Fin ((1 - v1) / 0.93)"
    by (rule pressure_term_LPT_Fin[OF v1_eq supersonic_inputs_fields(12) s2])
  from eq n5 show ?thesis
    by blast
qed

lemma supersonic_inputs_pi_LPT:
  "\<exists>t. pi_LPT supersonic_inputs = Fin t \<and> 6.533493810892 \<le> t \<and> t \<le> 6.533493813296"
proof -
  from supersonic_inputs_pressure_term_LPT obtain v1 where v1_eq: "pressure_term_LPT supersonic_inputs = Fin v1"
    and v1_iv: "(0.3723090640631::real) \<le> v1 \<and> v1 \<le> (0.3723090640873::real)"
    by blast
  have c1: "(1::real) \<le> 1 \<and> 1 \<le> (1::real)"
    by simp
  have s2: "(v1::real) < 1"
    by (rule iv_less[OF v1_iv c1]) simp
  have n3: "(0.6276909359127::real) \<le> 1 - v1 \<and> 1 - v1 \<le> (0.6276909359369::real)"
    by (rule iv_sub[OF c1 v1_iv]) simp_all
  have n4: "(1.593140736543::real) \<le> 1 / (1 - v1) \<and> 1 / (1 - v1) \<le> (1.593140736605::real)"
    by (rule iv_div[OF c1 n3]) simp_all
  have s5: "(0::real) < (1 / (1 - v1))"
    by (rule iv_pos[OF n4]) simp
  have n6: "(1.167933317148::real) \<le> (1 / (1 - v1)) powr (1 / 3) \<and> (1 / (1 - v1)) powr (1 / 3) \<le> (1.167933317165::real)"
    by (rule iv_root[where n=3, OF n4]) (simp_all add: power_divide)
  have n7: "(1.014212393888::real) \<le> ((1 / (1 - v1)) powr (1 / 3)) powr (1 / 11) \<and> ((1 / (1 - v1)) powr (1 / 3)) powr (1 / 11) \<le> (1.01421239389::real)"
    by (rule iv_root[where n=11, OF n6]) (simp_all add: power_divide)
  have n8: "(1.014212393888::real) \<le> (((1 / (1 - v1)) powr (1 / 3)) powr (1 / 11)) ^ 1 \<and> (((1 / (1 - v1)) powr (1 / 3)) powr (1 / 11)) ^ 1 \<le> (1.01421239389::real)"
    by (rule iv_pow_one[OF n7])
  have n9: "(1.028626779916::real) \<le> (((1 / (1 - v1)) powr (1 / 3)) powr (1 / 11)) ^ 2 \<and> (((1 / (1 - v1)) powr (1 / 3)) powr (1 / 11)) ^ 2 \<le> (1.028626779921::real)"
    by (rule iv_pow_sq[OF n8]) (simp_all add: power_divide)
  have n10: "(1.05807305236::real) \<le> (((1 / (1 - v1)) powr (1 / 3)) powr (1 / 11)) ^ 4 \<and> (((1 / (1 - v1)) powr (1 / 3)) powr (1 / 11)) ^ 4 \<le> (1.058073052371::real)"
    by (rule iv_pow_sq[OF n9]) (simp_all add: power_divide)
  have n11: "(1.11951858413::real) \<le> (((1 / (1 - v1)) powr (1 / 3)) powr (1 / 11)) ^ 8 \<and> (((1 / (1 - v1)) powr (1 / 3)) powr (1 / 11)) ^ 8 \<le> (1.119518584154::real)"
    by (rule iv_pow_sq[OF n10]) (simp_all add: power_divide)
  have n12: "(1.253321860212::real) \<le> (((1 / (1 - v1)) powr (1 / 3)) powr (1 / 11)) ^ 16 \<and> (((1 / (1 - v1)) powr (1 / 3)) powr (1 / 11)) ^ 16 \<le> (1.253321860267::real)"
    by (rule iv_pow_sq[OF n11]) (simp_all add: power_divide)
  have n13: "(1.570815685285::real) \<le> (((1 / (1 - v1)) powr (1 / 3)) powr (1 / 11)) ^ 32 \<and> (((1 / (1 - v1)) powr (1 / 3)) powr (1 / 11)) ^ 32 \<le> (1.570815685424::real)"
    by (rule iv_pow_sq[OF n12]) (simp_all add: power_divide)
  have n14: "(2.467461917137::real) \<le> (((1 / (1 - v1)) powr (1 / 3)) powr (1 / 11)) ^ 64 \<and> (((1 / (1 - v1)) powr (1 / 3)) powr (1 / 11)) ^ 64 \<le> (2.467461917575::real)"
    by (rule iv_pow_sq[OF n13]) (simp_all add: power_divide)
  have n15: "(6.088368312521::real) \<le> (((1 / (1 - v1)) powr (1 / 3)) powr (1 / 11)) ^ 128 \<and> (((1 / (1 - v1)) powr (1 / 3)) powr (1 / 11)) ^ 128 \<le> (6.088368314683::real)"
    by (rule iv_pow_sq[OF n14]) (simp_all add: power_divide)
  have n16: "(6.44193844432::real) \<le> (((1 / (1 - v1)) powr (1 / 3)) powr (1 / 11)) ^ 132 \<and> (((1 / (1 - v1)) powr (1 / 3)) powr (1 / 11)) ^ 132 \<le> (6.441938446676::real)"
    by (rule iv_pow_mul[OF n15 n10]) simp_all
  have n17: "(6.533493810892::real) \<le> (((1 / (1 - v1)) powr (1 / 3)) powr (1 / 11)) ^ 133 \<and> (((1 / (1 - v1)) powr (1 / 3)) powr (1 / 11)) ^ 133 \<le> (6.533493813296::real)"
    by (rule iv_pow_mul[OF n16 n8]) simp_all
  have n18: "(6.533493810892::real) \<le> (1 / (1 - v1)) powr (133 / 33) \<and> (1 / (1 - v1)) powr (133 / 33) \<le> (6.533493813296::real)"
    by (rule powr_via_roots[OF n17 s5]) simp_all
  have eq: "pi_LPT supersonic_inputs = Fin ((1 / (1 - v1)) powr (133 / 33))"
    by (rule pi_LPT_Fin[OF v1_eq s2])
  from eq n18 show ?thesis
    by blast
qed

lemma supersonic_inputs_Pt5:
  "\<exists>t. Pt5 supersonic_inputs = Fin t \<and> 354769.1538767 \<le> t \<and> t \<le> 354769.1540967"
proof -
  from supersonic_inputs_Tt5 obtain v1 where v1_eq: "Tt5 supersonic_inputs = Fin v1"
    and v1_iv: "(848.9726767278::real) \<le> v1 \<and> v1 \<le> (848.9726767505::real)"
    by blast
  from supersonic_inputs_T0 obtain v2 where v2_eq: "T0 supersonic_inputs = Fin v2"
    and v2_iv: "(288.15::real) \<le> v2 \<and> v2 \<le> (288.15::real)"
    by blast
  from supersonic_inputs_temp_ratio_LPT obtain v3 where v3_eq: "temp_ratio_LPT supersonic_inputs = Fin v3"
    and v3_iv: "(0.6537525703989::real) \<le> v3 \<and> v3 \<le> (0.6537525704213::real)"
    by blast
  from supersonic_inputs_pressure_term_LPT obtain v4 where v4_eq: "pressure_term_LPT supersonic_inputs = Fin v4"
    and v4_iv: "(0.3723090640631::real) \<le> v4 \<and> v4 \<le> (0.3723090640873::real)"
    by blast
  from supersonic_inputs_Pt45 obtain v5 where v5_eq: "Pt45 supersonic_inputs = Fin v5"
    and v5_iv: "(2317882.072002::real) \<le> v5 \<and> v5 \<le> (2317882.072586::real)"
    by blast
  from supersonic_inputs_pi_LPT obtain v6 where v6_eq: "pi_LPT supersonic_inputs = Fin v6"
    and v6_iv: "(6.533493810892::real) \<le> v6 \<and> v6 \<le> (6.533493813296::real)"
    by blast
  have c1: "(1::real) \<le> 1 \<and> 1 \<le> (1::real)"
    by simp
  have s2: "(v2::real) \<le> v1"
    by (rule iv_le[OF v2_iv v1_iv]) simp
  have s3: "(0::real) < v3"
    by (rule iv_pos[OF v3_iv]) simp
  have s4: "(v3::real) < 1"
    by (rule iv_less[OF v3_iv c1]) simp
  have s5: "(v4::real) < 1"
    by (rule iv_less[OF v4_iv c1]) simp
  have s6: "(v6::real) \<noteq> 0"
    by (rule iv_nonzero[OF v6_iv]) simp
  have n7: "(354769.1538767::real) \<le> v5 / v6 \<and> v5 / v6 \<le> (354769.1540967::real)"
    by (rule iv_div[OF v5_iv v6_iv]) simp_all
  have eq: "Pt5 supersonic_inputs = Fin (v5 / v6)"
    by (rule lpt_block_Fin(1)[OF supersonic_inputs_isValid_HPT v1_eq v2_eq v3_eq v4_eq v5_eq v6_eq s2 s3 s4 s5 s6])
  from eq n7 show ?thesis
    by blast
qed

lemma supersonic_inputs_isValid_LPT:
  "isValid_LPT supersonic_inputs"
proof -
  from supersonic_inputs_Tt5 obtain v1 where v1_eq: "Tt5 supersonic_inputs = Fin v1"
    and v1_iv: "(848.9726767278::real) \<le> v1 \<and> v1 \<le> (848.9726767505::real)"
    by blast
  from supersonic_inputs_T0 obtain v2 where v2_eq: "T0 supersonic_inputs = Fin v2"
    and v2_iv: "(288.15::real) \<le> v2 \<and> v2 \<le> (288.15::real)"
    by blast
  from supersonic_inputs_temp_ratio_LPT obtain v3 where v3_eq: "temp_ratio_LPT supersonic_inputs = Fin v3"
    and v3_iv: "(0.6537525703989::real) \<le> v3 \<and> v3 \<le> (0.6537525704213::real)"
    by blast
  from supersonic_inputs_pressure_term_LPT obtain v4 where v4_eq: "pressure_term_LPT supersonic_inputs = Fin v4"
    and v4_iv: "(0.3723090640631::real) \<le> v4 \<and> v4 \<le> (0.3723090640873::real)"
    by blast
  from supersonic_inputs_Pt45 obtain v5 where v5_eq: "Pt45 supersonic_inputs = Fin v5"
    and v5_iv: "(2317882.072002::real) \<le> v5 \<and> v5 \<le> (2317882.072586::real)"
    by blast
  from supersonic_inputs_pi_LPT obtain v6 where v6_eq: "pi_LPT supersonic_inputs = Fin v6"
    and v6_iv: "(6.533493810892::real) \<le> v6 \<and> v6 \<le> (6.533493813296::real)"
    by blast
  have c1: "(1::real) \<le> 1 \<and> 1 \<le> (1::real)"
    by simp
  have s2: "(v2::real) \<le> v1"
    by (rule iv_le[OF v2_iv v1_iv]) simp
  have s3: "(0::real) < v3"
    by (rule iv_pos[OF v3_iv]) simp
  have s4: "(v3::real) < 1"
    by (rule iv_less[OF v3_iv c1]) simp
  have s5: "(v4::real) < 1"
    by (rule iv_less[OF v4_iv c1]) simp
  have s6: "(v6::real) \<noteq> 0"
    by (rule iv_nonzero[OF v6_iv]) simp
  show ?thesis
    by (rule lpt_block_Fin(2)[OF supersonic_inputs_isValid_HPT v1_eq v2_eq v3_eq v4_eq v5_eq v6_eq s2 s3 s4 s5 s6])
qed

lemma supersonic_inputs_Pt9:
  "\<exists>t. Pt9 supersonic_inputs = Fin t \<and> 351221.462337933 \<le> t \<and> t \<le> 351221.462555733"
proof -
  from supersonic_inputs_Pt5 obtain v1 where v1_eq: "Pt5 supersonic_inputs = Fin v1"
    and v1_iv: "(354769.1538767::real) \<le> v1 \<and> v1 \<le> (354769.1540967::real)"
    by blast
  have c1: "(0.99::real) \<le> 0.99 \<and> 0.99 \<le> (0.99::real)"
    by simp
  have n2: "(351221.462337933::real) \<le> v1 * 0.99 \<and> v1 * 0.99 \<le> (351221.462555733::real)"
    by (rule iv_mul[OF v1_iv c1]) simp_all
  have eq: "Pt9 supersonic_inputs = Fin (v1 * 0.99)"
    by (rule Pt9_Fin[OF v1_eq supersonic_inputs_fields(16)])
  from eq n2 show ?thesis
    by blast
qed

lemma supersonic_inputs_P9:
  "\<exists>t. P9 supersonic_inputs = Fin t \<and> 189787.4404358 \<le> t \<and> t \<le> 189787.4406017"
proof -
  from supersonic_inputs_Pt9 obtain v1 where v1_eq: "Pt9 supersonic_inputs = Fin v1"
    and v1_iv: "(351221.462337933::real) \<le> v1 \<and> v1 \<le> (351221.462555733::real)"
    by blast
  from supersonic_inputs_P0 obtain v2 where v2_eq: "P0 supersonic_inputs = Fin v2"
    and v2_iv: "(101325::real) \<le> v2 \<and> v2 \<le> (101325::real)"
    by blast
  from supersonic_inputs_Tt5 obtain v3 where v3_eq: "Tt5 supersonic_inputs = Fin v3"
    and v3_iv: "(848.9726767278::real) \<le> v3 \<and> v3 \<le> (848.9726767505::real)"
    by blast
  have c1: "(1.33::real) \<le> 1.33 \<and> 1.33 \<le> (1.33::real)"
    by simp
  have c2: "(1::real) \<le> 1 \<and> 1 \<le> (1::real)"
    by simp
  have n3: "(2.33::real) \<le> 1.33 + 1 \<and> 1.33 + 1 \<le> (2.33::real)"
    by (rule iv_add[OF c1 c2]) simp_all
  have c4: "(2::real) \<le> 2 \<and> 2 \<le> (2::real)"
    by simp
  have n5: "(1.165::real) \<le> (1.33 + 1) / 2 \<and> (1.33 + 1) / 2 \<le> (1.165::real)"
    by (rule iv_div[OF n3 c4]) simp_all
  have s6: "(0::real) < ((1.33 + 1) / 2)"
    by (rule iv_pos[OF n5]) simp
  have n7: "(1.052225062325::real) \<le> ((1.33 + 1) / 2) powr (1 / 3) \<and> ((1.33 + 1) / 2) powr (1 / 3) \<le> (1.052225062326::real)"
    by (rule iv_root[where n=3, OF n5]) (simp_all add: power_divide)
  have n8: "(1.00463863705::real) \<le> (((1.33 + 1) / 2) powr (1 / 3)) powr (1 / 11) \<and> (((1.33 + 1) / 2) powr (1 / 3)) powr (1 / 11) \<le> (1.004638637051::real)"
    by (rule iv_root[where n=11, OF n7]) (simp_all add: power_divide)
  have n9: "(1.00463863705::real) \<le> ((((1.33 + 1) / 2) powr (1 / 3)) powr (1 / 11)) ^ 1 \<and> ((((1.33 + 1) / 2) powr (1 / 3)) powr (1 / 11)) ^ 1 \<le> (1.004638637051::real)"
    by (rule iv_pow_one[OF n8])
  have n10: "(1.009298791053::real) \<le> ((((1.33 + 1) / 2) powr (1 / 3)) powr (1 / 11)) ^ 2 \<and> ((((1.33 + 1) / 2) powr (1 / 3)) powr (1 / 11)) ^ 2 \<le> (1.009298791056::real)"
    by (rule iv_pow_sq[OF n9]) (simp_all add: power_divide)
  have n11: "(1.018684049621::real) \<le> ((((1.33 + 1) / 2) powr (1 / 3)) powr (1 / 11)) ^ 4 \<and> ((((1.33 + 1) / 2) powr (1 / 3)) powr (1 / 11)) ^ 4 \<le> (1.018684049628::real)"
    by (rule iv_pow_sq[OF n10]) (simp_all add: power_divide)
  have n12: "(1.037717192952::real) \<le> ((((1.33 + 1) / 2) powr (1 / 3)) powr (1 / 11)) ^ 8 \<and> ((((1.33 + 1) / 2) powr (1 / 3)) powr (1 / 11)) ^ 8 \<le> (1.037717192967::real)"
    by (rule iv_pow_sq[OF n11]) (simp_all add: power_divide)
  have n13: "(1.076856972548::real) \<le> ((((1.33 + 1) / 2) powr (1 / 3)) powr (1 / 11)) ^ 16 \<and> ((((1.33 + 1) / 2) powr (1 / 3)) powr (1 / 11)) ^ 16 \<le> (1.07685697258::real)"
    by (rule iv_pow_sq[OF n12]) (simp_all add: power_divide)
  have n14: "(1.159620939325::real) \<le> ((((1.33 + 1) / 2) powr (1 / 3)) powr (1 / 11)) ^ 32 \<and> ((((1.33 + 1) / 2) powr (1 / 3)) powr (1 / 11)) ^ 32 \<le> (1.159620939395::real)"
    by (rule iv_pow_sq[OF n13]) (simp_all add: power_divide)
  have n15: "(1.34472072292::real) \<le> ((((1.33 + 1) / 2) powr (1 / 3)) powr (1 / 11)) ^ 64 \<and> ((((1.33 + 1) / 2) powr (1 / 3)) powr (1 / 11)) ^ 64 \<le> (1.344720723084::real)"
    by (rule iv_pow_sq[OF n14]) (simp_all add: power_divide)
  have n16: "(1.80827382265::real) \<le> ((((1.33 + 1) / 2) powr (1 / 3)) powr (1 / 11)) ^ 128 \<and> ((((1.33 + 1) / 2) powr (1 / 3)) powr (1 / 11)) ^ 128 \<le> (1.808273823092::real)"
    by (rule iv_pow_sq[OF n15]) (simp_all add: power_divide)
  have n17: "(1.84205970048::real) \<le> ((((1.33 + 1) / 2) powr (1 / 3)) powr (1 / 11)) ^ 132 \<and> ((((1.33 + 1) / 2) powr (1 / 3)) powr (1 / 11)) ^ 132 \<le> (1.842059700944::real)"
    by (rule iv_pow_mul[OF n16 n11]) simp_all
  have n18: "(1.850604346854::real) \<le> ((((1.33 + 1) / 2) powr (1 / 3)) powr (1 / 11)) ^ 133 \<and> ((((1.33 + 1) / 2) powr (1 / 3)) powr (1 / 11)) ^ 133 \<le> (1.850604347323::real)"
    by (rule iv_pow_mul[OF n17 n9]) simp_all
  have n19: "(1.850604346854::real) \<le> ((1.33 + 1) / 2) powr (133 / 33) \<and> ((1.33 + 1) / 2) powr (133 / 33) \<le> (1.850604347323::real)"
    by (rule powr_via_roots[OF n18 s6]) simp_all
  have n20: "(3.466286329513::real) \<le> v1 / v2 \<and> v1 / v2 \<le> (3.466286331663::real)"
    by (rule iv_div[OF v1_iv v2_iv]) simp_all
  have s21: "(v2::real) \<noteq> 0"
    by (rule iv_nonzero[OF v2_iv]) simp
  have s22: "(((1.33 + 1) / 2) powr (133 / 33)::real) < (v1 / v2)"
    by (rule iv_less[OF n19 n20]) simp
  have s23: "(0::real) \<le> v3"
    by (rule iv_nonneg[OF v3_iv]) simp
  have n24: "(189787.4404358::real) \<le> v1 / (((1.33 + 1) / 2) powr (133 / 33)) \<and> v1 / (((1.33 + 1) / 2) powr (133 / 33)) \<le> (189787.4406017::real)"
    by (rule iv_div[OF v1_iv n19]) simp_all
  have eq: "P9 supersonic_inputs = Fin (v1 / (((1.33 + 1) / 2) powr (133 / 33)))"
    by (rule core_nozzle_choked_Fin(1)[OF supersonic_inputs_isValid_LPT v1_eq v2_eq v3_eq s21 s22 s23])
  from eq n24 show ?thesis
    by blast
qed

lemma supersonic_inputs_T9:
  "\<exists>t. T9 supersonic_inputs = Fin t \<and> 728.7319113542 \<le> t \<and> t \<le> 728.7319113739"
proof -
  from supersonic_inputs_Pt9 obtain v1 where v1_eq: "Pt9 supersonic_inputs = Fin v1"
    and v1_iv: "(351221.462337933::real) \<le> v1 \<and> v1 \<le> (351221.462555733::real)"
    by blast
  from supersonic_inputs_P0 obtain v2 where v2_eq: "P0 supersonic_inputs = Fin v2"
    and v2_iv: "(101325::real) \<le> v2 \<and> v2 \<le> (101325::real)"
    by blast
  from supersonic_inputs_Tt5 obtain v3 where v3_eq: "Tt5 supersonic_inputs = Fin v3"
    and v3_iv: "(848.9726767278::real) \<le> v3 \<and> v3 \<le> (848.9726767505::real)"
    by blast
  have c1: "(1.33::real) \<le> 1.33 \<and> 1.33 \<le> (1.33::real)"
    by simp
  have c2: "(1::real) \<le> 1 \<and> 1 \<le> (1::real)"
    by simp
  have n3: "(2.33::real) \<le> 1.33 + 1 \<and> 1.33 + 1 \<le> (2.33::real)"
    by (rule iv_add[OF c1 c2]) simp_all
  have c4: "(2::real) \<le> 2 \<and> 2 \<le> (2::real)"
    by simp
  have n5: "(1.165::real) \<le> (1.33 + 1) / 2 \<and> (1.33 + 1) / 2 \<le> (1.165::real)"
    by (rule iv_div[OF n3 c4]) simp_all
  have s6: "(0::real) < ((1.33 + 1) / 2)"
    by (rule iv_pos[OF n5]) simp
  have n7: "(1.052225062325::real) \<le> ((1.33 + 1) / 2) powr (1 / 3) \<and> ((1.33 + 1) / 2) powr (1 / 3) \<le> (1.052225062326::real)"
    by (rule iv_root[where n=3, OF n5]) (simp_all add: power_divide)
  have n8: "(1.00463863705::real) \<le> (((1.33 + 1) / 2) powr (1 / 3)) powr (1 / 11) \<and> (((1.33 + 1) / 2) powr (1 / 3)) powr (1 / 11) \<le> (1.004638637051::real)"
    by (rule iv_root[where n=11, OF n7]) (simp_all add: power_divide)
  have n9: "(1.00463863705::real) \<le> ((((1.33 + 1) / 2) powr (1 / 3)) powr (1 / 11)) ^ 1 \<and> ((((1.33 + 1) / 2) powr (1 / 3)) powr (1 / 11)) ^ 1 \<le> (1.004638637051::real)"
    by (rule iv_pow_one[OF n8])
  have n10: "(1.009298791053::real) \<le> ((((1.33 + 1) / 2) powr (1 / 3)) powr (1 / 11)) ^ 2 \<and> ((((1.33 + 1) / 2) powr (1 / 3)) powr (1 / 11)) ^ 2 \<le> (1.009298791056::real)"
    by (rule iv_pow_sq[OF n9]) (simp_all add: power_divide)
  have n11: "(1.018684049621::real) \<le> ((((1.33 + 1) / 2) powr (1 / 3)) powr (1 / 11)) ^ 4 \<and> ((((1.33 + 1) / 2) powr (1 / 3)) powr (1 / 11)) ^ 4 \<le> (1.018684049628::real)"
    by (rule iv_pow_sq[OF n10]) (simp_all add: power_divide)
  have n12: "(1.037717192952::real) \<le> ((((1.33 + 1) / 2) powr (1 / 3)) powr (1 / 11)) ^ 8 \<and> ((((1.33 + 1) / 2) powr (1 / 3)) powr (1 / 11)) ^ 8 \<le> (1.037717192967::real)"
    by (rule iv_pow_sq[OF n11]) (simp_all add: power_divide)
  have n13: "(1.076856972548::real) \<le> ((((1.33 + 1) / 2) powr (1 / 3)) powr (1 / 11)) ^ 16 \<and> ((((1.33 + 1) / 2) powr (1 / 3)) powr (1 / 11)) ^ 16 \<le> (1.07685697258::real)"
    by (rule iv_pow_sq[OF n12]) (simp_all add: power_divide)
  have n14: "(1.159620939325::real) \<le> ((((1.33 + 1) / 2) powr (1 / 3)) powr (1 / 11)) ^ 32 \<and> ((((1.33 + 1) / 2) powr (1 / 3)) powr (1 / 11)) ^ 32 \<le> (1.159620939395::real)"
    by (rule iv_pow_sq[OF n13]) (simp_all add: power_divide)
  have n15: "(1.34472072292::real) \<le> ((((1.33 + 1) / 2) powr (1 / 3)) powr (1 / 11)) ^ 64 \<and> ((((1.33 + 1) / 2) powr (1 / 3)) powr (1 / 11)) ^ 64 \<le> (1.344720723084::real)"
    by (rule iv_pow_sq[OF n14]) (simp_all add: power_divide)
  have n16: "(1.80827382265::real) \<le> ((((1.33 + 1) / 2) powr (1 / 3)) powr (1 / 11)) ^ 128 \<and> ((((1.33 + 1) / 2) powr (1 / 3)) powr (1 / 11)) ^ 128 \<le> (1.808273823092::real)"
    by (rule iv_pow_sq[OF n15]) (simp_all add: power_divide)
  have n17: "(1.84205970048::real) \<le> ((((1.33 + 1) / 2) powr (1 / 3)) powr (1 / 11)) ^ 132 \<and> ((((1.33 + 1) / 2) powr (1 / 3)) powr (1 / 11)) ^ 132 \<le> (1.842059700944::real)"
    by (rule iv_pow_mul[OF n16 n11]) simp_all
  have n18: "(1.850604346854::real) \<le> ((((1.33 + 1) / 2) powr (1 / 3)) powr (1 / 11)) ^ 133 \<and> ((((1.33 + 1) / 2) powr (1 / 3)) powr (1 / 11)) ^ 133 \<le> (1.850604347323::real)"
    by (rule iv_pow_mul[OF n17 n9]) simp_all
  have n19: "(1.850604346854::real) \<le> ((1.33 + 1) / 2) powr (133 / 33) \<and> ((1.33 + 1) / 2) powr (133 / 33) \<le> (1.850604347323::real)"
    by (rule powr_via_roots[OF n18 s6]) simp_all
  have n20: "(3.466286329513::real) \<le> v1 / v2 \<and> v1 / v2 \<le> (3.466286331663::real)"
    by (rule iv_div[OF v1_iv v2_iv]) simp_all
  have s21: "(v2::real) \<noteq> 0"
    by (rule iv_nonzero[OF v2_iv]) simp
  have s22: "(((1.33 + 1) / 2) powr (133 / 33)::real) < (v1 / v2)"
    by (rule iv_less[OF n19 n20]) simp
  have s23: "(0::real) \<le> v3"
    by (rule iv_nonneg[OF v3_iv]) simp
  have n24: "(2.33::real) \<le> 1.33 + 1 \<and> 1.33 + 1 \<le> (2.33::real)"
    by (rule iv_add[OF c1 c2]) simp_all
  have n25: "(0.8583690987124::real) \<le> 2 / (1.33 + 1) \<and> 2 / (1.33 + 1) \<le> (0.8583690987125::real)"
    by (rule iv_div[OF c4 n24]) simp_all
  have n26: "(728.7319113542::real) \<le> v3 * (2 / (1.33 + 1)) \<and> v3 * (2 / (1.33 + 1)) \<le> (728.7319113739::real)"
    by (rule iv_mul[OF v3_iv n25]) simp_all
  have eq: "T9 supersonic_inputs = Fin (v3 * (2 / (1.33 + 1)))"
    by (rule core_nozzle_choked_Fin(2)[OF supersonic_inputs_isValid_LPT v1_eq v2_eq v3_eq s21 s22 s23])
  from eq n26 show ?thesis
    by blast
qed

lemma supersonic_inputs_V9:
  "\<exists>t. V9 supersonic_inputs = Fin t \<and> 527.4587363529 \<le> t \<and> t \<le> 527.4587363603"
proof -
  from supersonic_inputs_Pt9 obtain v1 where v1_eq: "Pt9 supersonic_inputs = Fin v1"
    and v1_iv: "(351221.462337933::real) \<le> v1 \<and> v1 \<le> (351221.462555733::real)"
    by blast
  from supersonic_inputs_P0 obtain v2 where v2_eq: "P0 supersonic_inputs = Fin v2"
    and v2_iv: "(101325::real) \<le> v2 \<and> v2 \<le> (101325::real)"
    by blast
  from supersonic_inputs_Tt5 obtain v3 where v3_eq: "Tt5 supersonic_inputs = Fin v3"
    and v3_iv: "(848.9726767278::real) \<le> v3 \<and> v3 \<le> (848.9726767505::real)"
    by blast
  have c1: "(1.33::real) \<le> 1.33 \<and> 1.33 \<le> (1.33::real)"
    by simp
  have c2: "(1::real) \<le> 1 \<and> 1 \<le> (1::real)"
    by simp
  have n3: "(2.33::real) \<le> 1.33 + 1 \<and> 1.33 + 1 \<le> (2.33::real)"
    by (rule iv_add[OF c1 c2]) simp_all
  have c4: "(2::real) \<le> 2 \<and> 2 \<le> (2::real)"
    by simp
  have n5: "(1.165::real) \<le> (1.33 + 1) / 2 \<and> (1.33 + 1) / 2 \<le> (1.165::real)"
    by (rule iv_div[OF n3 c4]) simp_all
  have s6: "(0::real) < ((1.33 + 1) / 2)"
    by (rule iv_pos[OF n5]) simp
  have n7: "(1.052225062325::real) \<le> ((1.33 + 1) / 2) powr (1 / 3) \<and> ((1.33 + 1) / 2) powr (1 / 3) \<le> (1.052225062326::real)"
    by (rule iv_root[where n=3, OF n5]) (simp_all add: power_divide)
  have n8: "(1.00463863705::real) \<le> (((1.33 + 1) / 2) powr (1 / 3)) powr (1 / 11) \<and> (((1.33 + 1) / 2) powr (1 / 3)) powr (1 / 11) \<le> (1.004638637051::real)"
    by (rule iv_root[where n=11, OF n7]) (simp_all add: power_divide)
  have n9: "(1.00463863705::real) \<le> ((((1.33 + 1) / 2) powr (1 / 3)) powr (1 / 11)) ^ 1 \<and> ((((1.33 + 1) / 2) powr (1 / 3)) powr (1 / 11)) ^ 1 \<le> (1.004638637051::real)"
    by (rule iv_pow_one[OF n8])
  have n10: "(1.009298791053::real) \<le> ((((1.33 + 1) / 2) powr (1 / 3)) powr (1 / 11)) ^ 2 \<and> ((((1.33 + 1) / 2) powr (1 / 3)) powr (1 / 11)) ^ 2 \<le> (1.009298791056::real)"
    by (rule iv_pow_sq[OF n9]) (simp_all add: power_divide)
  have n11: "(1.018684049621::real) \<le> ((((1.33 + 1) / 2) powr (1 / 3)) powr (1 / 11)) ^ 4 \<and> ((((1.33 + 1) / 2) powr (1 / 3)) powr (1 / 11)) ^ 4 \<le> (1.018684049628::real)"
    by (rule iv_pow_sq[OF n10]) (simp_all add: power_divide)
  have n12: "(1.037717192952::real) \<le> ((((1.33 + 1) / 2) powr (1 / 3)) powr (1 / 11)) ^ 8 \<and> ((((1.33 + 1) / 2) powr (1 / 3)) powr (1 / 11)) ^ 8 \<le> (1.037717192967::real)"
    by (rule iv_pow_sq[OF n11]) (simp_all add: power_divide)
  have n13: "(1.076856972548::real) \<le> ((((1.33 + 1) / 2) powr (1 / 3)) powr (1 / 11)) ^ 16 \<and> ((((1.33 + 1) / 2) powr (1 / 3)) powr (1 / 11)) ^ 16 \<le> (1.07685697258::real)"
    by (rule iv_pow_sq[OF n12]) (simp_all add: power_divide)
  have n14: "(1.159620939325::real) \<le> ((((1.33 + 1) / 2) powr (1 / 3)) powr (1 / 11)) ^ 32 \<and> ((((1.33 + 1) / 2) powr (1 / 3)) powr (1 / 11)) ^ 32 \<le> (1.159620939395::real)"
    by (rule iv_pow_sq[OF n13]) (simp_all add: power_divide)
  have n15: "(1.34472072292::real) \<le> ((((1.33 + 1) / 2) powr (1 / 3)) powr (1 / 11)) ^ 64 \<and> ((((1.33 + 1) / 2) powr (1 / 3)) powr (1 / 11)) ^ 64 \<le> (1.344720723084::real)"
    by (rule iv_pow_sq[OF n14]) (simp_all add: power_divide)
  have n16: "(1.80827382265::real) \<le> ((((1.33 + 1) / 2) powr (1 / 3)) powr (1 / 11)) ^ 128 \<and> ((((1.33 + 1) / 2) powr (1 / 3)) powr (1 / 11)) ^ 128 \<le> (1.808273823092::real)"
    by (rule iv_pow_sq[OF n15]) (simp_all add: power_divide)
  have n17: "(1.84205970048::real) \<le> ((((1.33 + 1) / 2) powr (1 / 3)) powr (1 / 11)) ^ 132 \<and> ((((1.33 + 1) / 2) powr (1 / 3)) powr (1 / 11)) ^ 132 \<le> (1.842059700944::real)"
    by (rule iv_pow_mul[OF n16 n11]) simp_all
  have n18: "(1.850604346854::real) \<le> ((((1.33 + 1) / 2) powr (1 / 3)) powr (1 / 11)) ^ 133 \<and> ((((1.33 + 1) / 2) powr (1 / 3)) powr (1 / 11)) ^ 133 \<le> (1.850604347323::real)"
    by (rule iv_pow_mul[OF n17 n9]) simp_all
  have n19: "(1.850604346854::real) \<le> ((1.33 + 1) / 2) powr (133 / 33) \<and> ((1.33 + 1) / 2) powr (133 / 33) \<le> (1.850604347323::real)"
    by (rule powr_via_roots[OF n18 s6]) simp_all
  have n20: "(3.466286329513::real) \<le> v1 / v2 \<and> v1 / v2 \<le> (3.466286331663::real)"
    by (rule iv_div[OF v1_iv v2_iv]) simp_all
  have s21: "(v2::real) \<noteq> 0"
    by (rule iv_nonzero[OF v2_iv]) simp
  have s22: "(((1.33 + 1) / 2) powr (133 / 33)::real) < (v1 / v2)"
    by (rule iv_less[OF n19 n20]) simp
  have s23: "(0::real) \<le> v3"
    by (rule iv_nonneg[OF v3_iv]) simp
  have n24: "(2.33::real) \<le> 1.33 + 1 \<and> 1.33 + 1 \<le> (2.33::real)"
    by (rule iv_add[OF c1 c2]) simp_all
  have n25: "(0.8583690987124::real) \<le> 2 / (1.33 + 1) \<and> 2 / (1.33 + 1) \<le> (0.8583690987125::real)"
    by (rule iv_div[OF c4 n24]) simp_all
  have n26: "(728.7319113542::real) \<le> v3 * (2 / (1.33 + 1)) \<and> v3 * (2 / (1.33 + 1)) \<le> (728.7319113739::real)"
    by (rule iv_mul[OF v3_iv n25]) simp_all
  have c27: "(287.05::real) \<le> 287.05 \<and> 287.05 \<le> (287.05::real)"
    by simp
  have n28: "(381.7765::real) \<le> 1.33 * 287.05 \<and> 1.33 * 287.05 \<le> (381.7765::real)"
    by (rule iv_mul[OF c1 c27]) simp_all
  have n29: "(278212.7185551::real) \<le> (1.33 * 287.05) * (v3 * (2 / (1.33 + 1))) \<and> (1.33 * 287.05) * (v3 * (2 / (1.33 + 1))) \<le> (278212.7185627::real)"
    by (rule iv_mul[OF n28 n26]) simp_all
  have n30: "(527.4587363529::real) \<le> sqrt ((1.33 * 287.05) * (v3 * (2 / (1.33 + 1)))) \<and> sqrt ((1.33 * 287.05) * (v3 * (2 / (1.33 + 1)))) \<le> (527.4587363603::real)"
    by (rule iv_sqrt[OF n29]) (simp_all add: power_divide)
  have eq: "V9 supersonic_inputs = Fin (sqrt ((1.33 * 287.05) * (v3 * (2 / (1.33 + 1)))))"
    by (rule core_nozzle_choked_Fin(3)[OF supersonic_inputs_isValid_LPT v1_eq v2_eq v3_eq s21 s22 s23])
  from eq n30 show ?thesis
    by blast
qed

lemma supersonic_inputs_isValid_core:
  "isValid_core supersonic_inputs"
proof -
  from supersonic_inputs_Pt9 obtain v1 where v1_eq: "Pt9 supersonic_inputs = Fin v1"
    and v1_iv: "(351221.462337933::real) \<le> v1 \<and> v1 \<le> (351221.462555733::real)"
    by blast
  from supersonic_inputs_P0 obtain v2 where v2_eq: "P0 supersonic_inputs = Fin v2"
    and v2_iv: "(101325::real) \<le> v2 \<and> v2 \<le> (101325::real)"
    by blast
  from supersonic_inputs_Tt5 obtain v3 where v3_eq: "Tt5 supersonic_inputs = Fin v3"
    and v3_iv: "(848.9726767278::real) \<le> v3 \<and> v3 \<le> (848.9726767505::real)"
    by blast
  have c1: "(1.33::real) \<le> 1.33 \<and> 1.33 \<le> (1.33::real)"
    by simp
  have c2: "(1::real) \<le> 1 \<and> 1 \<le> (1::real)"
    by simp
  have n3: "(2.33::real) \<le> 1.33 + 1 \<and> 1.33 + 1 \<le> (2.33::real)"
    by (rule iv_add[OF c1 c2]) simp_all
  have c4: "(2::real) \<le> 2 \<and> 2 \<le> (2::real)"
    by simp
  have n5: "(1.165::real) \<le> (1.33 + 1) / 2 \<and> (1.33 + 1) / 2 \<le> (1.165::real)"
    by (rule iv_div[OF n3 c4]) simp_all
  have s6: "(0::real) < ((1.33 + 1) / 2)"
    by (rule iv_pos[OF n5]) simp
  have n7: "(1.052225062325::real) \<le> ((1.33 + 1) / 2) powr (1 / 3) \<and> ((1.33 + 1) / 2) powr (1 / 3) \<le> (1.052225062326::real)"
    by (rule iv_root[where n=3, OF n5]) (simp_all add: power_divide)
  have n8: "(1.00463863705::real) \<le> (((1.33 + 1) / 2) powr (1 / 3)) powr (1 / 11) \<and> (((1.33 + 1) / 2) powr (1 / 3)) powr (1 / 11) \<le> (1.004638637051::real)"
    by (rule iv_root[where n=11, OF n7]) (simp_all add: power_divide)
  have n9: "(1.00463863705::real) \<le> ((((1.33 + 1) / 2) powr (1 / 3)) powr (1 / 11)) ^ 1 \<and> ((((1.33 + 1) / 2) powr (1 / 3)) powr (1 / 11)) ^ 1 \<le> (1.004638637051::real)"
    by (rule iv_pow_one[OF n8])
  have n10: "(1.009298791053::real) \<le> ((((1.33 + 1) / 2) powr (1 / 3)) powr (1 / 11)) ^ 2 \<and> ((((1.33 + 1) / 2) powr (1 / 3)) powr (1 / 11)) ^ 2 \<le> (1.009298791056::real)"
    by (rule iv_pow_sq[OF n9]) (simp_all add: power_divide)
  have n11: "(1.018684049621::real) \<le> ((((1.33 + 1) / 2) powr (1 / 3)) powr (1 / 11)) ^ 4 \<and> ((((1.33 + 1) / 2) powr (1 / 3)) powr (1 / 11)) ^ 4 \<le> (1.018684049628::real)"
    by (rule iv_pow_sq[OF n10]) (simp_all add: power_divide)
  have n12: "(1.037717192952::real) \<le> ((((1.33 + 1) / 2) powr (1 / 3)) powr (1 / 11)) ^ 8 \<and> ((((1.33 + 1) / 2) powr (1 / 3)) powr (1 / 11)) ^ 8 \<le> (1.037717192967::real)"
    by (rule iv_pow_sq[OF n11]) (simp_all add: power_divide)
  have n13: "(1.076856972548::real) \<le> ((((1.33 + 1) / 2) powr (1 / 3)) powr (1 / 11)) ^ 16 \<and> ((((1.33 + 1) / 2) powr (1 / 3)) powr (1 / 11)) ^ 16 \<le> (1.07685697258::real)"
    by (rule iv_pow_sq[OF n12]) (simp_all add: power_divide)
  have n14: "(1.159620939325::real) \<le> ((((1.33 + 1) / 2) powr (1 / 3)) powr (1 / 11)) ^ 32 \<and> ((((1.33 + 1) / 2) powr (1 / 3)) powr (1 / 11)) ^ 32 \<le> (1.159620939395::real)"
    by (rule iv_pow_sq[OF n13]) (simp_all add: power_divide)
  have n15: "(1.34472072292::real) \<le> ((((1.33 + 1) / 2) powr (1 / 3)) powr (1 / 11)) ^ 64 \<and> ((((1.33 + 1) / 2) powr (1 / 3)) powr (1 / 11)) ^ 64 \<le> (1.344720723084::real)"
    by (rule iv_pow_sq[OF n14]) (simp_all add: power_divide)
  have n16: "(1.80827382265::real) \<le> ((((1.33 + 1) / 2) powr (1 / 3)) powr (1 / 11)) ^ 128 \<and> ((((1.33 + 1) / 2) powr (1 / 3)) powr (1 / 11)) ^ 128 \<le> (1.808273823092::real)"
    by (rule iv_pow_sq[OF n15]) (simp_all add: power_divide)
  have n17: "(1.84205970048::real) \<le> ((((1.33 + 1) / 2) powr (1 / 3)) powr (1 / 11)) ^ 132 \<and> ((((1.33 + 1) / 2) powr (1 / 3)) powr (1 / 11)) ^ 132 \<le> (1.842059700944::real)"
    by (rule iv_pow_mul[OF n16 n11]) simp_all
  have n18: "(1.850604346854::real) \<le> ((((1.33 + 1) / 2) powr (1 / 3)) powr (1 / 11)) ^ 133 \<and> ((((1.33 + 1) / 2) powr (1 / 3)) powr (1 / 11)) ^ 133 \<le> (1.850604347323::real)"
    by (rule iv_pow_mul[OF n17 n9]) simp_all
  have n19: "(1.850604346854::real) \<le> ((1.33 + 1) / 2) powr (133 / 33) \<and> ((1.33 + 1) / 2) powr (133 / 33) \<le> (1.850604347323::real)"
    by (rule powr_via_roots[OF n18 s6]) simp_all
  have n20: "(3.466286329513::real) \<le> v1 / v2 \<and> v1 / v2 \<le> (3.466286331663::real)"
    by (rule iv_div[OF v1_iv v2_iv]) simp_all
  have s21: "(v2::real) \<noteq> 0"
    by (rule iv_nonzero[OF v2_iv]) simp
  have s22: "(((1.33 + 1) / 2) powr (133 / 33)::real) < (v1 / v2)"
    by (rule iv_less[OF n19 n20]) simp
  have s23: "(0::real) \<le> v3"
    by (rule iv_nonneg[OF v3_iv]) simp
  show ?thesis
    by (rule core_nozzle_choked_Fin(4)[OF supersonic_inputs_isValid_LPT v1_eq v2_eq v3_eq s21 s22 s23])
qed

lemma supersonic_inputs_Pt19:
  "\<exists>t. Pt19 supersonic_inputs = Fin t \<and> 1269157.71692259 \<le> t \<and> t \<le> 1269157.716934"
proof -
  from supersonic_inputs_Pt13 obtain v1 where v1_eq: "Pt13 supersonic_inputs = Fin v1"
    and v1_iv: "(1281977.491841::real) \<le> v1 \<and> v1 \<le> (1281977.491852134::real)"
    by blast
  have c1: "(0.99::real) \<le> 0.99 \<and> 0.99 \<le> (0.99::real)"
    by simp
  have n2: "(1269157.71692259::real) \<le> v1 * 0.99 \<and> v1 * 0.99 \<le> (1269157.716934::real)"
    by (rule iv_mul[OF v1_iv c1]) simp_all
  have eq: "Pt19 supersonic_inputs = Fin (v1 * 0.99)"
    by (rule Pt19_Fin[OF v1_eq supersonic_inputs_fields(16)])
  from eq n2 show ?thesis
    by blast
qed

lemma supersonic_inputs_P19:
  "\<exists>t. P19 supersonic_inputs = Fin t \<and> 670472.9075869 \<le> t \<and> t \<le> 670472.9075998"
proof -
  from supersonic_inputs_Pt19 obtain v1 where v1_eq: "Pt19 supersonic_inputs = Fin v1"
    and v1_iv: "(1269157.71692259::real) \<le> v1 \<and> v1 \<le> (1269157.716934::real)"
    by blast
  from supersonic_inputs_P0 obtain v2 where v2_eq: "P0 supersonic_inputs = Fin v2"
    and v2_iv: "(101325::real) \<le> v2 \<and> v2 \<le> (101325::real)"
    by blast
  from supersonic_inputs_Tt13 obtain v3 where v3_eq: "Tt13 supersonic_inputs = Fin v3"
    and v3_iv: "(605.389679178::real) \<le> v3 \<and> v3 \<le> (605.3896791804::real)"
    by blast
  have c1: "(1.4::real) \<le> 1.4 \<and> 1.4 \<le> (1.4::real)"
    by simp
  have c2: "(1::real) \<le> 1 \<and> 1 \<le> (1::real)"
    by simp
  have n3: "(2.4::real) \<le> 1.4 + 1 \<and> 1.4 + 1 \<le> (2.4::real)"
    by (rule iv_add[OF c1 c2]) simp_all
  have c4: "(2::real) \<le> 2 \<and> 2 \<le> (2::real)"
    by simp
  have n5: "(1.2::real) \<le> (1.4 + 1) / 2 \<and> (1.4 + 1) / 2 \<le> (1.2::real)"
    by (rule iv_div[OF n3 c4]) simp_all
  have s6: "(0::real) < ((1.4 + 1) / 2)"
    by (rule iv_pos[OF n5]) simp
  have n7: "(1.09544511501::real) \<le> ((1.4 + 1) / 2) powr (1 / 2) \<and> ((1.4 + 1) / 2) powr (1 / 2) \<le> (1.095445115011::real)"
    by (rule iv_root[where n=2, OF n5]) (simp_all add: power_divide)
  have n8: "(1.09544511501::real) \<le> (((1.4 + 1) / 2) powr (1 / 2)) ^ 1 \<and> (((1.4 + 1) / 2) powr (1 / 2)) ^ 1 \<le> (1.095445115011::real)"
    by (rule iv_pow_one[OF n7])
  have n9: "(1.199999999999::real) \<le> (((1.4 + 1) / 2) powr (1 / 2)) ^ 2 \<and> (((1.4 + 1) / 2) powr (1 / 2)) ^ 2 \<le> (1.200000000002::real)"
    by (rule iv_pow_sq[OF n8]) (simp_all add: power_divide)
  have n10: "(1.439999999997::real) \<le> (((1.4 + 1) / 2) powr (1 / 2)) ^ 4 \<and> (((1.4 + 1) / 2) powr (1 / 2)) ^ 4 \<le> (1.440000000005::real)"
    by (rule iv_pow_sq[OF n9]) (simp_all add: power_divide)
  have n11: "(1.727999999994::real) \<le> (((1.4 + 1) / 2) powr (1 / 2)) ^ 6 \<and> (((1.4 + 1) / 2) powr (1 / 2)) ^ 6 \<le> (1.728000000009::real)"
    by (rule iv_pow_mul[OF n10 n9]) simp_all
  have n12: "(1.89292915873::real) \<le> (((1.4 + 1) / 2) powr (1 / 2)) ^ 7 \<and> (((1.4 + 1) / 2) powr (1 / 2)) ^ 7 \<le> (1.892929158749::real)"
    by (rule iv_pow_mul[OF n11 n8]) simp_all
  have n13: "(1.89292915873::real) \<le> ((1.4 + 1) / 2) powr (7 / 2) \<and> ((1.4 + 1) / 2) powr (7 / 2) \<le> (1.892929158749::real)"
    by (rule powr_via_root[OF n12 s6]) simp_all
  have n14: "(12.52561279963::real) \<le> v1 / v2 \<and> v1 / v2 \<le> (12.52561279975::real)"
    by (rule iv_div[OF v1_iv v2_iv]) simp_all
  have s15: "(v2::real) \<noteq> 0"
    by (rule iv_nonzero[OF v2_iv]) simp
  have s16: "(((1.4 + 1) / 2) powr (7 / 2)::real) < (v1 / v2)"
    by (rule iv_less[OF n13 n14]) simp
  have s17: "(0::real) \<le> v3"
    by (rule iv_nonneg[OF v3_iv]) simp
  have n18: "(670472.9075869::real) \<le> v1 / (((1.4 + 1) / 2) powr (7 / 2)) \<and> v1 / (((1.4 + 1) / 2) powr (7 / 2)) \<le> (670472.9075998::real)"
    by (rule iv_div[OF v1_iv n13]) simp_all
  have eq: "P19 supersonic_inputs = Fin (v1 / (((1.4 + 1) / 2) powr (7 / 2)))"
    by (rule bypass_nozzle_choked_Fin(1)[OF supersonic_inputs_isValid_core v1_eq v2_eq v3_eq s15 s16 s17])
  from eq n18 show ?thesis
    by blast
qed

lemma supersonic_inputs_T19:
  "\<exists>t. T19 supersonic_inputs = Fin t \<and> 504.4913993149 \<le> t \<and> t \<le> 504.4913993171"
proof -
  from supersonic_inputs_Pt19 obtain v1 where v1_eq: "Pt19 supersonic_inputs = Fin v1"
    and v1_iv: "(1269157.71692259::real) \<le> v1 \<and> v1 \<le> (1269157.716934::real)"
    by blast
  from supersonic_inputs_P0 obtain v2 where v2_eq: "P0 supersonic_inputs = Fin v2"
    and v2_iv: "(101325::real) \<le> v2 \<and> v2 \<le> (101325::real)"
    by blast
  from supersonic_inputs_Tt13 obtain v3 where v3_eq: "Tt13 supersonic_inputs = Fin v3"
    and v3_iv: "(605.389679178::real) \<le> v3 \<and> v3 \<le> (605.3896791804::real)"
    by blast
  have c1: "(1.4::real) \<le> 1.4 \<and> 1.4 \<le> (1.4::real)"
    by simp
  have c2: "(1::real) \<le> 1 \<and> 1 \<le> (1::real)"
    by simp
  have n3: "(2.4::real) \<le> 1.4 + 1 \<and> 1.4 + 1 \<le> (2.4::real)"
    by (rule iv_add[OF c1 c2]) simp_all
  have c4: "(2::real) \<le> 2 \<and> 2 \<le> (2::real)"
    by simp
  have n5: "(1.2::real) \<le> (1.4 + 1) / 2 \<and> (1.4 + 1) / 2 \<le> (1.2::real)"
    by (rule iv_div[OF n3 c4]) simp_all
  have s6: "(0::real) < ((1.4 + 1) / 2)"
    by (rule iv_pos[OF n5]) simp
  have n7: "(1.09544511501::real) \<le> ((1.4 + 1) / 2) powr (1 / 2) \<and> ((1.4 + 1) / 2) powr (1 / 2) \<le> (1.095445115011::real)"
    by (rule iv_root[where n=2, OF n5]) (simp_all add: power_divide)
  have n8: "(1.09544511501::real) \<le> (((1.4 + 1) / 2) powr (1 / 2)) ^ 1 \<and> (((1.4 + 1) / 2) powr (1 / 2)) ^ 1 \<le> (1.095445115011::real)"
    by (rule iv_pow_one[OF n7])
  have n9: "(1.199999999999::real) \<le> (((1.4 + 1) / 2) powr (1 / 2)) ^ 2 \<and> (((1.4 + 1) / 2) powr (1 / 2)) ^ 2 \<le> (1.200000000002::real)"
    by (rule iv_pow_sq[OF n8]) (simp_all add: power_divide)
  have n10: "(1.439999999997::real) \<le> (((1.4 + 1) / 2) powr (1 / 2)) ^ 4 \<and> (((1.4 + 1) / 2) powr (1 / 2)) ^ 4 \<le> (1.440000000005::real)"
    by (rule iv_pow_sq[OF n9]) (simp_all add: power_divide)
  have n11: "(1.727999999994::real) \<le> (((1.4 + 1) / 2) powr (1 / 2)) ^ 6 \<and> (((1.4 + 1) / 2) powr (1 / 2)) ^ 6 \<le> (1.728000000009::real)"
    by (rule iv_pow_mul[OF n10 n9]) simp_all
  have n12: "(1.89292915873::real) \<le> (((1.4 + 1) / 2) powr (1 / 2)) ^ 7 \<and> (((1.4 + 1) / 2) powr (1 / 2)) ^ 7 \<le> (1.892929158749::real)"
    by (rule iv_pow_mul[OF n11 n8]) simp_all
  have n13: "(1.89292915873::real) \<le> ((1.4 + 1) / 2) powr (7 / 2) \<and> ((1.4 + 1) / 2) powr (7 / 2) \<le> (1.892929158749::real)"
    by (rule powr_via_root[OF n12 s6]) simp_all
  have n14: "(12.52561279963::real) \<le> v1 / v2 \<and> v1 / v2 \<le> (12.52561279975::real)"
    by (rule iv_div[OF v1_iv v2_iv]) simp_all
  have s15: "(v2::real) \<noteq> 0"
    by (rule iv_nonzero[OF v2_iv]) simp
  have s16: "(((1.4 + 1) / 2) powr (7 / 2)::real) < (v1 / v2)"
    by (rule iv_less[OF n13 n14]) simp
  have s17: "(0::real) \<le> v3"
    by (rule iv_nonneg[OF v3_iv]) simp
  have n18: "(2.4::real) \<le> 1.4 + 1 \<and> 1.4 + 1 \<le> (2.4::real)"
    by (rule iv_add[OF c1 c2]) simp_all
  have n19: "(0.8333333333333::real) \<le> 2 / (1.4 + 1) \<and> 2 / (1.4 + 1) \<le> (0.8333333333334::real)"
    by (rule iv_div[OF c4 n18]) simp_all
  have n20: "(504.4913993149::real) \<le> v3 * (2 / (1.4 + 1)) \<and> v3 * (2 / (1.4 + 1)) \<le> (504.4913993171::real)"
    by (rule iv_mul[OF v3_iv n19]) simp_all
  have eq: "T19 supersonic_inputs = Fin (v3 * (2 / (1.4 + 1)))"
    by (rule bypass_nozzle_choked_Fin(2)[OF supersonic_inputs_isValid_core v1_eq v2_eq v3_eq s15 s16 s17])
  from eq n20 show ?thesis
    by blast
qed

lemma supersonic_inputs_V19:
  "\<exists>t. V19 supersonic_inputs = Fin t \<and> 450.2665417756 \<le> t \<and> t \<le> 450.2665417768"
proof -
  from supersonic_inputs_Pt19 obtain v1 where v1_eq: "Pt19 supersonic_inputs = Fin v1"
    and v1_iv: "(1269157.71692259::real) \<le> v1 \<and> v1 \<le> (1269157.716934::real)"
    by blast
  from supersonic_inputs_P0 obtain v2 where v2_eq: "P0 supersonic_inputs = Fin v2"
    and v2_iv: "(101325::real) \<le> v2 \<and> v2 \<le> (101325::real)"
    by blast
  from supersonic_inputs_Tt13 obtain v3 where v3_eq: "Tt13 supersonic_inputs = Fin v3"
    and v3_iv: "(605.389679178::real) \<le> v3 \<and> v3 \<le> (605.3896791804::real)"
    by blast
  have c1: "(1.4::real) \<le> 1.4 \<and> 1.4 \<le> (1.4::real)"
    by simp
  have c2: "(1::real) \<le> 1 \<and> 1 \<le> (1::real)"
    by simp
  have n3: "(2.4::real) \<le> 1.4 + 1 \<and> 1.4 + 1 \<le> (2.4::real)"
    by (rule iv_add[OF c1 c2]) simp_all
  have c4: "(2::real) \<le> 2 \<and> 2 \<le> (2::real)"
    by simp
  have n5: "(1.2::real) \<le> (1.4 + 1) / 2 \<and> (1.4 + 1) / 2 \<le> (1.2::real)"
    by (rule iv_div[OF n3 c4]) simp_all
  have s6: "(0::real) < ((1.4 + 1) / 2)"
    by (rule iv_pos[OF n5]) simp
  have n7: "(1.09544511501::real) \<le> ((1.4 + 1) / 2) powr (1 / 2) \<and> ((1.4 + 1) / 2) powr (1 / 2) \<le> (1.095445115011::real)"
    by (rule iv_root[where n=2, OF n5]) (simp_all add: power_divide)
  have n8: "(1.09544511501::real) \<le> (((1.4 + 1) / 2) powr (1 / 2)) ^ 1 \<and> (((1.4 + 1) / 2) powr (1 / 2)) ^ 1 \<le> (1.095445115011::real)"
    by (rule iv_pow_one[OF n7])
  have n9: "(1.199999999999::real) \<le> (((1.4 + 1) / 2) powr (1 / 2)) ^ 2 \<and> (((1.4 + 1) / 2) powr (1 / 2)) ^ 2 \<le> (1.200000000002::real)"
    by (rule iv_pow_sq[OF n8]) (simp_all add: power_divide)
  have n10: "(1.439999999997::real) \<le> (((1.4 + 1) / 2) powr (1 / 2)) ^ 4 \<and> (((1.4 + 1) / 2) powr (1 / 2)) ^ 4 \<le> (1.440000000005::real)"
    by (rule iv_pow_sq[OF n9]) (simp_all add: power_divide)
  have n11: "(1.727999999994::real) \<le> (((1.4 + 1) / 2) powr (1 / 2)) ^ 6 \<and> (((1.4 + 1) / 2) powr (1 / 2)) ^ 6 \<le> (1.728000000009::real)"
    by (rule iv_pow_mul[OF n10 n9]) simp_all
  have n12: "(1.89292915873::real) \<le> (((1.4 + 1) / 2) powr (1 / 2)) ^ 7 \<and> (((1.4 + 1) / 2) powr (1 / 2)) ^ 7 \<le> (1.892929158749::real)"
    by (rule iv_pow_mul[OF n11 n8]) simp_all
  have n13: "(1.89292915873::real) \<le> ((1.4 + 1) / 2) powr (7 / 2) \<and> ((1.4 + 1) / 2) powr (7 / 2) \<le> (1.892929158749::real)"
    by (rule powr_via_root[OF n12 s6]) simp_all
  have n14: "(12.52561279963::real) \<le> v1 / v2 \<and> v1 / v2 \<le> (12.52561279975::real)"
    by (rule iv_div[OF v1_iv v2_iv]) simp_all
  have s15: "(v2::real) \<noteq> 0"
    by (rule iv_nonzero[OF v2_iv]) simp
  have s16: "(((1.4 + 1) / 2) powr (7 / 2)::real) < (v1 / v2)"
    by (rule iv_less[OF n13 n14]) simp
  have s17: "(0::real) \<le> v3"
    by (rule iv_nonneg[OF v3_iv]) simp
  have n18: "(2.4::real) \<le> 1.4 + 1 \<and> 1.4 + 1 \<le> (2.4::real)"
    by (rule iv_add[OF c1 c2]) simp_all
  have n19: "(0.8333333333333::real) \<le> 2 / (1.4 + 1) \<and> 2 / (1.4 + 1) \<le> (0.8333333333334::real)"
    by (rule iv_div[OF c4 n18]) simp_all
  have n20: "(504.4913993149::real) \<le> v3 * (2 / (1.4 + 1)) \<and> v3 * (2 / (1.4 + 1)) \<le> (504.4913993171::real)"
    by (rule iv_mul[OF v3_iv n19]) simp_all
  have c21: "(287.05::real) \<le> 287.05 \<and> 287.05 \<le> (287.05::real)"
    by simp
  have n22: "(401.87::real) \<le> 1.4 * 287.05 \<and> 1.4 * 287.05 \<le> (401.87::real)"
    by (rule iv_mul[OF c1 c21]) simp_all
  have n23: "(202739.9586426::real) \<le> (1.4 * 287.05) * (v3 * (2 / (1.4 + 1))) \<and> (1.4 * 287.05) * (v3 * (2 / (1.4 + 1))) \<le> (202739.9586436::real)"
    by (rule iv_mul[OF n22 n20]) simp_all
  have n24: "(450.2665417756::real) \<le> sqrt ((1.4 * 287.05) * (v3 * (2 / (1.4 + 1)))) \<and> sqrt ((1.4 * 287.05) * (v3 * (2 / (1.4 + 1)))) \<le> (450.2665417768::real)"
    by (rule iv_sqrt[OF n23]) (simp_all add: power_divide)
  have eq: "V19 supersonic_inputs = Fin (sqrt ((1.4 * 287.05) * (v3 * (2 / (1.4 + 1)))))"
    by (rule bypass_nozzle_choked_Fin(3)[OF supersonic_inputs_isValid_core v1_eq v2_eq v3_eq s15 s16 s17])
  from eq n24 show ?thesis
    by blast
qed

lemma supersonic_inputs_rho9:
  "\<exists>t. rho9 supersonic_inputs = Fin t \<and> 0.9072816551438 \<le> t \<and> t \<le> 0.9072816559617"
proof -
  from supersonic_inputs_P9 obtain v1 where v1_eq: "P9 supersonic_inputs = Fin v1"
    and v1_iv: "(189787.4404358::real) \<le> v1 \<and> v1 \<le> (189787.4406017::real)"
    by blast
  from supersonic_inputs_T9 obtain v2 where v2_eq: "T9 supersonic_inputs = Fin v2"
    and v2_iv: "(728.7319113542::real) \<le> v2 \<and> v2 \<le> (728.7319113739::real)"
    by blast
  have c1: "(287.05::real) \<le> 287.05 \<and> 287.05 \<le> (287.05::real)"
    by simp
  have n2: "(209182.4951542::real) \<le> 287.05 * v2 \<and> 287.05 * v2 \<le> (209182.4951599::real)"
    by (rule iv_mul[OF c1 v2_iv]) simp_all
  have s3: "(287.05 * v2::real) \<noteq> 0"
    by (rule iv_nonzero[OF n2]) simp
  have n4: "(0.9072816551438::real) \<le> v1 / (287.05 * v2) \<and> v1 / (287.05 * v2) \<le> (0.9072816559617::real)"
    by (rule iv_div[OF v1_iv n2]) simp_all
  have eq: "rho9 supersonic_inputs = Fin (v1 / (287.05 * v2))"
    by (rule rho9_Fin[OF v1_eq v2_eq s3])
  from eq n4 show ?thesis
    by blast
qed

lemma supersonic_inputs_A9_per_unit:
  "\<exists>t. A9_per_unit supersonic_inputs = Fin t \<and> 0.002134540787285 \<le> t \<and> t \<le> 0.002134540789241"
proof -
  from supersonic_inputs_f obtain v1 where v1_eq: "f supersonic_inputs = Fin v1"
    and v1_iv: "(0.02149225446856::real) \<le> v1 \<and> v1 \<le> (0.02149225446877::real)"
    by blast
  from supersonic_inputs_rho9 obtain v2 where v2_eq: "rho9 supersonic_inputs = Fin v2"
    and v2_iv: "(0.9072816551438::real) \<le> v2 \<and> v2 \<le> (0.9072816559617::real)"
    by blast
  from supersonic_inputs_V9 obtain v3 where v3_eq: "V9 supersonic_inputs = Fin v3"
    and v3_iv: "(527.4587363529::real) \<le> v3 \<and> v3 \<le> (527.4587363603::real)"
    by blast
  have n1: "(478.5536353383::real) \<le> v2 * v3 \<and> v2 * v3 \<le> (478.5536357765::real)"
    by (rule iv_mul[OF v2_iv v3_iv]) simp_all
  have s2: "(v2 * v3::real) \<noteq> 0"
    by (rule iv_nonzero[OF n1]) simp
  have c3: "(1::real) \<le> 1 \<and> 1 \<le> (1::real)"
    by simp
  have n4: "(1.02149225446856::real) \<le> 1 + v1 \<and> 1 + v1 \<le> (1.02149225446877::real)"
    by (rule iv_add[OF c3 v1_iv]) simp_all
  have n5: "(0.002134540787285::real) \<le> (1 + v1) / (v2 * v3) \<and> (1 + v1) / (v2 * v3) \<le> (0.002134540789241::real)"
    by (rule iv_div[OF n4 n1]) simp_all
  have eq: "A9_per_unit supersonic_inputs = Fin ((1 + v1) / (v2 * v3))"
    by (rule A9_per_unit_Fin[OF v1_eq v2_eq v3_eq s2])
  from eq n5 show ?thesis
    by blast
qed

lemma supersonic_inputs_rho19:
  "\<exists>t. rho19 supersonic_inputs = Fin t \<and> 4.629881928069 \<le> t \<and> t \<le> 4.629881928182"
proof -
  from supersonic_inputs_P19 obtain v1 where v1_eq: "P19 supersonic_inputs = Fin v1"
    and v1_iv: "(670472.9075869::real) \<le> v1 \<and> v1 \<le> (670472.9075998::real)"
    by blast
  from supersonic_inputs_T19 obtain v2 where v2_eq: "T19 supersonic_inputs = Fin v2"
    and v2_iv: "(504.4913993149::real) \<le> v2 \<and> v2 \<le> (504.4913993171::real)"
    by blast
  have c1: "(287.05::real) \<le> 287.05 \<and> 287.05 \<le> (287.05::real)"
    by simp
  have n2: "(144814.2561733::real) \<le> 287.05 * v2 \<and> 287.05 * v2 \<le> (144814.256174::real)"
    by (rule iv_mul[OF c1 v2_iv]) simp_all
  have s3: "(287.05 * v2::real) \<noteq> 0"
    by (rule iv_nonzero[OF n2]) simp
  have n4: "(4.629881928069::real) \<le> v1 / (287.05 * v2) \<and> v1 / (287.05 * v2) \<le> (4.629881928182::real)"
    by (rule iv_div[OF v1_iv n2]) simp_all
  have eq: "rho19 supersonic_inputs = Fin (v1 / (287.05 * v2))"
    by (rule rho19_Fin[OF v1_eq v2_eq s3])
  from eq n4 show ?thesis
    by blast
qed

lemma supersonic_inputs_A19_per_unit:
  "\<exists>t. A19_per_unit supersonic_inputs = Fin t \<and> 0.002398448578344 \<le> t \<and> t \<le> 0.002398448578412"
proof -
  have c1: "(5::real) \<le> 5 \<and> 5 \<le> (5::real)"
    by simp
  from supersonic_inputs_rho19 obtain v1 where v1_eq: "rho19 supersonic_inputs = Fin v1"
    and v1_iv: "(4.629881928069::real) \<le> v1 \<and> v1 \<le> (4.629881928182::real)"
    by blast
  from supersonic_inputs_V19 obtain v2 where v2_eq: "V19 supersonic_inputs = Fin v2"
    and v2_iv: "(450.2665417756::real) \<le> v2 \<and> v2 \<le> (450.2665417768::real)"
    by blast
  have n2: "(2084.68092458::real) \<le> v1 * v2 \<and> v1 * v2 \<le> (2084.680924638::real)"
    by (rule iv_mul[OF v1_iv v2_iv]) simp_all
  have s3: "(v1 * v2::real) \<noteq> 0"
    by (rule iv_nonzero[OF n2]) simp
  have n4: "(0.002398448578344::real) \<le> 5 / (v1 * v2) \<and> 5 / (v1 * v2) \<le> (0.002398448578412::real)"
    by (rule iv_div[OF c1 n2]) simp_all
  have eq: "A19_per_unit supersonic_inputs = Fin (5 / (v1 * v2))"
    by (rule A19_per_unit_Fin[OF supersonic_inputs_fields(4) v1_eq v2_eq s3])
  from eq n4 show ?thesis
    by blast
qed

lemma supersonic_inputs_F_core:
  "\<exists>t. F_core supersonic_inputs = Fin t \<and> 47.0371272585 \<le> t \<and> t \<le> 47.0371277938"
proof -
  from supersonic_inputs_f obtain v1 where v1_eq: "f supersonic_inputs = Fin v1"
    and v1_iv: "(0.02149225446856::real) \<le> v1 \<and> v1 \<le> (0.02149225446877::real)"
    by blast
  from supersonic_inputs_V9 obtain v2 where v2_eq: "V9 supersonic_inputs = Fin v2"
    and v2_iv: "(527.4587363529::real) \<le> v2 \<and> v2 \<le> (527.4587363603::real)"
    by blast
  from supersonic_inputs_V0 obtain v3 where v3_eq: "V0 supersonic_inputs = Fin v3"
    and v3_iv: "(680.5845737304::real) \<le> v3 \<and> v3 \<le> (680.5845737306::real)"
    by blast
  from supersonic_inputs_P9 obtain v4 where v4_eq: "P9 supersonic_inputs = Fin v4"
    and v4_iv: "(189787.4404358::real) \<le> v4 \<and> v4 \<le> (189787.4406017::real)"
    by blast
  from supersonic_inputs_P0 obtain v5 where v5_eq: "P0 supersonic_inputs = Fin v5"
    and v5_iv: "(101325::real) \<le> v5 \<and> v5 \<le> (101325::real)"
    by blast
  from supersonic_inputs_A9_per_unit obtain v6 where v6_eq: "A9_per_unit supersonic_inputs = Fin v6"
    and v6_iv: "(0.002134540787285::real) \<le> v6 \<and> v6 \<le> (0.002134540789241::real)"
    by blast
  have c1: "(1::real) \<le> 1 \<and> 1 \<le> (1::real)"
    by simp
  have n2: "(1.02149225446856::real) \<le> 1 + v1 \<and> 1 + v1 \<le> (1.02149225446877::real)"
    by (rule iv_add[OF c1 v1_iv]) simp_all
  have n3: "(538.7950137362::real) \<le> (1 + v1) * v2 \<and> (1 + v1) * v2 \<le> (538.795013744::real)"
    by (rule iv_mul[OF n2 v2_iv]) simp_all
  have n4: "(680.5845737304::real) \<le> 1 * v3 \<and> 1 * v3 \<le> (680.5845737306::real)"
    by (rule iv_mul[OF c1 v3_iv]) simp_all
  have n5: "(- 141.7895599944::real) \<le> ((1 + v1) * v2) - (1 * v3) \<and> ((1 + v1) * v2) - (1 * v3) \<le> (- 141.7895599864::real)"
    by (rule iv_sub[OF n3 n4]) simp_all
  have n6: "(88462.4404358::real) \<le> v4 - v5 \<and> v4 - v5 \<le> (88462.4406017::real)"
    by (rule iv_sub[OF v4_iv v5_iv]) simp_all
  have n7: "(188.8266872529::real) \<le> (v4 - v5) * v6 \<and> (v4 - v5) * v6 \<le> (188.8266877802::real)"
    by (rule iv_mul[OF n6 v6_iv]) simp_all
  have n8: "(47.0371272585::real) \<le> (((1 + v1) * v2) - (1 * v3)) + ((v4 - v5) * v6) \<and> (((1 + v1) * v2) - (1 * v3)) + ((v4 - v5) * v6) \<le> (47.0371277938::real)"
    by (rule iv_add[OF n5 n7]) simp_all
  have eq: "F_core supersonic_inputs = Fin ((((1 + v1) * v2) - (1 * v3)) + ((v4 - v5) * v6))"
    by (rule F_core_Fin[OF v1_eq v2_eq v3_eq v4_eq v5_eq v6_eq])
  from eq n8 show ?thesis
    by blast
qed

lemma supersonic_inputs_F_bypass:
  "\<exists>t. F_bypass supersonic_inputs = Fin t \<and> 213.481830044 \<le> t \<and> t \<le> 213.481830121"
proof -
  have c1: "(5::real) \<le> 5 \<and> 5 \<le> (5::real)"
    by simp
  from supersonic_inputs_V19 obtain v1 where v1_eq: "V19 supersonic_inputs = Fin v1"
    and v1_iv: "(450.2665417756::real) \<le> v1 \<and> v1 \<le> (450.2665417768::real)"
    by blast
  from supersonic_inputs_V0 obtain v2 where v2_eq: "V0 supersonic_inputs = Fin v2"
    and v2_iv: "(680.5845737304::real) \<le> v2 \<and> v2 \<le> (680.5845737306::real)"
    by blast
  from supersonic_inputs_P19 obtain v3 where v3_eq: "P19 supersonic_inputs = Fin v3"
    and v3_iv: "(670472.9075869::real) \<le> v3 \<and> v3 \<le> (670472.9075998::real)"
    by blast
  from supersonic_inputs_P0 obtain v4 where v4_eq: "P0 supersonic_inputs = Fin v4"
    and v4_iv: "(101325::real) \<le> v4 \<and> v4 \<le> (101325::real)"
    by blast
  from supersonic_inputs_A19_per_unit obtain v5 where v5_eq: "A19_per_unit supersonic_inputs = Fin v5"
    and v5_iv: "(0.002398448578344::real) \<le> v5 \<and> v5 \<le> (0.002398448578412::real)"
    by blast
  have n2: "(2251.332708878::real) \<le> 5 * v1 \<and> 5 * v1 \<le> (2251.332708884::real)"
    by (rule iv_mul[OF c1 v1_iv]) simp_all
  have n3: "(3402.922868652::real) \<le> 5 * v2 \<and> 5 * v2 \<le> (3402.922868653::real)"
    by (rule iv_mul[OF c1 v2_iv]) simp_all
  have n4: "(- 1151.590159775::real) \<le> (5 * v1) - (5 * v2) \<and> (5 * v1) - (5 * v2) \<le> (- 1151.590159768::real)"
    by (rule iv_sub[OF n2 n3]) simp_all
  have n5: "(569147.9075869::real) \<le> v3 - v4 \<and> v3 - v4 \<le> (569147.9075998::real)"
    by (rule iv_sub[OF v3_iv v4_iv]) simp_all
  have n6: "(1365.071989819::real) \<le> (v3 - v4) * v5 \<and> (v3 - v4) * v5 \<le> (1365.071989889::real)"
    by (rule iv_mul[OF n5 v5_iv]) simp_all
  have n7: "(213.481830044::real) \<le> ((5 * v1) - (5 * v2)) + ((v3 - v4) * v5) \<and> ((5 * v1) - (5 * v2)) + ((v3 - v4) * v5) \<le> (213.481830121::real)"
    by (rule iv_add[OF n4 n6]) simp_all
  have eq: "F_bypass supersonic_inputs = Fin (((5 * v1) - (5 * v2)) + ((v3 - v4) * v5))"
    by (rule F_bypass_Fin[OF supersonic_inputs_fields(4) v1_eq v2_eq v3_eq v4_eq v5_eq])
  from eq n7 show ?thesis
    by blast
qed

lemma supersonic_inputs_V9_eff:
  "\<exists>t. V9_eff supersonic_inputs = Fin t \<and> 712.3124994891 \<le> t \<and> t \<le> 712.3125000125"
proof -
  from supersonic_inputs_V9 obtain v1 where v1_eq: "V9 supersonic_inputs = Fin v1"
    and v1_iv: "(527.4587363529::real) \<le> v1 \<and> v1 \<le> (527.4587363603::real)"
    by blast
  from supersonic_inputs_rho9 obtain v2 where v2_eq: "rho9 supersonic_inputs = Fin v2"
    and v2_iv: "(0.9072816551438::real) \<le> v2 \<and> v2 \<le> (0.9072816559617::real)"
    by blast
  from supersonic_inputs_P9 obtain v3 where v3_eq: "P9 supersonic_inputs = Fin v3"
    and v3_iv: "(189787.4404358::real) \<le> v3 \<and> v3 \<le> (189787.4406017::real)"
    by blast
  from supersonic_inputs_P0 obtain v4 where v4_eq: "P0 supersonic_inputs = Fin v4"
    and v4_iv: "(101325::real) \<le> v4 \<and> v4 \<le> (101325::real)"
    by blast
  have c1: "(1::real) \<le> 1 \<and> 1 \<le> (1::real)"
    by simp
  have s2: "(1::real) < v1"
    by (rule iv_less[OF c1 v1_iv]) simp
  have s3: "(0::real) < v2"
    by (rule iv_pos[OF v2_iv]) simp
  have n4: "(88462.4404358::real) \<le> v3 - v4 \<and> v3 - v4 \<le> (88462.4406017::real)"
    by (rule iv_sub[OF v3_iv v4_iv]) simp_all
  have n5: "(478.5536353383::real) \<le> v2 * v1 \<and> v2 * v1 \<le> (478.5536357765::real)"
    by (rule iv_mul[OF v2_iv v1_iv]) simp_all
  have n6: "(184.8537631362::real) \<le> (v3 - v4) / (v2 * v1) \<and> (v3 - v4) / (v2 * v1) \<le> (184.8537636522::real)"
    by (rule iv_div[OF n4 n5]) simp_all
  have n7: "(712.3124994891::real) \<le> v1 + ((v3 - v4) / (v2 * v1)) \<and> v1 + ((v3 - v4) / (v2 * v1)) \<le> (712.3125000125::real)"
    by (rule iv_add[OF v1_iv n6]) simp_all
  have eq: "V9_eff supersonic_inputs = Fin (v1 + ((v3 - v4) / (v2 * v1)))"
    by (rule V9_eff_Fin[OF v1_eq v2_eq v3_eq v4_eq s2 s3])
  from eq n7 show ?thesis
    by blast
qed

lemma supersonic_inputs_V19_eff:
  "\<exists>t. V19_eff supersonic_inputs = Fin t \<and> 723.2809397395 \<le> t \<and> t \<le> 723.2809397545"
proof -
  from supersonic_inputs_V19 obtain v1 where v1_eq: "V19 supersonic_inputs = Fin v1"
    and v1_iv: "(450.2665417756::real) \<le> v1 \<and> v1 \<le> (450.2665417768::real)"
    by blast
  from supersonic_inputs_rho19 obtain v2 where v2_eq: "rho19 supersonic_inputs = Fin v2"
    and v2_iv: "(4.629881928069::real) \<le> v2 \<and> v2 \<le> (4.629881928182::real)"
    by blast
  from supersonic_inputs_P19 obtain v3 where v3_eq: "P19 supersonic_inputs = Fin v3"
    and v3_iv: "(670472.9075869::real) \<le> v3 \<and> v3 \<le> (670472.9075998::real)"
    by blast
  from supersonic_inputs_P0 obtain v4 where v4_eq: "P0 supersonic_inputs = Fin v4"
    and v4_iv: "(101325::real) \<le> v4 \<and> v4 \<le> (101325::real)"
    by blast
  have c1: "(1::real) \<le> 1 \<and> 1 \<le> (1::real)"
    by simp
  have s2: "(1::real) < v1"
    by (rule iv_less[OF c1 v1_iv]) simp
  have s3: "(0::real) < v2"
    by (rule iv_pos[OF v2_iv]) simp
  have n4: "(569147.9075869::real) \<le> v3 - v4 \<and> v3 - v4 \<le> (569147.9075998::real)"
    by (rule iv_sub[OF v3_iv v4_iv]) simp_all
  have n5: "(2084.68092458::real) \<le> v2 * v1 \<and> v2 * v1 \<le> (2084.680924638::real)"
    by (rule iv_mul[OF v2_iv v1_iv]) simp_all
  have n6: "(273.0143979639::real) \<le> (v3 - v4) / (v2 * v1) \<and> (v3 - v4) / (v2 * v1) \<le> (273.0143979777::real)"
    by (rule iv_div[OF n4 n5]) simp_all
  have n7: "(723.2809397395::real) \<le> v1 + ((v3 - v4) / (v2 * v1)) \<and> v1 + ((v3 - v4) / (v2 * v1)) \<le> (723.2809397545::real)"
    by (rule iv_add[OF v1_iv n6]) simp_all
  have eq: "V19_eff supersonic_inputs = Fin (v1 + ((v3 - v4) / (v2 * v1)))"
    by (rule V19_eff_Fin[OF v1_eq v2_eq v3_eq v4_eq s2 s3])
  from eq n7 show ?thesis
    by blast
qed

lemma supersonic_inputs_m_core_abs:
  "\<exists>t. m_core_abs supersonic_inputs = Fin t \<and> 225 \<le> t \<and> t \<le> 225"
proof -
  have c1: "(1350::real) \<le> 1350 \<and> 1350 \<le> (1350::real)"
    by simp
  have c2: "(5::real) \<le> 5 \<and> 5 \<le> (5::real)"
    by simp
  have c3: "(1::real) \<le> 1 \<and> 1 \<le> (1::real)"
    by simp
  have n4: "(6::real) \<le> 1 + 5 \<and> 1 + 5 \<le> (6::real)"
    by (rule iv_add[OF c3 c2]) simp_all
  have s5: "(1 + 5::real) \<noteq> 0"
    by (rule iv_nonzero[OF n4]) simp
  have n6: "(225::real) \<le> 1350 / (1 + 5) \<and> 1350 / (1 + 5) \<le> (225::real)"
    by (rule iv_div[OF c1 n4]) simp_all
  have eq: "m_core_abs supersonic_inputs = Fin (1350 / (1 + 5))"
    by (rule m_core_abs_Fin[OF supersonic_inputs_fields(3) supersonic_inputs_fields(4) s5])
  from eq n6 show ?thesis
    by blast
qed

lemma supersonic_inputs_KE_out_eff:
  "\<exists>t. KE_out_eff supersonic_inputs = Fin t \<and> 352571694.91494 \<le> t \<and> t \<le> 352571695.0129525"
proof -
  from supersonic_inputs_m_core_abs obtain v1 where v1_eq: "m_core_abs supersonic_inputs = Fin v1"
    and v1_iv: "(225::real) \<le> v1 \<and> v1 \<le> (225::real)"
    by blast
  from supersonic_inputs_f obtain v2 where v2_eq: "f supersonic_inputs = Fin v2"
    and v2_iv: "(0.02149225446856::real) \<le> v2 \<and> v2 \<le> (0.02149225446877::real)"
    by blast
  from supersonic_inputs_V9_eff obtain v3 where v3_eq: "V9_eff supersonic_inputs = Fin v3"
    and v3_iv: "(712.3124994891::real) \<le> v3 \<and> v3 \<le> (712.3125000125::real)"
    by blast
  have c1: "(1350::real) \<le> 1350 \<and> 1350 \<le> (1350::real)"
    by simp
  from supersonic_inputs_V19_eff obtain v4 where v4_eq: "V19_eff supersonic_inputs = Fin v4"
    and v4_iv: "(723.2809397395::real) \<le> v4 \<and> v4 \<le> (723.2809397545::real)"
    by blast
  have c2: "(0.5::real) \<le> 0.5 \<and> 0.5 \<le> (0.5::real)"
    by simp
  have n3: "(112.5::real) \<le> 0.5 * v1 \<and> 0.5 * v1 \<le> (112.5::real)"
    by (rule iv_mul[OF c2 v1_iv]) simp_all
  have c4: "(1::real) \<le> 1 \<and> 1 \<le> (1::real)"
    by simp
  have n5: "(1.02149225446856::real) \<le> 1 + v2 \<and> 1 + v2 \<le> (1.02149225446877::real)"
    by (rule iv_add[OF c4 v2_iv]) simp_all
  have n6: "(114.917878627713::real) \<le> (0.5 * v1) * (1 + v2) \<and> (0.5 * v1) * (1 + v2) \<le> (114.9178786278::real)"
    by (rule iv_mul[OF n3 n5]) simp_all
  have n7: "(507389.0969284::real) \<le> v3\<^sup>2 \<and> v3\<^sup>2 \<le> (507389.0976741::real)"
    by (rule iv_sq[OF v3_iv]) (simp_all add: power_divide)
  have n8: "(58308078.65784::real) \<le> ((0.5 * v1) * (1 + v2)) * (v3\<^sup>2) \<and> ((0.5 * v1) * (1 + v2)) * (v3\<^sup>2) \<le> (58308078.74359::real)"
    by (rule iv_mul[OF n6 n7]) simp_all
  have n9: "(1125::real) \<le> 1350 - v1 \<and> 1350 - v1 \<le> (1125::real)"
    by (rule iv_sub[OF c1 v1_iv]) simp_all
  have n10: "(562.5::real) \<le> 0.5 * (1350 - v1) \<and> 0.5 * (1350 - v1) \<le> (562.5::real)"
    by (rule iv_mul[OF c2 n9]) simp_all
  have n11: "(523135.3177904::real) \<le> v4\<^sup>2 \<and> v4\<^sup>2 \<le> (523135.3178122::real)"
    by (rule iv_sq[OF v4_iv]) (simp_all add: power_divide)
  have n12: "(294263616.2571::real) \<le> (0.5 * (1350 - v1)) * (v4\<^sup>2) \<and> (0.5 * (1350 - v1)) * (v4\<^sup>2) \<le> (294263616.2693625::real)"
    by (rule iv_mul[OF n10 n11]) simp_all
  have n13: "(352571694.91494::real) \<le> (((0.5 * v1) * (1 + v2)) * (v3\<^sup>2)) + ((0.5 * (1350 - v1)) * (v4\<^sup>2)) \<and> (((0.5 * v1) * (1 + v2)) * (v3\<^sup>2)) + ((0.5 * (1350 - v1)) * (v4\<^sup>2)) \<le> (352571695.0129525::real)"
    by (rule iv_add[OF n8 n12]) simp_all
  have eq: "KE_out_eff supersonic_inputs = Fin ((((0.5 * v1) * (1 + v2)) * (v3\<^sup>2)) + ((0.5 * (1350 - v1)) * (v4\<^sup>2)))"
    by (rule KE_out_eff_Fin[OF v1_eq v2_eq v3_eq supersonic_inputs_fields(3) v4_eq])
  from eq n13 show ?thesis
    by blast
qed

lemma supersonic_inputs_KE_in:
  "\<exists>t. KE_in supersonic_inputs = Fin t \<and> 312656869.3497975 \<le> t \<and> t \<le> 312656869.3500675"
proof -
  have c1: "(1350::real) \<le> 1350 \<and> 1350 \<le> (1350::real)"
    by simp
  from supersonic_inputs_V0 obtain v1 where v1_eq: "V0 supersonic_inputs = Fin v1"
    and v1_iv: "(680.5845737304::real) \<le> v1 \<and> v1 \<le> (680.5845737306::real)"
    by blast
  have c2: "(0.5::real) \<le> 0.5 \<and> 0.5 \<le> (0.5::real)"
    by simp
  have n3: "(675::real) \<le> 0.5 * 1350 \<and> 0.5 * 1350 \<le> (675::real)"
    by (rule iv_mul[OF c2 c1]) simp_all
  have n4: "(463195.3619997::real) \<le> v1\<^sup>2 \<and> v1\<^sup>2 \<le> (463195.3620001::real)"
    by (rule iv_sq[OF v1_iv]) (simp_all add: power_divide)
  have n5: "(312656869.3497975::real) \<le> (0.5 * 1350) * (v1\<^sup>2) \<and> (0.5 * 1350) * (v1\<^sup>2) \<le> (312656869.3500675::real)"
    by (rule iv_mul[OF n3 n4]) simp_all
  have eq: "KE_in supersonic_inputs = Fin ((0.5 * 1350) * (v1\<^sup>2))"
    by (rule KE_in_Fin[OF supersonic_inputs_fields(3) v1_eq])
  from eq n5 show ?thesis
    by blast
qed

lemma supersonic_inputs_Q_in:
  "\<exists>t. Q_in supersonic_inputs = Fin t \<and> 208421137.7088606 \<le> t \<and> t \<le> 208421137.7109"
proof -
  from supersonic_inputs_m_core_abs obtain v1 where v1_eq: "m_core_abs supersonic_inputs = Fin v1"
    and v1_iv: "(225::real) \<le> v1 \<and> v1 \<le> (225::real)"
    by blast
  from supersonic_inputs_f obtain v2 where v2_eq: "f supersonic_inputs = Fin v2"
    and v2_iv: "(0.02149225446856::real) \<le> v2 \<and> v2 \<le> (0.02149225446877::real)"
    by blast
  from supersonic_inputs_Hu_J obtain v3 where v3_eq: "Hu_J supersonic_inputs = Fin v3"
    and v3_iv: "(43100000::real) \<le> v3 \<and> v3 \<le> (43100000::real)"
    by blast
  have n1: "(4.835757255426::real) \<le> v1 * v2 \<and> v1 * v2 \<le> (4.83575725547325::real)"
    by (rule iv_mul[OF v1_iv v2_iv]) simp_all
  have n2: "(208421137.7088606::real) \<le> (v1 * v2) * v3 \<and> (v1 * v2) * v3 \<le> (208421137.7109::real)"
    by (rule iv_mul[OF n1 v3_iv]) simp_all
  have eq: "Q_in supersonic_inputs = Fin ((v1 * v2) * v3)"
    by (rule Q_in_Fin[OF v1_eq v2_eq v3_eq])
  from eq n2 show ?thesis
    by blast
qed

lemma supersonic_inputs_isValid_final:
  "isValid_final supersonic_inputs"
  using supersonic_inputs_isValid_core by (simp add: isValid_final_def)

lemma supersonic_inputs_specific_thrust:
  "\<exists>t. fst (performance_block supersonic_inputs) = Fin t \<and> 43.41982621708 \<le> t \<and> t \<le> 43.41982631914"
proof -
  from supersonic_inputs_F_core obtain v1 where v1_eq: "F_core supersonic_inputs = Fin v1"
    and v1_iv: "(47.0371272585::real) \<le> v1 \<and> v1 \<le> (47.0371277938::real)"
    by blast
  from supersonic_inputs_F_bypass obtain v2 where v2_eq: "F_bypass supersonic_inputs = Fin v2"
    and v2_iv: "(213.481830044::real) \<le> v2 \<and> v2 \<le> (213.481830121::real)"
    by blast
  have c1: "(5::real) \<le> 5 \<and> 5 \<le> (5::real)"
    by simp
  have c2: "(1::real) \<le> 1 \<and> 1 \<le> (1::real)"
    by simp
  have n3: "(6::real) \<le> 1 + 5 \<and> 1 + 5 \<le> (6::real)"
    by (rule iv_add[OF c2 c1]) simp_all
  have s4: "(1 + 5::real) \<noteq> 0"
    by (rule iv_nonzero[OF n3]) simp
  have n5: "(260.5189573025::real) \<le> v1 + v2 \<and> v1 + v2 \<le> (260.5189579148::real)"
    by (rule iv_add[OF v1_iv v2_iv]) simp_all
  have n6: "(43.41982621708::real) \<le> (v1 + v2) / (1 + 5) \<and> (v1 + v2) / (1 + 5) \<le> (43.41982631914::real)"
    by (rule iv_div[OF n5 n3]) simp_all
  have eq: "fst (performance_block supersonic_inputs) = Fin ((v1 + v2) / (1 + 5))"
    by (rule specific_thrust_Fin[OF supersonic_inputs_isValid_final v1_eq v2_eq supersonic_inputs_fields(4) s4])
  from eq n6 show ?thesis
    by blast
qed

lemma supersonic_inputs_total_thrust:
  "\<exists>t. fst (snd (performance_block supersonic_inputs)) = Fin t \<and> 58616.765393058 \<le> t \<and> t \<le> 58616.765530839"
proof -
  from supersonic_inputs_specific_thrust obtain v1 where v1_eq: "fst (performance_block supersonic_inputs) = Fin v1"
    and v1_iv: "(43.41982621708::real) \<le> v1 \<and> v1 \<le> (43.41982631914::real)"
    by blast
  have c1: "(1350::real) \<le> 1350 \<and> 1350 \<le> (1350::real)"
    by simp
  have n2: "(58616.765393058::real) \<le> v1 * 1350 \<and> v1 * 1350 \<le> (58616.765530839::real)"
    by (rule iv_mul[OF v1_iv c1]) simp_all
  have eq: "fst (snd (performance_block supersonic_inputs)) = Fin (v1 * 1350)"
    by (rule total_thrust_Fin[OF supersonic_inputs_isValid_final v1_eq supersonic_inputs_fields(3)])
  from eq n2 show ?thesis
    by blast
qed

lemma supersonic_inputs_sfc:
  "\<exists>t. fst (snd (snd (performance_block supersonic_inputs))) = Fin t \<and> 0.2969922676878 \<le> t \<and> t \<le> 0.2969922683889"
proof -
  from supersonic_inputs_total_thrust obtain v1 where v1_eq: "fst (snd (performance_block supersonic_inputs)) = Fin v1"
    and v1_iv: "(58616.765393058::real) \<le> v1 \<and> v1 \<le> (58616.765530839::real)"
    by blast
  from supersonic_inputs_f obtain v2 where v2_eq: "f supersonic_inputs = Fin v2"
    and v2_iv: "(0.02149225446856::real) \<le> v2 \<and> v2 \<le> (0.02149225446877::real)"
    by blast
  have c1: "(1350::real) \<le> 1350 \<and> 1350 \<le> (1350::real)"
    by simp
  have c2: "(5::real) \<le> 5 \<and> 5 \<le> (5::real)"
    by simp
  have s3: "(0::real) < v1"
    by (rule iv_pos[OF v1_iv]) simp
  have c4: "(1::real) \<le> 1 \<and> 1 \<le> (1::real)"
    by simp
  have n5: "(6::real) \<le> 1 + 5 \<and> 1 + 5 \<le> (6::real)"
    by (rule iv_add[OF c4 c2]) simp_all
  have s6: "(1 + 5::real) \<noteq> 0"
    by (rule iv_nonzero[OF n5]) simp
  have n7: "(225::real) \<le> 1350 / (1 + 5) \<and> 1350 / (1 + 5) \<le> (225::real)"
    by (rule iv_div[OF c1 n5]) simp_all
  have n8: "(4.835757255426::real) \<le> v2 * (1350 / (1 + 5)) \<and> v2 * (1350 / (1 + 5)) \<le> (4.83575725547325::real)"
    by (rule iv_mul[OF v2_iv n7]) simp_all
  have c9: "(3600::real) \<le> 3600 \<and> 3600 \<le> (3600::real)"
    by simp
  have n10: "(17408.7261195336::real) \<le> (v2 * (1350 / (1 + 5))) * 3600 \<and> (v2 * (1350 / (1 + 5))) * 3600 \<le> (17408.7261197037::real)"
    by (rule iv_mul[OF n8 c9]) simp_all
  have n11: "(0.2969922676878::real) \<le> ((v2 * (1350 / (1 + 5))) * 3600) / v1 \<and> ((v2 * (1350 / (1 + 5))) * 3600) / v1 \<le> (0.2969922683889::real)"
    by (rule iv_div[OF n10 v1_iv]) simp_all
  have eq: "fst (snd (snd (performance_block supersonic_inputs))) = Fin (((v2 * (1350 / (1 + 5))) * 3600) / v1)"
    by (rule sfc_Fin[OF supersonic_inputs_isValid_final v1_eq s3 v2_eq supersonic_inputs_fields(3) supersonic_inputs_fields(4) s6])
  from eq n11 show ?thesis
    by blast
qed

lemma supersonic_inputs_propulsiveEfficiency:
  "\<exists>t. fst (snd (snd (snd (snd (performance_block supersonic_inputs))))) = Fin t \<and> 0.9994698868321 \<le> t \<and> t \<le> 0.9994698916432"
proof -
  from supersonic_inputs_total_thrust obtain v1 where v1_eq: "fst (snd (performance_block supersonic_inputs)) = Fin v1"
    and v1_iv: "(58616.765393058::real) \<le> v1 \<and> v1 \<le> (58616.765530839::real)"
    by blast
  from supersonic_inputs_V0 obtain v2 where v2_eq: "V0 supersonic_inputs = Fin v2"
    and v2_iv: "(680.5845737304::real) \<le> v2 \<and> v2 \<le> (680.5845737306::real)"
    by blast
  from supersonic_inputs_KE_out_eff obtain v3 where v3_eq: "KE_out_eff supersonic_inputs = Fin v3"
    and v3_iv: "(352571694.91494::real) \<le> v3 \<and> v3 \<le> (352571695.0129525::real)"
    by blast
  from supersonic_inputs_KE_in obtain v4 where v4_eq: "KE_in supersonic_inputs = Fin v4"
    and v4_iv: "(312656869.3497975::real) \<le> v4 \<and> v4 \<le> (312656869.3500675::real)"
    by blast
  from supersonic_inputs_Q_in obtain v5 where v5_eq: "Q_in supersonic_inputs = Fin v5"
    and v5_iv: "(208421137.7088606::real) \<le> v5 \<and> v5 \<le> (208421137.7109::real)"
    by blast
  have s1: "(0::real) < v5"
    by (rule iv_pos[OF v5_iv]) simp
  have n2: "(39914825.5648725::real) \<le> v3 - v4 \<and> v3 - v4 \<le> (39914825.663155::real)"
    by (rule iv_sub[OF v3_iv v4_iv]) simp_all
  have s3: "(0::real) < (v3 - v4)"
    by (rule iv_pos[OF n2]) simp
  have n4: "(39893666.28848::real) \<le> v1 * v2 \<and> v1 * v2 \<le> (39893666.38228::real)"
    by (rule iv_mul[OF v1_iv v2_iv]) simp_all
  have n5: "(0.9994698868321::real) \<le> (v1 * v2) / (v3 - v4) \<and> (v1 * v2) / (v3 - v4) \<le> (0.9994698916432::real)"
    by (rule iv_div[OF n4 n2]) simp_all
  have eq: "fst (snd (snd (snd (snd (performance_block supersonic_inputs))))) = Fin ((v1 * v2) / (v3 - v4))"
    by (rule propulsiveEfficiency_Fin[OF supersonic_inputs_isValid_final v1_eq v2_eq v3_eq v4_eq v5_eq s1 s3])
  from eq n5 show ?thesis
    by blast
qed

subsection \<open>The solver at \<open>clamped_inputs\<close>\<close>

lemma clamped_inputs_fields:
  "altitude clamped_inputs = Fin 0"
  "mach clamped_inputs = Fin 2"
  "massFlow clamped_inputs = Fin 1350"
  "bypassRatio clamped_inputs = Fin 5"
  "overallPressureRatio clamped_inputs = Fin 10"
  "fanPressureRatio clamped_inputs = Fin 1.65"
  "turbineEntryTemp clamped_inputs = Fin 1650"
  "efficiencyFan clamped_inputs = Fin 0.92"
  "efficiencyLPC clamped_inputs = Fin 0.90"
  "efficiencyHPC clamped_inputs = Fin 0.90"
  "efficiencyHPT clamped_inputs = Fin 0.92"
  "efficiencyLPT clamped_inputs = Fin 0.93"
  "efficiencyBurner clamped_inputs = Fin 0.995"
  "pressureRecoveryInlet clamped_inputs = Fin 0.98"
  "pressureRecoveryBurner clamped_inputs = Fin 0.96"
  "pressureRecoveryNozzle clamped_inputs = Fin 0.99"
  "mechEfficiencyHigh clamped_inputs = Fin 0.99"
  "mechEfficiencyLow clamped_inputs = Fin 0.99"
  "heatingValue clamped_inputs = Fin 43.1"
  by (simp_all add: clamped_inputs_def)

lemma clamped_inputs_T0:
  "\<exists>t. T0 clamped_inputs = Fin t \<and> 288.15 \<le> t \<and> t \<le> 288.15"
proof -
  have eq: "T0 clamped_inputs = Fin 288.15"
    by (rule sea_level_Fin(1)[OF clamped_inputs_fields(1)])
  have iv: "(288.15::real) \<le> 288.15 \<and> 288.15 \<le> (288.15::real)"
    by simp
  from eq iv show ?thesis
    by blast
qed

lemma clamped_inputs_P0:
  "\<exists>t. P0 clamped_inputs = Fin t \<and> 101325 \<le> t \<and> t \<le> 101325"
proof -
  have eq: "P0 clamped_inputs = Fin 101325"
    by (rule sea_level_Fin(2)[OF clamped_inputs_fields(1)])
  have iv: "(101325::real) \<le> 101325 \<and> 101325 \<le> (101325::real)"
    by simp
  from eq iv show ?thesis
    by blast
qed

lemma clamped_inputs_V0:
  "\<exists>t. V0 clamped_inputs = Fin t \<and> 680.5845737304 \<le> t \<and> t \<le> 680.5845737306"
proof -
  have c1: "(2::real) \<le> 2 \<and> 2 \<le> (2::real)"
    by simp
  from clamped_inputs_T0 obtain v1 where v1_eq: "T0 clamped_inputs = Fin v1"
    and v1_iv: "(288.15::real) \<le> v1 \<and> v1 \<le> (288.15::real)"
    by blast
  have s2: "(0::real) \<le> v1"
    by (rule iv_nonneg[OF v1_iv]) simp
  have c3: "(1.4::real) \<le> 1.4 \<and> 1.4 \<le> (1.4::real)"
    by simp
  have c4: "(287.05::real) \<le> 287.05 \<and> 287.05 \<le> (287.05::real)"
    by simp
  have n5: "(401.87::real) \<le> 1.4 * 287.05 \<and> 1.4 * 287.05 \<le> (401.87::real)"
    by (rule iv_mul[OF c3 c4]) simp_all
  have n6: "(115798.8405::real) \<le> (1.4 * 287.05) * v1 \<and> (1.4 * 287.05) * v1 \<le> (115798.8405::real)"
    by (rule iv_mul[OF n5 v1_iv]) simp_all
  have n7: "(340.2922868652::real) \<le> sqrt ((1.4 * 287.05) * v1) \<and> sqrt ((1.4 * 287.05) * v1) \<le> (340.2922868653::real)"
    by (rule iv_sqrt[OF n6]) (simp_all add: power_divide)
  have n8: "(680.5845737304::real) \<le> 2 * (sqrt ((1.4 * 287.05) * v1)) \<and> 2 * (sqrt ((1.4 * 287.05) * v1)) \<le> (680.5845737306::real)"
    by (rule iv_mul[OF c1 n7]) simp_all
  have eq: "V0 clamped_inputs = Fin (2 * (sqrt ((1.4 * 287.05) * v1)))"
    by (rule V0_Fin[OF clamped_inputs_fields(2) v1_eq s2])
  from eq n8 show ?thesis
    by blast
qed

lemma clamped_inputs_tau_r:
  "\<exists>t. tau_r clamped_inputs = Fin t \<and> 1.8 \<le> t \<and> t \<le> 1.8"
proof -
  have c1: "(2::real) \<le> 2 \<and> 2 \<le> (2::real)"
    by simp
  have c2: "(1::real) \<le> 1 \<and> 1 \<le> (1::real)"
    by simp
  have c3: "(1.4::real) \<le> 1.4 \<and> 1.4 \<le> (1.4::real)"
    by simp
  have n4: "(0.4::real) \<le> 1.4 - 1 \<and> 1.4 - 1 \<le> (0.4::real)"
    by (rule iv_sub[OF c3 c2]) simp_all
  have n5: "(0.2::real) \<le> (1.4 - 1) / 2 \<and> (1.4 - 1) / 2 \<le> (0.2::real)"
    by (rule iv_div[OF n4 c1]) simp_all
  have n6: "(0.4::real) \<le> ((1.4 - 1) / 2) * 2 \<and> ((1.4 - 1) / 2) * 2 \<le> (0.4::real)"
    by (rule iv_mul[OF n5 c1]) simp_all
  have n7: "(0.8::real) \<le> (((1.4 - 1) / 2) * 2) * 2 \<and> (((1.4 - 1) / 2) * 2) * 2 \<le> (0.8::real)"
    by (rule iv_mul[OF n6 c1]) simp_all
  have n8: "(1.8::real) \<le> 1 + ((((1.4 - 1) / 2) * 2) * 2) \<and> 1 + ((((1.4 - 1) / 2) * 2) * 2) \<le> (1.8::real)"
    by (rule iv_add[OF c2 n7]) simp_all
  have eq: "tau_r clamped_inputs = Fin (1 + ((((1.4 - 1) / 2) * 2) * 2))"
    by (rule tau_r_Fin[OF clamped_inputs_fields(2)])
  from eq n8 show ?thesis
    by blast
qed

lemma clamped_inputs_pi_r:
  "\<exists>t. pi_r clamped_inputs = Fin t \<and> 7.824449066821 \<le> t \<and> t \<le> 7.824449066883"
proof -
  from clamped_inputs_tau_r obtain v1 where v1_eq: "tau_r clamped_inputs = Fin v1"
    and v1_iv: "(1.8::real) \<le> v1 \<and> v1 \<le> (1.8::real)"
    by blast
  have s1: "(0::real) < v1"
    by (rule iv_pos[OF v1_iv]) simp
  have s2: "(0::real) < v1"
    by (rule iv_pos[OF v1_iv]) simp
  have n3: "(1.341640786499::real) \<le> v1 powr (1 / 2) \<and> v1 powr (1 / 2) \<le> (1.3416407865::real)"
    by (rule iv_root[where n=2, OF v1_iv]) (simp_all add: power_divide)
  have n4: "(1.341640786499::real) \<le> (v1 powr (1 / 2)) ^ 1 \<and> (v1 powr (1 / 2)) ^ 1 \<le> (1.3416407865::real)"
    by (rule iv_pow_one[OF n3])
  have n5: "(1.799999999997::real) \<le> (v1 powr (1 / 2)) ^ 2 \<and> (v1 powr (1 / 2)) ^ 2 \<le> (1.800000000001::real)"
    by (rule iv_pow_sq[OF n4]) (simp_all add: power_divide)
  have n6: "(3.239999999989::real) \<le> (v1 powr (1 / 2)) ^ 4 \<and> (v1 powr (1 / 2)) ^ 4 \<le> (3.240000000004::real)"
    by (rule iv_pow_sq[OF n5]) (simp_all add: power_divide)
  have n7: "(5.83199999997::real) \<le> (v1 powr (1 / 2)) ^ 6 \<and> (v1 powr (1 / 2)) ^ 6 \<le> (5.832000000011::real)"
    by (rule iv_pow_mul[OF n6 n5]) simp_all
  have n8: "(7.824449066821::real) \<le> (v1 powr (1 / 2)) ^ 7 \<and> (v1 powr (1 / 2)) ^ 7 \<le> (7.824449066883::real)"
    by (rule iv_pow_mul[OF n7 n4]) simp_all
  have n9: "(7.824449066821::real) \<le> v1 powr (7 / 2) \<and> v1 powr (7 / 2) \<le> (7.824449066883::real)"
    by (rule powr_via_root[OF n8 s2]) simp_all
  have eq: "pi_r clamped_inputs = Fin (v1 powr (7 / 2))"
    by (rule pi_r_Fin[OF v1_eq s1])
  from eq n9 show ?thesis
    by blast
qed

lemma clamped_inputs_Tt0:
  "\<exists>t. Tt0 clamped_inputs = Fin t \<and> 518.67 \<le> t \<and> t \<le> 518.67"
proof -
  from clamped_inputs_T0 obtain v1 where v1_eq: "T0 clamped_inputs = Fin v1"
    and v1_iv: "(288.15::real) \<le> v1 \<and> v1 \<le> (288.15::real)"
    by blast
  from clamped_inputs_tau_r obtain v2 where v2_eq: "tau_r clamped_inputs = Fin v2"
    and v2_iv: "(1.8::real) \<le> v2 \<and> v2 \<le> (1.8::real)"
    by blast
  have n1: "(518.67::real) \<le> v1 * v2 \<and> v1 * v2 \<le> (518.67::real)"
    by (rule iv_mul[OF v1_iv v2_iv]) simp_all
  have eq: "Tt0 clamped_inputs = Fin (v1 * v2)"
    by (rule Tt0_Fin[OF v1_eq v2_eq])
  from eq n1 show ?thesis
    by blast
qed

lemma clamped_inputs_Pt0:
  "\<exists>t. Pt0 clamped_inputs = Fin t \<and> 792812.3016956 \<le> t \<and> t \<le> 792812.301702"
proof -
  from clamped_inputs_P0 obtain v1 where v1_eq: "P0 clamped_inputs = Fin v1"
    and v1_iv: "(101325::real) \<le> v1 \<and> v1 \<le> (101325::real)"
    by blast
  from clamped_inputs_pi_r obtain v2 where v2_eq: "pi_r clamped_inputs = Fin v2"
    and v2_iv: "(7.824449066821::real) \<le> v2 \<and> v2 \<le> (7.824449066883::real)"
    by blast
  have n1: "(792812.3016956::real) \<le> v1 * v2 \<and> v1 * v2 \<le> (792812.301702::real)"
    by (rule iv_mul[OF v1_iv v2_iv]) simp_all
  have eq: "Pt0 clamped_inputs = Fin (v1 * v2)"
    by (rule Pt0_Fin[OF v1_eq v2_eq])
  from eq n1 show ?thesis
    by blast
qed

lemma clamped_inputs_Tt2:
  "\<exists>t. Tt2 clamped_inputs = Fin t \<and> 518.67 \<le> t \<and> t \<le> 518.67"
proof -
  from clamped_inputs_Tt0 obtain v1 where v1_eq: "Tt0 clamped_inputs = Fin v1"
    and v1_iv: "(518.67::real) \<le> v1 \<and> v1 \<le> (518.67::real)"
    by blast
  have eq: "Tt2 clamped_inputs = Fin v1"
    by (rule Tt2_Fin[OF v1_eq])
  from eq v1_iv show ?thesis
    by blast
qed

lemma clamped_inputs_Pt2:
  "\<exists>t. Pt2 clamped_inputs = Fin t \<and> 776956.055661688 \<le> t \<and> t \<le> 776956.05566796"
proof -
  from clamped_inputs_Pt0 obtain v1 where v1_eq: "Pt0 clamped_inputs = Fin v1"
    and v1_iv: "(792812.3016956::real) \<le> v1 \<and> v1 \<le> (792812.301702::real)"
    by blast
  have c1: "(0.98::real) \<le> 0.98 \<and> 0.98 \<le> (0.98::real)"
    by simp
  have n2: "(776956.055661688::real) \<le> v1 * 0.98 \<and> v1 * 0.98 \<le> (776956.05566796::real)"
    by (rule iv_mul[OF v1_iv c1]) simp_all
  have eq: "Pt2 clamped_inputs = Fin (v1 * 0.98)"
    by (rule Pt2_Fin[OF v1_eq clamped_inputs_fields(14)])
  from eq n2 show ?thesis
    by blast
qed

lemma clamped_inputs_Pt13:
  "\<exists>t. Pt13 clamped_inputs = Fin t \<and> 1281977.491841 \<le> t \<and> t \<le> 1281977.491852134"
proof -
  from clamped_inputs_Pt2 obtain v1 where v1_eq: "Pt2 clamped_inputs = Fin v1"
    and v1_iv: "(776956.055661688::real) \<le> v1 \<and> v1 \<le> (776956.05566796::real)"
    by blast
  have c1: "(1.65::real) \<le> 1.65 \<and> 1.65 \<le> (1.65::real)"
    by simp
  have n2: "(1281977.491841::real) \<le> v1 * 1.65 \<and> v1 * 1.65 \<le> (1281977.491852134::real)"
    by (rule iv_mul[OF v1_iv c1]) simp_all
  have eq: "Pt13 clamped_inputs = Fin (v1 * 1.65)"
    by (rule Pt13_Fin[OF v1_eq clamped_inputs_fields(6)])
  from eq n2 show ?thesis
    by blast
qed

lemma clamped_inputs_Tt13:
  "\<exists>t. Tt13 clamped_inputs = Fin t \<and> 605.389679178 \<le> t \<and> t \<le> 605.3896791804"
proof -
  from clamped_inputs_Tt2 obtain v1 where v1_eq: "Tt2 clamped_inputs = Fin v1"
    and v1_iv: "(518.67::real) \<le> v1 \<and> v1 \<le> (518.67::real)"
    by blast
  have c1: "(1.65::real) \<le> 1.65 \<and> 1.65 \<le> (1.65::real)"
    by simp
  have c2: "(0.92::real) \<le> 0.92 \<and> 0.92 \<le> (0.92::real)"
    by simp
  have s3: "(0::real) < 1.65"
    by (rule iv_pos[OF c1]) simp
  have s4: "(0.92::real) \<noteq> 0"
    by (rule iv_nonzero[OF c2]) simp
  have c5: "(1::real) \<le> 1 \<and> 1 \<le> (1::real)"
    by simp
  have s6: "(0::real) < 1.65"
    by (rule iv_pos[OF c1]) simp
  have n7: "(1.074160393209::real) \<le> 1.65 powr (1 / 7) \<and> 1.65 powr (1 / 7) \<le> (1.07416039321::real)"
    by (rule iv_root[where n=7, OF c1]) (simp_all add: power_divide)
  have n8: "(1.074160393209::real) \<le> (1.65 powr (1 / 7)) ^ 1 \<and> (1.65 powr (1 / 7)) ^ 1 \<le> (1.07416039321::real)"
    by (rule iv_pow_one[OF n7])
  have n9: "(1.153820550338::real) \<le> (1.65 powr (1 / 7)) ^ 2 \<and> (1.65 powr (1 / 7)) ^ 2 \<le> (1.153820550342::real)"
    by (rule iv_pow_sq[OF n8]) (simp_all add: power_divide)
  have n10: "(1.153820550338::real) \<le> 1.65 powr (2 / 7) \<and> 1.65 powr (2 / 7) \<le> (1.153820550342::real)"
    by (rule powr_via_root[OF n9 s6]) simp_all
  have n11: "(0.153820550338::real) \<le> (1.65 powr (2 / 7)) - 1 \<and> (1.65 powr (2 / 7)) - 1 \<le> (0.153820550342::real)"
    by (rule iv_sub[OF n10 c5]) simp_all
  have n12: "(0.1671962503673::real) \<le> ((1.65 powr (2 / 7)) - 1) / 0.92 \<and> ((1.65 powr (2 / 7)) - 1) / 0.92 \<le> (0.1671962503718::real)"
    by (rule iv_div[OF n11 c2]) simp_all
  have n13: "(1.1671962503673::real) \<le> 1 + (((1.65 powr (2 / 7)) - 1) / 0.92) \<and> 1 + (((1.65 powr (2 / 7)) - 1) / 0.92) \<le> (1.1671962503718::real)"
    by (rule iv_add[OF c5 n12]) simp_all
  have n14: "(605.389679178::real) \<le> v1 * (1 + (((1.65 powr (2 / 7)) - 1) / 0.92)) \<and> v1 * (1 + (((1.65 powr (2 / 7)) - 1) / 0.92)) \<le> (605.3896791804::real)"
    by (rule iv_mul[OF v1_iv n13]) simp_all
  have eq: "Tt13 clamped_inputs = Fin (v1 * (1 + (((1.65 powr (2 / 7)) - 1) / 0.92)))"
    by (rule Tt13_Fin[OF v1_eq clamped_inputs_fields(6) clamped_inputs_fields(8) s3 s4])
  from eq n14 show ?thesis
    by blast
qed

lemma clamped_inputs_Pt21:
  "\<exists>t. Pt21 clamped_inputs = Fin t \<and> 1281977.491841 \<le> t \<and> t \<le> 1281977.491852134"
proof -
  from clamped_inputs_Pt13 obtain v1 where v1_eq: "Pt13 clamped_inputs = Fin v1"
    and v1_iv: "(1281977.491841::real) \<le> v1 \<and> v1 \<le> (1281977.491852134::real)"
    by blast
  have eq: "Pt21 clamped_inputs = Fin v1"
    by (rule Pt21_Fin[OF v1_eq])
  from eq v1_iv show ?thesis
    by blast
qed

lemma clamped_inputs_Tt21:
  "\<exists>t. Tt21 clamped_inputs = Fin t \<and> 605.389679178 \<le> t \<and> t \<le> 605.3896791804"
proof -
  from clamped_inputs_Tt13 obtain v1 where v1_eq: "Tt13 clamped_inputs = Fin v1"
    and v1_iv: "(605.389679178::real) \<le> v1 \<and> v1 \<le> (605.3896791804::real)"
    by blast
  have eq: "Tt21 clamped_inputs = Fin v1"
    by (rule Tt21_Fin[OF v1_eq])
  from eq v1_iv show ?thesis
    by blast
qed

lemma clamped_inputs_pi_ch:
  "\<exists>t. pi_ch clamped_inputs = Fin t \<and> 6.060606060606 \<le> t \<and> t \<le> 6.060606060607"
proof -
  have c1: "(10::real) \<le> 10 \<and> 10 \<le> (10::real)"
    by simp
  have c2: "(1.65::real) \<le> 1.65 \<and> 1.65 \<le> (1.65::real)"
    by simp
  have s3: "(1.65::real) \<noteq> 0"
    by (rule iv_nonzero[OF c2]) simp
  have c4: "(1.1::real) \<le> 1.1 \<and> 1.1 \<le> (1.1::real)"
    by simp
  have n5: "(6.060606060606::real) \<le> 10 / 1.65 \<and> 10 / 1.65 \<le> (6.060606060607::real)"
    by (rule iv_div[OF c1 c2]) simp_all
  have n6: "(6.060606060606::real) \<le> max 1.1 (10 / 1.65) \<and> max 1.1 (10 / 1.65) \<le> (6.060606060607::real)"
    by (rule iv_max[OF c4 n5]) simp_all
  have eq: "pi_ch clamped_inputs = Fin (max 1.1 (10 / 1.65))"
    by (rule pi_ch_Fin[OF clamped_inputs_fields(5) clamped_inputs_fields(6) s3])
  from eq n6 show ?thesis
    by blast
qed

lemma clamped_inputs_Pt3:
  "\<exists>t. Pt3 clamped_inputs = Fin t \<and> 7769560.556612 \<le> t \<and> t \<le> 7769560.556681"
proof -
  from clamped_inputs_Pt21 obtain v1 where v1_eq: "Pt21 clamped_inputs = Fin v1"
    and v1_iv: "(1281977.491841::real) \<le> v1 \<and> v1 \<le> (1281977.491852134::real)"
    by blast
  from clamped_inputs_pi_ch obtain v2 where v2_eq: "pi_ch clamped_inputs = Fin v2"
    and v2_iv: "(6.060606060606::real) \<le> v2 \<and> v2 \<le> (6.060606060607::real)"
    by blast
  have n1: "(7769560.556612::real) \<le> v1 * v2 \<and> v1 * v2 \<le> (7769560.556681::real)"
    by (rule iv_mul[OF v1_iv v2_iv]) simp_all
  have eq: "Pt3 clamped_inputs = Fin (v1 * v2)"
    by (rule Pt3_Fin[OF v1_eq v2_eq])
  from eq n1 show ?thesis
    by blast
qed

lemma clamped_inputs_Tt3:
  "\<exists>t. Tt3 clamped_inputs = Fin t \<and> 1058.294139099 \<le> t \<and> t \<le> 1058.294139107"
proof -
  from clamped_inputs_Tt21 obtain v1 where v1_eq: "Tt21 clamped_inputs = Fin v1"
    and v1_iv: "(605.389679178::real) \<le> v1 \<and> v1 \<le> (605.3896791804::real)"
    by blast
  from clamped_inputs_pi_ch obtain v2 where v2_eq: "pi_ch clamped_inputs = Fin v2"
    and v2_iv: "(6.060606060606::real) \<le> v2 \<and> v2 \<le> (6.060606060607::real)"
    by blast
  have c1: "(0.9::real) \<le> 0.90 \<and> 0.90 \<le> (0.9::real)"
    by simp
  have s2: "(0::real) < v2"
    by (rule iv_pos[OF v2_iv]) simp
  have s3: "(0.90::real) \<noteq> 0"
    by (rule iv_nonzero[OF c1]) simp
  have c4: "(1::real) \<le> 1 \<and> 1 \<le> (1::real)"
    by simp
  have s5: "(0::real) < v2"
    by (rule iv_pos[OF v2_iv]) simp
  have n6: "(1.293564260195::real) \<le> v2 powr (1 / 7) \<and> v2 powr (1 / 7) \<le> (1.293564260196::real)"
    by (rule iv_root[where n=7, OF v2_iv]) (simp_all add: power_divide)
  have n7: "(1.293564260195::real) \<le> (v2 powr (1 / 7)) ^ 1 \<and> (v2 powr (1 / 7)) ^ 1 \<le> (1.293564260196::real)"
    by (rule iv_pow_one[OF n6])
  have n8: "(1.673308495253::real) \<le> (v2 powr (1 / 7)) ^ 2 \<and> (v2 powr (1 / 7)) ^ 2 \<le> (1.673308495257::real)"
    by (rule iv_pow_sq[OF n7]) (simp_all add: power_divide)
  have n9: "(1.673308495253::real) \<le> v2 powr (2 / 7) \<and> v2 powr (2 / 7) \<le> (1.673308495257::real)"
    by (rule powr_via_root[OF n8 s5]) simp_all
  have n10: "(0.673308495253::real) \<le> (v2 powr (2 / 7)) - 1 \<and> (v2 powr (2 / 7)) - 1 \<le> (0.673308495257::real)"
    by (rule iv_sub[OF n9 c4]) simp_all
  have n11: "(0.7481205502811::real) \<le> ((v2 powr (2 / 7)) - 1) / 0.90 \<and> ((v2 powr (2 / 7)) - 1) / 0.90 \<le> (0.7481205502856::real)"
    by (rule iv_div[OF n10 c1]) simp_all
  have n12: "(1.7481205502811::real) \<le> 1 + (((v2 powr (2 / 7)) - 1) / 0.90) \<and> 1 + (((v2 powr (2 / 7)) - 1) / 0.90) \<le> (1.7481205502856::real)"
    by (rule iv_add[OF c4 n11]) simp_all
  have n13: "(1058.294139099::real) \<le> v1 * (1 + (((v2 powr (2 / 7)) - 1) / 0.90)) \<and> v1 * (1 + (((v2 powr (2 / 7)) - 1) / 0.90)) \<le> (1058.294139107::real)"
    by (rule iv_mul[OF v1_iv n12]) simp_all
  have eq: "Tt3 clamped_inputs = Fin (v1 * (1 + (((v2 powr (2 / 7)) - 1) / 0.90)))"
    by (rule Tt3_Fin[OF v1_eq v2_eq clamped_inputs_fields(10) s2 s3])
  from eq n13 show ?thesis
    by blast
qed

lemma clamped_inputs_Pt4:
  "\<exists>t. Pt4 clamped_inputs = Fin t \<and> 7458778.13434752 \<le> t \<and> t \<le> 7458778.13441376"
proof -
  from clamped_inputs_Pt3 obtain v1 where v1_eq: "Pt3 clamped_inputs = Fin v1"
    and v1_iv: "(7769560.556612::real) \<le> v1 \<and> v1 \<le> (7769560.556681::real)"
    by blast
  have c1: "(0.96::real) \<le> 0.96 \<and> 0.96 \<le> (0.96::real)"
    by simp
  have n2: "(7458778.13434752::real) \<le> v1 * 0.96 \<and> v1 * 0.96 \<le> (7458778.13441376::real)"
    by (rule iv_mul[OF v1_iv c1]) simp_all
  have eq: "Pt4 clamped_inputs = Fin (v1 * 0.96)"
    by (rule Pt4_Fin[OF v1_eq clamped_inputs_fields(15)])
  from eq n2 show ?thesis
    by blast
qed

lemma clamped_inputs_Tt4:
  "\<exists>t. Tt4 clamped_inputs = Fin t \<and> 1650 \<le> t \<and> t \<le> 1650"
proof -
  have c1: "(1650::real) \<le> 1650 \<and> 1650 \<le> (1650::real)"
    by simp
  have eq: "Tt4 clamped_inputs = Fin 1650"
    by (rule Tt4_Fin[OF clamped_inputs_fields(7)])
  from eq c1 show ?thesis
    by blast
qed

lemma clamped_inputs_Hu_J:
  "\<exists>t. Hu_J clamped_inputs = Fin t \<and> 43100000 \<le> t \<and> t \<le> 43100000"
proof -
  have c1: "(43.1::real) \<le> 43.1 \<and> 43.1 \<le> (43.1::real)"
    by simp
  have c2: "(1000000::real) \<le> 1000000 \<and> 1000000 \<le> (1000000::real)"
    by simp
  have n3: "(43100000::real) \<le> 43.1 * 1000000 \<and> 43.1 * 1000000 \<le> (43100000::real)"
    by (rule iv_mul[OF c1 c2]) simp_all
  have eq: "Hu_J clamped_inputs = Fin (43.1 * 1000000)"
    by (rule Hu_J_Fin[OF clamped_inputs_fields(19)])
  from eq n3 show ?thesis
    by blast
qed

lemma clamped_inputs_numerator:
  "\<exists>t. numerator clamped_inputs = Fin t \<and> 833914.390197465 \<le> t \<and> t \<le> 833914.390205505"
proof -
  from clamped_inputs_Tt4 obtain v1 where v1_eq: "Tt4 clamped_inputs = Fin v1"
    and v1_iv: "(1650::real) \<le> v1 \<and> v1 \<le> (1650::real)"
    by blast
  from clamped_inputs_Tt3 obtain v2 where v2_eq: "Tt3 clamped_inputs = Fin v2"
    and v2_iv: "(1058.294139099::real) \<le> v2 \<and> v2 \<le> (1058.294139107::real)"
    by blast
  have c1: "(1150::real) \<le> 1150 \<and> 1150 \<le> (1150::real)"
    by simp
  have n2: "(1897500::real) \<le> 1150 * v1 \<and> 1150 * v1 \<le> (1897500::real)"
    by (rule iv_mul[OF c1 v1_iv]) simp_all
  have c3: "(1005::real) \<le> 1005 \<and> 1005 \<le> (1005::real)"
    by simp
  have n4: "(1063585.609794495::real) \<le> 1005 * v2 \<and> 1005 * v2 \<le> (1063585.609802535::real)"
    by (rule iv_mul[OF c3 v2_iv]) simp_all
  have n5: "(833914.390197465::real) \<le> (1150 * v1) - (1005 * v2) \<and> (1150 * v1) - (1005 * v2) \<le> (833914.390205505::real)"
    by (rule iv_sub[OF n2 n4]) simp_all
  have eq: "numerator clamped_inputs = Fin ((1150 * v1) - (1005 * v2))"
    by (rule numerator_Fin[OF v1_eq v2_eq])
  from eq n5 show ?thesis
    by blast
qed

lemma clamped_inputs_denominator:
  "\<exists>t. denominator clamped_inputs = Fin t \<and> 40987000 \<le> t \<and> t \<le> 40987000"
proof -
  have c1: "(0.995::real) \<le> 0.995 \<and> 0.995 \<le> (0.995::real)"
    by simp
  from clamped_inputs_Hu_J obtain v1 where v1_eq: "Hu_J clamped_inputs = Fin v1"
    and v1_iv: "(43100000::real) \<le> v1 \<and> v1 \<le> (43100000::real)"
    by blast
  from clamped_inputs_Tt4 obtain v2 where v2_eq: "Tt4 clamped_inputs = Fin v2"
    and v2_iv: "(1650::real) \<le> v2 \<and> v2 \<le> (1650::real)"
    by blast
  have n2: "(42884500::real) \<le> 0.995 * v1 \<and> 0.995 * v1 \<le> (42884500::real)"
    by (rule iv_mul[OF c1 v1_iv]) simp_all
  have c3: "(1150::real) \<le> 1150 \<and> 1150 \<le> (1150::real)"
    by simp
  have n4: "(1897500::real) \<le> 1150 * v2 \<and> 1150 * v2 \<le> (1897500::real)"
    by (rule iv_mul[OF c3 v2_iv]) simp_all
  have n5: "(40987000::real) \<le> (0.995 * v1) - (1150 * v2) \<and> (0.995 * v1) - (1150 * v2) \<le> (40987000::real)"
    by (rule iv_sub[OF n2 n4]) simp_all
  have eq: "denominator clamped_inputs = Fin ((0.995 * v1) - (1150 * v2))"
    by (rule denominator_Fin[OF clamped_inputs_fields(13) v1_eq v2_eq])
  from eq n5 show ?thesis
    by blast
qed

lemma clamped_inputs_f:
  "\<exists>t. f clamped_inputs = Fin t \<and> 0.02034582648638 \<le> t \<and> t \<le> 0.02034582648659"
proof -
  from clamped_inputs_numerator obtain v1 where v1_eq: "numerator clamped_inputs = Fin v1"
    and v1_iv: "(833914.390197465::real) \<le> v1 \<and> v1 \<le> (833914.390205505::real)"
    by blast
  from clamped_inputs_denominator obtain v2 where v2_eq: "denominator clamped_inputs = Fin v2"
    and v2_iv: "(40987000::real) \<le> v2 \<and> v2 \<le> (40987000::real)"
    by blast
  have s1: "(v2::real) \<noteq> 0"
    by (rule iv_nonzero[OF v2_iv]) simp
  have c2: "(0::real) \<le> 0 \<and> 0 \<le> (0::real)"
    by simp
  have n3: "(0.02034582648638::real) \<le> v1 / v2 \<and> v1 / v2 \<le> (0.02034582648659::real)"
    by (rule iv_div[OF v1_iv v2_iv]) simp_all
  have n4: "(0.02034582648638::real) \<le> max 0 (v1 / v2) \<and> max 0 (v1 / v2) \<le> (0.02034582648659::real)"
    by (rule iv_max[OF c2 n3]) simp_all
  have eq: "f clamped_inputs = Fin (max 0 (v1 / v2))"
    by (rule f_Fin[OF v1_eq v2_eq s1])
  from eq n4 show ?thesis
    by blast
qed

lemma clamped_inputs_work_req_HPC:
  "\<exists>t. work_req_HPC clamped_inputs = Fin t \<and> 455168.982218193 \<le> t \<and> t \<le> 455168.982228645"
proof -
  from clamped_inputs_Tt3 obtain v1 where v1_eq: "Tt3 clamped_inputs = Fin v1"
    and v1_iv: "(1058.294139099::real) \<le> v1 \<and> v1 \<le> (1058.294139107::real)"
    by blast
  from clamped_inputs_Tt21 obtain v2 where v2_eq: "Tt21 clamped_inputs = Fin v2"
    and v2_iv: "(605.389679178::real) \<le> v2 \<and> v2 \<le> (605.3896791804::real)"
    by blast
  have c1: "(1005::real) \<le> 1005 \<and> 1005 \<le> (1005::real)"
    by simp
  have n2: "(452.9044599186::real) \<le> v1 - v2 \<and> v1 - v2 \<le> (452.904459929::real)"
    by (rule iv_sub[OF v1_iv v2_iv]) simp_all
  have n3: "(455168.982218193::real) \<le> 1005 * (v1 - v2) \<and> 1005 * (v1 - v2) \<le> (455168.982228645::real)"
    by (rule iv_mul[OF c1 n2]) simp_all
  have eq: "work_req_HPC clamped_inputs = Fin (1005 * (v1 - v2))"
    by (rule work_req_HPC_Fin[OF v1_eq v2_eq])
  from eq n3 show ?thesis
    by blast
qed

lemma clamped_inputs_work_avail_HPT:
  "\<exists>t. work_avail_HPT clamped_inputs = Fin t \<and> 459766.6487052 \<le> t \<and> t \<le> 459766.6487159"
proof -
  from clamped_inputs_work_req_HPC obtain v1 where v1_eq: "work_req_HPC clamped_inputs = Fin v1"
    and v1_iv: "(455168.982218193::real) \<le> v1 \<and> v1 \<le> (455168.982228645::real)"
    by blast
  have c1: "(0.99::real) \<le> 0.99 \<and> 0.99 \<le> (0.99::real)"
    by simp
  have s2: "(0.99::real) \<noteq> 0"
    by (rule iv_nonzero[OF c1]) simp
  have n3: "(459766.6487052::real) \<le> v1 / 0.99 \<and> v1 / 0.99 \<le> (459766.6487159::real)"
    by (rule iv_div[OF v1_iv c1]) simp_all
  have eq: "work_avail_HPT clamped_inputs = Fin (v1 / 0.99)"
    by (rule work_avail_HPT_Fin[OF v1_eq clamped_inputs_fields(17) s2])
  from eq n3 show ?thesis
    by blast
qed

lemma clamped_inputs_deltaT_HPT:
  "\<exists>t. deltaT_HPT clamped_inputs = Fin t \<and> 391.8250807249 \<le> t \<and> t \<le> 391.8250807343"
proof -
  from clamped_inputs_work_avail_HPT obtain v1 where v1_eq: "work_avail_HPT clamped_inputs = Fin v1"
    and v1_iv: "(459766.6487052::real) \<le> v1 \<and> v1 \<le> (459766.6487159::real)"
    by blast
  from clamped_inputs_f obtain v2 where v2_eq: "f clamped_inputs = Fin v2"
    and v2_iv: "(0.02034582648638::real) \<le> v2 \<and> v2 \<le> (0.02034582648659::real)"
    by blast
  have c1: "(1::real) \<le> 1 \<and> 1 \<le> (1::real)"
    by simp
  have n2: "(1.02034582648638::real) \<le> 1 + v2 \<and> 1 + v2 \<le> (1.02034582648659::real)"
    by (rule iv_add[OF c1 v2_iv]) simp_all
  have c3: "(1150::real) \<le> 1150 \<and> 1150 \<le> (1150::real)"
    by simp
  have n4: "(1173.397700459337::real) \<le> (1 + v2) * 1150 \<and> (1 + v2) * 1150 \<le> (1173.39770046::real)"
    by (rule iv_mul[OF n2 c3]) simp_all
  have s5: "((1 + v2) * 1150::real) \<noteq> 0"
    by (rule iv_nonzero[OF n4]) simp
  have n6: "(391.8250807249::real) \<le> v1 / ((1 + v2) * 1150) \<and> v1 / ((1 + v2) * 1150) \<le> (391.8250807343::real)"
    by (rule iv_div[OF v1_iv n4]) simp_all
  have eq: "deltaT_HPT clamped_inputs = Fin (v1 / ((1 + v2) * 1150))"
    by (rule deltaT_HPT_Fin[OF v1_eq v2_eq s5])
  from eq n6 show ?thesis
    by blast
qed

lemma clamped_inputs_Tt45:
  "\<exists>t. Tt45 clamped_inputs = Fin t \<and> 1258.1749192657 \<le> t \<and> t \<le> 1258.1749192751"
proof -
  from clamped_inputs_Tt4 obtain v1 where v1_eq: "Tt4 clamped_inputs = Fin v1"
    and v1_iv: "(1650::real) \<le> v1 \<and> v1 \<le> (1650::real)"
    by blast
  from clamped_inputs_deltaT_HPT obtain v2 where v2_eq: "deltaT_HPT clamped_inputs = Fin v2"
    and v2_iv: "(391.8250807249::real) \<le> v2 \<and> v2 \<le> (391.8250807343::real)"
    by blast
  have n1: "(1258.1749192657::real) \<le> v1 - v2 \<and> v1 - v2 \<le> (1258.1749192751::real)"
    by (rule iv_sub[OF v1_iv v2_iv]) simp_all
  have eq: "Tt45 clamped_inputs = Fin (v1 - v2)"
    by (rule Tt45_Fin[OF v1_eq v2_eq])
  from eq n1 show ?thesis
    by blast
qed

lemma clamped_inputs_temp_ratio_HPT:
  "\<exists>t. temp_ratio_HPT clamped_inputs = Fin t \<and> 0.7625302541004 \<le> t \<and> t \<le> 0.7625302541062"
proof -
  from clamped_inputs_Tt45 obtain v1 where v1_eq: "Tt45 clamped_inputs = Fin v1"
    and v1_iv: "(1258.1749192657::real) \<le> v1 \<and> v1 \<le> (1258.1749192751::real)"
    by blast
  from clamped_inputs_Tt4 obtain v2 where v2_eq: "Tt4 clamped_inputs = Fin v2"
    and v2_iv: "(1650::real) \<le> v2 \<and> v2 \<le> (1650::real)"
    by blast
  have s1: "(v2::real) \<noteq> 0"
    by (rule iv_nonzero[OF v2_iv]) simp
  have n2: "(0.7625302541004::real) \<le> v1 / v2 \<and> v1 / v2 \<le> (0.7625302541062::real)"
    by (rule iv_div[OF v1_iv v2_iv]) simp_all
  have eq: "temp_ratio_HPT clamped_inputs = Fin (v1 / v2)"
    by (rule temp_ratio_HPT_Fin[OF v1_eq v2_eq s1])
  from eq n2 show ?thesis
    by blast
qed

lemma clamped_inputs_pressure_term_HPT:
  "\<exists>t. pressure_term_HPT clamped_inputs = Fin t \<and> 0.258119289015 \<le> t \<and> t \<le> 0.2581192890214"
proof -
  from clamped_inputs_temp_ratio_HPT obtain v1 where v1_eq: "temp_ratio_HPT clamped_inputs = Fin v1"
    and v1_iv: "(0.7625302541004::real) \<le> v1 \<and> v1 \<le> (0.7625302541062::real)"
    by blast
  have c1: "(0.92::real) \<le> 0.92 \<and> 0.92 \<le> (0.92::real)"
    by simp
  have s2: "(0.92::real) \<noteq> 0"
    by (rule iv_nonzero[OF c1]) simp
  have c3: "(1::real) \<le> 1 \<and> 1 \<le> (1::real)"
    by simp
  have n4: "(0.2374697458938::real) \<le> 1 - v1 \<and> 1 - v1 \<le> (0.2374697458996::real)"
    by (rule iv_sub[OF c3 v1_iv]) simp_all
  have n5: "(0.258119289015::real) \<le> (1 - v1) / 0.92 \<and> (1 - v1) / 0.92 \<le> (0.2581192890214::real)"
    by (rule iv_div[OF n4 c1]) simp_all
  have eq: "pressure_term_HPT clamped_inputs = Fin ((1 - v1) / 0.92)"
    by (rule pressure_term_HPT_Fin[OF v1_eq clamped_inputs_fields(11) s2])
  from eq n5 show ?thesis
    by blast
qed

lemma clamped_inputs_pi_HPT:
  "\<exists>t. pi_HPT clamped_inputs = Fin t \<and> 3.331140512558 \<le> t \<and> t \<le> 3.331140513431"
proof -
  from clamped_inputs_pressure_term_HPT obtain v1 where v1_eq: "pressure_term_HPT clamped_inputs = Fin v1"
    and v1_iv: "(0.258119289015::real) \<le> v1 \<and> v1 \<le> (0.2581192890214::real)"
    by blast
  have c1: "(1::real) \<le> 1 \<and> 1 \<le> (1::real)"
    by simp
  have s2: "(v1::real) < 1"
    by (rule iv_less[OF v1_iv c1]) simp
  have n3: "(0.7418807109786::real) \<le> 1 - v1 \<and> 1 - v1 \<le> (0.741880710985::real)"
    by (rule iv_sub[OF c1 v1_iv]) simp_all
  have n4: "(1.347925596653::real) \<le> 1 / (1 - v1) \<and> 1 / (1 - v1) \<le> (1.347925596665::real)"
    by (rule iv_div[OF c1 n3]) simp_all
  have s5: "(0::real) < (1 / (1 - v1))"
    by (rule iv_pos[OF n4]) simp
  have n6: "(1.104643072931::real) \<le> (1 / (1 - v1)) powr (1 / 3) \<and> (1 / (1 - v1)) powr (1 / 3) \<le> (1.104643072935::real)"
    by (rule iv_root[where n=3, OF n4]) (simp_all add: power_divide)
  have n7: "(1.009088531414::real) \<le> ((1 / (1 - v1)) powr (1 / 3)) powr (1 / 11) \<and> ((1 / (1 - v1)) powr (1 / 3)) powr (1 / 11) \<le> (1.009088531415::real)"
    by (rule iv_root[where n=11, OF n6]) (simp_all add: power_divide)
  have n8: "(1.009088531414::real) \<le> (((1 / (1 - v1)) powr (1 / 3)) powr (1 / 11)) ^ 1 \<and> (((1 / (1 - v1)) powr (1 / 3)) powr (1 / 11)) ^ 1 \<le> (1.009088531415::real)"
    by (rule iv_pow_one[OF n7])
  have n9: "(1.018259664231::real) \<le> (((1 / (1 - v1)) powr (1 / 3)) powr (1 / 11)) ^ 2 \<and> (((1 / (1 - v1)) powr (1 / 3)) powr (1 / 11)) ^ 2 \<le> (1.018259664234::real)"
    by (rule iv_pow_sq[OF n8]) (simp_all add: power_divide)
  have n10: "(1.036852743799::real) \<le> (((1 / (1 - v1)) powr (1 / 3)) powr (1 / 11)) ^ 4 \<and> (((1 / (1 - v1)) powr (1 / 3)) powr (1 / 11)) ^ 4 \<le> (1.036852743806::real)"
    by (rule iv_pow_sq[OF n9]) (simp_all add: power_divide)
  have n11: "(1.075063612323::real) \<le> (((1 / (1 - v1)) powr (1 / 3)) powr (1 / 11)) ^ 8 \<and> (((1 / (1 - v1)) powr (1 / 3)) powr (1 / 11)) ^ 8 \<le> (1.075063612339::real)"
    by (rule iv_pow_sq[OF n10]) (simp_all add: power_divide)
  have n12: "(1.15576177054::real) \<le> (((1 / (1 - v1)) powr (1 / 3)) powr (1 / 11)) ^ 16 \<and> (((1 / (1 - v1)) powr (1 / 3)) powr (1 / 11)) ^ 16 \<le> (1.155761770576::real)"
    by (rule iv_pow_sq[OF n11]) (simp_all add: power_divide)
  have n13: "(1.335785270241::real) \<le> (((1 / (1 - v1)) powr (1 / 3)) powr (1 / 11)) ^ 32 \<and> (((1 / (1 - v1)) powr (1 / 3)) powr (1 / 11)) ^ 32 \<le> (1.335785270325::real)"
    by (rule iv_pow_sq[OF n12]) (simp_all add: power_divide)
  have n14: "(1.784322288192::real) \<le> (((1 / (1 - v1)) powr (1 / 3)) powr (1 / 11)) ^ 64 \<and> (((1 / (1 - v1)) powr (1 / 3)) powr (1 / 11)) ^ 64 \<le> (1.784322288418::real)"
    by (rule iv_pow_sq[OF n13]) (simp_all add: power_divide)
  have n15: "(3.183806028138::real) \<le> (((1 / (1 - v1)) powr (1 / 3)) powr (1 / 11)) ^ 128 \<and> (((1 / (1 - v1)) powr (1 / 3)) powr (1 / 11)) ^ 128 \<le> (3.183806028946::real)"
    by (rule iv_pow_sq[OF n14]) (simp_all add: power_divide)
  have n16: "(3.301138015998::real) \<le> (((1 / (1 - v1)) powr (1 / 3)) powr (1 / 11)) ^ 132 \<and> (((1 / (1 - v1)) powr (1 / 3)) powr (1 / 11)) ^ 132 \<le> (3.301138016859::real)"
    by (rule iv_pow_mul[OF n15 n10]) simp_all
  have n17: "(3.331140512558::real) \<le> (((1 / (1 - v1)) powr (1 / 3)) powr (1 / 11)) ^ 133 \<and> (((1 / (1 - v1)) powr (1 / 3)) powr (1 / 11)) ^ 133 \<le> (3.331140513431::real)"
    by (rule iv_pow_mul[OF n16 n8]) simp_all
  have n18: "(3.331140512558::real) \<le> (1 / (1 - v1)) powr (133 / 33) \<and> (1 / (1 - v1)) powr (133 / 33) \<le> (3.331140513431::real)"
    by (rule powr_via_roots[OF n17 s5]) simp_all
  have eq: "pi_HPT clamped_inputs = Fin ((1 / (1 - v1)) powr (133 / 33))"
    by (rule pi_HPT_Fin[OF v1_eq s2])
  from eq n18 show ?thesis
    by blast
qed

lemma clamped_inputs_Pt45:
  "\<exists>t. Pt45 clamped_inputs = Fin t \<and> 2239106.427445 \<le> t \<and> t \<le> 2239106.428053"
proof -
  from clamped_inputs_Tt45 obtain v1 where v1_eq: "Tt45 clamped_inputs = Fin v1"
    and v1_iv: "(1258.1749192657::real) \<le> v1 \<and> v1 \<le> (1258.1749192751::real)"
    by blast
  from clamped_inputs_Tt3 obtain v2 where v2_eq: "Tt3 clamped_inputs = Fin v2"
    and v2_iv: "(1058.294139099::real) \<le> v2 \<and> v2 \<le> (1058.294139107::real)"
    by blast
  from clamped_inputs_temp_ratio_HPT obtain v3 where v3_eq: "temp_ratio_HPT clamped_inputs = Fin v3"
    and v3_iv: "(0.7625302541004::real) \<le> v3 \<and> v3 \<le> (0.7625302541062::real)"
    by blast
  from clamped_inputs_pressure_term_HPT obtain v4 where v4_eq: "pressure_term_HPT clamped_inputs = Fin v4"
    and v4_iv: "(0.258119289015::real) \<le> v4 \<and> v4 \<le> (0.2581192890214::real)"
    by blast
  from clamped_inputs_Pt4 obtain v5 where v5_eq: "Pt4 clamped_inputs = Fin v5"
    and v5_iv: "(7458778.13434752::real) \<le> v5 \<and> v5 \<le> (7458778.13441376::real)"
    by blast
  from clamped_inputs_pi_HPT obtain v6 where v6_eq: "pi_HPT clamped_inputs = Fin v6"
    and v6_iv: "(3.331140512558::real) \<le> v6 \<and> v6 \<le> (3.331140513431::real)"
    by blast
  have c1: "(1::real) \<le> 1 \<and> 1 \<le> (1::real)"
    by simp
  have s2: "(v2::real) \<le> v1"
    by (rule iv_le[OF v2_iv v1_iv]) simp
  have s3: "(0::real) < v3"
    by (rule iv_pos[OF v3_iv]) simp
  have s4: "(v3::real) < 1"
    by (rule iv_less[OF v3_iv c1]) simp
  have s5: "(v4::real) < 1"
    by (rule iv_less[OF v4_iv c1]) simp
  have s6: "(v6::real) \<noteq> 0"
    by (rule iv_nonzero[OF v6_iv]) simp
  have n7: "(2239106.427445::real) \<le> v5 / v6 \<and> v5 / v6 \<le> (2239106.428053::real)"
    by (rule iv_div[OF v5_iv v6_iv]) simp_all
  have eq: "Pt45 clamped_inputs = Fin (v5 / v6)"
    by (rule hpt_block_Fin(1)[OF v1_eq v2_eq v3_eq v4_eq v5_eq v6_eq s2 s3 s4 s5 s6])
  from eq n7 show ?thesis
    by blast
qed

lemma clamped_inputs_isValid_HPT:
  "isValid_HPT clamped_inputs"
proof -
  from clamped_inputs_Tt45 obtain v1 where v1_eq: "Tt45 clamped_inputs = Fin v1"
    and v1_iv: "(1258.1749192657::real) \<le> v1 \<and> v1 \<le> (1258.1749192751::real)"
    by blast
  from clamped_inputs_Tt3 obtain v2 where v2_eq: "Tt3 clamped_inputs = Fin v2"
    and v2_iv: "(1058.294139099::real) \<le> v2 \<and> v2 \<le> (1058.294139107::real)"
    by blast
  from clamped_inputs_temp_ratio_HPT obtain v3 where v3_eq: "temp_ratio_HPT clamped_inputs = Fin v3"
    and v3_iv: "(0.7625302541004::real) \<le> v3 \<and> v3 \<le> (0.7625302541062::real)"
    by blast
  from clamped_inputs_pressure_term_HPT obtain v4 where v4_eq: "pressure_term_HPT clamped_inputs = Fin v4"
    and v4_iv: "(0.258119289015::real) \<le> v4 \<and> v4 \<le> (0.2581192890214::real)"
    by blast
  from clamped_inputs_Pt4 obtain v5 where v5_eq: "Pt4 clamped_inputs = Fin v5"
    and v5_iv: "(7458778.13434752::real) \<le> v5 \<and> v5 \<le> (7458778.13441376::real)"
    by blast
  from clamped_inputs_pi_HPT obtain v6 where v6_eq: "pi_HPT clamped_inputs = Fin v6"
    and v6_iv: "(3.331140512558::real) \<le> v6 \<and> v6 \<le> (3.331140513431::real)"
    by blast
  have c1: "(1::real) \<le> 1 \<and> 1 \<le> (1::real)"
    by simp
  have s2: "(v2::real) \<le> v1"
    by (rule iv_le[OF v2_iv v1_iv]) simp
  have s3: "(0::real) < v3"
    by (rule iv_pos[OF v3_iv]) simp
  have s4: "(v3::real) < 1"
    by (rule iv_less[OF v3_iv c1]) simp
  have s5: "(v4::real) < 1"
    by (rule iv_less[OF v4_iv c1]) simp
  have s6: "(v6::real) \<noteq> 0"
    by (rule iv_nonzero[OF v6_iv]) simp
  show ?thesis
    by (rule hpt_block_Fin(2)[OF v1_eq v2_eq v3_eq v4_eq v5_eq v6_eq s2 s3 s4 s5 s6])
qed

lemma clamped_inputs_work_req_Fan:
  "\<exists>t. work_req_Fan clamped_inputs = Fin t \<and> 522919.66544334 \<le> t \<and> t \<le> 522919.665457812"
proof -
  have c1: "(5::real) \<le> 5 \<and> 5 \<le> (5::real)"
    by simp
  from clamped_inputs_Tt13 obtain v1 where v1_eq: "Tt13 clamped_inputs = Fin v1"
    and v1_iv: "(605.389679178::real) \<le> v1 \<and> v1 \<le> (605.3896791804::real)"
    by blast
  from clamped_inputs_Tt2 obtain v2 where v2_eq: "Tt2 clamped_inputs = Fin v2"
    and v2_iv: "(518.67::real) \<le> v2 \<and> v2 \<le> (518.67::real)"
    by blast
  have c2: "(1::real) \<le> 1 \<and> 1 \<le> (1::real)"
    by simp
  have n3: "(6::real) \<le> 1 + 5 \<and> 1 + 5 \<le> (6::real)"
    by (rule iv_add[OF c2 c1]) simp_all
  have c4: "(1005::real) \<le> 1005 \<and> 1005 \<le> (1005::real)"
    by simp
  have n5: "(6030::real) \<le> (1 + 5) * 1005 \<and> (1 + 5) * 1005 \<le> (6030::real)"
    by (rule iv_mul[OF n3 c4]) simp_all
  have n6: "(86.719679178::real) \<le> v1 - v2 \<and> v1 - v2 \<le> (86.7196791804::real)"
    by (rule iv_sub[OF v1_iv v2_iv]) simp_all
  have n7: "(522919.66544334::real) \<le> ((1 + 5) * 1005) * (v1 - v2) \<and> ((1 + 5) * 1005) * (v1 - v2) \<le> (522919.665457812::real)"
    by (rule iv_mul[OF n5 n6]) simp_all
  have eq: "work_req_Fan clamped_inputs = Fin (((1 + 5) * 1005) * (v1 - v2))"
    by (rule work_req_Fan_Fin[OF clamped_inputs_fields(4) v1_eq v2_eq])
  from eq n7 show ?thesis
    by blast
qed

lemma clamped_inputs_work_extraction_LPT:
  "\<exists>t. work_extraction_LPT clamped_inputs = Fin t \<and> 528201.682266 \<le> t \<and> t \<le> 528201.6822807"
proof -
  from clamped_inputs_work_req_Fan obtain v1 where v1_eq: "work_req_Fan clamped_inputs = Fin v1"
    and v1_iv: "(522919.66544334::real) \<le> v1 \<and> v1 \<le> (522919.665457812::real)"
    by blast
  have c1: "(0.99::real) \<le> 0.99 \<and> 0.99 \<le> (0.99::real)"
    by simp
  have s2: "(0.99::real) \<noteq> 0"
    by (rule iv_nonzero[OF c1]) simp
  have n3: "(528201.682266::real) \<le> v1 / 0.99 \<and> v1 / 0.99 \<le> (528201.6822807::real)"
    by (rule iv_div[OF v1_iv c1]) simp_all
  have eq: "work_extraction_LPT clamped_inputs = Fin (v1 / 0.99)"
    by (rule work_extraction_LPT_Fin[OF v1_eq clamped_inputs_fields(18) s2])
  from eq n3 show ?thesis
    by blast
qed

lemma clamped_inputs_deltaT_LPT:
  "\<exists>t. deltaT_LPT clamped_inputs = Fin t \<and> 450.1471939641 \<le> t \<and> t \<le> 450.1471939769"
proof -
  from clamped_inputs_work_extraction_LPT obtain v1 where v1_eq: "work_extraction_LPT clamped_inputs = Fin v1"
    and v1_iv: "(528201.682266::real) \<le> v1 \<and> v1 \<le> (528201.6822807::real)"
    by blast
  from clamped_inputs_f obtain v2 where v2_eq: "f clamped_inputs = Fin v2"
    and v2_iv: "(0.02034582648638::real) \<le> v2 \<and> v2 \<le> (0.02034582648659::real)"
    by blast
  have c1: "(1::real) \<le> 1 \<and> 1 \<le> (1::real)"
    by simp
  have n2: "(1.02034582648638::real) \<le> 1 + v2 \<and> 1 + v2 \<le> (1.02034582648659::real)"
    by (rule iv_add[OF c1 v2_iv]) simp_all
  have c3: "(1150::real) \<le> 1150 \<and> 1150 \<le> (1150::real)"
    by simp
  have n4: "(1173.397700459337::real) \<le> (1 + v2) * 1150 \<and> (1 + v2) * 1150 \<le> (1173.39770046::real)"
    by (rule iv_mul[OF n2 c3]) simp_all
  have s5: "((1 + v2) * 1150::real) \<noteq> 0"
    by (rule iv_nonzero[OF n4]) simp
  have n6: "(450.1471939641::real) \<le> v1 / ((1 + v2) * 1150) \<and> v1 / ((1 + v2) * 1150) \<le> (450.1471939769::real)"
    by (rule iv_div[OF v1_iv n4]) simp_all
  have eq: "deltaT_LPT clamped_inputs = Fin (v1 / ((1 + v2) * 1150))"
    by (rule deltaT_LPT_Fin[OF v1_eq v2_eq s5])
  from eq n6 show ?thesis
    by blast
qed

lemma clamped_inputs_Tt5:
  "\<exists>t. Tt5 clamped_inputs = Fin t \<and> 808.0277252888 \<le> t \<and> t \<le> 808.027725311"
proof -
  from clamped_inputs_Tt45 obtain v1 where v1_eq: "Tt45 clamped_inputs = Fin v1"
    and v1_iv: "(1258.1749192657::real) \<le> v1 \<and> v1 \<le> (1258.1749192751::real)"
    by blast
  from clamped_inputs_deltaT_LPT obtain v2 where v2_eq: "deltaT_LPT clamped_inputs = Fin v2"
    and v2_iv: "(450.1471939641::real) \<le> v2 \<and> v2 \<le> (450.1471939769::real)"
    by blast
  have n1: "(808.0277252888::real) \<le> v1 - v2 \<and> v1 - v2 \<le> (808.027725311::real)"
    by (rule iv_sub[OF v1_iv v2_iv]) simp_all
  have eq: "Tt5 clamped_inputs = Fin (v1 - v2)"
    by (rule Tt5_Fin[OF v1_eq v2_eq])
  from eq n1 show ?thesis
    by blast
qed

lemma clamped_inputs_temp_ratio_LPT:
  "\<exists>t. temp_ratio_LPT clamped_inputs = Fin t \<and> 0.642222089242 \<le> t \<and> t \<le> 0.6422220892645"
proof -
  from clamped_inputs_Tt5 obtain v1 where v1_eq: "Tt5 clamped_inputs = Fin v1"
    and v1_iv: "(808.0277252888::real) \<le> v1 \<and> v1 \<le> (808.027725311::real)"
    by blast
  from clamped_inputs_Tt45 obtain v2 where v2_eq: "Tt45 clamped_inputs = Fin v2"
    and v2_iv: "(1258.1749192657::real) \<le> v2 \<and> v2 \<le> (1258.1749192751::real)"
    by blast
  have s1: "(v2::real) \<noteq> 0"
    by (rule iv_nonzero[OF v2_iv]) simp
  have n2: "(0.642222089242::real) \<le> v1 / v2 \<and> v1 / v2 \<le> (0.6422220892645::real)"
    by (rule iv_div[OF v1_iv v2_iv]) simp_all
  have eq: "temp_ratio_LPT clamped_inputs = Fin (v1 / v2)"
    by (rule temp_ratio_LPT_Fin[OF v1_eq v2_eq s1])
  from eq n2 show ?thesis
    by blast
qed

lemma clamped_inputs_pressure_term_LPT:
  "\<exists>t. pressure_term_LPT clamped_inputs = Fin t \<and> 0.3847074308983 \<le> t \<and> t \<le> 0.3847074309226"
proof -
  from clamped_inputs_temp_ratio_LPT obtain v1 where v1_eq: "temp_ratio_LPT clamped_inputs = Fin v1"
    and v1_iv: "(0.642222089242::real) \<le> v1 \<and> v1 \<le> (0.6422220892645::real)"
    by blast
  have c1: "(0.93::real) \<le> 0.93 \<and> 0.93 \<le> (0.93::real)"
    by simp
  have s2: "(0.93::real) \<noteq> 0"
    by (rule iv_nonzero[OF c1]) simp
  have c3: "(1::real) \<le> 1 \<and> 1 \<le> (1::real)"
    by simp
  have n4: "(0.3577779107355::real) \<le> 1 - v1 \<and> 1 - v1 \<le> (0.357777910758::real)"
    by (rule iv_sub[OF c3 v1_iv]) simp_all
  have n5: "(0.3847074308983::real) \<le> (1 - v1) / 0.93 \<and> (1 - v1) / 0.93 \<le> (0.3847074309226::real)"
    by (rule iv_div[OF n4 c1]) simp_all
  have eq: "pressure_term_LPT clamped_inputs = Fin ((1 - v1) / 0.93)"
    by (rule pressure_term_LPT_Fin[OF v1_eq clamped_inputs_fields(12) s2])
  from eq n5 show ?thesis
    by blast
qed

lemma clamped_inputs_pi_LPT:
  "\<exists>t. pi_LPT clamped_inputs = Fin t \<and> 7.080513968674 \<le> t \<and> t \<le> 7.080513972359"
proof -
  from clamped_inputs_pressure_term_LPT obtain v1 where v1_eq: "pressure_term_LPT clamped_inputs = Fin v1"
    and v1_iv: "(0.3847074308983::real) \<le> v1 \<and> v1 \<le> (0.3847074309226::real)"
    by blast
  have c1: "(1::real) \<le> 1 \<and> 1 \<le> (1::real)"
    by simp
  have s2: "(v1::real) < 1"
    by (rule iv_less[OF v1_iv c1]) simp
  have n3: "(0.6152925690774::real) \<le> 1 - v1 \<and> 1 - v1 \<le> (0.6152925691017::real)"
    by (rule iv_sub[OF c1 v1_iv]) simp_all
  have n4: "(1.625243096076::real) \<le> 1 / (1 - v1) \<and> 1 / (1 - v1) \<le> (1.625243096142::real)"
    by (rule iv_div[OF c1 n3]) simp_all
  have s5: "(0::real) < (1 / (1 - v1))"
    by (rule iv_pos[OF n4]) simp
  have n6: "(1.175725966602::real) \<le> (1 / (1 - v1)) powr (1 / 3) \<and> (1 / (1 - v1)) powr (1 / 3) \<le> (1.175725966619::real)"
    by (rule iv_root[where n=3, OF n4]) (simp_all add: power_divide)
  have n7: "(1.014825717622::real) \<le> ((1 / (1 - v1)) powr (1 / 3)) powr (1 / 11) \<and> ((1 / (1 - v1)) powr (1 / 3)) powr (1 / 11) \<le> (1.014825717625::real)"
    by (rule iv_root[where n=11, OF n6]) (simp_all add: power_divide)
  have n8: "(1.014825717622::real) \<le> (((1 / (1 - v1)) powr (1 / 3)) powr (1 / 11)) ^ 1 \<and> (((1 / (1 - v1)) powr (1 / 3)) powr (1 / 11)) ^ 1 \<le> (1.014825717625::real)"
    by (rule iv_pow_one[OF n7])
  have n9: "(1.029871237147::real) \<le> (((1 / (1 - v1)) powr (1 / 3)) powr (1 / 11)) ^ 2 \<and> (((1 / (1 - v1)) powr (1 / 3)) powr (1 / 11)) ^ 2 \<le> (1.029871237154::real)"
    by (rule iv_pow_sq[OF n8]) (simp_all add: power_divide)
  have n10: "(1.060634765102::real) \<le> (((1 / (1 - v1)) powr (1 / 3)) powr (1 / 11)) ^ 4 \<and> (((1 / (1 - v1)) powr (1 / 3)) powr (1 / 11)) ^ 4 \<le> (1.060634765118::real)"
    by (rule iv_pow_sq[OF n9]) (simp_all add: power_divide)
  have n11: "(1.124946104942::real) \<le> (((1 / (1 - v1)) powr (1 / 3)) powr (1 / 11)) ^ 8 \<and> (((1 / (1 - v1)) powr (1 / 3)) powr (1 / 11)) ^ 8 \<le> (1.124946104977::real)"
    by (rule iv_pow_sq[OF n10]) (simp_all add: power_divide)
  have n12: "(1.265503739024::real) \<le> (((1 / (1 - v1)) powr (1 / 3)) powr (1 / 11)) ^ 16 \<and> (((1 / (1 - v1)) powr (1 / 3)) powr (1 / 11)) ^ 16 \<le> (1.265503739103::real)"
    by (rule iv_pow_sq[OF n11]) (simp_all add: power_divide)
  have n13: "(1.601499713483::real) \<le> (((1 / (1 - v1)) powr (1 / 3)) powr (1 / 11)) ^ 32 \<and> (((1 / (1 - v1)) powr (1 / 3)) powr (1 / 11)) ^ 32 \<le> (1.601499713684::real)"
    by (rule iv_pow_sq[OF n12]) (simp_all add: power_divide)
  have n14: "(2.564801332286::real) \<le> (((1 / (1 - v1)) powr (1 / 3)) powr (1 / 11)) ^ 64 \<and> (((1 / (1 - v1)) powr (1 / 3)) powr (1 / 11)) ^ 64 \<le> (2.56480133293::real)"
    by (rule iv_pow_sq[OF n13]) (simp_all add: power_divide)
  have n15: "(6.578205874096::real) \<le> (((1 / (1 - v1)) powr (1 / 3)) powr (1 / 11)) ^ 128 \<and> (((1 / (1 - v1)) powr (1 / 3)) powr (1 / 11)) ^ 128 \<le> (6.5782058774::real)"
    by (rule iv_pow_sq[OF n14]) (simp_all add: power_divide)
  have n16: "(6.977073842064::real) \<le> (((1 / (1 - v1)) powr (1 / 3)) powr (1 / 11)) ^ 132 \<and> (((1 / (1 - v1)) powr (1 / 3)) powr (1 / 11)) ^ 132 \<le> (6.977073845674::real)"
    by (rule iv_pow_mul[OF n15 n10]) simp_all
  have n17: "(7.080513968674::real) \<le> (((1 / (1 - v1)) powr (1 / 3)) powr (1 / 11)) ^ 133 \<and> (((1 / (1 - v1)) powr (1 / 3)) powr (1 / 11)) ^ 133 \<le> (7.080513972359::real)"
    by (rule iv_pow_mul[OF n16 n8]) simp_all
  have n18: "(7.080513968674::real) \<le> (1 / (1 - v1)) powr (133 / 33) \<and> (1 / (1 - v1)) powr (133 / 33) \<le> (7.080513972359::real)"
    by (rule powr_via_roots[OF n17 s5]) simp_all
  have eq: "pi_LPT clamped_inputs = Fin ((1 / (1 - v1)) powr (133 / 33))"
    by (rule pi_LPT_Fin[OF v1_eq s2])
  from eq n18 show ?thesis
    by blast
qed

lemma clamped_inputs_Pt5:
  "\<exists>t. Pt5 clamped_inputs = Fin t \<and> 316235.0129081 \<le> t \<and> t \<le> 316235.0131586"
proof -
  from clamped_inputs_Tt5 obtain v1 where v1_eq: "Tt5 clamped_inputs = Fin v1"
    and v1_iv: "(808.0277252888::real) \<le> v1 \<and> v1 \<le> (808.027725311::real)"
    by blast
  from clamped_inputs_T0 obtain v2 where v2_eq: "T0 clamped_inputs = Fin v2"
    and v2_iv: "(288.15::real) \<le> v2 \<and> v2 \<le> (288.15::real)"
    by blast
  from clamped_inputs_temp_ratio_LPT obtain v3 where v3_eq: "temp_ratio_LPT clamped_inputs = Fin v3"
    and v3_iv: "(0.642222089242::real) \<le> v3 \<and> v3 \<le> (0.6422220892645::real)"
    by blast
  from clamped_inputs_pressure_term_LPT obtain v4 where v4_eq: "pressure_term_LPT clamped_inputs = Fin v4"
    and v4_iv: "(0.3847074308983::real) \<le> v4 \<and> v4 \<le> (0.3847074309226::real)"
    by blast
  from clamped_inputs_Pt45 obtain v5 where v5_eq: "Pt45 clamped_inputs = Fin v5"
    and v5_iv: "(2239106.427445::real) \<le> v5 \<and> v5 \<le> (2239106.428053::real)"
    by blast
  from clamped_inputs_pi_LPT obtain v6 where v6_eq: "pi_LPT clamped_inputs = Fin v6"
    and v6_iv: "(7.080513968674::real) \<le> v6 \<and> v6 \<le> (7.080513972359::real)"
    by blast
  have c1: "(1::real) \<le> 1 \<and> 1 \<le> (1::real)"
    by simp
  have s2: "(v2::real) \<le> v1"
    by (rule iv_le[OF v2_iv v1_iv]) simp
  have s3: "(0::real) < v3"
    by (rule iv_pos[OF v3_iv]) simp
  have s4: "(v3::real) < 1"
    by (rule iv_less[OF v3_iv c1]) simp
  have s5: "(v4::real) < 1"
    by (rule iv_less[OF v4_iv c1]) simp
  have s6: "(v6::real) \<noteq> 0"
    by (rule iv_nonzero[OF v6_iv]) simp
  have n7: "(316235.0129081::real) \<le> v5 / v6 \<and> v5 / v6 \<le> (316235.0131586::real)"
    by (rule iv_div[OF v5_iv v6_iv]) simp_all
  have eq: "Pt5 clamped_inputs = Fin (v5 / v6)"
    by (rule lpt_block_Fin(1)[OF clamped_inputs_isValid_HPT v1_eq v2_eq v3_eq v4_eq v5_eq v6_eq s2 s3 s4 s5 s6])
  from eq n7 show ?thesis
    by blast
qed

lemma clamped_inputs_isValid_LPT:
  "isValid_LPT clamped_inputs"
proof -
  from clamped_inputs_Tt5 obtain v1 where v1_eq: "Tt5 clamped_inputs = Fin v1"
    and v1_iv: "(808.0277252888::real) \<le> v1 \<and> v1 \<le> (808.027725311::real)"
    by blast
  from clamped_inputs_T0 obtain v2 where v2_eq: "T0 clamped_inputs = Fin v2"
    and v2_iv: "(288.15::real) \<le> v2 \<and> v2 \<le> (288.15::real)"
    by blast
  from clamped_inputs_temp_ratio_LPT obtain v3 where v3_eq: "temp_ratio_LPT clamped_inputs = Fin v3"
    and v3_iv: "(0.642222089242::real) \<le> v3 \<and> v3 \<le> (0.6422220892645::real)"
    by blast
  from clamped_inputs_pressure_term_LPT obtain v4 where v4_eq: "pressure_term_LPT clamped_inputs = Fin v4"
    and v4_iv: "(0.3847074308983::real) \<le> v4 \<and> v4 \<le> (0.3847074309226::real)"
    by blast
  from clamped_inputs_Pt45 obtain v5 where v5_eq: "Pt45 clamped_inputs = Fin v5"
    and v5_iv: "(2239106.427445::real) \<le> v5 \<and> v5 \<le> (2239106.428053::real)"
    by blast
  from clamped_inputs_pi_LPT obtain v6 where v6_eq: "pi_LPT clamped_inputs = Fin v6"
    and v6_iv: "(7.080513968674::real) \<le> v6 \<and> v6 \<le> (7.080513972359::real)"
    by blast
  have c1: "(1::real) \<le> 1 \<and> 1 \<le> (1::real)"
    by simp
  have s2: "(v2::real) \<le> v1"
    by (rule iv_le[OF v2_iv v1_iv]) simp
  have s3: "(0::real) < v3"
    by (rule iv_pos[OF v3_iv]) simp
  have s4: "(v3::real) < 1"
    by (rule iv_less[OF v3_iv c1]) simp
  have s5: "(v4::real) < 1"
    by (rule iv_less[OF v4_iv c1]) simp
  have s6: "(v6::real) \<noteq> 0"
    by (rule iv_nonzero[OF v6_iv]) simp
  show ?thesis
    by (rule lpt_block_Fin(2)[OF clamped_inputs_isValid_HPT v1_eq v2_eq v3_eq v4_eq v5_eq v6_eq s2 s3 s4 s5 s6])
qed

lemma clamped_inputs_Pt9:
  "\<exists>t. Pt9 clamped_inputs = Fin t \<and> 313072.662779019 \<le> t \<and> t \<le> 313072.663027014"
proof -
  from clamped_inputs_Pt5 obtain v1 where v1_eq: "Pt5 clamped_inputs = Fin v1"
    and v1_iv: "(316235.0129081::real) \<le> v1 \<and> v1 \<le> (316235.0131586::real)"
    by blast
  have c1: "(0.99::real) \<le> 0.99 \<and> 0.99 \<le> (0.99::real)"
    by simp
  have n2: "(313072.662779019::real) \<le> v1 * 0.99 \<and> v1 * 0.99 \<le> (313072.663027014::real)"
    by (rule iv_mul[OF v1_iv c1]) simp_all
  have eq: "Pt9 clamped_inputs = Fin (v1 * 0.99)"
    by (rule Pt9_Fin[OF v1_eq clamped_inputs_fields(16)])
  from eq n2 show ?thesis
    by blast
qed

lemma clamped_inputs_P9:
  "\<exists>t. P9 clamped_inputs = Fin t \<and> 169173.2018418 \<le> t \<and> t \<le> 169173.2020187"
proof -
  from clamped_inputs_Pt9 obtain v1 where v1_eq: "Pt9 clamped_inputs = Fin v1"
    and v1_iv: "(313072.662779019::real) \<le> v1 \<and> v1 \<le> (313072.663027014::real)"
    by blast
  from clamped_inputs_P0 obtain v2 where v2_eq: "P0 clamped_inputs = Fin v2"
    and v2_iv: "(101325::real) \<le> v2 \<and> v2 \<le> (101325::real)"
    by blast
  from clamped_inputs_Tt5 obtain v3 where v3_eq: "Tt5 clamped_inputs = Fin v3"
    and v3_iv: "(808.0277252888::real) \<le> v3 \<and> v3 \<le> (808.027725311::real)"
    by blast
  have c1: "(1.33::real) \<le> 1.33 \<and> 1.33 \<le> (1.33::real)"
    by simp
  have c2: "(1::real) \<le> 1 \<and> 1 \<le> (1::real)"
    by simp
  have n3: "(2.33::real) \<le> 1.33 + 1 \<and> 1.33 + 1 \<le> (2.33::real)"
    by (rule iv_add[OF c1 c2]) simp_all
  have c4: "(2::real) \<le> 2 \<and> 2 \<le> (2::real)"
    by simp
  have n5: "(1.165::real) \<le> (1.33 + 1) / 2 \<and> (1.33 + 1) / 2 \<le> (1.165::real)"
    by (rule iv_div[OF n3 c4]) simp_all
  have s6: "(0::real) < ((1.33 + 1) / 2)"
    by (rule iv_pos[OF n5]) simp
  have n7: "(1.052225062325::real) \<le> ((1.33 + 1) / 2) powr (1 / 3) \<and> ((1.33 + 1) / 2) powr (1 / 3) \<le> (1.052225062326::real)"
    by (rule iv_root[where n=3, OF n5]) (simp_all add: power_divide)
  have n8: "(1.00463863705::real) \<le> (((1.33 + 1) / 2) powr (1 / 3)) powr (1 / 11) \<and> (((1.33 + 1) / 2) powr (1 / 3)) powr (1 / 11) \<le> (1.004638637051::real)"
    by (rule iv_root[where n=11, OF n7]) (simp_all add: power_divide)
  have n9: "(1.00463863705::real) \<le> ((((1.33 + 1) / 2) powr (1 / 3)) powr (1 / 11)) ^ 1 \<and> ((((1.33 + 1) / 2) powr (1 / 3)) powr (1 / 11)) ^ 1 \<le> (1.004638637051::real)"
    by (rule iv_pow_one[OF n8])
  have n10: "(1.009298791053::real) \<le> ((((1.33 + 1) / 2) powr (1 / 3)) powr (1 / 11)) ^ 2 \<and> ((((1.33 + 1) / 2) powr (1 / 3)) powr (1 / 11)) ^ 2 \<le> (1.009298791056::real)"
    by (rule iv_pow_sq[OF n9]) (simp_all add: power_divide)
  have n11: "(1.018684049621::real) \<le> ((((1.33 + 1) / 2) powr (1 / 3)) powr (1 / 11)) ^ 4 \<and> ((((1.33 + 1) / 2) powr (1 / 3)) powr (1 / 11)) ^ 4 \<le> (1.018684049628::real)"
    by (rule iv_pow_sq[OF n10]) (simp_all add: power_divide)
  have n12: "(1.037717192952::real) \<le> ((((1.33 + 1) / 2) powr (1 / 3)) powr (1 / 11)) ^ 8 \<and> ((((1.33 + 1) / 2) powr (1 / 3)) powr (1 / 11)) ^ 8 \<le> (1.037717192967::real)"
    by (rule iv_pow_sq[OF n11]) (simp_all add: power_divide)
  have n13: "(1.076856972548::real) \<le> ((((1.33 + 1) / 2) powr (1 / 3)) powr (1 / 11)) ^ 16 \<and> ((((1.33 + 1) / 2) powr (1 / 3)) powr (1 / 11)) ^ 16 \<le> (1.07685697258::real)"
    by (rule iv_pow_sq[OF n12]) (simp_all add: power_divide)
  have n14: "(1.159620939325::real) \<le> ((((1.33 + 1) / 2) powr (1 / 3)) powr (1 / 11)) ^ 32 \<and> ((((1.33 + 1) / 2) powr (1 / 3)) powr (1 / 11)) ^ 32 \<le> (1.159620939395::real)"
    by (rule iv_pow_sq[OF n13]) (simp_all add: power_divide)
  have n15: "(1.34472072292::real) \<le> ((((1.33 + 1) / 2) powr (1 / 3)) powr (1 / 11)) ^ 64 \<and> ((((1.33 + 1) / 2) powr (1 / 3)) powr (1 / 11)) ^ 64 \<le> (1.344720723084::real)"
    by (rule iv_pow_sq[OF n14]) (simp_all add: power_divide)
  have n16: "(1.80827382265::real) \<le> ((((1.33 + 1) / 2) powr (1 / 3)) powr (1 / 11)) ^ 128 \<and> ((((1.33 + 1) / 2) powr (1 / 3)) powr (1 / 11)) ^ 128 \<le> (1.808273823092::real)"
    by (rule iv_pow_sq[OF n15]) (simp_all add: power_divide)
  have n17: "(1.84205970048::real) \<le> ((((1.33 + 1) / 2) powr (1 / 3)) powr (1 / 11)) ^ 132 \<and> ((((1.33 + 1) / 2) powr (1 / 3)) powr (1 / 11)) ^ 132 \<le> (1.842059700944::real)"
    by (rule iv_pow_mul[OF n16 n11]) simp_all
  have n18: "(1.850604346854::real) \<le> ((((1.33 + 1) / 2) powr (1 / 3)) powr (1 / 11)) ^ 133 \<and> ((((1.33 + 1) / 2) powr (1 / 3)) powr (1 / 11)) ^ 133 \<le> (1.850604347323::real)"
    by (rule iv_pow_mul[OF n17 n9]) simp_all
  have n19: "(1.850604346854::real) \<le> ((1.33 + 1) / 2) powr (133 / 33) \<and> ((1.33 + 1) / 2) powr (133 / 33) \<le> (1.850604347323::real)"
    by (rule powr_via_roots[OF n18 s6]) simp_all
  have n20: "(3.089786950693::real) \<le> v1 / v2 \<and> v1 / v2 \<le> (3.089786953142::real)"
    by (rule iv_div[OF v1_iv v2_iv]) simp_all
  have s21: "(v2::real) \<noteq> 0"
    by (rule iv_nonzero[OF v2_iv]) simp
  have s22: "(((1.33 + 1) / 2) powr (133 / 33)::real) < (v1 / v2)"
    by (rule iv_less[OF n19 n20]) simp
  have s23: "(0::real) \<le> v3"
    by (rule iv_nonneg[OF v3_iv]) simp
  have n24: "(169173.2018418::real) \<le> v1 / (((1.33 + 1) / 2) powr (133 / 33)) \<and> v1 / (((1.33 + 1) / 2) powr (133 / 33)) \<le> (169173.2020187::real)"
    by (rule iv_div[OF v1_iv n19]) simp_all
  have eq: "P9 clamped_inputs = Fin (v1 / (((1.33 + 1) / 2) powr (133 / 33)))"
    by (rule core_nozzle_choked_Fin(1)[OF clamped_inputs_isValid_LPT v1_eq v2_eq v3_eq s21 s22 s23])
  from eq n24 show ?thesis
    by blast
qed

lemma clamped_inputs_T9:
  "\<exists>t. T9 clamped_inputs = Fin t \<and> 693.5860302907 \<le> t \<and> t \<le> 693.58603031"
proof -
  from clamped_inputs_Pt9 obtain v1 where v1_eq: "Pt9 clamped_inputs = Fin v1"
    and v1_iv: "(313072.662779019::real) \<le> v1 \<and> v1 \<le> (313072.663027014::real)"
    by blast
  from clamped_inputs_P0 obtain v2 where v2_eq: "P0 clamped_inputs = Fin v2"
    and v2_iv: "(101325::real) \<le> v2 \<and> v2 \<le> (101325::real)"
    by blast
  from clamped_inputs_Tt5 obtain v3 where v3_eq: "Tt5 clamped_inputs = Fin v3"
    and v3_iv: "(808.0277252888::real) \<le> v3 \<and> v3 \<le> (808.027725311::real)"
    by blast
  have c1: "(1.33::real) \<le> 1.33 \<and> 1.33 \<le> (1.33::real)"
    by simp
  have c2: "(1::real) \<le> 1 \<and> 1 \<le> (1::real)"
    by simp
  have n3: "(2.33::real) \<le> 1.33 + 1 \<and> 1.33 + 1 \<le> (2.33::real)"
    by (rule iv_add[OF c1 c2]) simp_all
  have c4: "(2::real) \<le> 2 \<and> 2 \<le> (2::real)"
    by simp
  have n5: "(1.165::real) \<le> (1.33 + 1) / 2 \<and> (1.33 + 1) / 2 \<le> (1.165::real)"
    by (rule iv_div[OF n3 c4]) simp_all
  have s6: "(0::real) < ((1.33 + 1) / 2)"
    by (rule iv_pos[OF n5]) simp
  have n7: "(1.052225062325::real) \<le> ((1.33 + 1) / 2) powr (1 / 3) \<and> ((1.33 + 1) / 2) powr (1 / 3) \<le> (1.052225062326::real)"
    by (rule iv_root[where n=3, OF n5]) (simp_all add: power_divide)
  have n8: "(1.00463863705::real) \<le> (((1.33 + 1) / 2) powr (1 / 3)) powr (1 / 11) \<and> (((1.33 + 1) / 2) powr (1 / 3)) powr (1 / 11) \<le> (1.004638637051::real)"
    by (rule iv_root[where n=11, OF n7]) (simp_all add: power_divide)
  have n9: "(1.00463863705::real) \<le> ((((1.33 + 1) / 2) powr (1 / 3)) powr (1 / 11)) ^ 1 \<and> ((((1.33 + 1) / 2) powr (1 / 3)) powr (1 / 11)) ^ 1 \<le> (1.004638637051::real)"
    by (rule iv_pow_one[OF n8])
  have n10: "(1.009298791053::real) \<le> ((((1.33 + 1) / 2) powr (1 / 3)) powr (1 / 11)) ^ 2 \<and> ((((1.33 + 1) / 2) powr (1 / 3)) powr (1 / 11)) ^ 2 \<le> (1.009298791056::real)"
    by (rule iv_pow_sq[OF n9]) (simp_all add: power_divide)
  have n11: "(1.018684049621::real) \<le> ((((1.33 + 1) / 2) powr (1 / 3)) powr (1 / 11)) ^ 4 \<and> ((((1.33 + 1) / 2) powr (1 / 3)) powr (1 / 11)) ^ 4 \<le> (1.018684049628::real)"
    by (rule iv_pow_sq[OF n10]) (simp_all add: power_divide)
  have n12: "(1.037717192952::real) \<le> ((((1.33 + 1) / 2) powr (1 / 3)) powr (1 / 11)) ^ 8 \<and> ((((1.33 + 1) / 2) powr (1 / 3)) powr (1 / 11)) ^ 8 \<le> (1.037717192967::real)"
    by (rule iv_pow_sq[OF n11]) (simp_all add: power_divide)
  have n13: "(1.076856972548::real) \<le> ((((1.33 + 1) / 2) powr (1 / 3)) powr (1 / 11)) ^ 16 \<and> ((((1.33 + 1) / 2) powr (1 / 3)) powr (1 / 11)) ^ 16 \<le> (1.07685697258::real)"
    by (rule iv_pow_sq[OF n12]) (simp_all add: power_divide)
  have n14: "(1.159620939325::real) \<le> ((((1.33 + 1) / 2) powr (1 / 3)) powr (1 / 11)) ^ 32 \<and> ((((1.33 + 1) / 2) powr (1 / 3)) powr (1 / 11)) ^ 32 \<le> (1.159620939395::real)"
    by (rule iv_pow_sq[OF n13]) (simp_all add: power_divide)
  have n15: "(1.34472072292::real) \<le> ((((1.33 + 1) / 2) powr (1 / 3)) powr (1 / 11)) ^ 64 \<and> ((((1.33 + 1) / 2) powr (1 / 3)) powr (1 / 11)) ^ 64 \<le> (1.344720723084::real)"
    by (rule iv_pow_sq[OF n14]) (simp_all add: power_divide)
  have n16: "(1.80827382265::real) \<le> ((((1.33 + 1) / 2) powr (1 / 3)) powr (1 / 11)) ^ 128 \<and> ((((1.33 + 1) / 2) powr (1 / 3)) powr (1 / 11)) ^ 128 \<le> (1.808273823092::real)"
    by (rule iv_pow_sq[OF n15]) (simp_all add: power_divide)
  have n17: "(1.84205970048::real) \<le> ((((1.33 + 1) / 2) powr (1 / 3)) powr (1 / 11)) ^ 132 \<and> ((((1.33 + 1) / 2) powr (1 / 3)) powr (1 / 11)) ^ 132 \<le> (1.842059700944::real)"
    by (rule iv_pow_mul[OF n16 n11]) simp_all
  have n18: "(1.850604346854::real) \<le> ((((1.33 + 1) / 2) powr (1 / 3)) powr (1 / 11)) ^ 133 \<and> ((((1.33 + 1) / 2) powr (1 / 3)) powr (1 / 11)) ^ 133 \<le> (1.850604347323::real)"
    by (rule iv_pow_mul[OF n17 n9]) simp_all
  have n19: "(1.850604346854::real) \<le> ((1.33 + 1) / 2) powr (133 / 33) \<and> ((1.33 + 1) / 2) powr (133 / 33) \<le> (1.850604347323::real)"
    by (rule powr_via_roots[OF n18 s6]) simp_all
  have n20: "(3.089786950693::real) \<le> v1 / v2 \<and> v1 / v2 \<le> (3.089786953142::real)"
    by (rule iv_div[OF v1_iv v2_iv]) simp_all
  have s21: "(v2::real) \<noteq> 0"
    by (rule iv_nonzero[OF v2_iv]) simp
  have s22: "(((1.33 + 1) / 2) powr (133 / 33)::real) < (v1 / v2)"
    by (rule iv_less[OF n19 n20]) simp
  have s23: "(0::real) \<le> v3"
    by (rule iv_nonneg[OF v3_iv]) simp
  have n24: "(2.33::real) \<le> 1.33 + 1 \<and> 1.33 + 1 \<le> (2.33::real)"
    by (rule iv_add[OF c1 c2]) simp_all
  have n25: "(0.8583690987124::real) \<le> 2 / (1.33 + 1) \<and> 2 / (1.33 + 1) \<le> (0.8583690987125::real)"
    by (rule iv_div[OF c4 n24]) simp_all
  have n26: "(693.5860302907::real) \<le> v3 * (2 / (1.33 + 1)) \<and> v3 * (2 / (1.33 + 1)) \<le> (693.58603031::real)"
    by (rule iv_mul[OF v3_iv n25]) simp_all
  have eq: "T9 clamped_inputs = Fin (v3 * (2 / (1.33 + 1)))"
    by (rule core_nozzle_choked_Fin(2)[OF clamped_inputs_isValid_LPT v1_eq v2_eq v3_eq s21 s22 s23])
  from eq n26 show ?thesis
    by blast
qed

lemma clamped_inputs_V9:
  "\<exists>t. V9 clamped_inputs = Fin t \<and> 514.5822063511 \<le> t \<and> t \<le> 514.5822063585"
proof -
  from clamped_inputs_Pt9 obtain v1 where v1_eq: "Pt9 clamped_inputs = Fin v1"
    and v1_iv: "(313072.662779019::real) \<le> v1 \<and> v1 \<le> (313072.663027014::real)"
    by blast
  from clamped_inputs_P0 obtain v2 where v2_eq: "P0 clamped_inputs = Fin v2"
    and v2_iv: "(101325::real) \<le> v2 \<and> v2 \<le> (101325::real)"
    by blast
  from clamped_inputs_Tt5 obtain v3 where v3_eq: "Tt5 clamped_inputs = Fin v3"
    and v3_iv: "(808.0277252888::real) \<le> v3 \<and> v3 \<le> (808.027725311::real)"
    by blast
  have c1: "(1.33::real) \<le> 1.33 \<and> 1.33 \<le> (1.33::real)"
    by simp
  have c2: "(1::real) \<le> 1 \<and> 1 \<le> (1::real)"
    by simp
  have n3: "(2.33::real) \<le> 1.33 + 1 \<and> 1.33 + 1 \<le> (2.33::real)"
    by (rule iv_add[OF c1 c2]) simp_all
  have c4: "(2::real) \<le> 2 \<and> 2 \<le> (2::real)"
    by simp
  have n5: "(1.165::real) \<le> (1.33 + 1) / 2 \<and> (1.33 + 1) / 2 \<le> (1.165::real)"
    by (rule iv_div[OF n3 c4]) simp_all
  have s6: "(0::real) < ((1.33 + 1) / 2)"
    by (rule iv_pos[OF n5]) simp
  have n7: "(1.052225062325::real) \<le> ((1.33 + 1) / 2) powr (1 / 3) \<and> ((1.33 + 1) / 2) powr (1 / 3) \<le> (1.052225062326::real)"
    by (rule iv_root[where n=3, OF n5]) (simp_all add: power_divide)
  have n8: "(1.00463863705::real) \<le> (((1.33 + 1) / 2) powr (1 / 3)) powr (1 / 11) \<and> (((1.33 + 1) / 2) powr (1 / 3)) powr (1 / 11) \<le> (1.004638637051::real)"
    by (rule iv_root[where n=11, OF n7]) (simp_all add: power_divide)
  have n9: "(1.00463863705::real) \<le> ((((1.33 + 1) / 2) powr (1 / 3)) powr (1 / 11)) ^ 1 \<and> ((((1.33 + 1) / 2) powr (1 / 3)) powr (1 / 11)) ^ 1 \<le> (1.004638637051::real)"
    by (rule iv_pow_one[OF n8])
  have n10: "(1.009298791053::real) \<le> ((((1.33 + 1) / 2) powr (1 / 3)) powr (1 / 11)) ^ 2 \<and> ((((1.33 + 1) / 2) powr (1 / 3)) powr (1 / 11)) ^ 2 \<le> (1.009298791056::real)"
    by (rule iv_pow_sq[OF n9]) (simp_all add: power_divide)
  have n11: "(1.018684049621::real) \<le> ((((1.33 + 1) / 2) powr (1 / 3)) powr (1 / 11)) ^ 4 \<and> ((((1.33 + 1) / 2) powr (1 / 3)) powr (1 / 11)) ^ 4 \<le> (1.018684049628::real)"
    by (rule iv_pow_sq[OF n10]) (simp_all add: power_divide)
  have n12: "(1.037717192952::real) \<le> ((((1.33 + 1) / 2) powr (1 / 3)) powr (1 / 11)) ^ 8 \<and> ((((1.33 + 1) / 2) powr (1 / 3)) powr (1 / 11)) ^ 8 \<le> (1.037717192967::real)"
    by (rule iv_pow_sq[OF n11]) (simp_all add: power_divide)
  have n13: "(1.076856972548::real) \<le> ((((1.33 + 1) / 2) powr (1 / 3)) powr (1 / 11)) ^ 16 \<and> ((((1.33 + 1) / 2) powr (1 / 3)) powr (1 / 11)) ^ 16 \<le> (1.07685697258::real)"
    by (rule iv_pow_sq[OF n12]) (simp_all add: power_divide)
  have n14: "(1.159620939325::real) \<le> ((((1.33 + 1) / 2) powr (1 / 3)) powr (1 / 11)) ^ 32 \<and> ((((1.33 + 1) / 2) powr (1 / 3)) powr (1 / 11)) ^ 32 \<le> (1.159620939395::real)"
    by (rule iv_pow_sq[OF n13]) (simp_all add: power_divide)
  have n15: "(1.34472072292::real) \<le> ((((1.33 + 1) / 2) powr (1 / 3)) powr (1 / 11)) ^ 64 \<and> ((((1.33 + 1) / 2) powr (1 / 3)) powr (1 / 11)) ^ 64 \<le> (1.344720723084::real)"
    by (rule iv_pow_sq[OF n14]) (simp_all add: power_divide)
  have n16: "(1.80827382265::real) \<le> ((((1.33 + 1) / 2) powr (1 / 3)) powr (1 / 11)) ^ 128 \<and> ((((1.33 + 1) / 2) powr (1 / 3)) powr (1 / 11)) ^ 128 \<le> (1.808273823092::real)"
    by (rule iv_pow_sq[OF n15]) (simp_all add: power_divide)
  have n17: "(1.84205970048::real) \<le> ((((1.33 + 1) / 2) powr (1 / 3)) powr (1 / 11)) ^ 132 \<and> ((((1.33 + 1) / 2) powr (1 / 3)) powr (1 / 11)) ^ 132 \<le> (1.842059700944::real)"
    by (rule iv_pow_mul[OF n16 n11]) simp_all
  have n18: "(1.850604346854::real) \<le> ((((1.33 + 1) / 2) powr (1 / 3)) powr (1 / 11)) ^ 133 \<and> ((((1.33 + 1) / 2) powr (1 / 3)) powr (1 / 11)) ^ 133 \<le> (1.850604347323::real)"
    by (rule iv_pow_mul[OF n17 n9]) simp_all
  have n19: "(1.850604346854::real) \<le> ((1.33 + 1) / 2) powr (133 / 33) \<and> ((1.33 + 1) / 2) powr (133 / 33) \<le> (1.850604347323::real)"
    by (rule powr_via_roots[OF n18 s6]) simp_all
  have n20: "(3.089786950693::real) \<le> v1 / v2 \<and> v1 / v2 \<le> (3.089786953142::real)"
    by (rule iv_div[OF v1_iv v2_iv]) simp_all
  have s21: "(v2::real) \<noteq> 0"
    by (rule iv_nonzero[OF v2_iv]) simp
  have s22: "(((1.33 + 1) / 2) powr (133 / 33)::real) < (v1 / v2)"
    by (rule iv_less[OF n19 n20]) simp
  have s23: "(0::real) \<le> v3"
    by (rule iv_nonneg[OF v3_iv]) simp
  have n24: "(2.33::real) \<le> 1.33 + 1 \<and> 1.33 + 1 \<le> (2.33::real)"
    by (rule iv_add[OF c1 c2]) simp_all
  have n25: "(0.8583690987124::real) \<le> 2 / (1.33 + 1) \<and> 2 / (1.33 + 1) \<le> (0.8583690987125::real)"
    by (rule iv_div[OF c4 n24]) simp_all
  have n26: "(693.5860302907::real) \<le> v3 * (2 / (1.33 + 1)) \<and> v3 * (2 / (1.33 + 1)) \<le> (693.58603031::real)"
    by (rule iv_mul[OF v3_iv n25]) simp_all
  have c27: "(287.05::real) \<le> 287.05 \<and> 287.05 \<le> (287.05::real)"
    by simp
  have n28: "(381.7765::real) \<le> 1.33 * 287.05 \<and> 1.33 * 287.05 \<le> (381.7765::real)"
    by (rule iv_mul[OF c1 c27]) simp_all
  have n29: "(264794.8470932::real) \<le> (1.33 * 287.05) * (v3 * (2 / (1.33 + 1))) \<and> (1.33 * 287.05) * (v3 * (2 / (1.33 + 1))) \<le> (264794.8471007::real)"
    by (rule iv_mul[OF n28 n26]) simp_all
  have n30: "(514.5822063511::real) \<le> sqrt ((1.33 * 287.05) * (v3 * (2 / (1.33 + 1)))) \<and> sqrt ((1.33 * 287.05) * (v3 * (2 / (1.33 + 1)))) \<le> (514.5822063585::real)"
    by (rule iv_sqrt[OF n29]) (simp_all add: power_divide)
  have eq: "V9 clamped_inputs = Fin (sqrt ((1.33 * 287.05) * (v3 * (2 / (1.33 + 1)))))"
    by (rule core_nozzle_choked_Fin(3)[OF clamped_inputs_isValid_LPT v1_eq v2_eq v3_eq s21 s22 s23])
  from eq n30 show ?thesis
    by blast
qed

lemma clamped_inputs_isValid_core:
  "isValid_core clamped_inputs"
proof -
  from clamped_inputs_Pt9 obtain v1 where v1_eq: "Pt9 clamped_inputs = Fin v1"
    and v1_iv: "(313072.662779019::real) \<le> v1 \<and> v1 \<le> (313072.663027014::real)"
    by blast
  from clamped_inputs_P0 obtain v2 where v2_eq: "P0 clamped_inputs = Fin v2"
    and v2_iv: "(101325::real) \<le> v2 \<and> v2 \<le> (101325::real)"
    by blast
  from clamped_inputs_Tt5 obtain v3 where v3_eq: "Tt5 clamped_inputs = Fin v3"
    and v3_iv: "(808.0277252888::real) \<le> v3 \<and> v3 \<le> (808.027725311::real)"
    by blast
  have c1: "(1.33::real) \<le> 1.33 \<and> 1.33 \<le> (1.33::real)"
    by simp
  have c2: "(1::real) \<le> 1 \<and> 1 \<le> (1::real)"
    by simp
  have n3: "(2.33::real) \<le> 1.33 + 1 \<and> 1.33 + 1 \<le> (2.33::real)"
    by (rule iv_add[OF c1 c2]) simp_all
  have c4: "(2::real) \<le> 2 \<and> 2 \<le> (2::real)"
    by simp
  have n5: "(1.165::real) \<le> (1.33 + 1) / 2 \<and> (1.33 + 1) / 2 \<le> (1.165::real)"
    by (rule iv_div[OF n3 c4]) simp_all
  have s6: "(0::real) < ((1.33 + 1) / 2)"
    by (rule iv_pos[OF n5]) simp
  have n7: "(1.052225062325::real) \<le> ((1.33 + 1) / 2) powr (1 / 3) \<and> ((1.33 + 1) / 2) powr (1 / 3) \<le> (1.052225062326::real)"
    by (rule iv_root[where n=3, OF n5]) (simp_all add: power_divide)
  have n8: "(1.00463863705::real) \<le> (((1.33 + 1) / 2) powr (1 / 3)) powr (1 / 11) \<and> (((1.33 + 1) / 2) powr (1 / 3)) powr (1 / 11) \<le> (1.004638637051::real)"
    by (rule iv_root[where n=11, OF n7]) (simp_all add: power_divide)
  have n9: "(1.00463863705::real) \<le> ((((1.33 + 1) / 2) powr (1 / 3)) powr (1 / 11)) ^ 1 \<and> ((((1.33 + 1) / 2) powr (1 / 3)) powr (1 / 11)) ^ 1 \<le> (1.004638637051::real)"
    by (rule iv_pow_one[OF n8])
  have n10: "(1.009298791053::real) \<le> ((((1.33 + 1) / 2) powr (1 / 3)) powr (1 / 11)) ^ 2 \<and> ((((1.33 + 1) / 2) powr (1 / 3)) powr (1 / 11)) ^ 2 \<le> (1.009298791056::real)"
    by (rule iv_pow_sq[OF n9]) (simp_all add: power_divide)
  have n11: "(1.018684049621::real) \<le> ((((1.33 + 1) / 2) powr (1 / 3)) powr (1 / 11)) ^ 4 \<and> ((((1.33 + 1) / 2) powr (1 / 3)) powr (1 / 11)) ^ 4 \<le> (1.018684049628::real)"
    by (rule iv_pow_sq[OF n10]) (simp_all add: power_divide)
  have n12: "(1.037717192952::real) \<le> ((((1.33 + 1) / 2) powr (1 / 3)) powr (1 / 11)) ^ 8 \<and> ((((1.33 + 1) / 2) powr (1 / 3)) powr (1 / 11)) ^ 8 \<le> (1.037717192967::real)"
    by (rule iv_pow_sq[OF n11]) (simp_all add: power_divide)
  have n13: "(1.076856972548::real) \<le> ((((1.33 + 1) / 2) powr (1 / 3)) powr (1 / 11)) ^ 16 \<and> ((((1.33 + 1) / 2) powr (1 / 3)) powr (1 / 11)) ^ 16 \<le> (1.07685697258::real)"
    by (rule iv_pow_sq[OF n12]) (simp_all add: power_divide)
  have n14: "(1.159620939325::real) \<le> ((((1.33 + 1) / 2) powr (1 / 3)) powr (1 / 11)) ^ 32 \<and> ((((1.33 + 1) / 2) powr (1 / 3)) powr (1 / 11)) ^ 32 \<le> (1.159620939395::real)"
    by (rule iv_pow_sq[OF n13]) (simp_all add: power_divide)
  have n15: "(1.34472072292::real) \<le> ((((1.33 + 1) / 2) powr (1 / 3)) powr (1 / 11)) ^ 64 \<and> ((((1.33 + 1) / 2) powr (1 / 3)) powr (1 / 11)) ^ 64 \<le> (1.344720723084::real)"
    by (rule iv_pow_sq[OF n14]) (simp_all add: power_divide)
  have n16: "(1.80827382265::real) \<le> ((((1.33 + 1) / 2) powr (1 / 3)) powr (1 / 11)) ^ 128 \<and> ((((1.33 + 1) / 2) powr (1 / 3)) powr (1 / 11)) ^ 128 \<le> (1.808273823092::real)"
    by (rule iv_pow_sq[OF n15]) (simp_all add: power_divide)
  have n17: "(1.84205970048::real) \<le> ((((1.33 + 1) / 2) powr (1 / 3)) powr (1 / 11)) ^ 132 \<and> ((((1.33 + 1) / 2) powr (1 / 3)) powr (1 / 11)) ^ 132 \<le> (1.842059700944::real)"
    by (rule iv_pow_mul[OF n16 n11]) simp_all
  have n18: "(1.850604346854::real) \<le> ((((1.33 + 1) / 2) powr (1 / 3)) powr (1 / 11)) ^ 133 \<and> ((((1.33 + 1) / 2) powr (1 / 3)) powr (1 / 11)) ^ 133 \<le> (1.850604347323::real)"
    by (rule iv_pow_mul[OF n17 n9]) simp_all
  have n19: "(1.850604346854::real) \<le> ((1.33 + 1) / 2) powr (133 / 33) \<and> ((1.33 + 1) / 2) powr (133 / 33) \<le> (1.850604347323::real)"
    by (rule powr_via_roots[OF n18 s6]) simp_all
  have n20: "(3.089786950693::real) \<le> v1 / v2 \<and> v1 / v2 \<le> (3.089786953142::real)"
    by (rule iv_div[OF v1_iv v2_iv]) simp_all
  have s21: "(v2::real) \<noteq> 0"
    by (rule iv_nonzero[OF v2_iv]) simp
  have s22: "(((1.33 + 1) / 2) powr (133 / 33)::real) < (v1 / v2)"
    by (rule iv_less[OF n19 n20]) simp
  have s23: "(0::real) \<le> v3"
    by (rule iv_nonneg[OF v3_iv]) simp
  show ?thesis
    by (rule core_nozzle_choked_Fin(4)[OF clamped_inputs_isValid_LPT v1_eq v2_eq v3_eq s21 s22 s23])
qed

lemma clamped_inputs_Pt19:
  "\<exists>t. Pt19 clamped_inputs = Fin t \<and> 1269157.71692259 \<le> t \<and> t \<le> 1269157.716934"
proof -
  from clamped_inputs_Pt13 obtain v1 where v1_eq: "Pt13 clamped_inputs = Fin v1"
    and v1_iv: "(1281977.491841::real) \<le> v1 \<and> v1 \<le> (1281977.491852134::real)"
    by blast
  have c1: "(0.99::real) \<le> 0.99 \<and> 0.99 \<le> (0.99::real)"
    by simp
  have n2: "(1269157.71692259::real) \<le> v1 * 0.99 \<and> v1 * 0.99 \<le> (1269157.716934::real)"
    by (rule iv_mul[OF v1_iv c1]) simp_all
  have eq: "Pt19 clamped_inputs = Fin (v1 * 0.99)"
    by (rule Pt19_Fin[OF v1_eq clamped_inputs_fields(16)])
  from eq n2 show ?thesis
    by blast
qed

lemma clamped_inputs_P19:
  "\<exists>t. P19 clamped_inputs = Fin t \<and> 670472.9075869 \<le> t \<and> t \<le> 670472.9075998"
proof -
  from clamped_inputs_Pt19 obtain v1 where v1_eq: "Pt19 clamped_inputs = Fin v1"
    and v1_iv: "(1269157.71692259::real) \<le> v1 \<and> v1 \<le> (1269157.716934::real)"
    by blast
  from clamped_inputs_P0 obtain v2 where v2_eq: "P0 clamped_inputs = Fin v2"
    and v2_iv: "(101325::real) \<le> v2 \<and> v2 \<le> (101325::real)"
    by blast
  from clamped_inputs_Tt13 obtain v3 where v3_eq: "Tt13 clamped_inputs = Fin v3"
    and v3_iv: "(605.389679178::real) \<le> v3 \<and> v3 \<le> (605.3896791804::real)"
    by blast
  have c1: "(1.4::real) \<le> 1.4 \<and> 1.4 \<le> (1.4::real)"
    by simp
  have c2: "(1::real) \<le> 1 \<and> 1 \<le> (1::real)"
    by simp
  have n3: "(2.4::real) \<le> 1.4 + 1 \<and> 1.4 + 1 \<le> (2.4::real)"
    by (rule iv_add[OF c1 c2]) simp_all
  have c4: "(2::real) \<le> 2 \<and> 2 \<le> (2::real)"
    by simp
  have n5: "(1.2::real) \<le> (1.4 + 1) / 2 \<and> (1.4 + 1) / 2 \<le> (1.2::real)"
    by (rule iv_div[OF n3 c4]) simp_all
  have s6: "(0::real) < ((1.4 + 1) / 2)"
    by (rule iv_pos[OF n5]) simp
  have n7: "(1.09544511501::real) \<le> ((1.4 + 1) / 2) powr (1 / 2) \<and> ((1.4 + 1) / 2) powr (1 / 2) \<le> (1.095445115011::real)"
    by (rule iv_root[where n=2, OF n5]) (simp_all add: power_divide)
  have n8: "(1.09544511501::real) \<le> (((1.4 + 1) / 2) powr (1 / 2)) ^ 1 \<and> (((1.4 + 1) / 2) powr (1 / 2)) ^ 1 \<le> (1.095445115011::real)"
    by (rule iv_pow_one[OF n7])
  have n9: "(1.199999999999::real) \<le> (((1.4 + 1) / 2) powr (1 / 2)) ^ 2 \<and> (((1.4 + 1) / 2) powr (1 / 2)) ^ 2 \<le> (1.200000000002::real)"
    by (rule iv_pow_sq[OF n8]) (simp_all add: power_divide)
  have n10: "(1.439999999997::real) \<le> (((1.4 + 1) / 2) powr (1 / 2)) ^ 4 \<and> (((1.4 + 1) / 2) powr (1 / 2)) ^ 4 \<le> (1.440000000005::real)"
    by (rule iv_pow_sq[OF n9]) (simp_all add: power_divide)
  have n11: "(1.727999999994::real) \<le> (((1.4 + 1) / 2) powr (1 / 2)) ^ 6 \<and> (((1.4 + 1) / 2) powr (1 / 2)) ^ 6 \<le> (1.728000000009::real)"
    by (rule iv_pow_mul[OF n10 n9]) simp_all
  have n12: "(1.89292915873::real) \<le> (((1.4 + 1) / 2) powr (1 / 2)) ^ 7 \<and> (((1.4 + 1) / 2) powr (1 / 2)) ^ 7 \<le> (1.892929158749::real)"
    by (rule iv_pow_mul[OF n11 n8]) simp_all
  have n13: "(1.89292915873::real) \<le> ((1.4 + 1) / 2) powr (7 / 2) \<and> ((1.4 + 1) / 2) powr (7 / 2) \<le> (1.892929158749::real)"
    by (rule powr_via_root[OF n12 s6]) simp_all
  have n14: "(12.52561279963::real) \<le> v1 / v2 \<and> v1 / v2 \<le> (12.52561279975::real)"
    by (rule iv_div[OF v1_iv v2_iv]) simp_all
  have s15: "(v2::real) \<noteq> 0"
    by (rule iv_nonzero[OF v2_iv]) simp
  have s16: "(((1.4 + 1) / 2) powr (7 / 2)::real) < (v1 / v2)"
    by (rule iv_less[OF n13 n14]) simp
  have s17: "(0::real) \<le> v3"
    by (rule iv_nonneg[OF v3_iv]) simp
  have n18: "(670472.9075869::real) \<le> v1 / (((1.4 + 1) / 2) powr (7 / 2)) \<and> v1 / (((1.4 + 1) / 2) powr (7 / 2)) \<le> (670472.9075998::real)"
    by (rule iv_div[OF v1_iv n13]) simp_all
  have eq: "P19 clamped_inputs = Fin (v1 / (((1.4 + 1) / 2) powr (7 / 2)))"
    by (rule bypass_nozzle_choked_Fin(1)[OF clamped_inputs_isValid_core v1_eq v2_eq v3_eq s15 s16 s17])
  from eq n18 show ?thesis
    by blast
qed

lemma clamped_inputs_T19:
  "\<exists>t. T19 clamped_inputs = Fin t \<and> 504.4913993149 \<le> t \<and> t \<le> 504.4913993171"
proof -
  from clamped_inputs_Pt19 obtain v1 where v1_eq: "Pt19 clamped_inputs = Fin v1"
    and v1_iv: "(1269157.71692259::real) \<le> v1 \<and> v1 \<le> (1269157.716934::real)"
    by blast
  from clamped_inputs_P0 obtain v2 where v2_eq: "P0 clamped_inputs = Fin v2"
    and v2_iv: "(101325::real) \<le> v2 \<and> v2 \<le> (101325::real)"
    by blast
  from clamped_inputs_Tt13 obtain v3 where v3_eq: "Tt13 clamped_inputs = Fin v3"
    and v3_iv: "(605.389679178::real) \<le> v3 \<and> v3 \<le> (605.3896791804::real)"
    by blast
  have c1: "(1.4::real) \<le> 1.4 \<and> 1.4 \<le> (1.4::real)"
    by simp
  have c2: "(1::real) \<le> 1 \<and> 1 \<le> (1::real)"
    by simp
  have n3: "(2.4::real) \<le> 1.4 + 1 \<and> 1.4 + 1 \<le> (2.4::real)"
    by (rule iv_add[OF c1 c2]) simp_all
  have c4: "(2::real) \<le> 2 \<and> 2 \<le> (2::real)"
    by simp
  have n5: "(1.2::real) \<le> (1.4 + 1) / 2 \<and> (1.4 + 1) / 2 \<le> (1.2::real)"
    by (rule iv_div[OF n3 c4]) simp_all
  have s6: "(0::real) < ((1.4 + 1) / 2)"
    by (rule iv_pos[OF n5]) simp
  have n7: "(1.09544511501::real) \<le> ((1.4 + 1) / 2) powr (1 / 2) \<and> ((1.4 + 1) / 2) powr (1 / 2) \<le> (1.095445115011::real)"
    by (rule iv_root[where n=2, OF n5]) (simp_all add: power_divide)
  have n8: "(1.09544511501::real) \<le> (((1.4 + 1) / 2) powr (1 / 2)) ^ 1 \<and> (((1.4 + 1) / 2) powr (1 / 2)) ^ 1 \<le> (1.095445115011::real)"
    by (rule iv_pow_one[OF n7])
  have n9: "(1.199999999999::real) \<le> (((1.4 + 1) / 2) powr (1 / 2)) ^ 2 \<and> (((1.4 + 1) / 2) powr (1 / 2)) ^ 2 \<le> (1.200000000002::real)"
    by (rule iv_pow_sq[OF n8]) (simp_all add: power_divide)
  have n10: "(1.439999999997::real) \<le> (((1.4 + 1) / 2) powr (1 / 2)) ^ 4 \<and> (((1.4 + 1) / 2) powr (1 / 2)) ^ 4 \<le> (1.440000000005::real)"
    by (rule iv_pow_sq[OF n9]) (simp_all add: power_divide)
  have n11: "(1.727999999994::real) \<le> (((1.4 + 1) / 2) powr (1 / 2)) ^ 6 \<and> (((1.4 + 1) / 2) powr (1 / 2)) ^ 6 \<le> (1.728000000009::real)"
    by (rule iv_pow_mul[OF n10 n9]) simp_all
  have n12: "(1.89292915873::real) \<le> (((1.4 + 1) / 2) powr (1 / 2)) ^ 7 \<and> (((1.4 + 1) / 2) powr (1 / 2)) ^ 7 \<le> (1.892929158749::real)"
    by (rule iv_pow_mul[OF n11 n8]) simp_all
  have n13: "(1.89292915873::real) \<le> ((1.4 + 1) / 2) powr (7 / 2) \<and> ((1.4 + 1) / 2) powr (7 / 2) \<le> (1.892929158749::real)"
    by (rule powr_via_root[OF n12 s6]) simp_all
  have n14: "(12.52561279963::real) \<le> v1 / v2 \<and> v1 / v2 \<le> (12.52561279975::real)"
    by (rule iv_div[OF v1_iv v2_iv]) simp_all
  have s15: "(v2::real) \<noteq> 0"
    by (rule iv_nonzero[OF v2_iv]) simp
  have s16: "(((1.4 + 1) / 2) powr (7 / 2)::real) < (v1 / v2)"
    by (rule iv_less[OF n13 n14]) simp
  have s17: "(0::real) \<le> v3"
    by (rule iv_nonneg[OF v3_iv]) simp
  have n18: "(2.4::real) \<le> 1.4 + 1 \<and> 1.4 + 1 \<le> (2.4::real)"
    by (rule iv_add[OF c1 c2]) simp_all
  have n19: "(0.8333333333333::real) \<le> 2 / (1.4 + 1) \<and> 2 / (1.4 + 1) \<le> (0.8333333333334::real)"
    by (rule iv_div[OF c4 n18]) simp_all
  have n20: "(504.4913993149::real) \<le> v3 * (2 / (1.4 + 1)) \<and> v3 * (2 / (1.4 + 1)) \<le> (504.4913993171::real)"
    by (rule iv_mul[OF v3_iv n19]) simp_all
  have eq: "T19 clamped_inputs = Fin (v3 * (2 / (1.4 + 1)))"
    by (rule bypass_nozzle_choked_Fin(2)[OF clamped_inputs_isValid_core v1_eq v2_eq v3_eq s15 s16 s17])
  from eq n20 show ?thesis
    by blast
qed

lemma clamped_inputs_V19:
  "\<exists>t. V19 clamped_inputs = Fin t \<and> 450.2665417756 \<le> t \<and> t \<le> 450.2665417768"
proof -
  from clamped_inputs_Pt19 obtain v1 where v1_eq: "Pt19 clamped_inputs = Fin v1"
    and v1_iv: "(1269157.71692259::real) \<le> v1 \<and> v1 \<le> (1269157.716934::real)"
    by blast
  from clamped_inputs_P0 obtain v2 where v2_eq: "P0 clamped_inputs = Fin v2"
    and v2_iv: "(101325::real) \<le> v2 \<and> v2 \<le> (101325::real)"
    by blast
  from clamped_inputs_Tt13 obtain v3 where v3_eq: "Tt13 clamped_inputs = Fin v3"
    and v3_iv: "(605.389679178::real) \<le> v3 \<and> v3 \<le> (605.3896791804::real)"
    by blast
  have c1: "(1.4::real) \<le> 1.4 \<and> 1.4 \<le> (1.4::real)"
    by simp
  have c2: "(1::real) \<le> 1 \<and> 1 \<le> (1::real)"
    by simp
  have n3: "(2.4::real) \<le> 1.4 + 1 \<and> 1.4 + 1 \<le> (2.4::real)"
    by (rule iv_add[OF c1 c2]) simp_all
  have c4: "(2::real) \<le> 2 \<and> 2 \<le> (2::real)"
    by simp
  have n5: "(1.2::real) \<le> (1.4 + 1) / 2 \<and> (1.4 + 1) / 2 \<le> (1.2::real)"
    by (rule iv_div[OF n3 c4]) simp_all
  have s6: "(0::real) < ((1.4 + 1) / 2)"
    by (rule iv_pos[OF n5]) simp
  have n7: "(1.09544511501::real) \<le> ((1.4 + 1) / 2) powr (1 / 2) \<and> ((1.4 + 1) / 2) powr (1 / 2) \<le> (1.095445115011::real)"
    by (rule iv_root[where n=2, OF n5]) (simp_all add: power_divide)
  have n8: "(1.09544511501::real) \<le> (((1.4 + 1) / 2) powr (1 / 2)) ^ 1 \<and> (((1.4 + 1) / 2) powr (1 / 2)) ^ 1 \<le> (1.095445115011::real)"
    by (rule iv_pow_one[OF n7])
  have n9: "(1.199999999999::real) \<le> (((1.4 + 1) / 2) powr (1 / 2)) ^ 2 \<and> (((1.4 + 1) / 2) powr (1 / 2)) ^ 2 \<le> (1.200000000002::real)"
    by (rule iv_pow_sq[OF n8]) (simp_all add: power_divide)
  have n10: "(1.439999999997::real) \<le> (((1.4 + 1) / 2) powr (1 / 2)) ^ 4 \<and> (((1.4 + 1) / 2) powr (1 / 2)) ^ 4 \<le> (1.440000000005::real)"
    by (rule iv_pow_sq[OF n9]) (simp_all add: power_divide)
  have n11: "(1.727999999994::real) \<le> (((1.4 + 1) / 2) powr (1 / 2)) ^ 6 \<and> (((1.4 + 1) / 2) powr (1 / 2)) ^ 6 \<le> (1.728000000009::real)"
    by (rule iv_pow_mul[OF n10 n9]) simp_all
  have n12: "(1.89292915873::real) \<le> (((1.4 + 1) / 2) powr (1 / 2)) ^ 7 \<and> (((1.4 + 1) / 2) powr (1 / 2)) ^ 7 \<le> (1.892929158749::real)"
    by (rule iv_pow_mul[OF n11 n8]) simp_all
  have n13: "(1.89292915873::real) \<le> ((1.4 + 1) / 2) powr (7 / 2) \<and> ((1.4 + 1) / 2) powr (7 / 2) \<le> (1.892929158749::real)"
    by (rule powr_via_root[OF n12 s6]) simp_all
  have n14: "(12.52561279963::real) \<le> v1 / v2 \<and> v1 / v2 \<le> (12.52561279975::real)"
    by (rule iv_div[OF v1_iv v2_iv]) simp_all
  have s15: "(v2::real) \<noteq> 0"
    by (rule iv_nonzero[OF v2_iv]) simp
  have s16: "(((1.4 + 1) / 2) powr (7 / 2)::real) < (v1 / v2)"
    by (rule iv_less[OF n13 n14]) simp
  have s17: "(0::real) \<le> v3"
    by (rule iv_nonneg[OF v3_iv]) simp
  have n18: "(2.4::real) \<le> 1.4 + 1 \<and> 1.4 + 1 \<le> (2.4::real)"
    by (rule iv_add[OF c1 c2]) simp_all
  have n19: "(0.8333333333333::real) \<le> 2 / (1.4 + 1) \<and> 2 / (1.4 + 1) \<le> (0.8333333333334::real)"
    by (rule iv_div[OF c4 n18]) simp_all
  have n20: "(504.4913993149::real) \<le> v3 * (2 / (1.4 + 1)) \<and> v3 * (2 / (1.4 + 1)) \<le> (504.4913993171::real)"
    by (rule iv_mul[OF v3_iv n19]) simp_all
  have c21: "(287.05::real) \<le> 287.05 \<and> 287.05 \<le> (287.05::real)"
    by simp
  have n22: "(401.87::real) \<le> 1.4 * 287.05 \<and> 1.4 * 287.05 \<le> (401.87::real)"
    by (rule iv_mul[OF c1 c21]) simp_all
  have n23: "(202739.9586426::real) \<le> (1.4 * 287.05) * (v3 * (2 / (1.4 + 1))) \<and> (1.4 * 287.05) * (v3 * (2 / (1.4 + 1))) \<le> (202739.9586436::real)"
    by (rule iv_mul[OF n22 n20]) simp_all
  have n24: "(450.2665417756::real) \<le> sqrt ((1.4 * 287.05) * (v3 * (2 / (1.4 + 1)))) \<and> sqrt ((1.4 * 287.05) * (v3 * (2 / (1.4 + 1)))) \<le> (450.2665417768::real)"
    by (rule iv_sqrt[OF n23]) (simp_all add: power_divide)
  have eq: "V19 clamped_inputs = Fin (sqrt ((1.4 * 287.05) * (v3 * (2 / (1.4 + 1)))))"
    by (rule bypass_nozzle_choked_Fin(3)[OF clamped_inputs_isValid_core v1_eq v2_eq v3_eq s15 s16 s17])
  from eq n24 show ?thesis
    by blast
qed

lemma clamped_inputs_rho9:
  "\<exists>t. rho9 clamped_inputs = Fin t \<and> 0.8497157739783 \<le> t \<and> t \<le> 0.8497157748907"
proof -
  from clamped_inputs_P9 obtain v1 where v1_eq: "P9 clamped_inputs = Fin v1"
    and v1_iv: "(169173.2018418::real) \<le> v1 \<and> v1 \<le> (169173.2020187::real)"
    by blast
  from clamped_inputs_T9 obtain v2 where v2_eq: "T9 clamped_inputs = Fin v2"
    and v2_iv: "(693.5860302907::real) \<le> v2 \<and> v2 \<le> (693.58603031::real)"
    by blast
  have c1: "(287.05::real) \<le> 287.05 \<and> 287.05 \<le> (287.05::real)"
    by simp
  have n2: "(199093.8699949::real) \<le> 287.05 * v2 \<and> 287.05 * v2 \<le> (199093.8700004855::real)"
    by (rule iv_mul[OF c1 v2_iv]) simp_all
  have s3: "(287.05 * v2::real) \<noteq> 0"
    by (rule iv_nonzero[OF n2]) simp
  have n4: "(0.8497157739783::real) \<le> v1 / (287.05 * v2) \<and> v1 / (287.05 * v2) \<le> (0.8497157748907::real)"
    by (rule iv_div[OF v1_iv n2]) simp_all
  have eq: "rho9 clamped_inputs = Fin (v1 / (287.05 * v2))"
    by (rule rho9_Fin[OF v1_eq v2_eq s3])
  from eq n4 show ?thesis
    by blast
qed

lemma clamped_inputs_A9_per_unit:
  "\<exists>t. A9_per_unit clamped_inputs = Fin t \<and> 0.002333559864952 \<le> t \<and> t \<le> 0.002333559867494"
proof -
  from clamped_inputs_f obtain v1 where v1_eq: "f clamped_inputs = Fin v1"
    and v1_iv: "(0.02034582648638::real) \<le> v1 \<and> v1 \<le> (0.02034582648659::real)"
    by blast
  from clamped_inputs_rho9 obtain v2 where v2_eq: "rho9 clamped_inputs = Fin v2"
    and v2_iv: "(0.8497157739783::real) \<le> v2 \<and> v2 \<le> (0.8497157748907::real)"
    by blast
  from clamped_inputs_V9 obtain v3 where v3_eq: "V9 clamped_inputs = Fin v3"
    and v3_iv: "(514.5822063511::real) \<le> v3 \<and> v3 \<le> (514.5822063585::real)"
    by blast
  have n1: "(437.248617745::real) \<le> v2 * v3 \<and> v2 * v3 \<le> (437.2486182209::real)"
    by (rule iv_mul[OF v2_iv v3_iv]) simp_all
  have s2: "(v2 * v3::real) \<noteq> 0"
    by (rule iv_nonzero[OF n1]) simp
  have c3: "(1::real) \<le> 1 \<and> 1 \<le> (1::real)"
    by simp
  have n4: "(1.02034582648638::real) \<le> 1 + v1 \<and> 1 + v1 \<le> (1.02034582648659::real)"
    by (rule iv_add[OF c3 v1_iv]) simp_all
  have n5: "(0.002333559864952::real) \<le> (1 + v1) / (v2 * v3) \<and> (1 + v1) / (v2 * v3) \<le> (0.002333559867494::real)"
    by (rule iv_div[OF n4 n1]) simp_all
  have eq: "A9_per_unit clamped_inputs = Fin ((1 + v1) / (v2 * v3))"
    by (rule A9_per_unit_Fin[OF v1_eq v2_eq v3_eq s2])
  from eq n5 show ?thesis
    by blast
qed

lemma clamped_inputs_rho19:
  "\<exists>t. rho19 clamped_inputs = Fin t \<and> 4.629881928069 \<le> t \<and> t \<le> 4.629881928182"
proof -
  from clamped_inputs_P19 obtain v1 where v1_eq: "P19 clamped_inputs = Fin v1"
    and v1_iv: "(670472.9075869::real) \<le> v1 \<and> v1 \<le> (670472.9075998::real)"
    by blast
  from clamped_inputs_T19 obtain v2 where v2_eq: "T19 clamped_inputs = Fin v2"
    and v2_iv: "(504.4913993149::real) \<le> v2 \<and> v2 \<le> (504.4913993171::real)"
    by blast
  have c1: "(287.05::real) \<le> 287.05 \<and> 287.05 \<le> (287.05::real)"
    by simp
  have n2: "(144814.2561733::real) \<le> 287.05 * v2 \<and> 287.05 * v2 \<le> (144814.256174::real)"
    by (rule iv_mul[OF c1 v2_iv]) simp_all
  have s3: "(287.05 * v2::real) \<noteq> 0"
    by (rule iv_nonzero[OF n2]) simp
  have n4: "(4.629881928069::real) \<le> v1 / (287.05 * v2) \<and> v1 / (287.05 * v2) \<le> (4.629881928182::real)"
    by (rule iv_div[OF v1_iv n2]) simp_all
  have eq: "rho19 clamped_inputs = Fin (v1 / (287.05 * v2))"
    by (rule rho19_Fin[OF v1_eq v2_eq s3])
  from eq n4 show ?thesis
    by blast
qed

lemma clamped_inputs_A19_per_unit:
  "\<exists>t. A19_per_unit clamped_inputs = Fin t \<and> 0.002398448578344 \<le> t \<and> t \<le> 0.002398448578412"
proof -
  have c1: "(5::real) \<le> 5 \<and> 5 \<le> (5::real)"
    by simp
  from clamped_inputs_rho19 obtain v1 where v1_eq: "rho19 clamped_inputs = Fin v1"
    and v1_iv: "(4.629881928069::real) \<le> v1 \<and> v1 \<le> (4.629881928182::real)"
    by blast
  from clamped_inputs_V19 obtain v2 where v2_eq: "V19 clamped_inputs = Fin v2"
    and v2_iv: "(450.2665417756::real) \<le> v2 \<and> v2 \<le> (450.2665417768::real)"
    by blast
  have n2: "(2084.68092458::real) \<le> v1 * v2 \<and> v1 * v2 \<le> (2084.680924638::real)"
    by (rule iv_mul[OF v1_iv v2_iv]) simp_all
  have s3: "(v1 * v2::real) \<noteq> 0"
    by (rule iv_nonzero[OF n2]) simp
  have n4: "(0.002398448578344::real) \<le> 5 / (v1 * v2) \<and> 5 / (v1 * v2) \<le> (0.002398448578412::real)"
    by (rule iv_div[OF c1 n2]) simp_all
  have eq: "A19_per_unit clamped_inputs = Fin (5 / (v1 * v2))"
    by (rule A19_per_unit_Fin[OF clamped_inputs_fields(4) v1_eq v2_eq s3])
  from eq n4 show ?thesis
    by blast
qed

lemma clamped_inputs_F_core:
  "\<exists>t. F_core clamped_inputs = Fin t \<and> 2.7950736309 \<le> t \<and> t \<le> 2.7950742243"
proof -
  from clamped_inputs_f obtain v1 where v1_eq: "f clamped_inputs = Fin v1"
    and v1_iv: "(0.02034582648638::real) \<le> v1 \<and> v1 \<le> (0.02034582648659::real)"
    by blast
  from clamped_inputs_V9 obtain v2 where v2_eq: "V9 clamped_inputs = Fin v2"
    and v2_iv: "(514.5822063511::real) \<le> v2 \<and> v2 \<le> (514.5822063585::real)"
    by blast
  from clamped_inputs_V0 obtain v3 where v3_eq: "V0 clamped_inputs = Fin v3"
    and v3_iv: "(680.5845737304::real) \<le> v3 \<and> v3 \<le> (680.5845737306::real)"
    by blast
  from clamped_inputs_P9 obtain v4 where v4_eq: "P9 clamped_inputs = Fin v4"
    and v4_iv: "(169173.2018418::real) \<le> v4 \<and> v4 \<le> (169173.2020187::real)"
    by blast
  from clamped_inputs_P0 obtain v5 where v5_eq: "P0 clamped_inputs = Fin v5"
    and v5_iv: "(101325::real) \<le> v5 \<and> v5 \<le> (101325::real)"
    by blast
  from clamped_inputs_A9_per_unit obtain v6 where v6_eq: "A9_per_unit clamped_inputs = Fin v6"
    and v6_iv: "(0.002333559864952::real) \<le> v6 \<and> v6 \<le> (0.002333559867494::real)"
    by blast
  have c1: "(1::real) \<le> 1 \<and> 1 \<le> (1::real)"
    by simp
  have n2: "(1.02034582648638::real) \<le> 1 + v1 \<and> 1 + v1 \<le> (1.02034582648659::real)"
    by (rule iv_add[OF c1 v1_iv]) simp_all
  have n3: "(525.0518066344::real) \<le> (1 + v1) * v2 \<and> (1 + v1) * v2 \<le> (525.0518066422::real)"
    by (rule iv_mul[OF n2 v2_iv]) simp_all
  have n4: "(680.5845737304::real) \<le> 1 * v3 \<and> 1 * v3 \<le> (680.5845737306::real)"
    by (rule iv_mul[OF c1 v3_iv]) simp_all
  have n5: "(- 155.5327670962::real) \<le> ((1 + v1) * v2) - (1 * v3) \<and> ((1 + v1) * v2) - (1 * v3) \<le> (- 155.5327670882::real)"
    by (rule iv_sub[OF n3 n4]) simp_all
  have n6: "(67848.2018418::real) \<le> v4 - v5 \<and> v4 - v5 \<le> (67848.2020187::real)"
    by (rule iv_sub[OF v4_iv v5_iv]) simp_all
  have n7: "(158.3278407271::real) \<le> (v4 - v5) * v6 \<and> (v4 - v5) * v6 \<le> (158.3278413125::real)"
    by (rule iv_mul[OF n6 v6_iv]) simp_all
  have n8: "(2.7950736309::real) \<le> (((1 + v1) * v2) - (1 * v3)) + ((v4 - v5) * v6) \<and> (((1 + v1) * v2) - (1 * v3)) + ((v4 - v5) * v6) \<le> (2.7950742243::real)"
    by (rule iv_add[OF n5 n7]) simp_all
  have eq: "F_core clamped_inputs = Fin ((((1 + v1) * v2) - (1 * v3)) + ((v4 - v5) * v6))"
    by (rule F_core_Fin[OF v1_eq v2_eq v3_eq v4_eq v5_eq v6_eq])
  from eq n8 show ?thesis
    by blast
qed

lemma clamped_inputs_F_bypass:
  "\<exists>t. F_bypass clamped_inputs = Fin t \<and> 213.481830044 \<le> t \<and> t \<le> 213.481830121"
proof -
  have c1: "(5::real) \<le> 5 \<and> 5 \<le> (5::real)"
    by simp
  from clamped_inputs_V19 obtain v1 where v1_eq: "V19 clamped_inputs = Fin v1"
    and v1_iv: "(450.2665417756::real) \<le> v1 \<and> v1 \<le> (450.2665417768::real)"
    by blast
  from clamped_inputs_V0 obtain v2 where v2_eq: "V0 clamped_inputs = Fin v2"
    and v2_iv: "(680.5845737304::real) \<le> v2 \<and> v2 \<le> (680.5845737306::real)"
    by blast
  from clamped_inputs_P19 obtain v3 where v3_eq: "P19 clamped_inputs = Fin v3"
    and v3_iv: "(670472.9075869::real) \<le> v3 \<and> v3 \<le> (670472.9075998::real)"
    by blast
  from clamped_inputs_P0 obtain v4 where v4_eq: "P0 clamped_inputs = Fin v4"
    and v4_iv: "(101325::real) \<le> v4 \<and> v4 \<le> (101325::real)"
    by blast
  from clamped_inputs_A19_per_unit obtain v5 where v5_eq: "A19_per_unit clamped_inputs = Fin v5"
    and v5_iv: "(0.002398448578344::real) \<le> v5 \<and> v5 \<le> (0.002398448578412::real)"
    by blast
  have n2: "(2251.332708878::real) \<le> 5 * v1 \<and> 5 * v1 \<le> (2251.332708884::real)"
    by (rule iv_mul[OF c1 v1_iv]) simp_all
  have n3: "(3402.922868652::real) \<le> 5 * v2 \<and> 5 * v2 \<le> (3402.922868653::real)"
    by (rule iv_mul[OF c1 v2_iv]) simp_all
  have n4: "(- 1151.590159775::real) \<le> (5 * v1) - (5 * v2) \<and> (5 * v1) - (5 * v2) \<le> (- 1151.590159768::real)"
    by (rule iv_sub[OF n2 n3]) simp_all
  have n5: "(569147.9075869::real) \<le> v3 - v4 \<and> v3 - v4 \<le> (569147.9075998::real)"
    by (rule iv_sub[OF v3_iv v4_iv]) simp_all
  have n6: "(1365.071989819::real) \<le> (v3 - v4) * v5 \<and> (v3 - v4) * v5 \<le> (1365.071989889::real)"
    by (rule iv_mul[OF n5 v5_iv]) simp_all
  have n7: "(213.481830044::real) \<le> ((5 * v1) - (5 * v2)) + ((v3 - v4) * v5) \<and> ((5 * v1) - (5 * v2)) + ((v3 - v4) * v5) \<le> (213.481830121::real)"
    by (rule iv_add[OF n4 n6]) simp_all
  have eq: "F_bypass clamped_inputs = Fin (((5 * v1) - (5 * v2)) + ((v3 - v4) * v5))"
    by (rule F_bypass_Fin[OF clamped_inputs_fields(4) v1_eq v2_eq v3_eq v4_eq v5_eq])
  from eq n7 show ?thesis
    by blast
qed

lemma clamped_inputs_V9_eff:
  "\<exists>t. V9_eff clamped_inputs = Fin t \<and> 669.7529696524 \<le> t \<and> t \<le> 669.7529702334"
proof -
  from clamped_inputs_V9 obtain v1 where v1_eq: "V9 clamped_inputs = Fin v1"
    and v1_iv: "(514.5822063511::real) \<le> v1 \<and> v1 \<le> (514.5822063585::real)"
    by blast
  from clamped_inputs_rho9 obtain v2 where v2_eq: "rho9 clamped_inputs = Fin v2"
    and v2_iv: "(0.8497157739783::real) \<le> v2 \<and> v2 \<le> (0.8497157748907::real)"
    by blast
  from clamped_inputs_P9 obtain v3 where v3_eq: "P9 clamped_inputs = Fin v3"
    and v3_iv: "(169173.2018418::real) \<le> v3 \<and> v3 \<le> (169173.2020187::real)"
    by blast
  from clamped_inputs_P0 obtain v4 where v4_eq: "P0 clamped_inputs = Fin v4"
    and v4_iv: "(101325::real) \<le> v4 \<and> v4 \<le> (101325::real)"
    by blast
  have c1: "(1::real) \<le> 1 \<and> 1 \<le> (1::real)"
    by simp
  have s2: "(1::real) < v1"
    by (rule iv_less[OF c1 v1_iv]) simp
  have s3: "(0::real) < v2"
    by (rule iv_pos[OF v2_iv]) simp
  have n4: "(67848.2018418::real) \<le> v3 - v4 \<and> v3 - v4 \<le> (67848.2020187::real)"
    by (rule iv_sub[OF v3_iv v4_iv]) simp_all
  have n5: "(437.248617745::real) \<le> v2 * v1 \<and> v2 * v1 \<le> (437.2486182209::real)"
    by (rule iv_mul[OF v2_iv v1_iv]) simp_all
  have n6: "(155.1707633013::real) \<le> (v3 - v4) / (v2 * v1) \<and> (v3 - v4) / (v2 * v1) \<le> (155.1707638749::real)"
    by (rule iv_div[OF n4 n5]) simp_all
  have n7: "(669.7529696524::real) \<le> v1 + ((v3 - v4) / (v2 * v1)) \<and> v1 + ((v3 - v4) / (v2 * v1)) \<le> (669.7529702334::real)"
    by (rule iv_add[OF v1_iv n6]) simp_all
  have eq: "V9_eff clamped_inputs = Fin (v1 + ((v3 - v4) / (v2 * v1)))"
    by (rule V9_eff_Fin[OF v1_eq v2_eq v3_eq v4_eq s2 s3])
  from eq n7 show ?thesis
    by blast
qed

lemma clamped_inputs_V19_eff:
  "\<exists>t. V19_eff clamped_inputs = Fin t \<and> 723.2809397395 \<le> t \<and> t \<le> 723.2809397545"
proof -
  from clamped_inputs_V19 obtain v1 where v1_eq: "V19 clamped_inputs = Fin v1"
    and v1_iv: "(450.2665417756::real) \<le> v1 \<and> v1 \<le> (450.2665417768::real)"
    by blast
  from clamped_inputs_rho19 obtain v2 where v2_eq: "rho19 clamped_inputs = Fin v2"
    and v2_iv: "(4.629881928069::real) \<le> v2 \<and> v2 \<le> (4.629881928182::real)"
    by blast
  from clamped_inputs_P19 obtain v3 where v3_eq: "P19 clamped_inputs = Fin v3"
    and v3_iv: "(670472.9075869::real) \<le> v3 \<and> v3 \<le> (670472.9075998::real)"
    by blast
  from clamped_inputs_P0 obtain v4 where v4_eq: "P0 clamped_inputs = Fin v4"
    and v4_iv: "(101325::real) \<le> v4 \<and> v4 \<le> (101325::real)"
    by blast
  have c1: "(1::real) \<le> 1 \<and> 1 \<le> (1::real)"
    by simp
  have s2: "(1::real) < v1"
    by (rule iv_less[OF c1 v1_iv]) simp
  have s3: "(0::real) < v2"
    by (rule iv_pos[OF v2_iv]) simp
  have n4: "(569147.9075869::real) \<le> v3 - v4 \<and> v3 - v4 \<le> (569147.9075998::real)"
    by (rule iv_sub[OF v3_iv v4_iv]) simp_all
  have n5: "(2084.68092458::real) \<le> v2 * v1 \<and> v2 * v1 \<le> (2084.680924638::real)"
    by (rule iv_mul[OF v2_iv v1_iv]) simp_all
  have n6: "(273.0143979639::real) \<le> (v3 - v4) / (v2 * v1) \<and> (v3 - v4) / (v2 * v1) \<le> (273.0143979777::real)"
    by (rule iv_div[OF n4 n5]) simp_all
  have n7: "(723.2809397395::real) \<le> v1 + ((v3 - v4) / (v2 * v1)) \<and> v1 + ((v3 - v4) / (v2 * v1)) \<le> (723.2809397545::real)"
    by (rule iv_add[OF v1_iv n6]) simp_all
  have eq: "V19_eff clamped_inputs = Fin (v1 + ((v3 - v4) / (v2 * v1)))"
    by (rule V19_eff_Fin[OF v1_eq v2_eq v3_eq v4_eq s2 s3])
  from eq n7 show ?thesis
    by blast
qed

lemma clamped_inputs_m_core_abs:
  "\<exists>t. m_core_abs clamped_inputs = Fin t \<and> 225 \<le> t \<and> t \<le> 225"
proof -
  have c1: "(1350::real) \<le> 1350 \<and> 1350 \<le> (1350::real)"
    by simp
  have c2: "(5::real) \<le> 5 \<and> 5 \<le> (5::real)"
    by simp
  have c3: "(1::real) \<le> 1 \<and> 1 \<le> (1::real)"
    by simp
  have n4: "(6::real) \<le> 1 + 5 \<and> 1 + 5 \<le> (6::real)"
    by (rule iv_add[OF c3 c2]) simp_all
  have s5: "(1 + 5::real) \<noteq> 0"
    by (rule iv_nonzero[OF n4]) simp
  have n6: "(225::real) \<le> 1350 / (1 + 5) \<and> 1350 / (1 + 5) \<le> (225::real)"
    by (rule iv_div[OF c1 n4]) simp_all
  have eq: "m_core_abs clamped_inputs = Fin (1350 / (1 + 5))"
    by (rule m_core_abs_Fin[OF clamped_inputs_fields(3) clamped_inputs_fields(4) s5])
  from eq n6 show ?thesis
    by blast
qed

lemma clamped_inputs_KE_out_eff:
  "\<exists>t. KE_out_eff clamped_inputs = Fin t \<and> 345754365.43189 \<le> t \<and> t \<le> 345754365.5335525"
proof -
  from clamped_inputs_m_core_abs obtain v1 where v1_eq: "m_core_abs clamped_inputs = Fin v1"
    and v1_iv: "(225::real) \<le> v1 \<and> v1 \<le> (225::real)"
    by blast
  from clamped_inputs_f obtain v2 where v2_eq: "f clamped_inputs = Fin v2"
    and v2_iv: "(0.02034582648638::real) \<le> v2 \<and> v2 \<le> (0.02034582648659::real)"
    by blast
  from clamped_inputs_V9_eff obtain v3 where v3_eq: "V9_eff clamped_inputs = Fin v3"
    and v3_iv: "(669.7529696524::real) \<le> v3 \<and> v3 \<le> (669.7529702334::real)"
    by blast
  have c1: "(1350::real) \<le> 1350 \<and> 1350 \<le> (1350::real)"
    by simp
  from clamped_inputs_V19_eff obtain v4 where v4_eq: "V19_eff clamped_inputs = Fin v4"
    and v4_iv: "(723.2809397395::real) \<le> v4 \<and> v4 \<le> (723.2809397545::real)"
    by blast
  have c2: "(0.5::real) \<le> 0.5 \<and> 0.5 \<le> (0.5::real)"
    by simp
  have n3: "(112.5::real) \<le> 0.5 * v1 \<and> 0.5 * v1 \<le> (112.5::real)"
    by (rule iv_mul[OF c2 v1_iv]) simp_all
  have c4: "(1::real) \<le> 1 \<and> 1 \<le> (1::real)"
    by simp
  have n5: "(1.02034582648638::real) \<le> 1 + v2 \<and> 1 + v2 \<le> (1.02034582648659::real)"
    by (rule iv_add[OF c4 v2_iv]) simp_all
  have n6: "(114.7889054797::real) \<le> (0.5 * v1) * (1 + v2) \<and> (0.5 * v1) * (1 + v2) \<le> (114.7889054798::real)"
    by (rule iv_mul[OF n3 n5]) simp_all
  have n7: "(448569.0403582::real) \<le> v3\<^sup>2 \<and> v3\<^sup>2 \<le> (448569.0411365::real)"
    by (rule iv_sq[OF v3_iv]) (simp_all add: power_divide)
  have n8: "(51490749.17479::real) \<le> ((0.5 * v1) * (1 + v2)) * (v3\<^sup>2) \<and> ((0.5 * v1) * (1 + v2)) * (v3\<^sup>2) \<le> (51490749.26419::real)"
    by (rule iv_mul[OF n6 n7]) simp_all
  have n9: "(1125::real) \<le> 1350 - v1 \<and> 1350 - v1 \<le> (1125::real)"
    by (rule iv_sub[OF c1 v1_iv]) simp_all
  have n10: "(562.5::real) \<le> 0.5 * (1350 - v1) \<and> 0.5 * (1350 - v1) \<le> (562.5::real)"
    by (rule iv_mul[OF c2 n9]) simp_all
  have n11: "(523135.3177904::real) \<le> v4\<^sup>2 \<and> v4\<^sup>2 \<le> (523135.3178122::real)"
    by (rule iv_sq[OF v4_iv]) (simp_all add: power_divide)
  have n12: "(294263616.2571::real) \<le> (0.5 * (1350 - v1)) * (v4\<^sup>2) \<and> (0.5 * (1350 - v1)) * (v4\<^sup>2) \<le> (294263616.2693625::real)"
    by (rule iv_mul[OF n10 n11]) simp_all
  have n13: "(345754365.43189::real) \<le> (((0.5 * v1) * (1 + v2)) * (v3\<^sup>2)) + ((0.5 * (1350 - v1)) * (v4\<^sup>2)) \<and> (((0.5 * v1) * (1 + v2)) * (v3\<^sup>2)) + ((0.5 * (1350 - v1)) * (v4\<^sup>2)) \<le> (345754365.5335525::real)"
    by (rule iv_add[OF n8 n12]) simp_all
  have eq: "KE_out_eff clamped_inputs = Fin ((((0.5 * v1) * (1 + v2)) * (v3\<^sup>2)) + ((0.5 * (1350 - v1)) * (v4\<^sup>2)))"
    by (rule KE_out_eff_Fin[OF v1_eq v2_eq v3_eq clamped_inputs_fields(3) v4_eq])
  from eq n13 show ?thesis
    by blast
qed

lemma clamped_inputs_KE_in:
  "\<exists>t. KE_in clamped_inputs = Fin t \<and> 312656869.3497975 \<le> t \<and> t \<le> 312656869.3500675"
proof -
  have c1: "(1350::real) \<le> 1350 \<and> 1350 \<le> (1350::real)"
    by simp
  from clamped_inputs_V0 obtain v1 where v1_eq: "V0 clamped_inputs = Fin v1"
    and v1_iv: "(680.5845737304::real) \<le> v1 \<and> v1 \<le> (680.5845737306::real)"
    by blast
  have c2: "(0.5::real) \<le> 0.5 \<and> 0.5 \<le> (0.5::real)"
    by simp
  have n3: "(675::real) \<le> 0.5 * 1350 \<and> 0.5 * 1350 \<le> (675::real)"
    by (rule iv_mul[OF c2 c1]) simp_all
  have n4: "(463195.3619997::real) \<le> v1\<^sup>2 \<and> v1\<^sup>2 \<le> (463195.3620001::real)"
    by (rule iv_sq[OF v1_iv]) (simp_all add: power_divide)
  have n5: "(312656869.3497975::real) \<le> (0.5 * 1350) * (v1\<^sup>2) \<and> (0.5 * 1350) * (v1\<^sup>2) \<le> (312656869.3500675::real)"
    by (rule iv_mul[OF n3 n4]) simp_all
  have eq: "KE_in clamped_inputs = Fin ((0.5 * 1350) * (v1\<^sup>2))"
    by (rule KE_in_Fin[OF clamped_inputs_fields(3) v1_eq])
  from eq n5 show ?thesis
    by blast
qed

lemma clamped_inputs_Q_in:
  "\<exists>t. Q_in clamped_inputs = Fin t \<and> 197303652.3516 \<le> t \<and> t \<le> 197303652.3538"
proof -
  from clamped_inputs_m_core_abs obtain v1 where v1_eq: "m_core_abs clamped_inputs = Fin v1"
    and v1_iv: "(225::real) \<le> v1 \<and> v1 \<le> (225::real)"
    by blast
  from clamped_inputs_f obtain v2 where v2_eq: "f clamped_inputs = Fin v2"
    and v2_iv: "(0.02034582648638::real) \<le> v2 \<and> v2 \<le> (0.02034582648659::real)"
    by blast
  from clamped_inputs_Hu_J obtain v3 where v3_eq: "Hu_J clamped_inputs = Fin v3"
    and v3_iv: "(43100000::real) \<le> v3 \<and> v3 \<le> (43100000::real)"
    by blast
  have n1: "(4.5778109594355::real) \<le> v1 * v2 \<and> v1 * v2 \<le> (4.57781095948275::real)"
    by (rule iv_mul[OF v1_iv v2_iv]) simp_all
  have n2: "(197303652.3516::real) \<le> (v1 * v2) * v3 \<and> (v1 * v2) * v3 \<le> (197303652.3538::real)"
    by (rule iv_mul[OF n1 v3_iv]) simp_all
  have eq: "Q_in clamped_inputs = Fin ((v1 * v2) * v3)"
    by (rule Q_in_Fin[OF v1_eq v2_eq v3_eq])
  from eq n2 show ?thesis
    by blast
qed

lemma clamped_inputs_isValid_final:
  "isValid_final clamped_inputs"
  using clamped_inputs_isValid_core by (simp add: isValid_final_def)

lemma clamped_inputs_specific_thrust:
  "\<exists>t. fst (performance_block clamped_inputs) = Fin t \<and> 36.04615061248 \<le> t \<and> t \<le> 36.04615072422"
proof -
  from clamped_inputs_F_core obtain v1 where v1_eq: "F_core clamped_inputs = Fin v1"
    and v1_iv: "(2.7950736309::real) \<le> v1 \<and> v1 \<le> (2.7950742243::real)"
    by blast
  from clamped_inputs_F_bypass obtain v2 where v2_eq: "F_bypass clamped_inputs = Fin v2"
    and v2_iv: "(213.481830044::real) \<le> v2 \<and> v2 \<le> (213.481830121::real)"
    by blast
  have c1: "(5::real) \<le> 5 \<and> 5 \<le> (5::real)"
    by simp
  have c2: "(1::real) \<le> 1 \<and> 1 \<le> (1::real)"
    by simp
  have n3: "(6::real) \<le> 1 + 5 \<and> 1 + 5 \<le> (6::real)"
    by (rule iv_add[OF c2 c1]) simp_all
  have s4: "(1 + 5::real) \<noteq> 0"
    by (rule iv_nonzero[OF n3]) simp
  have n5: "(216.2769036749::real) \<le> v1 + v2 \<and> v1 + v2 \<le> (216.2769043453::real)"
    by (rule iv_add[OF v1_iv v2_iv]) simp_all
  have n6: "(36.04615061248::real) \<le> (v1 + v2) / (1 + 5) \<and> (v1 + v2) / (1 + 5) \<le> (36.04615072422::real)"
    by (rule iv_div[OF n5 n3]) simp_all
  have eq: "fst (performance_block clamped_inputs) = Fin ((v1 + v2) / (1 + 5))"
    by (rule specific_thrust_Fin[OF clamped_inputs_isValid_final v1_eq v2_eq clamped_inputs_fields(4) s4])
  from eq n6 show ?thesis
    by blast
qed

lemma clamped_inputs_total_thrust:
  "\<exists>t. fst (snd (performance_block clamped_inputs)) = Fin t \<and> 48662.303326848 \<le> t \<and> t \<le> 48662.303477697"
proof -
  from clamped_inputs_specific_thrust obtain v1 where v1_eq: "fst (performance_block clamped_inputs) = Fin v1"
    and v1_iv: "(36.04615061248::real) \<le> v1 \<and> v1 \<le> (36.04615072422::real)"
    by blast
  have c1: "(1350::real) \<le> 1350 \<and> 1350 \<le> (1350::real)"
    by simp
  have n2: "(48662.303326848::real) \<le> v1 * 1350 \<and> v1 * 1350 \<le> (48662.303477697::real)"
    by (rule iv_mul[OF v1_iv c1]) simp_all
  have eq: "fst (snd (performance_block clamped_inputs)) = Fin (v1 * 1350)"
    by (rule total_thrust_Fin[OF clamped_inputs_isValid_final v1_eq clamped_inputs_fields(3)])
  from eq n2 show ?thesis
    by blast
qed

lemma clamped_inputs_sfc:
  "\<exists>t. fst (snd (snd (performance_block clamped_inputs))) = Fin t \<and> 0.3386629542006 \<le> t \<and> t \<le> 0.3386629552541"
proof -
  from clamped_inputs_total_thrust obtain v1 where v1_eq: "fst (snd (performance_block clamped_inputs)) = Fin v1"
    and v1_iv: "(48662.303326848::real) \<le> v1 \<and> v1 \<le> (48662.303477697::real)"
    by blast
  from clamped_inputs_f obtain v2 where v2_eq: "f clamped_inputs = Fin v2"
    and v2_iv: "(0.02034582648638::real) \<le> v2 \<and> v2 \<le> (0.02034582648659::real)"
    by blast
  have c1: "(1350::real) \<le> 1350 \<and> 1350 \<le> (1350::real)"
    by simp
  have c2: "(5::real) \<le> 5 \<and> 5 \<le> (5::real)"
    by simp
  have s3: "(0::real) < v1"
    by (rule iv_pos[OF v1_iv]) simp
  have c4: "(1::real) \<le> 1 \<and> 1 \<le> (1::real)"
    by simp
  have n5: "(6::real) \<le> 1 + 5 \<and> 1 + 5 \<le> (6::real)"
    by (rule iv_add[OF c4 c2]) simp_all
  have s6: "(1 + 5::real) \<noteq> 0"
    by (rule iv_nonzero[OF n5]) simp
  have n7: "(225::real) \<le> 1350 / (1 + 5) \<and> 1350 / (1 + 5) \<le> (225::real)"
    by (rule iv_div[OF c1 n5]) simp_all
  have n8: "(4.5778109594355::real) \<le> v2 * (1350 / (1 + 5)) \<and> v2 * (1350 / (1 + 5)) \<le> (4.57781095948275::real)"
    by (rule iv_mul[OF v2_iv n7]) simp_all
  have c9: "(3600::real) \<le> 3600 \<and> 3600 \<le> (3600::real)"
    by simp
  have n10: "(16480.1194539678::real) \<le> (v2 * (1350 / (1 + 5))) * 3600 \<and> (v2 * (1350 / (1 + 5))) * 3600 \<le> (16480.1194541379::real)"
    by (rule iv_mul[OF n8 c9]) simp_all
  have n11: "(0.3386629542006::real) \<le> ((v2 * (1350 / (1 + 5))) * 3600) / v1 \<and> ((v2 * (1350 / (1 + 5))) * 3600) / v1 \<le> (0.3386629552541::real)"
    by (rule iv_div[OF n10 v1_iv]) simp_all
  have eq: "fst (snd (snd (performance_block clamped_inputs))) = Fin (((v2 * (1350 / (1 + 5))) * 3600) / v1)"
    by (rule sfc_Fin[OF clamped_inputs_isValid_final v1_eq s3 v2_eq clamped_inputs_fields(3) clamped_inputs_fields(4) s6])
  from eq n11 show ?thesis
    by blast
qed

lemma clamped_inputs_propulsiveEfficiency:
  "\<exists>t. fst (snd (snd (snd (snd (performance_block clamped_inputs))))) = Fin t \<and> 1.00064406028 \<le> t \<and> t \<le> 1.000644066465"
proof -
  from clamped_inputs_total_thrust obtain v1 where v1_eq: "fst (snd (performance_block clamped_inputs)) = Fin v1"
    and v1_iv: "(48662.303326848::real) \<le> v1 \<and> v1 \<le> (48662.303477697::real)"
    by blast
  from clamped_inputs_V0 obtain v2 where v2_eq: "V0 clamped_inputs = Fin v2"
    and v2_iv: "(680.5845737304::real) \<le> v2 \<and> v2 \<le> (680.5845737306::real)"
    by blast
  from clamped_inputs_KE_out_eff obtain v3 where v3_eq: "KE_out_eff clamped_inputs = Fin v3"
    and v3_iv: "(345754365.43189::real) \<le> v3 \<and> v3 \<le> (345754365.5335525::real)"
    by blast
  from clamped_inputs_KE_in obtain v4 where v4_eq: "KE_in clamped_inputs = Fin v4"
    and v4_iv: "(312656869.3497975::real) \<le> v4 \<and> v4 \<le> (312656869.3500675::real)"
    by blast
  from clamped_inputs_Q_in obtain v5 where v5_eq: "Q_in clamped_inputs = Fin v5"
    and v5_iv: "(197303652.3516::real) \<le> v5 \<and> v5 \<le> (197303652.3538::real)"
    by blast
  have s1: "(0::real) < v5"
    by (rule iv_pos[OF v5_iv]) simp
  have n2: "(33097496.0818225::real) \<le> v3 - v4 \<and> v3 - v4 \<le> (33097496.183755::real)"
    by (rule iv_sub[OF v3_iv v4_iv]) simp_all
  have s3: "(0::real) < (v3 - v4)"
    by (rule iv_pos[OF n2]) simp
  have n4: "(33118812.96644::real) \<le> v1 * v2 \<and> v1 * v2 \<le> (33118813.06912::real)"
    by (rule iv_mul[OF v1_iv v2_iv]) simp_all
  have n5: "(1.00064406028::real) \<le> (v1 * v2) / (v3 - v4) \<and> (v1 * v2) / (v3 - v4) \<le> (1.000644066465::real)"
    by (rule iv_div[OF n4 n2]) simp_all
  have eq: "fst (snd (snd (snd (snd (performance_block clamped_inputs))))) = Fin ((v1 * v2) / (v3 - v4))"
    by (rule propulsiveEfficiency_Fin[OF clamped_inputs_isValid_final v1_eq v2_eq v3_eq v4_eq v5_eq s1 s3])
  from eq n5 show ?thesis
    by blast
qed

subsection \<open>The solver at \<open>drag_inputs\<close>\<close>

lemma drag_inputs_fields:
  "altitude drag_inputs = Fin 0"
  "mach drag_inputs = Fin 2"
  "massFlow drag_inputs = Fin 1350"
  "bypassRatio drag_inputs = Fin 9"
  "overallPressureRatio drag_inputs = Fin 10"
  "fanPressureRatio drag_inputs = Fin 1.65"
  "turbineEntryTemp drag_inputs = Fin 1850"
  "efficiencyFan drag_inputs = Fin 0.92"
  "efficiencyLPC drag_inputs = Fin 0.90"
  "efficiencyHPC drag_inputs = Fin 0.90"
  "efficiencyHPT drag_inputs = Fin 0.92"
  "efficiencyLPT drag_inputs = Fin 0.93"
  "efficiencyBurner drag_inputs = Fin 0.995"
  "pressureRecoveryInlet drag_inputs = Fin 0.98"
  "pressureRecoveryBurner drag_inputs = Fin 0.96"
  "pressureRecoveryNozzle drag_inputs = Fin 0.99"
  "mechEfficiencyHigh drag_inputs = Fin 0.99"
  "mechEfficiencyLow drag_inputs = Fin 0.99"
  "heatingValue drag_inputs = Fin 43.1"
  by (simp_all add: drag_inputs_def)

lemma drag_inputs_T0:
  "\<exists>t. T0 drag_inputs = Fin t \<and> 288.15 \<le> t \<and> t \<le> 288.15"
proof -
  have eq: "T0 drag_inputs = Fin 288.15"
    by (rule sea_level_Fin(1)[OF drag_inputs_fields(1)])
  have iv: "(288.15::real) \<le> 288.15 \<and> 288.15 \<le> (288.15::real)"
    by simp
  from eq iv show ?thesis
    by blast
qed

lemma drag_inputs_P0:
  "\<exists>t. P0 drag_inputs = Fin t \<and> 101325 \<le> t \<and> t \<le> 101325"
proof -
  have eq: "P0 drag_inputs = Fin 101325"
    by (rule sea_level_Fin(2)[OF drag_inputs_fields(1)])
  have iv: "(101325::real) \<le> 101325 \<and> 101325 \<le> (101325::real)"
    by simp
  from eq iv show ?thesis
    by blast
qed

lemma drag_inputs_V0:
  "\<exists>t. V0 drag_inputs = Fin t \<and> 680.5845737304 \<le> t \<and> t \<le> 680.5845737306"
proof -
  have c1: "(2::real) \<le> 2 \<and> 2 \<le> (2::real)"
    by simp
  from drag_inputs_T0 obtain v1 where v1_eq: "T0 drag_inputs = Fin v1"
    and v1_iv: "(288.15::real) \<le> v1 \<and> v1 \<le> (288.15::real)"
    by blast
  have s2: "(0::real) \<le> v1"
    by (rule iv_nonneg[OF v1_iv]) simp
  have c3: "(1.4::real) \<le> 1.4 \<and> 1.4 \<le> (1.4::real)"
    by simp
  have c4: "(287.05::real) \<le> 287.05 \<and> 287.05 \<le> (287.05::real)"
    by simp
  have n5: "(401.87::real) \<le> 1.4 * 287.05 \<and> 1.4 * 287.05 \<le> (401.87::real)"
    by (rule iv_mul[OF c3 c4]) simp_all
  have n6: "(115798.8405::real) \<le> (1.4 * 287.05) * v1 \<and> (1.4 * 287.05) * v1 \<le> (115798.8405::real)"
    by (rule iv_mul[OF n5 v1_iv]) simp_all
  have n7: "(340.2922868652::real) \<le> sqrt ((1.4 * 287.05) * v1) \<and> sqrt ((1.4 * 287.05) * v1) \<le> (340.2922868653::real)"
    by (rule iv_sqrt[OF n6]) (simp_all add: power_divide)
  have n8: "(680.5845737304::real) \<le> 2 * (sqrt ((1.4 * 287.05) * v1)) \<and> 2 * (sqrt ((1.4 * 287.05) * v1)) \<le> (680.5845737306::real)"
    by (rule iv_mul[OF c1 n7]) simp_all
  have eq: "V0 drag_inputs = Fin (2 * (sqrt ((1.4 * 287.05) * v1)))"
    by (rule V0_Fin[OF drag_inputs_fields(2) v1_eq s2])
  from eq n8 show ?thesis
    by blast
qed

lemma drag_inputs_tau_r:
  "\<exists>t. tau_r drag_inputs = Fin t \<and> 1.8 \<le> t \<and> t \<le> 1.8"
proof -
  have c1: "(2::real) \<le> 2 \<and> 2 \<le> (2::real)"
    by simp
  have c2: "(1::real) \<le> 1 \<and> 1 \<le> (1::real)"
    by simp
  have c3: "(1.4::real) \<le> 1.4 \<and> 1.4 \<le> (1.4::real)"
    by simp
  have n4: "(0.4::real) \<le> 1.4 - 1 \<and> 1.4 - 1 \<le> (0.4::real)"
    by (rule iv_sub[OF c3 c2]) simp_all
  have n5: "(0.2::real) \<le> (1.4 - 1) / 2 \<and> (1.4 - 1) / 2 \<le> (0.2::real)"
    by (rule iv_div[OF n4 c1]) simp_all
  have n6: "(0.4::real) \<le> ((1.4 - 1) / 2) * 2 \<and> ((1.4 - 1) / 2) * 2 \<le> (0.4::real)"
    by (rule iv_mul[OF n5 c1]) simp_all
  have n7: "(0.8::real) \<le> (((1.4 - 1) / 2) * 2) * 2 \<and> (((1.4 - 1) / 2) * 2) * 2 \<le> (0.8::real)"
    by (rule iv_mul[OF n6 c1]) simp_all
  have n8: "(1.8::real) \<le> 1 + ((((1.4 - 1) / 2) * 2) * 2) \<and> 1 + ((((1.4 - 1) / 2) * 2) * 2) \<le> (1.8::real)"
    by (rule iv_add[OF c2 n7]) simp_all
  have eq: "tau_r drag_inputs = Fin (1 + ((((1.4 - 1) / 2) * 2) * 2))"
    by (rule tau_r_Fin[OF drag_inputs_fields(2)])
  from eq n8 show ?thesis
    by blast
qed

lemma drag_inputs_pi_r:
  "\<exists>t. pi_r drag_inputs = Fin t \<and> 7.824449066821 \<le> t \<and> t \<le> 7.824449066883"
proof -
  from drag_inputs_tau_r obtain v1 where v1_eq: "tau_r drag_inputs = Fin v1"
    and v1_iv: "(1.8::real) \<le> v1 \<and> v1 \<le> (1.8::real)"
    by blast
  have s1: "(0::real) < v1"
    by (rule iv_pos[OF v1_iv]) simp
  have s2: "(0::real) < v1"
    by (rule iv_pos[OF v1_iv]) simp
  have n3: "(1.341640786499::real) \<le> v1 powr (1 / 2) \<and> v1 powr (1 / 2) \<le> (1.3416407865::real)"
    by (rule iv_root[where n=2, OF v1_iv]) (simp_all add: power_divide)
  have n4: "(1.341640786499::real) \<le> (v1 powr (1 / 2)) ^ 1 \<and> (v1 powr (1 / 2)) ^ 1 \<le> (1.3416407865::real)"
    by (rule iv_pow_one[OF n3])
  have n5: "(1.799999999997::real) \<le> (v1 powr (1 / 2)) ^ 2 \<and> (v1 powr (1 / 2)) ^ 2 \<le> (1.800000000001::real)"
    by (rule iv_pow_sq[OF n4]) (simp_all add: power_divide)
  have n6: "(3.239999999989::real) \<le> (v1 powr (1 / 2)) ^ 4 \<and> (v1 powr (1 / 2)) ^ 4 \<le> (3.240000000004::real)"
    by (rule iv_pow_sq[OF n5]) (simp_all add: power_divide)
  have n7: "(5.83199999997::real) \<le> (v1 powr (1 / 2)) ^ 6 \<and> (v1 powr (1 / 2)) ^ 6 \<le> (5.832000000011::real)"
    by (rule iv_pow_mul[OF n6 n5]) simp_all
  have n8: "(7.824449066821::real) \<le> (v1 powr (1 / 2)) ^ 7 \<and> (v1 powr (1 / 2)) ^ 7 \<le> (7.824449066883::real)"
    by (rule iv_pow_mul[OF n7 n4]) simp_all
  have n9: "(7.824449066821::real) \<le> v1 powr (7 / 2) \<and> v1 powr (7 / 2) \<le> (7.824449066883::real)"
    by (rule powr_via_root[OF n8 s2]) simp_all
  have eq: "pi_r drag_inputs = Fin (v1 powr (7 / 2))"
    by (rule pi_r_Fin[OF v1_eq s1])
  from eq n9 show ?thesis
    by blast
qed

lemma drag_inputs_Tt0:
  "\<exists>t. Tt0 drag_inputs = Fin t \<and> 518.67 \<le> t \<and> t \<le> 518.67"
proof -
  from drag_inputs_T0 obtain v1 where v1_eq: "T0 drag_inputs = Fin v1"
    and v1_iv: "(288.15::real) \<le> v1 \<and> v1 \<le> (288.15::real)"
    by blast
  from drag_inputs_tau_r obtain v2 where v2_eq: "tau_r drag_inputs = Fin v2"
    and v2_iv: "(1.8::real) \<le> v2 \<and> v2 \<le> (1.8::real)"
    by blast
  have n1: "(518.67::real) \<le> v1 * v2 \<and> v1 * v2 \<le> (518.67::real)"
    by (rule iv_mul[OF v1_iv v2_iv]) simp_all
  have eq: "Tt0 drag_inputs = Fin (v1 * v2)"
    by (rule Tt0_Fin[OF v1_eq v2_eq])
  from eq n1 show ?thesis
    by blast
qed

lemma drag_inputs_Pt0:
  "\<exists>t. Pt0 drag_inputs = Fin t \<and> 792812.3016956 \<le> t \<and> t \<le> 792812.301702"
proof -
  from drag_inputs_P0 obtain v1 where v1_eq: "P0 drag_inputs = Fin v1"
    and v1_iv: "(101325::real) \<le> v1 \<and> v1 \<le> (101325::real)"
    by blast
  from drag_inputs_pi_r obtain v2 where v2_eq: "pi_r drag_inputs = Fin v2"
    and v2_iv: "(7.824449066821::real) \<le> v2 \<and> v2 \<le> (7.824449066883::real)"
    by blast
  have n1: "(792812.3016956::real) \<le> v1 * v2 \<and> v1 * v2 \<le> (792812.301702::real)"
    by (rule iv_mul[OF v1_iv v2_iv]) simp_all
  have eq: "Pt0 drag_inputs = Fin (v1 * v2)"
    by (rule Pt0_Fin[OF v1_eq v2_eq])
  from eq n1 show ?thesis
    by blast
qed

lemma drag_inputs_Tt2:
  "\<exists>t. Tt2 drag_inputs = Fin t \<and> 518.67 \<le> t \<and> t \<le> 518.67"
proof -
  from drag_inputs_Tt0 obtain v1 where v1_eq: "Tt0 drag_inputs = Fin v1"
    and v1_iv: "(518.67::real) \<le> v1 \<and> v1 \<le> (518.67::real)"
    by blast
  have eq: "Tt2 drag_inputs = Fin v1"
    by (rule Tt2_Fin[OF v1_eq])
  from eq v1_iv show ?thesis
    by blast
qed

lemma drag_inputs_Pt2:
  "\<exists>t. Pt2 drag_inputs = Fin t \<and> 776956.055661688 \<le> t \<and> t \<le> 776956.05566796"
proof -
  from drag_inputs_Pt0 obtain v1 where v1_eq: "Pt0 drag_inputs = Fin v1"
    and v1_iv: "(792812.3016956::real) \<le> v1 \<and> v1 \<le> (792812.301702::real)"
    by blast
  have c1: "(0.98::real) \<le> 0.98 \<and> 0.98 \<le> (0.98::real)"
    by simp
  have n2: "(776956.055661688::real) \<le> v1 * 0.98 \<and> v1 * 0.98 \<le> (776956.05566796::real)"
    by (rule iv_mul[OF v1_iv c1]) simp_all
  have eq: "Pt2 drag_inputs = Fin (v1 * 0.98)"
    by (rule Pt2_Fin[OF v1_eq drag_inputs_fields(14)])
  from eq n2 show ?thesis
    by blast
qed

lemma drag_inputs_Pt13:
  "\<exists>t. Pt13 drag_inputs = Fin t \<and> 1281977.491841 \<le> t \<and> t \<le> 1281977.491852134"
proof -
  from drag_inputs_Pt2 obtain v1 where v1_eq: "Pt2 drag_inputs = Fin v1"
    and v1_iv: "(776956.055661688::real) \<le> v1 \<and> v1 \<le> (776956.05566796::real)"
    by blast
  have c1: "(1.65::real) \<le> 1.65 \<and> 1.65 \<le> (1.65::real)"
    by simp
  have n2: "(1281977.491841::real) \<le> v1 * 1.65 \<and> v1 * 1.65 \<le> (1281977.491852134::real)"
    by (rule iv_mul[OF v1_iv c1]) simp_all
  have eq: "Pt13 drag_inputs = Fin (v1 * 1.65)"
    by (rule Pt13_Fin[OF v1_eq drag_inputs_fields(6)])
  from eq n2 show ?thesis
    by blast
qed

lemma drag_inputs_Tt13:
  "\<exists>t. Tt13 drag_inputs = Fin t \<and> 605.389679178 \<le> t \<and> t \<le> 605.3896791804"
proof -
  from drag_inputs_Tt2 obtain v1 where v1_eq: "Tt2 drag_inputs = Fin v1"
    and v1_iv: "(518.67::real) \<le> v1 \<and> v1 \<le> (518.67::real)"
    by blast
  have c1: "(1.65::real) \<le> 1.65 \<and> 1.65 \<le> (1.65::real)"
    by simp
  have c2: "(0.92::real) \<le> 0.92 \<and> 0.92 \<le> (0.92::real)"
    by simp
  have s3: "(0::real) < 1.65"
    by (rule iv_pos[OF c1]) simp
  have s4: "(0.92::real) \<noteq> 0"
    by (rule iv_nonzero[OF c2]) simp
  have c5: "(1::real) \<le> 1 \<and> 1 \<le> (1::real)"
    by simp
  have s6: "(0::real) < 1.65"
    by (rule iv_pos[OF c1]) simp
  have n7: "(1.074160393209::real) \<le> 1.65 powr (1 / 7) \<and> 1.65 powr (1 / 7) \<le> (1.07416039321::real)"
    by (rule iv_root[where n=7, OF c1]) (simp_all add: power_divide)
  have n8: "(1.074160393209::real) \<le> (1.65 powr (1 / 7)) ^ 1 \<and> (1.65 powr (1 / 7)) ^ 1 \<le> (1.07416039321::real)"
    by (rule iv_pow_one[OF n7])
  have n9: "(1.153820550338::real) \<le> (1.65 powr (1 / 7)) ^ 2 \<and> (1.65 powr (1 / 7)) ^ 2 \<le> (1.153820550342::real)"
    by (rule iv_pow_sq[OF n8]) (simp_all add: power_divide)
  have n10: "(1.153820550338::real) \<le> 1.65 powr (2 / 7) \<and> 1.65 powr (2 / 7) \<le> (1.153820550342::real)"
    by (rule powr_via_root[OF n9 s6]) simp_all
  have n11: "(0.153820550338::real) \<le> (1.65 powr (2 / 7)) - 1 \<and> (1.65 powr (2 / 7)) - 1 \<le> (0.153820550342::real)"
    by (rule iv_sub[OF n10 c5]) simp_all
  have n12: "(0.1671962503673::real) \<le> ((1.65 powr (2 / 7)) - 1) / 0.92 \<and> ((1.65 powr (2 / 7)) - 1) / 0.92 \<le> (0.1671962503718::real)"
    by (rule iv_div[OF n11 c2]) simp_all
  have n13: "(1.1671962503673::real) \<le> 1 + (((1.65 powr (2 / 7)) - 1) / 0.92) \<and> 1 + (((1.65 powr (2 / 7)) - 1) / 0.92) \<le> (1.1671962503718::real)"
    by (rule iv_add[OF c5 n12]) simp_all
  have n14: "(605.389679178::real) \<le> v1 * (1 + (((1.65 powr (2 / 7)) - 1) / 0.92)) \<and> v1 * (1 + (((1.65 powr (2 / 7)) - 1) / 0.92)) \<le> (605.3896791804::real)"
    by (rule iv_mul[OF v1_iv n13]) simp_all
  have eq: "Tt13 drag_inputs = Fin (v1 * (1 + (((1.65 powr (2 / 7)) - 1) / 0.92)))"
    by (rule Tt13_Fin[OF v1_eq drag_inputs_fields(6) drag_inputs_fields(8) s3 s4])
  from eq n14 show ?thesis
    by blast
qed

lemma drag_inputs_Pt21:
  "\<exists>t. Pt21 drag_inputs = Fin t \<and> 1281977.491841 \<le> t \<and> t \<le> 1281977.491852134"
proof -
  from drag_inputs_Pt13 obtain v1 where v1_eq: "Pt13 drag_inputs = Fin v1"
    and v1_iv: "(1281977.491841::real) \<le> v1 \<and> v1 \<le> (1281977.491852134::real)"
    by blast
  have eq: "Pt21 drag_inputs = Fin v1"
    by (rule Pt21_Fin[OF v1_eq])
  from eq v1_iv show ?thesis
    by blast
qed

lemma drag_inputs_Tt21:
  "\<exists>t. Tt21 drag_inputs = Fin t \<and> 605.389679178 \<le> t \<and> t \<le> 605.3896791804"
proof -
  from drag_inputs_Tt13 obtain v1 where v1_eq: "Tt13 drag_inputs = Fin v1"
    and v1_iv: "(605.389679178::real) \<le> v1 \<and> v1 \<le> (605.3896791804::real)"
    by blast
  have eq: "Tt21 drag_inputs = Fin v1"
    by (rule Tt21_Fin[OF v1_eq])
  from eq v1_iv show ?thesis
    by blast
qed

lemma drag_inputs_pi_ch:
  "\<exists>t. pi_ch drag_inputs = Fin t \<and> 6.060606060606 \<le> t \<and> t \<le> 6.060606060607"
proof -
  have c1: "(10::real) \<le> 10 \<and> 10 \<le> (10::real)"
    by simp
  have c2: "(1.65::real) \<le> 1.65 \<and> 1.65 \<le> (1.65::real)"
    by simp
  have s3: "(1.65::real) \<noteq> 0"
    by (rule iv_nonzero[OF c2]) simp
  have c4: "(1.1::real) \<le> 1.1 \<and> 1.1 \<le> (1.1::real)"
    by simp
  have n5: "(6.060606060606::real) \<le> 10 / 1.65 \<and> 10 / 1.65 \<le> (6.060606060607::real)"
    by (rule iv_div[OF c1 c2]) simp_all
  have n6: "(6.060606060606::real) \<le> max 1.1 (10 / 1.65) \<and> max 1.1 (10 / 1.65) \<le> (6.060606060607::real)"
    by (rule iv_max[OF c4 n5]) simp_all
  have eq: "pi_ch drag_inputs = Fin (max 1.1 (10 / 1.65))"
    by (rule pi_ch_Fin[OF drag_inputs_fields(5) drag_inputs_fields(6) s3])
  from eq n6 show ?thesis
    by blast
qed

lemma drag_inputs_Pt3:
  "\<exists>t. Pt3 drag_inputs = Fin t \<and> 7769560.556612 \<le> t \<and> t \<le> 7769560.556681"
proof -
  from drag_inputs_Pt21 obtain v1 where v1_eq: "Pt21 drag_inputs = Fin v1"
    and v1_iv: "(1281977.491841::real) \<le> v1 \<and> v1 \<le> (1281977.491852134::real)"
    by blast
  from drag_inputs_pi_ch obtain v2 where v2_eq: "pi_ch drag_inputs = Fin v2"
    and v2_iv: "(6.060606060606::real) \<le> v2 \<and> v2 \<le> (6.060606060607::real)"
    by blast
  have n1: "(7769560.556612::real) \<le> v1 * v2 \<and> v1 * v2 \<le> (7769560.556681::real)"
    by (rule iv_mul[OF v1_iv v2_iv]) simp_all
  have eq: "Pt3 drag_inputs = Fin (v1 * v2)"
    by (rule Pt3_Fin[OF v1_eq v2_eq])
  from eq n1 show ?thesis
    by blast
qed

lemma drag_inputs_Tt3:
  "\<exists>t. Tt3 drag_inputs = Fin t \<and> 1058.294139099 \<le> t \<and> t \<le> 1058.294139107"
proof -
  from drag_inputs_Tt21 obtain v1 where v1_eq: "Tt21 drag_inputs = Fin v1"
    and v1_iv: "(605.389679178::real) \<le> v1 \<and> v1 \<le> (605.3896791804::real)"
    by blast
  from drag_inputs_pi_ch obtain v2 where v2_eq: "pi_ch drag_inputs = Fin v2"
    and v2_iv: "(6.060606060606::real) \<le> v2 \<and> v2 \<le> (6.060606060607::real)"
    by blast
  have c1: "(0.9::real) \<le> 0.90 \<and> 0.90 \<le> (0.9::real)"
    by simp
  have s2: "(0::real) < v2"
    by (rule iv_pos[OF v2_iv]) simp
  have s3: "(0.90::real) \<noteq> 0"
    by (rule iv_nonzero[OF c1]) simp
  have c4: "(1::real) \<le> 1 \<and> 1 \<le> (1::real)"
    by simp
  have s5: "(0::real) < v2"
    by (rule iv_pos[OF v2_iv]) simp
  have n6: "(1.293564260195::real) \<le> v2 powr (1 / 7) \<and> v2 powr (1 / 7) \<le> (1.293564260196::real)"
    by (rule iv_root[where n=7, OF v2_iv]) (simp_all add: power_divide)
  have n7: "(1.293564260195::real) \<le> (v2 powr (1 / 7)) ^ 1 \<and> (v2 powr (1 / 7)) ^ 1 \<le> (1.293564260196::real)"
    by (rule iv_pow_one[OF n6])
  have n8: "(1.673308495253::real) \<le> (v2 powr (1 / 7)) ^ 2 \<and> (v2 powr (1 / 7)) ^ 2 \<le> (1.673308495257::real)"
    by (rule iv_pow_sq[OF n7]) (simp_all add: power_divide)
  have n9: "(1.673308495253::real) \<le> v2 powr (2 / 7) \<and> v2 powr (2 / 7) \<le> (1.673308495257::real)"
    by (rule powr_via_root[OF n8 s5]) simp_all
  have n10: "(0.673308495253::real) \<le> (v2 powr (2 / 7)) - 1 \<and> (v2 powr (2 / 7)) - 1 \<le> (0.673308495257::real)"
    by (rule iv_sub[OF n9 c4]) simp_all
  have n11: "(0.7481205502811::real) \<le> ((v2 powr (2 / 7)) - 1) / 0.90 \<and> ((v2 powr (2 / 7)) - 1) / 0.90 \<le> (0.7481205502856::real)"
    by (rule iv_div[OF n10 c1]) simp_all
  have n12: "(1.7481205502811::real) \<le> 1 + (((v2 powr (2 / 7)) - 1) / 0.90) \<and> 1 + (((v2 powr (2 / 7)) - 1) / 0.90) \<le> (1.7481205502856::real)"
    by (rule iv_add[OF c4 n11]) simp_all
  have n13: "(1058.294139099::real) \<le> v1 * (1 + (((v2 powr (2 / 7)) - 1) / 0.90)) \<and> v1 * (1 + (((v2 powr (2 / 7)) - 1) / 0.90)) \<le> (1058.294139107::real)"
    by (rule iv_mul[OF v1_iv n12]) simp_all
  have eq: "Tt3 drag_inputs = Fin (v1 * (1 + (((v2 powr (2 / 7)) - 1) / 0.90)))"
    by (rule Tt3_Fin[OF v1_eq v2_eq drag_inputs_fields(10) s2 s3])
  from eq n13 show ?thesis
    by blast
qed

lemma drag_inputs_Pt4:
  "\<exists>t. Pt4 drag_inputs = Fin t \<and> 7458778.13434752 \<le> t \<and> t \<le> 7458778.13441376"
proof -
  from drag_inputs_Pt3 obtain v1 where v1_eq: "Pt3 drag_inputs = Fin v1"
    and v1_iv: "(7769560.556612::real) \<le> v1 \<and> v1 \<le> (7769560.556681::real)"
    by blast
  have c1: "(0.96::real) \<le> 0.96 \<and> 0.96 \<le> (0.96::real)"
    by simp
  have n2: "(7458778.13434752::real) \<le> v1 * 0.96 \<and> v1 * 0.96 \<le> (7458778.13441376::real)"
    by (rule iv_mul[OF v1_iv c1]) simp_all
  have eq: "Pt4 drag_inputs = Fin (v1 * 0.96)"
    by (rule Pt4_Fin[OF v1_eq drag_inputs_fields(15)])
  from eq n2 show ?thesis
    by blast
qed

lemma drag_inputs_Tt4:
  "\<exists>t. Tt4 drag_inputs = Fin t \<and> 1850 \<le> t \<and> t \<le> 1850"
proof -
  have c1: "(1850::real) \<le> 1850 \<and> 1850 \<le> (1850::real)"
    by simp
  have eq: "Tt4 drag_inputs = Fin 1850"
    by (rule Tt4_Fin[OF drag_inputs_fields(7)])
  from eq c1 show ?thesis
    by blast
qed

lemma drag_inputs_Hu_J:
  "\<exists>t. Hu_J drag_inputs = Fin t \<and> 43100000 \<le> t \<and> t \<le> 43100000"
proof -
  have c1: "(43.1::real) \<le> 43.1 \<and> 43.1 \<le> (43.1::real)"
    by simp
  have c2: "(1000000::real) \<le> 1000000 \<and> 1000000 \<le> (1000000::real)"
    by simp
  have n3: "(43100000::real) \<le> 43.1 * 1000000 \<and> 43.1 * 1000000 \<le> (43100000::real)"
    by (rule iv_mul[OF c1 c2]) simp_all
  have eq: "Hu_J drag_inputs = Fin (43.1 * 1000000)"
    by (rule Hu_J_Fin[OF drag_inputs_fields(19)])
  from eq n3 show ?thesis
    by blast
qed

lemma drag_inputs_numerator:
  "\<exists>t. numerator drag_inputs = Fin t \<and> 1063914.390197465 \<le> t \<and> t \<le> 1063914.390205505"
proof -
  from drag_inputs_Tt4 obtain v1 where v1_eq: "Tt4 drag_inputs = Fin v1"
    and v1_iv: "(1850::real) \<le> v1 \<and> v1 \<le> (1850::real)"
    by blast
  from drag_inputs_Tt3 obtain v2 where v2_eq: "Tt3 drag_inputs = Fin v2"
    and v2_iv: "(1058.294139099::real) \<le> v2 \<and> v2 \<le> (1058.294139107::real)"
    by blast
  have c1: "(1150::real) \<le> 1150 \<and> 1150 \<le> (1150::real)"
    by simp
  have n2: "(2127500::real) \<le> 1150 * v1 \<and> 1150 * v1 \<le> (2127500::real)"
    by (rule iv_mul[OF c1 v1_iv]) simp_all
  have c3: "(1005::real) \<le> 1005 \<and> 1005 \<le> (1005::real)"
    by simp
  have n4: "(1063585.609794495::real) \<le> 1005 * v2 \<and> 1005 * v2 \<le> (1063585.609802535::real)"
    by (rule iv_mul[OF c3 v2_iv]) simp_all
  have n5: "(1063914.390197465::real) \<le> (1150 * v1) - (1005 * v2) \<and> (1150 * v1) - (1005 * v2) \<le> (1063914.390205505::real)"
    by (rule iv_sub[OF n2 n4]) simp_all
  have eq: "numerator drag_inputs = Fin ((1150 * v1) - (1005 * v2))"
    by (rule numerator_Fin[OF v1_eq v2_eq])
  from eq n5 show ?thesis
    by blast
qed

lemma drag_inputs_denominator:
  "\<exists>t. denominator drag_inputs = Fin t \<and> 40757000 \<le> t \<and> t \<le> 40757000"
proof -
  have c1: "(0.995::real) \<le> 0.995 \<and> 0.995 \<le> (0.995::real)"
    by simp
  from drag_inputs_Hu_J obtain v1 where v1_eq: "Hu_J drag_inputs = Fin v1"
    and v1_iv: "(43100000::real) \<le> v1 \<and> v1 \<le> (43100000::real)"
    by blast
  from drag_inputs_Tt4 obtain v2 where v2_eq: "Tt4 drag_inputs = Fin v2"
    and v2_iv: "(1850::real) \<le> v2 \<and> v2 \<le> (1850::real)"
    by blast
  have n2: "(42884500::real) \<le> 0.995 * v1 \<and> 0.995 * v1 \<le> (42884500::real)"
    by (rule iv_mul[OF c1 v1_iv]) simp_all
  have c3: "(1150::real) \<le> 1150 \<and> 1150 \<le> (1150::real)"
    by simp
  have n4: "(2127500::real) \<le> 1150 * v2 \<and> 1150 * v2 \<le> (2127500::real)"
    by (rule iv_mul[OF c3 v2_iv]) simp_all
  have n5: "(40757000::real) \<le> (0.995 * v1) - (1150 * v2) \<and> (0.995 * v1) - (1150 * v2) \<le> (40757000::real)"
    by (rule iv_sub[OF n2 n4]) simp_all
  have eq: "denominator drag_inputs = Fin ((0.995 * v1) - (1150 * v2))"
    by (rule denominator_Fin[OF drag_inputs_fields(13) v1_eq v2_eq])
  from eq n5 show ?thesis
    by blast
qed

lemma drag_inputs_f:
  "\<exists>t. f drag_inputs = Fin t \<and> 0.02610384449781 \<le> t \<and> t \<le> 0.02610384449802"
proof -
  from drag_inputs_numerator obtain v1 where v1_eq: "numerator drag_inputs = Fin v1"
    and v1_iv: "(1063914.390197465::real) \<le> v1 \<and> v1 \<le> (1063914.390205505::real)"
    by blast
  from drag_inputs_denominator obtain v2 where v2_eq: "denominator drag_inputs = Fin v2"
    and v2_iv: "(40757000::real) \<le> v2 \<and> v2 \<le> (40757000::real)"
    by blast
  have s1: "(v2::real) \<noteq> 0"
    by (rule iv_nonzero[OF v2_iv]) simp
  have c2: "(0::real) \<le> 0 \<and> 0 \<le> (0::real)"
    by simp
  have n3: "(0.02610384449781::real) \<le> v1 / v2 \<and> v1 / v2 \<le> (0.02610384449802::real)"
    by (rule iv_div[OF v1_iv v2_iv]) simp_all
  have n4: "(0.02610384449781::real) \<le> max 0 (v1 / v2) \<and> max 0 (v1 / v2) \<le> (0.02610384449802::real)"
    by (rule iv_max[OF c2 n3]) simp_all
  have eq: "f drag_inputs = Fin (max 0 (v1 / v2))"
    by (rule f_Fin[OF v1_eq v2_eq s1])
  from eq n4 show ?thesis
    by blast
qed

lemma drag_inputs_work_req_HPC:
  "\<exists>t. work_req_HPC drag_inputs = Fin t \<and> 455168.982218193 \<le> t \<and> t \<le> 455168.982228645"
proof -
  from drag_inputs_Tt3 obtain v1 where v1_eq: "Tt3 drag_inputs = Fin v1"
    and v1_iv: "(1058.294139099::real) \<le> v1 \<and> v1 \<le> (1058.294139107::real)"
    by blast
  from drag_inputs_Tt21 obtain v2 where v2_eq: "Tt21 drag_inputs = Fin v2"
    and v2_iv: "(605.389679178::real) \<le> v2 \<and> v2 \<le> (605.3896791804::real)"
    by blast
  have c1: "(1005::real) \<le> 1005 \<and> 1005 \<le> (1005::real)"
    by simp
  have n2: "(452.9044599186::real) \<le> v1 - v2 \<and> v1 - v2 \<le> (452.904459929::real)"
    by (rule iv_sub[OF v1_iv v2_iv]) simp_all
  have n3: "(455168.982218193::real) \<le> 1005 * (v1 - v2) \<and> 1005 * (v1 - v2) \<le> (455168.982228645::real)"
    by (rule iv_mul[OF c1 n2]) simp_all
  have eq: "work_req_HPC drag_inputs = Fin (1005 * (v1 - v2))"
    by (rule work_req_HPC_Fin[OF v1_eq v2_eq])
  from eq n3 show ?thesis
    by blast
qed

lemma drag_inputs_work_avail_HPT:
  "\<exists>t. work_avail_HPT drag_inputs = Fin t \<and> 459766.6487052 \<le> t \<and> t \<le> 459766.6487159"
proof -
  from drag_inputs_work_req_HPC obtain v1 where v1_eq: "work_req_HPC drag_inputs = Fin v1"
    and v1_iv: "(455168.982218193::real) \<le> v1 \<and> v1 \<le> (455168.982228645::real)"
    by blast
  have c1: "(0.99::real) \<le> 0.99 \<and> 0.99 \<le> (0.99::real)"
    by simp
  have s2: "(0.99::real) \<noteq> 0"
    by (rule iv_nonzero[OF c1]) simp
  have n3: "(459766.6487052::real) \<le> v1 / 0.99 \<and> v1 / 0.99 \<le> (459766.6487159::real)"
    by (rule iv_div[OF v1_iv c1]) simp_all
  have eq: "work_avail_HPT drag_inputs = Fin (v1 / 0.99)"
    by (rule work_avail_HPT_Fin[OF v1_eq drag_inputs_fields(17) s2])
  from eq n3 show ?thesis
    by blast
qed

lemma drag_inputs_deltaT_HPT:
  "\<exists>t. deltaT_HPT drag_inputs = Fin t \<and> 389.6263404277 \<le> t \<and> t \<le> 389.6263404371"
proof -
  from drag_inputs_work_avail_HPT obtain v1 where v1_eq: "work_avail_HPT drag_inputs = Fin v1"
    and v1_iv: "(459766.6487052::real) \<le> v1 \<and> v1 \<le> (459766.6487159::real)"
    by blast
  from drag_inputs_f obtain v2 where v2_eq: "f drag_inputs = Fin v2"
    and v2_iv: "(0.02610384449781::real) \<le> v2 \<and> v2 \<le> (0.02610384449802::real)"
    by blast
  have c1: "(1::real) \<le> 1 \<and> 1 \<le> (1::real)"
    by simp
  have n2: "(1.02610384449781::real) \<le> 1 + v2 \<and> 1 + v2 \<le> (1.02610384449802::real)"
    by (rule iv_add[OF c1 v2_iv]) simp_all
  have c3: "(1150::real) \<le> 1150 \<and> 1150 \<le> (1150::real)"
    by simp
  have n4: "(1180.019421172::real) \<le> (1 + v2) * 1150 \<and> (1 + v2) * 1150 \<le> (1180.019421172723::real)"
    by (rule iv_mul[OF n2 c3]) simp_all
  have s5: "((1 + v2) * 1150::real) \<noteq> 0"
    by (rule iv_nonzero[OF n4]) simp
  have n6: "(389.6263404277::real) \<le> v1 / ((1 + v2) * 1150) \<and> v1 / ((1 + v2) * 1150) \<le> (389.6263404371::real)"
    by (rule iv_div[OF v1_iv n4]) simp_all
  have eq: "deltaT_HPT drag_inputs = Fin (v1 / ((1 + v2) * 1150))"
    by (rule deltaT_HPT_Fin[OF v1_eq v2_eq s5])
  from eq n6 show ?thesis
    by blast
qed

lemma drag_inputs_Tt45:
  "\<exists>t. Tt45 drag_inputs = Fin t \<and> 1460.3736595629 \<le> t \<and> t \<le> 1460.3736595723"
proof -
  from drag_inputs_Tt4 obtain v1 where v1_eq: "Tt4 drag_inputs = Fin v1"
    and v1_iv: "(1850::real) \<le> v1 \<and> v1 \<le> (1850::real)"
    by blast
  from drag_inputs_deltaT_HPT obtain v2 where v2_eq: "deltaT_HPT drag_inputs = Fin v2"
    and v2_iv: "(389.6263404277::real) \<le> v2 \<and> v2 \<le> (389.6263404371::real)"
    by blast
  have n1: "(1460.3736595629::real) \<le> v1 - v2 \<and> v1 - v2 \<le> (1460.3736595723::real)"
    by (rule iv_sub[OF v1_iv v2_iv]) simp_all
  have eq: "Tt45 drag_inputs = Fin (v1 - v2)"
    by (rule Tt45_Fin[OF v1_eq v2_eq])
  from eq n1 show ?thesis
    by blast
qed

lemma drag_inputs_temp_ratio_HPT:
  "\<exists>t. temp_ratio_HPT drag_inputs = Fin t \<and> 0.7893911673312 \<le> t \<and> t \<le> 0.7893911673364"
proof -
  from drag_inputs_Tt45 obtain v1 where v1_eq: "Tt45 drag_inputs = Fin v1"
    and v1_iv: "(1460.3736595629::real) \<le> v1 \<and> v1 \<le> (1460.3736595723::real)"
    by blast
  from drag_inputs_Tt4 obtain v2 where v2_eq: "Tt4 drag_inputs = Fin v2"
    and v2_iv: "(1850::real) \<le> v2 \<and> v2 \<le> (1850::real)"
    by blast
  have s1: "(v2::real) \<noteq> 0"
    by (rule iv_nonzero[OF v2_iv]) simp
  have n2: "(0.7893911673312::real) \<le> v1 / v2 \<and> v1 / v2 \<le> (0.7893911673364::real)"
    by (rule iv_div[OF v1_iv v2_iv]) simp_all
  have eq: "temp_ratio_HPT drag_inputs = Fin (v1 / v2)"
    by (rule temp_ratio_HPT_Fin[OF v1_eq v2_eq s1])
  from eq n2 show ?thesis
    by blast
qed

lemma drag_inputs_pressure_term_HPT:
  "\<exists>t. pressure_term_HPT drag_inputs = Fin t \<and> 0.2289226441995 \<le> t \<and> t \<le> 0.2289226442053"
proof -
  from drag_inputs_temp_ratio_HPT obtain v1 where v1_eq: "temp_ratio_HPT drag_inputs = Fin v1"
    and v1_iv: "(0.7893911673312::real) \<le> v1 \<and> v1 \<le> (0.7893911673364::real)"
    by blast
  have c1: "(0.92::real) \<le> 0.92 \<and> 0.92 \<le> (0.92::real)"
    by simp
  have s2: "(0.92::real) \<noteq> 0"
    by (rule iv_nonzero[OF c1]) simp
  have c3: "(1::real) \<le> 1 \<and> 1 \<le> (1::real)"
    by simp
  have n4: "(0.2106088326636::real) \<le> 1 - v1 \<and> 1 - v1 \<le> (0.2106088326688::real)"
    by (rule iv_sub[OF c3 v1_iv]) simp_all
  have n5: "(0.2289226441995::real) \<le> (1 - v1) / 0.92 \<and> (1 - v1) / 0.92 \<le> (0.2289226442053::real)"
    by (rule iv_div[OF n4 c1]) simp_all
  have eq: "pressure_term_HPT drag_inputs = Fin ((1 - v1) / 0.92)"
    by (rule pressure_term_HPT_Fin[OF v1_eq drag_inputs_fields(11) s2])
  from eq n5 show ?thesis
    by blast
qed

lemma drag_inputs_pi_HPT:
  "\<exists>t. pi_HPT drag_inputs = Fin t \<and> 2.851211779289 \<le> t \<and> t \<le> 2.851211780386"
proof -
  from drag_inputs_pressure_term_HPT obtain v1 where v1_eq: "pressure_term_HPT drag_inputs = Fin v1"
    and v1_iv: "(0.2289226441995::real) \<le> v1 \<and> v1 \<le> (0.2289226442053::real)"
    by blast
  have c1: "(1::real) \<le> 1 \<and> 1 \<le> (1::real)"
    by simp
  have s2: "(v1::real) < 1"
    by (rule iv_less[OF v1_iv c1]) simp
  have n3: "(0.7710773557947::real) \<le> 1 - v1 \<and> 1 - v1 \<le> (0.7710773558005::real)"
    by (rule iv_sub[OF c1 v1_iv]) simp_all
  have n4: "(1.296886742267::real) \<le> 1 / (1 - v1) \<and> 1 / (1 - v1) \<le> (1.296886742277::real)"
    by (rule iv_div[OF c1 n3]) simp_all
  have s5: "(0::real) < (1 / (1 - v1))"
    by (rule iv_pos[OF n4]) simp
  have n6: "(1.090520959137::real) \<le> (1 / (1 - v1)) powr (1 / 3) \<and> (1 / (1 - v1)) powr (1 / 3) \<le> (1.090520959141::real)"
    by (rule iv_root[where n=3, OF n4]) (simp_all add: power_divide)
  have n7: "(1.007908886423::real) \<le> ((1 / (1 - v1)) powr (1 / 3)) powr (1 / 11) \<and> ((1 / (1 - v1)) powr (1 / 3)) powr (1 / 11) \<le> (1.007908886425::real)"
    by (rule iv_root[where n=11, OF n6]) (simp_all add: power_divide)
  have n8: "(1.007908886423::real) \<le> (((1 / (1 - v1)) powr (1 / 3)) powr (1 / 11)) ^ 1 \<and> (((1 / (1 - v1)) powr (1 / 3)) powr (1 / 11)) ^ 1 \<le> (1.007908886425::real)"
    by (rule iv_pow_one[OF n7])
  have n9: "(1.01588032333::real) \<le> (((1 / (1 - v1)) powr (1 / 3)) powr (1 / 11)) ^ 2 \<and> (((1 / (1 - v1)) powr (1 / 3)) powr (1 / 11)) ^ 2 \<le> (1.015880323335::real)"
    by (rule iv_pow_sq[OF n8]) (simp_all add: power_divide)
  have n10: "(1.032012831329::real) \<le> (((1 / (1 - v1)) powr (1 / 3)) powr (1 / 11)) ^ 4 \<and> (((1 / (1 - v1)) powr (1 / 3)) powr (1 / 11)) ^ 4 \<le> (1.03201283134::real)"
    by (rule iv_pow_sq[OF n9]) (simp_all add: power_divide)
  have n11: "(1.065050484027::real) \<le> (((1 / (1 - v1)) powr (1 / 3)) powr (1 / 11)) ^ 8 \<and> (((1 / (1 - v1)) powr (1 / 3)) powr (1 / 11)) ^ 8 \<le> (1.065050484051::real)"
    by (rule iv_pow_sq[OF n10]) (simp_all add: power_divide)
  have n12: "(1.134332533526::real) \<le> (((1 / (1 - v1)) powr (1 / 3)) powr (1 / 11)) ^ 16 \<and> (((1 / (1 - v1)) powr (1 / 3)) powr (1 / 11)) ^ 16 \<le> (1.134332533578::real)"
    by (rule iv_pow_sq[OF n11]) (simp_all add: power_divide)
  have n13: "(1.286710296615::real) \<le> (((1 / (1 - v1)) powr (1 / 3)) powr (1 / 11)) ^ 32 \<and> (((1 / (1 - v1)) powr (1 / 3)) powr (1 / 11)) ^ 32 \<le> (1.286710296734::real)"
    by (rule iv_pow_sq[OF n12]) (simp_all add: power_divide)
  have n14: "(1.655623387415::real) \<le> (((1 / (1 - v1)) powr (1 / 3)) powr (1 / 11)) ^ 64 \<and> (((1 / (1 - v1)) powr (1 / 3)) powr (1 / 11)) ^ 64 \<le> (1.655623387722::real)"
    by (rule iv_pow_sq[OF n13]) (simp_all add: power_divide)
  have n15: "(2.741088800955::real) \<le> (((1 / (1 - v1)) powr (1 / 3)) powr (1 / 11)) ^ 128 \<and> (((1 / (1 - v1)) powr (1 / 3)) powr (1 / 11)) ^ 128 \<le> (2.741088801973::real)"
    by (rule iv_pow_sq[OF n14]) (simp_all add: power_divide)
  have n16: "(2.828838814397::real) \<le> (((1 / (1 - v1)) powr (1 / 3)) powr (1 / 11)) ^ 132 \<and> (((1 / (1 - v1)) powr (1 / 3)) powr (1 / 11)) ^ 132 \<le> (2.828838815479::real)"
    by (rule iv_pow_mul[OF n15 n10]) simp_all
  have n17: "(2.851211779289::real) \<le> (((1 / (1 - v1)) powr (1 / 3)) powr (1 / 11)) ^ 133 \<and> (((1 / (1 - v1)) powr (1 / 3)) powr (1 / 11)) ^ 133 \<le> (2.851211780386::real)"
    by (rule iv_pow_mul[OF n16 n8]) simp_all
  have n18: "(2.851211779289::real) \<le> (1 / (1 - v1)) powr (133 / 33) \<and> (1 / (1 - v1)) powr (133 / 33) \<le> (2.851211780386::real)"
    by (rule powr_via_roots[OF n17 s5]) simp_all
  have eq: "pi_HPT drag_inputs = Fin ((1 / (1 - v1)) powr (133 / 33))"
    by (rule pi_HPT_Fin[OF v1_eq s2])
  from eq n18 show ?thesis
    by blast
qed

lemma drag_inputs_Pt45:
  "\<exists>t. Pt45 drag_inputs = Fin t \<and> 2616002.846809 \<le> t \<and> t \<le> 2616002.84784"
proof -
  from drag_inputs_Tt45 obtain v1 where v1_eq: "Tt45 drag_inputs = Fin v1"
    and v1_iv: "(1460.3736595629::real) \<le> v1 \<and> v1 \<le> (1460.3736595723::real)"
    by blast
  from drag_inputs_Tt3 obtain v2 where v2_eq: "Tt3 drag_inputs = Fin v2"
    and v2_iv: "(1058.294139099::real) \<le> v2 \<and> v2 \<le> (1058.294139107::real)"
    by blast
  from drag_inputs_temp_ratio_HPT obtain v3 where v3_eq: "temp_ratio_HPT drag_inputs = Fin v3"
    and v3_iv: "(0.7893911673312::real) \<le> v3 \<and> v3 \<le> (0.7893911673364::real)"
    by blast
  from drag_inputs_pressure_term_HPT obtain v4 where v4_eq: "pressure_term_HPT drag_inputs = Fin v4"
    and v4_iv: "(0.2289226441995::real) \<le> v4 \<and> v4 \<le> (0.2289226442053::real)"
    by blast
  from drag_inputs_Pt4 obtain v5 where v5_eq: "Pt4 drag_inputs = Fin v5"
    and v5_iv: "(7458778.13434752::real) \<le> v5 \<and> v5 \<le> (7458778.13441376::real)"
    by blast
  from drag_inputs_pi_HPT obtain v6 where v6_eq: "pi_HPT drag_inputs = Fin v6"
    and v6_iv: "(2.851211779289::real) \<le> v6 \<and> v6 \<le> (2.851211780386::real)"
    by blast
  have c1: "(1::real) \<le> 1 \<and> 1 \<le> (1::real)"
    by simp
  have s2: "(v2::real) \<le> v1"
    by (rule iv_le[OF v2_iv v1_iv]) simp
  have s3: "(0::real) < v3"
    by (rule iv_pos[OF v3_iv]) simp
  have s4: "(v3::real) < 1"
    by (rule iv_less[OF v3_iv c1]) simp
  have s5: "(v4::real) < 1"
    by (rule iv_less[OF v4_iv c1]) simp
  have s6: "(v6::real) \<noteq> 0"
    by (rule iv_nonzero[OF v6_iv]) simp
  have n7: "(2616002.846809::real) \<le> v5 / v6 \<and> v5 / v6 \<le> (2616002.84784::real)"
    by (rule iv_div[OF v5_iv v6_iv]) simp_all
  have eq: "Pt45 drag_inputs = Fin (v5 / v6)"
    by (rule hpt_block_Fin(1)[OF v1_eq v2_eq v3_eq v4_eq v5_eq v6_eq s2 s3 s4 s5 s6])
  from eq n7 show ?thesis
    by blast
qed

lemma drag_inputs_isValid_HPT:
  "isValid_HPT drag_inputs"
proof -
  from drag_inputs_Tt45 obtain v1 where v1_eq: "Tt45 drag_inputs = Fin v1"
    and v1_iv: "(1460.3736595629::real) \<le> v1 \<and> v1 \<le> (1460.3736595723::real)"
    by blast
  from drag_inputs_Tt3 obtain v2 where v2_eq: "Tt3 drag_inputs = Fin v2"
    and v2_iv: "(1058.294139099::real) \<le> v2 \<and> v2 \<le> (1058.294139107::real)"
    by blast
  from drag_inputs_temp_ratio_HPT obtain v3 where v3_eq: "temp_ratio_HPT drag_inputs = Fin v3"
    and v3_iv: "(0.7893911673312::real) \<le> v3 \<and> v3 \<le> (0.7893911673364::real)"
    by blast
  from drag_inputs_pressure_term_HPT obtain v4 where v4_eq: "pressure_term_HPT drag_inputs = Fin v4"
    and v4_iv: "(0.2289226441995::real) \<le> v4 \<and> v4 \<le> (0.2289226442053::real)"
    by blast
  from drag_inputs_Pt4 obtain v5 where v5_eq: "Pt4 drag_inputs = Fin v5"
    and v5_iv: "(7458778.13434752::real) \<le> v5 \<and> v5 \<le> (7458778.13441376::real)"
    by blast
  from drag_inputs_pi_HPT obtain v6 where v6_eq: "pi_HPT drag_inputs = Fin v6"
    and v6_iv: "(2.851211779289::real) \<le> v6 \<and> v6 \<le> (2.851211780386::real)"
    by blast
  have c1: "(1::real) \<le> 1 \<and> 1 \<le> (1::real)"
    by simp
  have s2: "(v2::real) \<le> v1"
    by (rule iv_le[OF v2_iv v1_iv]) simp
  have s3: "(0::real) < v3"
    by (rule iv_pos[OF v3_iv]) simp
  have s4: "(v3::real) < 1"
    by (rule iv_less[OF v3_iv c1]) simp
  have s5: "(v4::real) < 1"
    by (rule iv_less[OF v4_iv c1]) simp
  have s6: "(v6::real) \<noteq> 0"
    by (rule iv_nonzero[OF v6_iv]) simp
  show ?thesis
    by (rule hpt_block_Fin(2)[OF v1_eq v2_eq v3_eq v4_eq v5_eq v6_eq s2 s3 s4 s5 s6])
qed

lemma drag_inputs_work_req_Fan:
  "\<exists>t. work_req_Fan drag_inputs = Fin t \<and> 871532.7757389 \<le> t \<and> t \<le> 871532.77576302"
proof -
  have c1: "(9::real) \<le> 9 \<and> 9 \<le> (9::real)"
    by simp
  from drag_inputs_Tt13 obtain v1 where v1_eq: "Tt13 drag_inputs = Fin v1"
    and v1_iv: "(605.389679178::real) \<le> v1 \<and> v1 \<le> (605.3896791804::real)"
    by blast
  from drag_inputs_Tt2 obtain v2 where v2_eq: "Tt2 drag_inputs = Fin v2"
    and v2_iv: "(518.67::real) \<le> v2 \<and> v2 \<le> (518.67::real)"
    by blast
  have c2: "(1::real) \<le> 1 \<and> 1 \<le> (1::real)"
    by simp
  have n3: "(10::real) \<le> 1 + 9 \<and> 1 + 9 \<le> (10::real)"
    by (rule iv_add[OF c2 c1]) simp_all
  have c4: "(1005::real) \<le> 1005 \<and> 1005 \<le> (1005::real)"
    by simp
  have n5: "(10050::real) \<le> (1 + 9) * 1005 \<and> (1 + 9) * 1005 \<le> (10050::real)"
    by (rule iv_mul[OF n3 c4]) simp_all
  have n6: "(86.719679178::real) \<le> v1 - v2 \<and> v1 - v2 \<le> (86.7196791804::real)"
    by (rule iv_sub[OF v1_iv v2_iv]) simp_all
  have n7: "(871532.7757389::real) \<le> ((1 + 9) * 1005) * (v1 - v2) \<and> ((1 + 9) * 1005) * (v1 - v2) \<le> (871532.77576302::real)"
    by (rule iv_mul[OF n5 n6]) simp_all
  have eq: "work_req_Fan drag_inputs = Fin (((1 + 9) * 1005) * (v1 - v2))"
    by (rule work_req_Fan_Fin[OF drag_inputs_fields(4) v1_eq v2_eq])
  from eq n7 show ?thesis
    by blast
qed

lemma drag_inputs_work_extraction_LPT:
  "\<exists>t. work_extraction_LPT drag_inputs = Fin t \<and> 880336.13711 \<le> t \<and> t \<le> 880336.1371344"
proof -
  from drag_inputs_work_req_Fan obtain v1 where v1_eq: "work_req_Fan drag_inputs = Fin v1"
    and v1_iv: "(871532.7757389::real) \<le> v1 \<and> v1 \<le> (871532.77576302::real)"
    by blast
  have c1: "(0.99::real) \<le> 0.99 \<and> 0.99 \<le> (0.99::real)"
    by simp
  have s2: "(0.99::real) \<noteq> 0"
    by (rule iv_nonzero[OF c1]) simp
  have n3: "(880336.13711::real) \<le> v1 / 0.99 \<and> v1 / 0.99 \<le> (880336.1371344::real)"
    by (rule iv_div[OF v1_iv c1]) simp_all
  have eq: "work_extraction_LPT drag_inputs = Fin (v1 / 0.99)"
    by (rule work_extraction_LPT_Fin[OF v1_eq drag_inputs_fields(18) s2])
  from eq n3 show ?thesis
    by blast
qed

lemma drag_inputs_deltaT_LPT:
  "\<exists>t. deltaT_LPT drag_inputs = Fin t \<and> 746.0352951098 \<le> t \<and> t \<le> 746.0352951311"
proof -
  from drag_inputs_work_extraction_LPT obtain v1 where v1_eq: "work_extraction_LPT drag_inputs = Fin v1"
    and v1_iv: "(880336.13711::real) \<le> v1 \<and> v1 \<le> (880336.1371344::real)"
    by blast
  from drag_inputs_f obtain v2 where v2_eq: "f drag_inputs = Fin v2"
    and v2_iv: "(0.02610384449781::real) \<le> v2 \<and> v2 \<le> (0.02610384449802::real)"
    by blast
  have c1: "(1::real) \<le> 1 \<and> 1 \<le> (1::real)"
    by simp
  have n2: "(1.02610384449781::real) \<le> 1 + v2 \<and> 1 + v2 \<le> (1.02610384449802::real)"
    by (rule iv_add[OF c1 v2_iv]) simp_all
  have c3: "(1150::real) \<le> 1150 \<and> 1150 \<le> (1150::real)"
    by simp
  have n4: "(1180.019421172::real) \<le> (1 + v2) * 1150 \<and> (1 + v2) * 1150 \<le> (1180.019421172723::real)"
    by (rule iv_mul[OF n2 c3]) simp_all
  have s5: "((1 + v2) * 1150::real) \<noteq> 0"
    by (rule iv_nonzero[OF n4]) simp
  have n6: "(746.0352951098::real) \<le> v1 / ((1 + v2) * 1150) \<and> v1 / ((1 + v2) * 1150) \<le> (746.0352951311::real)"
    by (rule iv_div[OF v1_iv n4]) simp_all
  have eq: "deltaT_LPT drag_inputs = Fin (v1 / ((1 + v2) * 1150))"
    by (rule deltaT_LPT_Fin[OF v1_eq v2_eq s5])
  from eq n6 show ?thesis
    by blast
qed

lemma drag_inputs_Tt5:
  "\<exists>t. Tt5 drag_inputs = Fin t \<and> 714.3383644318 \<le> t \<and> t \<le> 714.3383644625"
proof -
  from drag_inputs_Tt45 obtain v1 where v1_eq: "Tt45 drag_inputs = Fin v1"
    and v1_iv: "(1460.3736595629::real) \<le> v1 \<and> v1 \<le> (1460.3736595723::real)"
    by blast
  from drag_inputs_deltaT_LPT obtain v2 where v2_eq: "deltaT_LPT drag_inputs = Fin v2"
    and v2_iv: "(746.0352951098::real) \<le> v2 \<and> v2 \<le> (746.0352951311::real)"
    by blast
  have n1: "(714.3383644318::real) \<le> v1 - v2 \<and> v1 - v2 \<le> (714.3383644625::real)"
    by (rule iv_sub[OF v1_iv v2_iv]) simp_all
  have eq: "Tt5 drag_inputs = Fin (v1 - v2)"
    by (rule Tt5_Fin[OF v1_eq v2_eq])
  from eq n1 show ?thesis
    by blast
qed

lemma drag_inputs_temp_ratio_LPT:
  "\<exists>t. temp_ratio_LPT drag_inputs = Fin t \<and> 0.489147664195 \<le> t \<and> t \<le> 0.4891476642193"
proof -
  from drag_inputs_Tt5 obtain v1 where v1_eq: "Tt5 drag_inputs = Fin v1"
    and v1_iv: "(714.3383644318::real) \<le> v1 \<and> v1 \<le> (714.3383644625::real)"
    by blast
  from drag_inputs_Tt45 obtain v2 where v2_eq: "Tt45 drag_inputs = Fin v2"
    and v2_iv: "(1460.3736595629::real) \<le> v2 \<and> v2 \<le> (1460.3736595723::real)"
    by blast
  have s1: "(v2::real) \<noteq> 0"
    by (rule iv_nonzero[OF v2_iv]) simp
  have n2: "(0.489147664195::real) \<le> v1 / v2 \<and> v1 / v2 \<le> (0.4891476642193::real)"
    by (rule iv_div[OF v1_iv v2_iv]) simp_all
  have eq: "temp_ratio_LPT drag_inputs = Fin (v1 / v2)"
    by (rule temp_ratio_LPT_Fin[OF v1_eq v2_eq s1])
  from eq n2 show ?thesis
    by blast
qed

lemma drag_inputs_pressure_term_LPT:
  "\<exists>t. pressure_term_LPT drag_inputs = Fin t \<and> 0.5493035868609 \<le> t \<and> t \<le> 0.5493035868871"
proof -
  from drag_inputs_temp_ratio_LPT obtain v1 where v1_eq: "temp_ratio_LPT drag_inputs = Fin v1"
    and v1_iv: "(0.489147664195::real) \<le> v1 \<and> v1 \<le> (0.4891476642193::real)"
    by blast
  have c1: "(0.93::real) \<le> 0.93 \<and> 0.93 \<le> (0.93::real)"
    by simp
  have s2: "(0.93::real) \<noteq> 0"
    by (rule iv_nonzero[OF c1]) simp
  have c3: "(1::real) \<le> 1 \<and> 1 \<le> (1::real)"
    by simp
  have n4: "(0.5108523357807::real) \<le> 1 - v1 \<and> 1 - v1 \<le> (0.510852335805::real)"
    by (rule iv_sub[OF c3 v1_iv]) simp_all
  have n5: "(0.5493035868609::real) \<le> (1 - v1) / 0.93 \<and> (1 - v1) / 0.93 \<le> (0.5493035868871::real)"
    by (rule iv_div[OF n4 c1]) simp_all
  have eq: "pressure_term_LPT drag_inputs = Fin ((1 - v1) / 0.93)"
    by (rule pressure_term_LPT_Fin[OF v1_eq drag_inputs_fields(12) s2])
  from eq n5 show ?thesis
    by blast
qed

lemma drag_inputs_pi_LPT:
  "\<exists>t. pi_LPT drag_inputs = Fin t \<and> 24.82858408234 \<le> t \<and> t \<le> 24.82858409475"
proof -
  from drag_inputs_pressure_term_LPT obtain v1 where v1_eq: "pressure_term_LPT drag_inputs = Fin v1"
    and v1_iv: "(0.5493035868609::real) \<le> v1 \<and> v1 \<le> (0.5493035868871::real)"
    by blast
  have c1: "(1::real) \<le> 1 \<and> 1 \<le> (1::real)"
    by simp
  have s2: "(v1::real) < 1"
    by (rule iv_less[OF v1_iv c1]) simp
  have n3: "(0.4506964131129::real) \<le> 1 - v1 \<and> 1 - v1 \<le> (0.4506964131391::real)"
    by (rule iv_sub[OF c1 v1_iv]) simp_all
  have n4: "(2.218788459031::real) \<le> 1 / (1 - v1) \<and> 1 / (1 - v1) \<le> (2.218788459161::real)"
    by (rule iv_div[OF c1 n3]) simp_all
  have s5: "(0::real) < (1 / (1 - v1))"
    by (rule iv_pos[OF n4]) simp
  have n6: "(1.304283397478::real) \<le> (1 / (1 - v1)) powr (1 / 3) \<and> (1 / (1 - v1)) powr (1 / 3) \<le> (1.304283397504::real)"
    by (rule iv_root[where n=3, OF n4]) (simp_all add: power_divide)
  have n7: "(1.024444323996::real) \<le> ((1 / (1 - v1)) powr (1 / 3)) powr (1 / 11) \<and> ((1 / (1 - v1)) powr (1 / 3)) powr (1 / 11) \<le> (1.024444323999::real)"
    by (rule iv_root[where n=11, OF n6]) (simp_all add: power_divide)
  have n8: "(1.024444323996::real) \<le> (((1 / (1 - v1)) powr (1 / 3)) powr (1 / 11)) ^ 1 \<and> (((1 / (1 - v1)) powr (1 / 3)) powr (1 / 11)) ^ 1 \<le> (1.024444323999::real)"
    by (rule iv_pow_one[OF n7])
  have n9: "(1.049486172967::real) \<le> (((1 / (1 - v1)) powr (1 / 3)) powr (1 / 11)) ^ 2 \<and> (((1 / (1 - v1)) powr (1 / 3)) powr (1 / 11)) ^ 2 \<le> (1.049486172974::real)"
    by (rule iv_pow_sq[OF n8]) (simp_all add: power_divide)
  have n10: "(1.101421227248::real) \<le> (((1 / (1 - v1)) powr (1 / 3)) powr (1 / 11)) ^ 4 \<and> (((1 / (1 - v1)) powr (1 / 3)) powr (1 / 11)) ^ 4 \<le> (1.101421227264::real)"
    by (rule iv_pow_sq[OF n9]) (simp_all add: power_divide)
  have n11: "(1.213128719832::real) \<le> (((1 / (1 - v1)) powr (1 / 3)) powr (1 / 11)) ^ 8 \<and> (((1 / (1 - v1)) powr (1 / 3)) powr (1 / 11)) ^ 8 \<le> (1.213128719868::real)"
    by (rule iv_pow_sq[OF n10]) (simp_all add: power_divide)
  have n12: "(1.471681290881::real) \<le> (((1 / (1 - v1)) powr (1 / 3)) powr (1 / 11)) ^ 16 \<and> (((1 / (1 - v1)) powr (1 / 3)) powr (1 / 11)) ^ 16 \<le> (1.471681290969::real)"
    by (rule iv_pow_sq[OF n11]) (simp_all add: power_divide)
  have n13: "(2.165845821929::real) \<le> (((1 / (1 - v1)) powr (1 / 3)) powr (1 / 11)) ^ 32 \<and> (((1 / (1 - v1)) powr (1 / 3)) powr (1 / 11)) ^ 32 \<le> (2.165845822189::real)"
    by (rule iv_pow_sq[OF n12]) (simp_all add: power_divide)
  have n14: "(4.690888124367::real) \<le> (((1 / (1 - v1)) powr (1 / 3)) powr (1 / 11)) ^ 64 \<and> (((1 / (1 - v1)) powr (1 / 3)) powr (1 / 11)) ^ 64 \<le> (4.690888125494::real)"
    by (rule iv_pow_sq[OF n13]) (simp_all add: power_divide)
  have n15: "(22.00443139532::real) \<le> (((1 / (1 - v1)) powr (1 / 3)) powr (1 / 11)) ^ 128 \<and> (((1 / (1 - v1)) powr (1 / 3)) powr (1 / 11)) ^ 128 \<le> (22.00443140591::real)"
    by (rule iv_pow_sq[OF n14]) (simp_all add: power_divide)
  have n16: "(24.23614783232::real) \<le> (((1 / (1 - v1)) powr (1 / 3)) powr (1 / 11)) ^ 132 \<and> (((1 / (1 - v1)) powr (1 / 3)) powr (1 / 11)) ^ 132 \<le> (24.23614784435::real)"
    by (rule iv_pow_mul[OF n15 n10]) simp_all
  have n17: "(24.82858408234::real) \<le> (((1 / (1 - v1)) powr (1 / 3)) powr (1 / 11)) ^ 133 \<and> (((1 / (1 - v1)) powr (1 / 3)) powr (1 / 11)) ^ 133 \<le> (24.82858409475::real)"
    by (rule iv_pow_mul[OF n16 n8]) simp_all
  have n18: "(24.82858408234::real) \<le> (1 / (1 - v1)) powr (133 / 33) \<and> (1 / (1 - v1)) powr (133 / 33) \<le> (24.82858409475::real)"
    by (rule powr_via_roots[OF n17 s5]) simp_all
  have eq: "pi_LPT drag_inputs = Fin ((1 / (1 - v1)) powr (133 / 33))"
    by (rule pi_LPT_Fin[OF v1_eq s2])
  from eq n18 show ?thesis
    by blast
qed

lemma drag_inputs_Pt5:
  "\<exists>t. Pt5 drag_inputs = Fin t \<and> 105362.546524 \<le> t \<and> t \<le> 105362.5466183"
proof -
  from drag_inputs_Tt5 obtain v1 where v1_eq: "Tt5 drag_inputs = Fin v1"
    and v1_iv: "(714.3383644318::real) \<le> v1 \<and> v1 \<le> (714.3383644625::real)"
    by blast
  from drag_inputs_T0 obtain v2 where v2_eq: "T0 drag_inputs = Fin v2"
    and v2_iv: "(288.15::real) \<le> v2 \<and> v2 \<le> (288.15::real)"
    by blast
  from drag_inputs_temp_ratio_LPT obtain v3 where v3_eq: "temp_ratio_LPT drag_inputs = Fin v3"
    and v3_iv: "(0.489147664195::real) \<le> v3 \<and> v3 \<le> (0.4891476642193::real)"
    by blast
  from drag_inputs_pressure_term_LPT obtain v4 where v4_eq: "pressure_term_LPT drag_inputs = Fin v4"
    and v4_iv: "(0.5493035868609::real) \<le> v4 \<and> v4 \<le> (0.5493035868871::real)"
    by blast
  from drag_inputs_Pt45 obtain v5 where v5_eq: "Pt45 drag_inputs = Fin v5"
    and v5_iv: "(2616002.846809::real) \<le> v5 \<and> v5 \<le> (2616002.84784::real)"
    by blast
  from drag_inputs_pi_LPT obtain v6 where v6_eq: "pi_LPT drag_inputs = Fin v6"
    and v6_iv: "(24.82858408234::real) \<le> v6 \<and> v6 \<le> (24.82858409475::real)"
    by blast
  have c1: "(1::real) \<le> 1 \<and> 1 \<le> (1::real)"
    by simp
  have s2: "(v2::real) \<le> v1"
    by (rule iv_le[OF v2_iv v1_iv]) simp
  have s3: "(0::real) < v3"
    by (rule iv_pos[OF v3_iv]) simp
  have s4: "(v3::real) < 1"
    by (rule iv_less[OF v3_iv c1]) simp
  have s5: "(v4::real) < 1"
    by (rule iv_less[OF v4_iv c1]) simp
  have s6: "(v6::real) \<noteq> 0"
    by (rule iv_nonzero[OF v6_iv]) simp
  have n7: "(105362.546524::real) \<le> v5 / v6 \<and> v5 / v6 \<le> (105362.5466183::real)"
    by (rule iv_div[OF v5_iv v6_iv]) simp_all
  have eq: "Pt5 drag_inputs = Fin (v5 / v6)"
    by (rule lpt_block_Fin(1)[OF drag_inputs_isValid_HPT v1_eq v2_eq v3_eq v4_eq v5_eq v6_eq s2 s3 s4 s5 s6])
  from eq n7 show ?thesis
    by blast
qed

lemma drag_inputs_isValid_LPT:
  "isValid_LPT drag_inputs"
proof -
  from drag_inputs_Tt5 obtain v1 where v1_eq: "Tt5 drag_inputs = Fin v1"
    and v1_iv: "(714.3383644318::real) \<le> v1 \<and> v1 \<le> (714.3383644625::real)"
    by blast
  from drag_inputs_T0 obtain v2 where v2_eq: "T0 drag_inputs = Fin v2"
    and v2_iv: "(288.15::real) \<le> v2 \<and> v2 \<le> (288.15::real)"
    by blast
  from drag_inputs_temp_ratio_LPT obtain v3 where v3_eq: "temp_ratio_LPT drag_inputs = Fin v3"
    and v3_iv: "(0.489147664195::real) \<le> v3 \<and> v3 \<le> (0.4891476642193::real)"
    by blast
  from drag_inputs_pressure_term_LPT obtain v4 where v4_eq: "pressure_term_LPT drag_inputs = Fin v4"
    and v4_iv: "(0.5493035868609::real) \<le> v4 \<and> v4 \<le> (0.5493035868871::real)"
    by blast
  from drag_inputs_Pt45 obtain v5 where v5_eq: "Pt45 drag_inputs = Fin v5"
    and v5_iv: "(2616002.846809::real) \<le> v5 \<and> v5 \<le> (2616002.84784::real)"
    by blast
  from drag_inputs_pi_LPT obtain v6 where v6_eq: "pi_LPT drag_inputs = Fin v6"
    and v6_iv: "(24.82858408234::real) \<le> v6 \<and> v6 \<le> (24.82858409475::real)"
    by blast
  have c1: "(1::real) \<le> 1 \<and> 1 \<le> (1::real)"
    by simp
  have s2: "(v2::real) \<le> v1"
    by (rule iv_le[OF v2_iv v1_iv]) simp
  have s3: "(0::real) < v3"
    by (rule iv_pos[OF v3_iv]) simp
  have s4: "(v3::real) < 1"
    by (rule iv_less[OF v3_iv c1]) simp
  have s5: "(v4::real) < 1"
    by (rule iv_less[OF v4_iv c1]) simp
  have s6: "(v6::real) \<noteq> 0"
    by (rule iv_nonzero[OF v6_iv]) simp
  show ?thesis
    by (rule lpt_block_Fin(2)[OF drag_inputs_isValid_HPT v1_eq v2_eq v3_eq v4_eq v5_eq v6_eq s2 s3 s4 s5 s6])
qed

lemma drag_inputs_Pt9:
  "\<exists>t. Pt9 drag_inputs = Fin t \<and> 104308.92105876 \<le> t \<and> t \<le> 104308.921152117"
proof -
  from drag_inputs_Pt5 obtain v1 where v1_eq: "Pt5 drag_inputs = Fin v1"
    and v1_iv: "(105362.546524::real) \<le> v1 \<and> v1 \<le> (105362.5466183::real)"
    by blast
  have c1: "(0.99::real) \<le> 0.99 \<and> 0.99 \<le> (0.99::real)"
    by simp
  have n2: "(104308.92105876::real) \<le> v1 * 0.99 \<and> v1 * 0.99 \<le> (104308.921152117::real)"
    by (rule iv_mul[OF v1_iv c1]) simp_all
  have eq: "Pt9 drag_inputs = Fin (v1 * 0.99)"
    by (rule Pt9_Fin[OF v1_eq drag_inputs_fields(16)])
  from eq n2 show ?thesis
    by blast
qed

lemma drag_inputs_P9:
  "\<exists>t. P9 drag_inputs = Fin t \<and> 101325 \<le> t \<and> t \<le> 101325"
proof -
  from drag_inputs_Pt9 obtain v1 where v1_eq: "Pt9 drag_inputs = Fin v1"
    and v1_iv: "(104308.92105876::real) \<le> v1 \<and> v1 \<le> (104308.921152117::real)"
    by blast
  from drag_inputs_P0 obtain v2 where v2_eq: "P0 drag_inputs = Fin v2"
    and v2_iv: "(101325::real) \<le> v2 \<and> v2 \<le> (101325::real)"
    by blast
  from drag_inputs_Tt5 obtain v3 where v3_eq: "Tt5 drag_inputs = Fin v3"
    and v3_iv: "(714.3383644318::real) \<le> v3 \<and> v3 \<le> (714.3383644625::real)"
    by blast
  have c1: "(1.33::real) \<le> 1.33 \<and> 1.33 \<le> (1.33::real)"
    by simp
  have c2: "(1::real) \<le> 1 \<and> 1 \<le> (1::real)"
    by simp
  have n3: "(2.33::real) \<le> 1.33 + 1 \<and> 1.33 + 1 \<le> (2.33::real)"
    by (rule iv_add[OF c1 c2]) simp_all
  have c4: "(2::real) \<le> 2 \<and> 2 \<le> (2::real)"
    by simp
  have n5: "(1.165::real) \<le> (1.33 + 1) / 2 \<and> (1.33 + 1) / 2 \<le> (1.165::real)"
    by (rule iv_div[OF n3 c4]) simp_all
  have s6: "(0::real) < ((1.33 + 1) / 2)"
    by (rule iv_pos[OF n5]) simp
  have n7: "(1.052225062325::real) \<le> ((1.33 + 1) / 2) powr (1 / 3) \<and> ((1.33 + 1) / 2) powr (1 / 3) \<le> (1.052225062326::real)"
    by (rule iv_root[where n=3, OF n5]) (simp_all add: power_divide)
  have n8: "(1.00463863705::real) \<le> (((1.33 + 1) / 2) powr (1 / 3)) powr (1 / 11) \<and> (((1.33 + 1) / 2) powr (1 / 3)) powr (1 / 11) \<le> (1.004638637051::real)"
    by (rule iv_root[where n=11, OF n7]) (simp_all add: power_divide)
  have n9: "(1.00463863705::real) \<le> ((((1.33 + 1) / 2) powr (1 / 3)) powr (1 / 11)) ^ 1 \<and> ((((1.33 + 1) / 2) powr (1 / 3)) powr (1 / 11)) ^ 1 \<le> (1.004638637051::real)"
    by (rule iv_pow_one[OF n8])
  have n10: "(1.009298791053::real) \<le> ((((1.33 + 1) / 2) powr (1 / 3)) powr (1 / 11)) ^ 2 \<and> ((((1.33 + 1) / 2) powr (1 / 3)) powr (1 / 11)) ^ 2 \<le> (1.009298791056::real)"
    by (rule iv_pow_sq[OF n9]) (simp_all add: power_divide)
  have n11: "(1.018684049621::real) \<le> ((((1.33 + 1) / 2) powr (1 / 3)) powr (1 / 11)) ^ 4 \<and> ((((1.33 + 1) / 2) powr (1 / 3)) powr (1 / 11)) ^ 4 \<le> (1.018684049628::real)"
    by (rule iv_pow_sq[OF n10]) (simp_all add: power_divide)
  have n12: "(1.037717192952::real) \<le> ((((1.33 + 1) / 2) powr (1 / 3)) powr (1 / 11)) ^ 8 \<and> ((((1.33 + 1) / 2) powr (1 / 3)) powr (1 / 11)) ^ 8 \<le> (1.037717192967::real)"
    by (rule iv_pow_sq[OF n11]) (simp_all add: power_divide)
  have n13: "(1.076856972548::real) \<le> ((((1.33 + 1) / 2) powr (1 / 3)) powr (1 / 11)) ^ 16 \<and> ((((1.33 + 1) / 2) powr (1 / 3)) powr (1 / 11)) ^ 16 \<le> (1.07685697258::real)"
    by (rule iv_pow_sq[OF n12]) (simp_all add: power_divide)
  have n14: "(1.159620939325::real) \<le> ((((1.33 + 1) / 2) powr (1 / 3)) powr (1 / 11)) ^ 32 \<and> ((((1.33 + 1) / 2) powr (1 / 3)) powr (1 / 11)) ^ 32 \<le> (1.159620939395::real)"
    by (rule iv_pow_sq[OF n13]) (simp_all add: power_divide)
  have n15: "(1.34472072292::real) \<le> ((((1.33 + 1) / 2) powr (1 / 3)) powr (1 / 11)) ^ 64 \<and> ((((1.33 + 1) / 2) powr (1 / 3)) powr (1 / 11)) ^ 64 \<le> (1.344720723084::real)"
    by (rule iv_pow_sq[OF n14]) (simp_all add: power_divide)
  have n16: "(1.80827382265::real) \<le> ((((1.33 + 1) / 2) powr (1 / 3)) powr (1 / 11)) ^ 128 \<and> ((((1.33 + 1) / 2) powr (1 / 3)) powr (1 / 11)) ^ 128 \<le> (1.808273823092::real)"
    by (rule iv_pow_sq[OF n15]) (simp_all add: power_divide)
  have n17: "(1.84205970048::real) \<le> ((((1.33 + 1) / 2) powr (1 / 3)) powr (1 / 11)) ^ 132 \<and> ((((1.33 + 1) / 2) powr (1 / 3)) powr (1 / 11)) ^ 132 \<le> (1.842059700944::real)"
    by (rule iv_pow_mul[OF n16 n11]) simp_all
  have n18: "(1.850604346854::real) \<le> ((((1.33 + 1) / 2) powr (1 / 3)) powr (1 / 11)) ^ 133 \<and> ((((1.33 + 1) / 2) powr (1 / 3)) powr (1 / 11)) ^ 133 \<le> (1.850604347323::real)"
    by (rule iv_pow_mul[OF n17 n9]) simp_all
  have n19: "(1.850604346854::real) \<le> ((1.33 + 1) / 2) powr (133 / 33) \<and> ((1.33 + 1) / 2) powr (133 / 33) \<le> (1.850604347323::real)"
    by (rule powr_via_roots[OF n18 s6]) simp_all
  have n20: "(1.029449011189::real) \<le> v1 / v2 \<and> v1 / v2 \<le> (1.029449012111::real)"
    by (rule iv_div[OF v1_iv v2_iv]) simp_all
  have s21: "(0::real) < v2"
    by (rule iv_pos[OF v2_iv]) simp
  have s22: "(v1 / v2::real) \<le> (((1.33 + 1) / 2) powr (133 / 33))"
    by (rule iv_le[OF n20 n19]) simp
  have s23: "(v2::real) < v1"
    by (rule iv_less[OF v2_iv v1_iv]) simp
  have eq: "P9 drag_inputs = Fin v2"
    by (rule core_nozzle_expanding_Fin(1)[OF drag_inputs_isValid_LPT v1_eq v2_eq v3_eq s21 s22 s23])
  from eq v2_iv show ?thesis
    by blast
qed

lemma drag_inputs_T9:
  "\<exists>t. T9 drag_inputs = Fin t \<and> 709.2126250456 \<le> t \<and> t \<le> 709.2126252402"
proof -
  from drag_inputs_Pt9 obtain v1 where v1_eq: "Pt9 drag_inputs = Fin v1"
    and v1_iv: "(104308.92105876::real) \<le> v1 \<and> v1 \<le> (104308.921152117::real)"
    by blast
  from drag_inputs_P0 obtain v2 where v2_eq: "P0 drag_inputs = Fin v2"
    and v2_iv: "(101325::real) \<le> v2 \<and> v2 \<le> (101325::real)"
    by blast
  from drag_inputs_Tt5 obtain v3 where v3_eq: "Tt5 drag_inputs = Fin v3"
    and v3_iv: "(714.3383644318::real) \<le> v3 \<and> v3 \<le> (714.3383644625::real)"
    by blast
  have c1: "(1.33::real) \<le> 1.33 \<and> 1.33 \<le> (1.33::real)"
    by simp
  have c2: "(1::real) \<le> 1 \<and> 1 \<le> (1::real)"
    by simp
  have n3: "(2.33::real) \<le> 1.33 + 1 \<and> 1.33 + 1 \<le> (2.33::real)"
    by (rule iv_add[OF c1 c2]) simp_all
  have c4: "(2::real) \<le> 2 \<and> 2 \<le> (2::real)"
    by simp
  have n5: "(1.165::real) \<le> (1.33 + 1) / 2 \<and> (1.33 + 1) / 2 \<le> (1.165::real)"
    by (rule iv_div[OF n3 c4]) simp_all
  have s6: "(0::real) < ((1.33 + 1) / 2)"
    by (rule iv_pos[OF n5]) simp
  have n7: "(1.052225062325::real) \<le> ((1.33 + 1) / 2) powr (1 / 3) \<and> ((1.33 + 1) / 2) powr (1 / 3) \<le> (1.052225062326::real)"
    by (rule iv_root[where n=3, OF n5]) (simp_all add: power_divide)
  have n8: "(1.00463863705::real) \<le> (((1.33 + 1) / 2) powr (1 / 3)) powr (1 / 11) \<and> (((1.33 + 1) / 2) powr (1 / 3)) powr (1 / 11) \<le> (1.004638637051::real)"
    by (rule iv_root[where n=11, OF n7]) (simp_all add: power_divide)
  have n9: "(1.00463863705::real) \<le> ((((1.33 + 1) / 2) powr (1 / 3)) powr (1 / 11)) ^ 1 \<and> ((((1.33 + 1) / 2) powr (1 / 3)) powr (1 / 11)) ^ 1 \<le> (1.004638637051::real)"
    by (rule iv_pow_one[OF n8])
  have n10: "(1.009298791053::real) \<le> ((((1.33 + 1) / 2) powr (1 / 3)) powr (1 / 11)) ^ 2 \<and> ((((1.33 + 1) / 2) powr (1 / 3)) powr (1 / 11)) ^ 2 \<le> (1.009298791056::real)"
    by (rule iv_pow_sq[OF n9]) (simp_all add: power_divide)
  have n11: "(1.018684049621::real) \<le> ((((1.33 + 1) / 2) powr (1 / 3)) powr (1 / 11)) ^ 4 \<and> ((((1.33 + 1) / 2) powr (1 / 3)) powr (1 / 11)) ^ 4 \<le> (1.018684049628::real)"
    by (rule iv_pow_sq[OF n10]) (simp_all add: power_divide)
  have n12: "(1.037717192952::real) \<le> ((((1.33 + 1) / 2) powr (1 / 3)) powr (1 / 11)) ^ 8 \<and> ((((1.33 + 1) / 2) powr (1 / 3)) powr (1 / 11)) ^ 8 \<le> (1.037717192967::real)"
    by (rule iv_pow_sq[OF n11]) (simp_all add: power_divide)
  have n13: "(1.076856972548::real) \<le> ((((1.33 + 1) / 2) powr (1 / 3)) powr (1 / 11)) ^ 16 \<and> ((((1.33 + 1) / 2) powr (1 / 3)) powr (1 / 11)) ^ 16 \<le> (1.07685697258::real)"
    by (rule iv_pow_sq[OF n12]) (simp_all add: power_divide)
  have n14: "(1.159620939325::real) \<le> ((((1.33 + 1) / 2) powr (1 / 3)) powr (1 / 11)) ^ 32 \<and> ((((1.33 + 1) / 2) powr (1 / 3)) powr (1 / 11)) ^ 32 \<le> (1.159620939395::real)"
    by (rule iv_pow_sq[OF n13]) (simp_all add: power_divide)
  have n15: "(1.34472072292::real) \<le> ((((1.33 + 1) / 2) powr (1 / 3)) powr (1 / 11)) ^ 64 \<and> ((((1.33 + 1) / 2) powr (1 / 3)) powr (1 / 11)) ^ 64 \<le> (1.344720723084::real)"
    by (rule iv_pow_sq[OF n14]) (simp_all add: power_divide)
  have n16: "(1.80827382265::real) \<le> ((((1.33 + 1) / 2) powr (1 / 3)) powr (1 / 11)) ^ 128 \<and> ((((1.33 + 1) / 2) powr (1 / 3)) powr (1 / 11)) ^ 128 \<le> (1.808273823092::real)"
    by (rule iv_pow_sq[OF n15]) (simp_all add: power_divide)
  have n17: "(1.84205970048::real) \<le> ((((1.33 + 1) / 2) powr (1 / 3)) powr (1 / 11)) ^ 132 \<and> ((((1.33 + 1) / 2) powr (1 / 3)) powr (1 / 11)) ^ 132 \<le> (1.842059700944::real)"
    by (rule iv_pow_mul[OF n16 n11]) simp_all
  have n18: "(1.850604346854::real) \<le> ((((1.33 + 1) / 2) powr (1 / 3)) powr (1 / 11)) ^ 133 \<and> ((((1.33 + 1) / 2) powr (1 / 3)) powr (1 / 11)) ^ 133 \<le> (1.850604347323::real)"
    by (rule iv_pow_mul[OF n17 n9]) simp_all
  have n19: "(1.850604346854::real) \<le> ((1.33 + 1) / 2) powr (133 / 33) \<and> ((1.33 + 1) / 2) powr (133 / 33) \<le> (1.850604347323::real)"
    by (rule powr_via_roots[OF n18 s6]) simp_all
  have n20: "(1.029449011189::real) \<le> v1 / v2 \<and> v1 / v2 \<le> (1.029449012111::real)"
    by (rule iv_div[OF v1_iv v2_iv]) simp_all
  have s21: "(0::real) < v2"
    by (rule iv_pos[OF v2_iv]) simp
  have s22: "(v1 / v2::real) \<le> (((1.33 + 1) / 2) powr (133 / 33))"
    by (rule iv_le[OF n20 n19]) simp
  have s23: "(v2::real) < v1"
    by (rule iv_less[OF v2_iv v1_iv]) simp
  have n24: "(0.9713934233126::real) \<le> v2 / v1 \<and> v2 / v1 \<le> (0.9713934241821::real)"
    by (rule iv_div[OF v2_iv v1_iv]) simp_all
  have s25: "(0::real) < (v2 / v1)"
    by (rule iv_pos[OF n24]) simp
  have n26: "(0.9958623381785::real) \<le> (v2 / v1) powr (1 / 7) \<and> (v2 / v1) powr (1 / 7) \<le> (0.9958623383059::real)"
    by (rule iv_root[where n=7, OF n24]) (simp_all add: power_divide)
  have n27: "(0.9997818003547::real) \<le> ((v2 / v1) powr (1 / 7)) powr (1 / 19) \<and> ((v2 / v1) powr (1 / 7)) powr (1 / 19) \<le> (0.9997818003616::real)"
    by (rule iv_root[where n=19, OF n26]) (simp_all add: power_divide)
  have n28: "(0.9997818003547::real) \<le> (((v2 / v1) powr (1 / 7)) powr (1 / 19)) ^ 1 \<and> (((v2 / v1) powr (1 / 7)) powr (1 / 19)) ^ 1 \<le> (0.9997818003616::real)"
    by (rule iv_pow_one[OF n27])
  have n29: "(0.9995636483204::real) \<le> (((v2 / v1) powr (1 / 7)) powr (1 / 19)) ^ 2 \<and> (((v2 / v1) powr (1 / 7)) powr (1 / 19)) ^ 2 \<le> (0.9995636483343::real)"
    by (rule iv_pow_sq[OF n28]) (simp_all add: power_divide)
  have n30: "(0.9991274870435::real) \<le> (((v2 / v1) powr (1 / 7)) powr (1 / 19)) ^ 4 \<and> (((v2 / v1) powr (1 / 7)) powr (1 / 19)) ^ 4 \<le> (0.9991274870714::real)"
    by (rule iv_pow_sq[OF n29]) (simp_all add: power_divide)
  have n31: "(0.9982557353658::real) \<le> (((v2 / v1) powr (1 / 7)) powr (1 / 19)) ^ 8 \<and> (((v2 / v1) powr (1 / 7)) powr (1 / 19)) ^ 8 \<le> (0.9982557354217::real)"
    by (rule iv_pow_sq[OF n30]) (simp_all add: power_divide)
  have n32: "(0.9965145131907::real) \<le> (((v2 / v1) powr (1 / 7)) powr (1 / 19)) ^ 16 \<and> (((v2 / v1) powr (1 / 7)) powr (1 / 19)) ^ 16 \<le> (0.9965145133024::real)"
    by (rule iv_pow_sq[OF n31]) (simp_all add: power_divide)
  have n33: "(0.9930411749996::real) \<le> (((v2 / v1) powr (1 / 7)) powr (1 / 19)) ^ 32 \<and> (((v2 / v1) powr (1 / 7)) powr (1 / 19)) ^ 32 \<le> (0.9930411752224::real)"
    by (rule iv_pow_sq[OF n32]) (simp_all add: power_divide)
  have n34: "(0.9928244937674::real) \<le> (((v2 / v1) powr (1 / 7)) powr (1 / 19)) ^ 33 \<and> (((v2 / v1) powr (1 / 7)) powr (1 / 19)) ^ 33 \<le> (0.9928244939971::real)"
    by (rule iv_pow_mul[OF n33 n28]) simp_all
  have n35: "(0.9928244937674::real) \<le> (v2 / v1) powr ((1.33 - 1) / 1.33) \<and> (v2 / v1) powr ((1.33 - 1) / 1.33) \<le> (0.9928244939971::real)"
    by (rule powr_via_roots[OF n34 s25]) simp_all
  have n36: "(709.2126250456::real) \<le> v3 * ((v2 / v1) powr ((1.33 - 1) / 1.33)) \<and> v3 * ((v2 / v1) powr ((1.33 - 1) / 1.33)) \<le> (709.2126252402::real)"
    by (rule iv_mul[OF v3_iv n35]) simp_all
  have eq: "T9 drag_inputs = Fin (v3 * ((v2 / v1) powr ((1.33 - 1) / 1.33)))"
    by (rule core_nozzle_expanding_Fin(2)[OF drag_inputs_isValid_LPT v1_eq v2_eq v3_eq s21 s22 s23])
  from eq n36 show ?thesis
    by blast
qed

lemma drag_inputs_V9:
  "\<exists>t. V9 drag_inputs = Fin t \<and> 108.5780831506 \<le> t \<and> t \<le> 108.578085537"
proof -
  from drag_inputs_Pt9 obtain v1 where v1_eq: "Pt9 drag_inputs = Fin v1"
    and v1_iv: "(104308.92105876::real) \<le> v1 \<and> v1 \<le> (104308.921152117::real)"
    by blast
  from drag_inputs_P0 obtain v2 where v2_eq: "P0 drag_inputs = Fin v2"
    and v2_iv: "(101325::real) \<le> v2 \<and> v2 \<le> (101325::real)"
    by blast
  from drag_inputs_Tt5 obtain v3 where v3_eq: "Tt5 drag_inputs = Fin v3"
    and v3_iv: "(714.3383644318::real) \<le> v3 \<and> v3 \<le> (714.3383644625::real)"
    by blast
  have c1: "(1.33::real) \<le> 1.33 \<and> 1.33 \<le> (1.33::real)"
    by simp
  have c2: "(1::real) \<le> 1 \<and> 1 \<le> (1::real)"
    by simp
  have n3: "(2.33::real) \<le> 1.33 + 1 \<and> 1.33 + 1 \<le> (2.33::real)"
    by (rule iv_add[OF c1 c2]) simp_all
  have c4: "(2::real) \<le> 2 \<and> 2 \<le> (2::real)"
    by simp
  have n5: "(1.165::real) \<le> (1.33 + 1) / 2 \<and> (1.33 + 1) / 2 \<le> (1.165::real)"
    by (rule iv_div[OF n3 c4]) simp_all
  have s6: "(0::real) < ((1.33 + 1) / 2)"
    by (rule iv_pos[OF n5]) simp
  have n7: "(1.052225062325::real) \<le> ((1.33 + 1) / 2) powr (1 / 3) \<and> ((1.33 + 1) / 2) powr (1 / 3) \<le> (1.052225062326::real)"
    by (rule iv_root[where n=3, OF n5]) (simp_all add: power_divide)
  have n8: "(1.00463863705::real) \<le> (((1.33 + 1) / 2) powr (1 / 3)) powr (1 / 11) \<and> (((1.33 + 1) / 2) powr (1 / 3)) powr (1 / 11) \<le> (1.004638637051::real)"
    by (rule iv_root[where n=11, OF n7]) (simp_all add: power_divide)
  have n9: "(1.00463863705::real) \<le> ((((1.33 + 1) / 2) powr (1 / 3)) powr (1 / 11)) ^ 1 \<and> ((((1.33 + 1) / 2) powr (1 / 3)) powr (1 / 11)) ^ 1 \<le> (1.004638637051::real)"
    by (rule iv_pow_one[OF n8])
  have n10: "(1.009298791053::real) \<le> ((((1.33 + 1) / 2) powr (1 / 3)) powr (1 / 11)) ^ 2 \<and> ((((1.33 + 1) / 2) powr (1 / 3)) powr (1 / 11)) ^ 2 \<le> (1.009298791056::real)"
    by (rule iv_pow_sq[OF n9]) (simp_all add: power_divide)
  have n11: "(1.018684049621::real) \<le> ((((1.33 + 1) / 2) powr (1 / 3)) powr (1 / 11)) ^ 4 \<and> ((((1.33 + 1) / 2) powr (1 / 3)) powr (1 / 11)) ^ 4 \<le> (1.018684049628::real)"
    by (rule iv_pow_sq[OF n10]) (simp_all add: power_divide)
  have n12: "(1.037717192952::real) \<le> ((((1.33 + 1) / 2) powr (1 / 3)) powr (1 / 11)) ^ 8 \<and> ((((1.33 + 1) / 2) powr (1 / 3)) powr (1 / 11)) ^ 8 \<le> (1.037717192967::real)"
    by (rule iv_pow_sq[OF n11]) (simp_all add: power_divide)
  have n13: "(1.076856972548::real) \<le> ((((1.33 + 1) / 2) powr (1 / 3)) powr (1 / 11)) ^ 16 \<and> ((((1.33 + 1) / 2) powr (1 / 3)) powr (1 / 11)) ^ 16 \<le> (1.07685697258::real)"
    by (rule iv_pow_sq[OF n12]) (simp_all add: power_divide)
  have n14: "(1.159620939325::real) \<le> ((((1.33 + 1) / 2) powr (1 / 3)) powr (1 / 11)) ^ 32 \<and> ((((1.33 + 1) / 2) powr (1 / 3)) powr (1 / 11)) ^ 32 \<le> (1.159620939395::real)"
    by (rule iv_pow_sq[OF n13]) (simp_all add: power_divide)
  have n15: "(1.34472072292::real) \<le> ((((1.33 + 1) / 2) powr (1 / 3)) powr (1 / 11)) ^ 64 \<and> ((((1.33 + 1) / 2) powr (1 / 3)) powr (1 / 11)) ^ 64 \<le> (1.344720723084::real)"
    by (rule iv_pow_sq[OF n14]) (simp_all add: power_divide)
  have n16: "(1.80827382265::real) \<le> ((((1.33 + 1) / 2) powr (1 / 3)) powr (1 / 11)) ^ 128 \<and> ((((1.33 + 1) / 2) powr (1 / 3)) powr (1 / 11)) ^ 128 \<le> (1.808273823092::real)"
    by (rule iv_pow_sq[OF n15]) (simp_all add: power_divide)
  have n17: "(1.84205970048::real) \<le> ((((1.33 + 1) / 2) powr (1 / 3)) powr (1 / 11)) ^ 132 \<and> ((((1.33 + 1) / 2) powr (1 / 3)) powr (1 / 11)) ^ 132 \<le> (1.842059700944::real)"
    by (rule iv_pow_mul[OF n16 n11]) simp_all
  have n18: "(1.850604346854::real) \<le> ((((1.33 + 1) / 2) powr (1 / 3)) powr (1 / 11)) ^ 133 \<and> ((((1.33 + 1) / 2) powr (1 / 3)) powr (1 / 11)) ^ 133 \<le> (1.850604347323::real)"
    by (rule iv_pow_mul[OF n17 n9]) simp_all
  have n19: "(1.850604346854::real) \<le> ((1.33 + 1) / 2) powr (133 / 33) \<and> ((1.33 + 1) / 2) powr (133 / 33) \<le> (1.850604347323::real)"
    by (rule powr_via_roots[OF n18 s6]) simp_all
  have n20: "(1.029449011189::real) \<le> v1 / v2 \<and> v1 / v2 \<le> (1.029449012111::real)"
    by (rule iv_div[OF v1_iv v2_iv]) simp_all
  have s21: "(0::real) < v2"
    by (rule iv_pos[OF v2_iv]) simp
  have s22: "(v1 / v2::real) \<le> (((1.33 + 1) / 2) powr (133 / 33))"
    by (rule iv_le[OF n20 n19]) simp
  have s23: "(v2::real) < v1"
    by (rule iv_less[OF v2_iv v1_iv]) simp
  have n24: "(0.9713934233126::real) \<le> v2 / v1 \<and> v2 / v1 \<le> (0.9713934241821::real)"
    by (rule iv_div[OF v2_iv v1_iv]) simp_all
  have s25: "(0::real) < (v2 / v1)"
    by (rule iv_pos[OF n24]) simp
  have n26: "(0.9958623381785::real) \<le> (v2 / v1) powr (1 / 7) \<and> (v2 / v1) powr (1 / 7) \<le> (0.9958623383059::real)"
    by (rule iv_root[where n=7, OF n24]) (simp_all add: power_divide)
  have n27: "(0.9997818003547::real) \<le> ((v2 / v1) powr (1 / 7)) powr (1 / 19) \<and> ((v2 / v1) powr (1 / 7)) powr (1 / 19) \<le> (0.9997818003616::real)"
    by (rule iv_root[where n=19, OF n26]) (simp_all add: power_divide)
  have n28: "(0.9997818003547::real) \<le> (((v2 / v1) powr (1 / 7)) powr (1 / 19)) ^ 1 \<and> (((v2 / v1) powr (1 / 7)) powr (1 / 19)) ^ 1 \<le> (0.9997818003616::real)"
    by (rule iv_pow_one[OF n27])
  have n29: "(0.9995636483204::real) \<le> (((v2 / v1) powr (1 / 7)) powr (1 / 19)) ^ 2 \<and> (((v2 / v1) powr (1 / 7)) powr (1 / 19)) ^ 2 \<le> (0.9995636483343::real)"
    by (rule iv_pow_sq[OF n28]) (simp_all add: power_divide)
  have n30: "(0.9991274870435::real) \<le> (((v2 / v1) powr (1 / 7)) powr (1 / 19)) ^ 4 \<and> (((v2 / v1) powr (1 / 7)) powr (1 / 19)) ^ 4 \<le> (0.9991274870714::real)"
    by (rule iv_pow_sq[OF n29]) (simp_all add: power_divide)
  have n31: "(0.9982557353658::real) \<le> (((v2 / v1) powr (1 / 7)) powr (1 / 19)) ^ 8 \<and> (((v2 / v1) powr (1 / 7)) powr (1 / 19)) ^ 8 \<le> (0.9982557354217::real)"
    by (rule iv_pow_sq[OF n30]) (simp_all add: power_divide)
  have n32: "(0.9965145131907::real) \<le> (((v2 / v1) powr (1 / 7)) powr (1 / 19)) ^ 16 \<and> (((v2 / v1) powr (1 / 7)) powr (1 / 19)) ^ 16 \<le> (0.9965145133024::real)"
    by (rule iv_pow_sq[OF n31]) (simp_all add: power_divide)
  have n33: "(0.9930411749996::real) \<le> (((v2 / v1) powr (1 / 7)) powr (1 / 19)) ^ 32 \<and> (((v2 / v1) powr (1 / 7)) powr (1 / 19)) ^ 32 \<le> (0.9930411752224::real)"
    by (rule iv_pow_sq[OF n32]) (simp_all add: power_divide)
  have n34: "(0.9928244937674::real) \<le> (((v2 / v1) powr (1 / 7)) powr (1 / 19)) ^ 33 \<and> (((v2 / v1) powr (1 / 7)) powr (1 / 19)) ^ 33 \<le> (0.9928244939971::real)"
    by (rule iv_pow_mul[OF n33 n28]) simp_all
  have n35: "(0.9928244937674::real) \<le> (v2 / v1) powr ((1.33 - 1) / 1.33) \<and> (v2 / v1) powr ((1.33 - 1) / 1.33) \<le> (0.9928244939971::real)"
    by (rule powr_via_roots[OF n34 s25]) simp_all
  have n36: "(709.2126250456::real) \<le> v3 * ((v2 / v1) powr ((1.33 - 1) / 1.33)) \<and> v3 * ((v2 / v1) powr ((1.33 - 1) / 1.33)) \<le> (709.2126252402::real)"
    by (rule iv_mul[OF v3_iv n35]) simp_all
  have c37: "(0::real) \<le> 0 \<and> 0 \<le> (0::real)"
    by simp
  have c38: "(1150::real) \<le> 1150 \<and> 1150 \<le> (1150::real)"
    by simp
  have n39: "(2300::real) \<le> 2 * 1150 \<and> 2 * 1150 \<le> (2300::real)"
    by (rule iv_mul[OF c4 c38]) simp_all
  have n40: "(5.1257391916::real) \<le> v3 - (v3 * ((v2 / v1) powr ((1.33 - 1) / 1.33))) \<and> v3 - (v3 * ((v2 / v1) powr ((1.33 - 1) / 1.33))) \<le> (5.1257394169::real)"
    by (rule iv_sub[OF v3_iv n36]) simp_all
  have n41: "(11789.20014068::real) \<le> (2 * 1150) * (v3 - (v3 * ((v2 / v1) powr ((1.33 - 1) / 1.33)))) \<and> (2 * 1150) * (v3 - (v3 * ((v2 / v1) powr ((1.33 - 1) / 1.33)))) \<le> (11789.20065887::real)"
    by (rule iv_mul[OF n39 n40]) simp_all
  have n42: "(11789.20014068::real) \<le> max 0 ((2 * 1150) * (v3 - (v3 * ((v2 / v1) powr ((1.33 - 1) / 1.33))))) \<and> max 0 ((2 * 1150) * (v3 - (v3 * ((v2 / v1) powr ((1.33 - 1) / 1.33))))) \<le> (11789.20065887::real)"
    by (rule iv_max[OF c37 n41]) simp_all
  have n43: "(108.5780831506::real) \<le> sqrt (max 0 ((2 * 1150) * (v3 - (v3 * ((v2 / v1) powr ((1.33 - 1) / 1.33)))))) \<and> sqrt (max 0 ((2 * 1150) * (v3 - (v3 * ((v2 / v1) powr ((1.33 - 1) / 1.33)))))) \<le> (108.578085537::real)"
    by (rule iv_sqrt[OF n42]) (simp_all add: power_divide)
  have eq: "V9 drag_inputs = Fin (sqrt (max 0 ((2 * 1150) * (v3 - (v3 * ((v2 / v1) powr ((1.33 - 1) / 1.33)))))))"
    by (rule core_nozzle_expanding_Fin(3)[OF drag_inputs_isValid_LPT v1_eq v2_eq v3_eq s21 s22 s23])
  from eq n43 show ?thesis
    by blast
qed

lemma drag_inputs_isValid_core:
  "isValid_core drag_inputs"
proof -
  from drag_inputs_Pt9 obtain v1 where v1_eq: "Pt9 drag_inputs = Fin v1"
    and v1_iv: "(104308.92105876::real) \<le> v1 \<and> v1 \<le> (104308.921152117::real)"
    by blast
  from drag_inputs_P0 obtain v2 where v2_eq: "P0 drag_inputs = Fin v2"
    and v2_iv: "(101325::real) \<le> v2 \<and> v2 \<le> (101325::real)"
    by blast
  from drag_inputs_Tt5 obtain v3 where v3_eq: "Tt5 drag_inputs = Fin v3"
    and v3_iv: "(714.3383644318::real) \<le> v3 \<and> v3 \<le> (714.3383644625::real)"
    by blast
  have c1: "(1.33::real) \<le> 1.33 \<and> 1.33 \<le> (1.33::real)"
    by simp
  have c2: "(1::real) \<le> 1 \<and> 1 \<le> (1::real)"
    by simp
  have n3: "(2.33::real) \<le> 1.33 + 1 \<and> 1.33 + 1 \<le> (2.33::real)"
    by (rule iv_add[OF c1 c2]) simp_all
  have c4: "(2::real) \<le> 2 \<and> 2 \<le> (2::real)"
    by simp
  have n5: "(1.165::real) \<le> (1.33 + 1) / 2 \<and> (1.33 + 1) / 2 \<le> (1.165::real)"
    by (rule iv_div[OF n3 c4]) simp_all
  have s6: "(0::real) < ((1.33 + 1) / 2)"
    by (rule iv_pos[OF n5]) simp
  have n7: "(1.052225062325::real) \<le> ((1.33 + 1) / 2) powr (1 / 3) \<and> ((1.33 + 1) / 2) powr (1 / 3) \<le> (1.052225062326::real)"
    by (rule iv_root[where n=3, OF n5]) (simp_all add: power_divide)
  have n8: "(1.00463863705::real) \<le> (((1.33 + 1) / 2) powr (1 / 3)) powr (1 / 11) \<and> (((1.33 + 1) / 2) powr (1 / 3)) powr (1 / 11) \<le> (1.004638637051::real)"
    by (rule iv_root[where n=11, OF n7]) (simp_all add: power_divide)
  have n9: "(1.00463863705::real) \<le> ((((1.33 + 1) / 2) powr (1 / 3)) powr (1 / 11)) ^ 1 \<and> ((((1.33 + 1) / 2) powr (1 / 3)) powr (1 / 11)) ^ 1 \<le> (1.004638637051::real)"
    by (rule iv_pow_one[OF n8])
  have n10: "(1.009298791053::real) \<le> ((((1.33 + 1) / 2) powr (1 / 3)) powr (1 / 11)) ^ 2 \<and> ((((1.33 + 1) / 2) powr (1 / 3)) powr (1 / 11)) ^ 2 \<le> (1.009298791056::real)"
    by (rule iv_pow_sq[OF n9]) (simp_all add: power_divide)
  have n11: "(1.018684049621::real) \<le> ((((1.33 + 1) / 2) powr (1 / 3)) powr (1 / 11)) ^ 4 \<and> ((((1.33 + 1) / 2) powr (1 / 3)) powr (1 / 11)) ^ 4 \<le> (1.018684049628::real)"
    by (rule iv_pow_sq[OF n10]) (simp_all add: power_divide)
  have n12: "(1.037717192952::real) \<le> ((((1.33 + 1) / 2) powr (1 / 3)) powr (1 / 11)) ^ 8 \<and> ((((1.33 + 1) / 2) powr (1 / 3)) powr (1 / 11)) ^ 8 \<le> (1.037717192967::real)"
    by (rule iv_pow_sq[OF n11]) (simp_all add: power_divide)
  have n13: "(1.076856972548::real) \<le> ((((1.33 + 1) / 2) powr (1 / 3)) powr (1 / 11)) ^ 16 \<and> ((((1.33 + 1) / 2) powr (1 / 3)) powr (1 / 11)) ^ 16 \<le> (1.07685697258::real)"
    by (rule iv_pow_sq[OF n12]) (simp_all add: power_divide)
  have n14: "(1.159620939325::real) \<le> ((((1.33 + 1) / 2) powr (1 / 3)) powr (1 / 11)) ^ 32 \<and> ((((1.33 + 1) / 2) powr (1 / 3)) powr (1 / 11)) ^ 32 \<le> (1.159620939395::real)"
    by (rule iv_pow_sq[OF n13]) (simp_all add: power_divide)
  have n15: "(1.34472072292::real) \<le> ((((1.33 + 1) / 2) powr (1 / 3)) powr (1 / 11)) ^ 64 \<and> ((((1.33 + 1) / 2) powr (1 / 3)) powr (1 / 11)) ^ 64 \<le> (1.344720723084::real)"
    by (rule iv_pow_sq[OF n14]) (simp_all add: power_divide)
  have n16: "(1.80827382265::real) \<le> ((((1.33 + 1) / 2) powr (1 / 3)) powr (1 / 11)) ^ 128 \<and> ((((1.33 + 1) / 2) powr (1 / 3)) powr (1 / 11)) ^ 128 \<le> (1.808273823092::real)"
    by (rule iv_pow_sq[OF n15]) (simp_all add: power_divide)
  have n17: "(1.84205970048::real) \<le> ((((1.33 + 1) / 2) powr (1 / 3)) powr (1 / 11)) ^ 132 \<and> ((((1.33 + 1) / 2) powr (1 / 3)) powr (1 / 11)) ^ 132 \<le> (1.842059700944::real)"
    by (rule iv_pow_mul[OF n16 n11]) simp_all
  have n18: "(1.850604346854::real) \<le> ((((1.33 + 1) / 2) powr (1 / 3)) powr (1 / 11)) ^ 133 \<and> ((((1.33 + 1) / 2) powr (1 / 3)) powr (1 / 11)) ^ 133 \<le> (1.850604347323::real)"
    by (rule iv_pow_mul[OF n17 n9]) simp_all
  have n19: "(1.850604346854::real) \<le> ((1.33 + 1) / 2) powr (133 / 33) \<and> ((1.33 + 1) / 2) powr (133 / 33) \<le> (1.850604347323::real)"
    by (rule powr_via_roots[OF n18 s6]) simp_all
  have n20: "(1.029449011189::real) \<le> v1 / v2 \<and> v1 / v2 \<le> (1.029449012111::real)"
    by (rule iv_div[OF v1_iv v2_iv]) simp_all
  have s21: "(0::real) < v2"
    by (rule iv_pos[OF v2_iv]) simp
  have s22: "(v1 / v2::real) \<le> (((1.33 + 1) / 2) powr (133 / 33))"
    by (rule iv_le[OF n20 n19]) simp
  have s23: "(v2::real) < v1"
    by (rule iv_less[OF v2_iv v1_iv]) simp
  show ?thesis
    by (rule core_nozzle_expanding_Fin(4)[OF drag_inputs_isValid_LPT v1_eq v2_eq v3_eq s21 s22 s23])
qed

lemma drag_inputs_Pt19:
  "\<exists>t. Pt19 drag_inputs = Fin t \<and> 1269157.71692259 \<le> t \<and> t \<le> 1269157.716934"
proof -
  from drag_inputs_Pt13 obtain v1 where v1_eq: "Pt13 drag_inputs = Fin v1"
    and v1_iv: "(1281977.491841::real) \<le> v1 \<and> v1 \<le> (1281977.491852134::real)"
    by blast
  have c1: "(0.99::real) \<le> 0.99 \<and> 0.99 \<le> (0.99::real)"
    by simp
  have n2: "(1269157.71692259::real) \<le> v1 * 0.99 \<and> v1 * 0.99 \<le> (1269157.716934::real)"
    by (rule iv_mul[OF v1_iv c1]) simp_all
  have eq: "Pt19 drag_inputs = Fin (v1 * 0.99)"
    by (rule Pt19_Fin[OF v1_eq drag_inputs_fields(16)])
  from eq n2 show ?thesis
    by blast
qed

lemma drag_inputs_P19:
  "\<exists>t. P19 drag_inputs = Fin t \<and> 670472.9075869 \<le> t \<and> t \<le> 670472.9075998"
proof -
  from drag_inputs_Pt19 obtain v1 where v1_eq: "Pt19 drag_inputs = Fin v1"
    and v1_iv: "(1269157.71692259::real) \<le> v1 \<and> v1 \<le> (1269157.716934::real)"
    by blast
  from drag_inputs_P0 obtain v2 where v2_eq: "P0 drag_inputs = Fin v2"
    and v2_iv: "(101325::real) \<le> v2 \<and> v2 \<le> (101325::real)"
    by blast
  from drag_inputs_Tt13 obtain v3 where v3_eq: "Tt13 drag_inputs = Fin v3"
    and v3_iv: "(605.389679178::real) \<le> v3 \<and> v3 \<le> (605.3896791804::real)"
    by blast
  have c1: "(1.4::real) \<le> 1.4 \<and> 1.4 \<le> (1.4::real)"
    by simp
  have c2: "(1::real) \<le> 1 \<and> 1 \<le> (1::real)"
    by simp
  have n3: "(2.4::real) \<le> 1.4 + 1 \<and> 1.4 + 1 \<le> (2.4::real)"
    by (rule iv_add[OF c1 c2]) simp_all
  have c4: "(2::real) \<le> 2 \<and> 2 \<le> (2::real)"
    by simp
  have n5: "(1.2::real) \<le> (1.4 + 1) / 2 \<and> (1.4 + 1) / 2 \<le> (1.2::real)"
    by (rule iv_div[OF n3 c4]) simp_all
  have s6: "(0::real) < ((1.4 + 1) / 2)"
    by (rule iv_pos[OF n5]) simp
  have n7: "(1.09544511501::real) \<le> ((1.4 + 1) / 2) powr (1 / 2) \<and> ((1.4 + 1) / 2) powr (1 / 2) \<le> (1.095445115011::real)"
    by (rule iv_root[where n=2, OF n5]) (simp_all add: power_divide)
  have n8: "(1.09544511501::real) \<le> (((1.4 + 1) / 2) powr (1 / 2)) ^ 1 \<and> (((1.4 + 1) / 2) powr (1 / 2)) ^ 1 \<le> (1.095445115011::real)"
    by (rule iv_pow_one[OF n7])
  have n9: "(1.199999999999::real) \<le> (((1.4 + 1) / 2) powr (1 / 2)) ^ 2 \<and> (((1.4 + 1) / 2) powr (1 / 2)) ^ 2 \<le> (1.200000000002::real)"
    by (rule iv_pow_sq[OF n8]) (simp_all add: power_divide)
  have n10: "(1.439999999997::real) \<le> (((1.4 + 1) / 2) powr (1 / 2)) ^ 4 \<and> (((1.4 + 1) / 2) powr (1 / 2)) ^ 4 \<le> (1.440000000005::real)"
    by (rule iv_pow_sq[OF n9]) (simp_all add: power_divide)
  have n11: "(1.727999999994::real) \<le> (((1.4 + 1) / 2) powr (1 / 2)) ^ 6 \<and> (((1.4 + 1) / 2) powr (1 / 2)) ^ 6 \<le> (1.728000000009::real)"
    by (rule iv_pow_mul[OF n10 n9]) simp_all
  have n12: "(1.89292915873::real) \<le> (((1.4 + 1) / 2) powr (1 / 2)) ^ 7 \<and> (((1.4 + 1) / 2) powr (1 / 2)) ^ 7 \<le> (1.892929158749::real)"
    by (rule iv_pow_mul[OF n11 n8]) simp_all
  have n13: "(1.89292915873::real) \<le> ((1.4 + 1) / 2) powr (7 / 2) \<and> ((1.4 + 1) / 2) powr (7 / 2) \<le> (1.892929158749::real)"
    by (rule powr_via_root[OF n12 s6]) simp_all
  have n14: "(12.52561279963::real) \<le> v1 / v2 \<and> v1 / v2 \<le> (12.52561279975::real)"
    by (rule iv_div[OF v1_iv v2_iv]) simp_all
  have s15: "(v2::real) \<noteq> 0"
    by (rule iv_nonzero[OF v2_iv]) simp
  have s16: "(((1.4 + 1) / 2) powr (7 / 2)::real) < (v1 / v2)"
    by (rule iv_less[OF n13 n14]) simp
  have s17: "(0::real) \<le> v3"
    by (rule iv_nonneg[OF v3_iv]) simp
  have n18: "(670472.9075869::real) \<le> v1 / (((1.4 + 1) / 2) powr (7 / 2)) \<and> v1 / (((1.4 + 1) / 2) powr (7 / 2)) \<le> (670472.9075998::real)"
    by (rule iv_div[OF v1_iv n13]) simp_all
  have eq: "P19 drag_inputs = Fin (v1 / (((1.4 + 1) / 2) powr (7 / 2)))"
    by (rule bypass_nozzle_choked_Fin(1)[OF drag_inputs_isValid_core v1_eq v2_eq v3_eq s15 s16 s17])
  from eq n18 show ?thesis
    by blast
qed

lemma drag_inputs_T19:
  "\<exists>t. T19 drag_inputs = Fin t \<and> 504.4913993149 \<le> t \<and> t \<le> 504.4913993171"
proof -
  from drag_inputs_Pt19 obtain v1 where v1_eq: "Pt19 drag_inputs = Fin v1"
    and v1_iv: "(1269157.71692259::real) \<le> v1 \<and> v1 \<le> (1269157.716934::real)"
    by blast
  from drag_inputs_P0 obtain v2 where v2_eq: "P0 drag_inputs = Fin v2"
    and v2_iv: "(101325::real) \<le> v2 \<and> v2 \<le> (101325::real)"
    by blast
  from drag_inputs_Tt13 obtain v3 where v3_eq: "Tt13 drag_inputs = Fin v3"
    and v3_iv: "(605.389679178::real) \<le> v3 \<and> v3 \<le> (605.3896791804::real)"
    by blast
  have c1: "(1.4::real) \<le> 1.4 \<and> 1.4 \<le> (1.4::real)"
    by simp
  have c2: "(1::real) \<le> 1 \<and> 1 \<le> (1::real)"
    by simp
  have n3: "(2.4::real) \<le> 1.4 + 1 \<and> 1.4 + 1 \<le> (2.4::real)"
    by (rule iv_add[OF c1 c2]) simp_all
  have c4: "(2::real) \<le> 2 \<and> 2 \<le> (2::real)"
    by simp
  have n5: "(1.2::real) \<le> (1.4 + 1) / 2 \<and> (1.4 + 1) / 2 \<le> (1.2::real)"
    by (rule iv_div[OF n3 c4]) simp_all
  have s6: "(0::real) < ((1.4 + 1) / 2)"
    by (rule iv_pos[OF n5]) simp
  have n7: "(1.09544511501::real) \<le> ((1.4 + 1) / 2) powr (1 / 2) \<and> ((1.4 + 1) / 2) powr (1 / 2) \<le> (1.095445115011::real)"
    by (rule iv_root[where n=2, OF n5]) (simp_all add: power_divide)
  have n8: "(1.09544511501::real) \<le> (((1.4 + 1) / 2) powr (1 / 2)) ^ 1 \<and> (((1.4 + 1) / 2) powr (1 / 2)) ^ 1 \<le> (1.095445115011::real)"
    by (rule iv_pow_one[OF n7])
  have n9: "(1.199999999999::real) \<le> (((1.4 + 1) / 2) powr (1 / 2)) ^ 2 \<and> (((1.4 + 1) / 2) powr (1 / 2)) ^ 2 \<le> (1.200000000002::real)"
    by (rule iv_pow_sq[OF n8]) (simp_all add: power_divide)
  have n10: "(1.439999999997::real) \<le> (((1.4 + 1) / 2) powr (1 / 2)) ^ 4 \<and> (((1.4 + 1) / 2) powr (1 / 2)) ^ 4 \<le> (1.440000000005::real)"
    by (rule iv_pow_sq[OF n9]) (simp_all add: power_divide)
  have n11: "(1.727999999994::real) \<le> (((1.4 + 1) / 2) powr (1 / 2)) ^ 6 \<and> (((1.4 + 1) / 2) powr (1 / 2)) ^ 6 \<le> (1.728000000009::real)"
    by (rule iv_pow_mul[OF n10 n9]) simp_all
  have n12: "(1.89292915873::real) \<le> (((1.4 + 1) / 2) powr (1 / 2)) ^ 7 \<and> (((1.4 + 1) / 2) powr (1 / 2)) ^ 7 \<le> (1.892929158749::real)"
    by (rule iv_pow_mul[OF n11 n8]) simp_all
  have n13: "(1.89292915873::real) \<le> ((1.4 + 1) / 2) powr (7 / 2) \<and> ((1.4 + 1) / 2) powr (7 / 2) \<le> (1.892929158749::real)"
    by (rule powr_via_root[OF n12 s6]) simp_all
  have n14: "(12.52561279963::real) \<le> v1 / v2 \<and> v1 / v2 \<le> (12.52561279975::real)"
    by (rule iv_div[OF v1_iv v2_iv]) simp_all
  have s15: "(v2::real) \<noteq> 0"
    by (rule iv_nonzero[OF v2_iv]) simp
  have s16: "(((1.4 + 1) / 2) powr (7 / 2)::real) < (v1 / v2)"
    by (rule iv_less[OF n13 n14]) simp
  have s17: "(0::real) \<le> v3"
    by (rule iv_nonneg[OF v3_iv]) simp
  have n18: "(2.4::real) \<le> 1.4 + 1 \<and> 1.4 + 1 \<le> (2.4::real)"
    by (rule iv_add[OF c1 c2]) simp_all
  have n19: "(0.8333333333333::real) \<le> 2 / (1.4 + 1) \<and> 2 / (1.4 + 1) \<le> (0.8333333333334::real)"
    by (rule iv_div[OF c4 n18]) simp_all
  have n20: "(504.4913993149::real) \<le> v3 * (2 / (1.4 + 1)) \<and> v3 * (2 / (1.4 + 1)) \<le> (504.4913993171::real)"
    by (rule iv_mul[OF v3_iv n19]) simp_all
  have eq: "T19 drag_inputs = Fin (v3 * (2 / (1.4 + 1)))"
    by (rule bypass_nozzle_choked_Fin(2)[OF drag_inputs_isValid_core v1_eq v2_eq v3_eq s15 s16 s17])
  from eq n20 show ?thesis
    by blast
qed

lemma drag_inputs_V19:
  "\<exists>t. V19 drag_inputs = Fin t \<and> 450.2665417756 \<le> t \<and> t \<le> 450.2665417768"
proof -
  from drag_inputs_Pt19 obtain v1 where v1_eq: "Pt19 drag_inputs = Fin v1"
    and v1_iv: "(1269157.71692259::real) \<le> v1 \<and> v1 \<le> (1269157.716934::real)"
    by blast
  from drag_inputs_P0 obtain v2 where v2_eq: "P0 drag_inputs = Fin v2"
    and v2_iv: "(101325::real) \<le> v2 \<and> v2 \<le> (101325::real)"
    by blast
  from drag_inputs_Tt13 obtain v3 where v3_eq: "Tt13 drag_inputs = Fin v3"
    and v3_iv: "(605.389679178::real) \<le> v3 \<and> v3 \<le> (605.3896791804::real)"
    by blast
  have c1: "(1.4::real) \<le> 1.4 \<and> 1.4 \<le> (1.4::real)"
    by simp
  have c2: "(1::real) \<le> 1 \<and> 1 \<le> (1::real)"
    by simp
  have n3: "(2.4::real) \<le> 1.4 + 1 \<and> 1.4 + 1 \<le> (2.4::real)"
    by (rule iv_add[OF c1 c2]) simp_all
  have c4: "(2::real) \<le> 2 \<and> 2 \<le> (2::real)"
    by simp
  have n5: "(1.2::real) \<le> (1.4 + 1) / 2 \<and> (1.4 + 1) / 2 \<le> (1.2::real)"
    by (rule iv_div[OF n3 c4]) simp_all
  have s6: "(0::real) < ((1.4 + 1) / 2)"
    by (rule iv_pos[OF n5]) simp
  have n7: "(1.09544511501::real) \<le> ((1.4 + 1) / 2) powr (1 / 2) \<and> ((1.4 + 1) / 2) powr (1 / 2) \<le> (1.095445115011::real)"
    by (rule iv_root[where n=2, OF n5]) (simp_all add: power_divide)
  have n8: "(1.09544511501::real) \<le> (((1.4 + 1) / 2) powr (1 / 2)) ^ 1 \<and> (((1.4 + 1) / 2) powr (1 / 2)) ^ 1 \<le> (1.095445115011::real)"
    by (rule iv_pow_one[OF n7])
  have n9: "(1.199999999999::real) \<le> (((1.4 + 1) / 2) powr (1 / 2)) ^ 2 \<and> (((1.4 + 1) / 2) powr (1 / 2)) ^ 2 \<le> (1.200000000002::real)"
    by (rule iv_pow_sq[OF n8]) (simp_all add: power_divide)
  have n10: "(1.439999999997::real) \<le> (((1.4 + 1) / 2) powr (1 / 2)) ^ 4 \<and> (((1.4 + 1) / 2) powr (1 / 2)) ^ 4 \<le> (1.440000000005::real)"
    by (rule iv_pow_sq[OF n9]) (simp_all add: power_divide)
  have n11: "(1.727999999994::real) \<le> (((1.4 + 1) / 2) powr (1 / 2)) ^ 6 \<and> (((1.4 + 1) / 2) powr (1 / 2)) ^ 6 \<le> (1.728000000009::real)"
    by (rule iv_pow_mul[OF n10 n9]) simp_all
  have n12: "(1.89292915873::real) \<le> (((1.4 + 1) / 2) powr (1 / 2)) ^ 7 \<and> (((1.4 + 1) / 2) powr (1 / 2)) ^ 7 \<le> (1.892929158749::real)"
    by (rule iv_pow_mul[OF n11 n8]) simp_all
  have n13: "(1.89292915873::real) \<le> ((1.4 + 1) / 2) powr (7 / 2) \<and> ((1.4 + 1) / 2) powr (7 / 2) \<le> (1.892929158749::real)"
    by (rule powr_via_root[OF n12 s6]) simp_all
  have n14: "(12.52561279963::real) \<le> v1 / v2 \<and> v1 / v2 \<le> (12.52561279975::real)"
    by (rule iv_div[OF v1_iv v2_iv]) simp_all
  have s15: "(v2::real) \<noteq> 0"
    by (rule iv_nonzero[OF v2_iv]) simp
  have s16: "(((1.4 + 1) / 2) powr (7 / 2)::real) < (v1 / v2)"
    by (rule iv_less[OF n13 n14]) simp
  have s17: "(0::real) \<le> v3"
    by (rule iv_nonneg[OF v3_iv]) simp
  have n18: "(2.4::real) \<le> 1.4 + 1 \<and> 1.4 + 1 \<le> (2.4::real)"
    by (rule iv_add[OF c1 c2]) simp_all
  have n19: "(0.8333333333333::real) \<le> 2 / (1.4 + 1) \<and> 2 / (1.4 + 1) \<le> (0.8333333333334::real)"
    by (rule iv_div[OF c4 n18]) simp_all
  have n20: "(504.4913993149::real) \<le> v3 * (2 / (1.4 + 1)) \<and> v3 * (2 / (1.4 + 1)) \<le> (504.4913993171::real)"
    by (rule iv_mul[OF v3_iv n19]) simp_all
  have c21: "(287.05::real) \<le> 287.05 \<and> 287.05 \<le> (287.05::real)"
    by simp
  have n22: "(401.87::real) \<le> 1.4 * 287.05 \<and> 1.4 * 287.05 \<le> (401.87::real)"
    by (rule iv_mul[OF c1 c21]) simp_all
  have n23: "(202739.9586426::real) \<le> (1.4 * 287.05) * (v3 * (2 / (1.4 + 1))) \<and> (1.4 * 287.05) * (v3 * (2 / (1.4 + 1))) \<le> (202739.9586436::real)"
    by (rule iv_mul[OF n22 n20]) simp_all
  have n24: "(450.2665417756::real) \<le> sqrt ((1.4 * 287.05) * (v3 * (2 / (1.4 + 1)))) \<and> sqrt ((1.4 * 287.05) * (v3 * (2 / (1.4 + 1)))) \<le> (450.2665417768::real)"
    by (rule iv_sqrt[OF n23]) (simp_all add: power_divide)
  have eq: "V19 drag_inputs = Fin (sqrt ((1.4 * 287.05) * (v3 * (2 / (1.4 + 1)))))"
    by (rule bypass_nozzle_choked_Fin(3)[OF drag_inputs_isValid_core v1_eq v2_eq v3_eq s15 s16 s17])
  from eq n24 show ?thesis
    by blast
qed

lemma drag_inputs_rho9:
  "\<exists>t. rho9 drag_inputs = Fin t \<and> 0.4977171469919 \<le> t \<and> t \<le> 0.4977171471287"
proof -
  from drag_inputs_P9 obtain v1 where v1_eq: "P9 drag_inputs = Fin v1"
    and v1_iv: "(101325::real) \<le> v1 \<and> v1 \<le> (101325::real)"
    by blast
  from drag_inputs_T9 obtain v2 where v2_eq: "T9 drag_inputs = Fin v2"
    and v2_iv: "(709.2126250456::real) \<le> v2 \<and> v2 \<le> (709.2126252402::real)"
    by blast
  have c1: "(287.05::real) \<le> 287.05 \<and> 287.05 \<le> (287.05::real)"
    by simp
  have n2: "(203579.4840193::real) \<le> 287.05 * v2 \<and> 287.05 * v2 \<le> (203579.4840752::real)"
    by (rule iv_mul[OF c1 v2_iv]) simp_all
  have s3: "(287.05 * v2::real) \<noteq> 0"
    by (rule iv_nonzero[OF n2]) simp
  have n4: "(0.4977171469919::real) \<le> v1 / (287.05 * v2) \<and> v1 / (287.05 * v2) \<le> (0.4977171471287::real)"
    by (rule iv_div[OF v1_iv n2]) simp_all
  have eq: "rho9 drag_inputs = Fin (v1 / (287.05 * v2))"
    by (rule rho9_Fin[OF v1_eq v2_eq s3])
  from eq n4 show ?thesis
    by blast
qed

lemma drag_inputs_A9_per_unit:
  "\<exists>t. A9_per_unit drag_inputs = Fin t \<and> 0.01898744512842 \<le> t \<and> t \<le> 0.01898744555098"
proof -
  from drag_inputs_f obtain v1 where v1_eq: "f drag_inputs = Fin v1"
    and v1_iv: "(0.02610384449781::real) \<le> v1 \<and> v1 \<le> (0.02610384449802::real)"
    by blast
  from drag_inputs_rho9 obtain v2 where v2_eq: "rho9 drag_inputs = Fin v2"
    and v2_iv: "(0.4977171469919::real) \<le> v2 \<and> v2 \<le> (0.4977171471287::real)"
    by blast
  from drag_inputs_V9 obtain v3 where v3_eq: "V9 drag_inputs = Fin v3"
    and v3_iv: "(108.5780831506::real) \<le> v3 \<and> v3 \<le> (108.578085537::real)"
    by blast
  have n1: "(54.04117377156::real) \<le> v2 * v3 \<and> v2 * v3 \<le> (54.04117497418::real)"
    by (rule iv_mul[OF v2_iv v3_iv]) simp_all
  have s2: "(v2 * v3::real) \<noteq> 0"
    by (rule iv_nonzero[OF n1]) simp
  have c3: "(1::real) \<le> 1 \<and> 1 \<le> (1::real)"
    by simp
  have n4: "(1.02610384449781::real) \<le> 1 + v1 \<and> 1 + v1 \<le> (1.02610384449802::real)"
    by (rule iv_add[OF c3 v1_iv]) simp_all
  have n5: "(0.01898744512842::real) \<le> (1 + v1) / (v2 * v3) \<and> (1 + v1) / (v2 * v3) \<le> (0.01898744555098::real)"
    by (rule iv_div[OF n4 n1]) simp_all
  have eq: "A9_per_unit drag_inputs = Fin ((1 + v1) / (v2 * v3))"
    by (rule A9_per_unit_Fin[OF v1_eq v2_eq v3_eq s2])
  from eq n5 show ?thesis
    by blast
qed

lemma drag_inputs_rho19:
  "\<exists>t. rho19 drag_inputs = Fin t \<and> 4.629881928069 \<le> t \<and> t \<le> 4.629881928182"
proof -
  from drag_inputs_P19 obtain v1 where v1_eq: "P19 drag_inputs = Fin v1"
    and v1_iv: "(670472.9075869::real) \<le> v1 \<and> v1 \<le> (670472.9075998::real)"
    by blast
  from drag_inputs_T19 obtain v2 where v2_eq: "T19 drag_inputs = Fin v2"
    and v2_iv: "(504.4913993149::real) \<le> v2 \<and> v2 \<le> (504.4913993171::real)"
    by blast
  have c1: "(287.05::real) \<le> 287.05 \<and> 287.05 \<le> (287.05::real)"
    by simp
  have n2: "(144814.2561733::real) \<le> 287.05 * v2 \<and> 287.05 * v2 \<le> (144814.256174::real)"
    by (rule iv_mul[OF c1 v2_iv]) simp_all
  have s3: "(287.05 * v2::real) \<noteq> 0"
    by (rule iv_nonzero[OF n2]) simp
  have n4: "(4.629881928069::real) \<le> v1 / (287.05 * v2) \<and> v1 / (287.05 * v2) \<le> (4.629881928182::real)"
    by (rule iv_div[OF v1_iv n2]) simp_all
  have eq: "rho19 drag_inputs = Fin (v1 / (287.05 * v2))"
    by (rule rho19_Fin[OF v1_eq v2_eq s3])
  from eq n4 show ?thesis
    by blast
qed

lemma drag_inputs_A19_per_unit:
  "\<exists>t. A19_per_unit drag_inputs = Fin t \<and> 0.00431720744102 \<le> t \<and> t \<le> 0.004317207441141"
proof -
  have c1: "(9::real) \<le> 9 \<and> 9 \<le> (9::real)"
    by simp
  from drag_inputs_rho19 obtain v1 where v1_eq: "rho19 drag_inputs = Fin v1"
    and v1_iv: "(4.629881928069::real) \<le> v1 \<and> v1 \<le> (4.629881928182::real)"
    by blast
  from drag_inputs_V19 obtain v2 where v2_eq: "V19 drag_inputs = Fin v2"
    and v2_iv: "(450.2665417756::real) \<le> v2 \<and> v2 \<le> (450.2665417768::real)"
    by blast
  have n2: "(2084.68092458::real) \<le> v1 * v2 \<and> v1 * v2 \<le> (2084.680924638::real)"
    by (rule iv_mul[OF v1_iv v2_iv]) simp_all
  have s3: "(v1 * v2::real) \<noteq> 0"
    by (rule iv_nonzero[OF n2]) simp
  have n4: "(0.00431720744102::real) \<le> 9 / (v1 * v2) \<and> 9 / (v1 * v2) \<le> (0.004317207441141::real)"
    by (rule iv_div[OF c1 n2]) simp_all
  have eq: "A19_per_unit drag_inputs = Fin (9 / (v1 * v2))"
    by (rule A19_per_unit_Fin[OF drag_inputs_fields(4) v1_eq v2_eq s3])
  from eq n4 show ?thesis
    by blast
qed

lemma drag_inputs_F_core:
  "\<exists>t. F_core drag_inputs = Fin t \<and> - 569.1721851816 \<le> t \<and> t \<le> - 569.1721827326"
proof -
  from drag_inputs_f obtain v1 where v1_eq: "f drag_inputs = Fin v1"
    and v1_iv: "(0.02610384449781::real) \<le> v1 \<and> v1 \<le> (0.02610384449802::real)"
    by blast
  from drag_inputs_V9 obtain v2 where v2_eq: "V9 drag_inputs = Fin v2"
    and v2_iv: "(108.5780831506::real) \<le> v2 \<and> v2 \<le> (108.578085537::real)"
    by blast
  from drag_inputs_V0 obtain v3 where v3_eq: "V0 drag_inputs = Fin v3"
    and v3_iv: "(680.5845737304::real) \<le> v3 \<and> v3 \<le> (680.5845737306::real)"
    by blast
  from drag_inputs_P9 obtain v4 where v4_eq: "P9 drag_inputs = Fin v4"
    and v4_iv: "(101325::real) \<le> v4 \<and> v4 \<le> (101325::real)"
    by blast
  from drag_inputs_P0 obtain v5 where v5_eq: "P0 drag_inputs = Fin v5"
    and v5_iv: "(101325::real) \<le> v5 \<and> v5 \<le> (101325::real)"
    by blast
  from drag_inputs_A9_per_unit obtain v6 where v6_eq: "A9_per_unit drag_inputs = Fin v6"
    and v6_iv: "(0.01898744512842::real) \<le> v6 \<and> v6 \<le> (0.01898744555098::real)"
    by blast
  have c1: "(1::real) \<le> 1 \<and> 1 \<le> (1::real)"
    by simp
  have n2: "(1.02610384449781::real) \<le> 1 + v1 \<and> 1 + v1 \<le> (1.02610384449802::real)"
    by (rule iv_add[OF c1 v1_iv]) simp_all
  have n3: "(111.412388549::real) \<le> (1 + v1) * v2 \<and> (1 + v1) * v2 \<le> (111.4123909978::real)"
    by (rule iv_mul[OF n2 v2_iv]) simp_all
  have n4: "(680.5845737304::real) \<le> 1 * v3 \<and> 1 * v3 \<le> (680.5845737306::real)"
    by (rule iv_mul[OF c1 v3_iv]) simp_all
  have n5: "(- 569.1721851816::real) \<le> ((1 + v1) * v2) - (1 * v3) \<and> ((1 + v1) * v2) - (1 * v3) \<le> (- 569.1721827326::real)"
    by (rule iv_sub[OF n3 n4]) simp_all
  have n6: "(0::real) \<le> v4 - v5 \<and> v4 - v5 \<le> (0::real)"
    by (rule iv_sub[OF v4_iv v5_iv]) simp_all
  have n7: "(0::real) \<le> (v4 - v5) * v6 \<and> (v4 - v5) * v6 \<le> (0::real)"
    by (rule iv_mul[OF n6 v6_iv]) simp_all
  have n8: "(- 569.1721851816::real) \<le> (((1 + v1) * v2) - (1 * v3)) + ((v4 - v5) * v6) \<and> (((1 + v1) * v2) - (1 * v3)) + ((v4 - v5) * v6) \<le> (- 569.1721827326::real)"
    by (rule iv_add[OF n5 n7]) simp_all
  have eq: "F_core drag_inputs = Fin ((((1 + v1) * v2) - (1 * v3)) + ((v4 - v5) * v6))"
    by (rule F_core_Fin[OF v1_eq v2_eq v3_eq v4_eq v5_eq v6_eq])
  from eq n8 show ?thesis
    by blast
qed

lemma drag_inputs_F_bypass:
  "\<exists>t. F_bypass drag_inputs = Fin t \<and> 384.26729408 \<le> t \<and> t \<le> 384.2672942176"
proof -
  have c1: "(9::real) \<le> 9 \<and> 9 \<le> (9::real)"
    by simp
  from drag_inputs_V19 obtain v1 where v1_eq: "V19 drag_inputs = Fin v1"
    and v1_iv: "(450.2665417756::real) \<le> v1 \<and> v1 \<le> (450.2665417768::real)"
    by blast
  from drag_inputs_V0 obtain v2 where v2_eq: "V0 drag_inputs = Fin v2"
    and v2_iv: "(680.5845737304::real) \<le> v2 \<and> v2 \<le> (680.5845737306::real)"
    by blast
  from drag_inputs_P19 obtain v3 where v3_eq: "P19 drag_inputs = Fin v3"
    and v3_iv: "(670472.9075869::real) \<le> v3 \<and> v3 \<le> (670472.9075998::real)"
    by blast
  from drag_inputs_P0 obtain v4 where v4_eq: "P0 drag_inputs = Fin v4"
    and v4_iv: "(101325::real) \<le> v4 \<and> v4 \<le> (101325::real)"
    by blast
  from drag_inputs_A19_per_unit obtain v5 where v5_eq: "A19_per_unit drag_inputs = Fin v5"
    and v5_iv: "(0.00431720744102::real) \<le> v5 \<and> v5 \<le> (0.004317207441141::real)"
    by blast
  have n2: "(4052.3988759804::real) \<le> 9 * v1 \<and> 9 * v1 \<le> (4052.3988759912::real)"
    by (rule iv_mul[OF c1 v1_iv]) simp_all
  have n3: "(6125.2611635736::real) \<le> 9 * v2 \<and> 9 * v2 \<le> (6125.2611635754::real)"
    by (rule iv_mul[OF c1 v2_iv]) simp_all
  have n4: "(- 2072.862287595::real) \<le> (9 * v1) - (9 * v2) \<and> (9 * v1) - (9 * v2) \<le> (- 2072.8622875824::real)"
    by (rule iv_sub[OF n2 n3]) simp_all
  have n5: "(569147.9075869::real) \<le> v3 - v4 \<and> v3 - v4 \<le> (569147.9075998::real)"
    by (rule iv_sub[OF v3_iv v4_iv]) simp_all
  have n6: "(2457.129581675::real) \<le> (v3 - v4) * v5 \<and> (v3 - v4) * v5 \<le> (2457.1295818::real)"
    by (rule iv_mul[OF n5 v5_iv]) simp_all
  have n7: "(384.26729408::real) \<le> ((9 * v1) - (9 * v2)) + ((v3 - v4) * v5) \<and> ((9 * v1) - (9 * v2)) + ((v3 - v4) * v5) \<le> (384.2672942176::real)"
    by (rule iv_add[OF n4 n6]) simp_all
  have eq: "F_bypass drag_inputs = Fin (((9 * v1) - (9 * v2)) + ((v3 - v4) * v5))"
    by (rule F_bypass_Fin[OF drag_inputs_fields(4) v1_eq v2_eq v3_eq v4_eq v5_eq])
  from eq n7 show ?thesis
    by blast
qed

lemma drag_inputs_V9_eff:
  "\<exists>t. V9_eff drag_inputs = Fin t \<and> 108.5780831506 \<le> t \<and> t \<le> 108.578085537"
proof -
  from drag_inputs_V9 obtain v1 where v1_eq: "V9 drag_inputs = Fin v1"
    and v1_iv: "(108.5780831506::real) \<le> v1 \<and> v1 \<le> (108.578085537::real)"
    by blast
  from drag_inputs_rho9 obtain v2 where v2_eq: "rho9 drag_inputs = Fin v2"
    and v2_iv: "(0.4977171469919::real) \<le> v2 \<and> v2 \<le> (0.4977171471287::real)"
    by blast
  from drag_inputs_P9 obtain v3 where v3_eq: "P9 drag_inputs = Fin v3"
    and v3_iv: "(101325::real) \<le> v3 \<and> v3 \<le> (101325::real)"
    by blast
  from drag_inputs_P0 obtain v4 where v4_eq: "P0 drag_inputs = Fin v4"
    and v4_iv: "(101325::real) \<le> v4 \<and> v4 \<le> (101325::real)"
    by blast
  have c1: "(1::real) \<le> 1 \<and> 1 \<le> (1::real)"
    by simp
  have s2: "(1::real) < v1"
    by (rule iv_less[OF c1 v1_iv]) simp
  have s3: "(0::real) < v2"
    by (rule iv_pos[OF v2_iv]) simp
  have n4: "(0::real) \<le> v3 - v4 \<and> v3 - v4 \<le> (0::real)"
    by (rule iv_sub[OF v3_iv v4_iv]) simp_all
  have n5: "(54.04117377156::real) \<le> v2 * v1 \<and> v2 * v1 \<le> (54.04117497418::real)"
    by (rule iv_mul[OF v2_iv v1_iv]) simp_all
  have n6: "(0::real) \<le> (v3 - v4) / (v2 * v1) \<and> (v3 - v4) / (v2 * v1) \<le> (0::real)"
    by (rule iv_div[OF n4 n5]) simp_all
  have n7: "(108.5780831506::real) \<le> v1 + ((v3 - v4) / (v2 * v1)) \<and> v1 + ((v3 - v4) / (v2 * v1)) \<le> (108.578085537::real)"
    by (rule iv_add[OF v1_iv n6]) simp_all
  have eq: "V9_eff drag_inputs = Fin (v1 + ((v3 - v4) / (v2 * v1)))"
    by (rule V9_eff_Fin[OF v1_eq v2_eq v3_eq v4_eq s2 s3])
  from eq n7 show ?thesis
    by blast
qed

lemma drag_inputs_V19_eff:
  "\<exists>t. V19_eff drag_inputs = Fin t \<and> 723.2809397395 \<le> t \<and> t \<le> 723.2809397545"
proof -
  from drag_inputs_V19 obtain v1 where v1_eq: "V19 drag_inputs = Fin v1"
    and v1_iv: "(450.2665417756::real) \<le> v1 \<and> v1 \<le> (450.2665417768::real)"
    by blast
  from drag_inputs_rho19 obtain v2 where v2_eq: "rho19 drag_inputs = Fin v2"
    and v2_iv: "(4.629881928069::real) \<le> v2 \<and> v2 \<le> (4.629881928182::real)"
    by blast
  from drag_inputs_P19 obtain v3 where v3_eq: "P19 drag_inputs = Fin v3"
    and v3_iv: "(670472.9075869::real) \<le> v3 \<and> v3 \<le> (670472.9075998::real)"
    by blast
  from drag_inputs_P0 obtain v4 where v4_eq: "P0 drag_inputs = Fin v4"
    and v4_iv: "(101325::real) \<le> v4 \<and> v4 \<le> (101325::real)"
    by blast
  have c1: "(1::real) \<le> 1 \<and> 1 \<le> (1::real)"
    by simp
  have s2: "(1::real) < v1"
    by (rule iv_less[OF c1 v1_iv]) simp
  have s3: "(0::real) < v2"
    by (rule iv_pos[OF v2_iv]) simp
  have n4: "(569147.9075869::real) \<le> v3 - v4 \<and> v3 - v4 \<le> (569147.9075998::real)"
    by (rule iv_sub[OF v3_iv v4_iv]) simp_all
  have n5: "(2084.68092458::real) \<le> v2 * v1 \<and> v2 * v1 \<le> (2084.680924638::real)"
    by (rule iv_mul[OF v2_iv v1_iv]) simp_all
  have n6: "(273.0143979639::real) \<le> (v3 - v4) / (v2 * v1) \<and> (v3 - v4) / (v2 * v1) \<le> (273.0143979777::real)"
    by (rule iv_div[OF n4 n5]) simp_all
  have n7: "(723.2809397395::real) \<le> v1 + ((v3 - v4) / (v2 * v1)) \<and> v1 + ((v3 - v4) / (v2 * v1)) \<le> (723.2809397545::real)"
    by (rule iv_add[OF v1_iv n6]) simp_all
  have eq: "V19_eff drag_inputs = Fin (v1 + ((v3 - v4) / (v2 * v1)))"
    by (rule V19_eff_Fin[OF v1_eq v2_eq v3_eq v4_eq s2 s3])
  from eq n7 show ?thesis
    by blast
qed

lemma drag_inputs_m_core_abs:
  "\<exists>t. m_core_abs drag_inputs = Fin t \<and> 135 \<le> t \<and> t \<le> 135"
proof -
  have c1: "(1350::real) \<le> 1350 \<and> 1350 \<le> (1350::real)"
    by simp
  have c2: "(9::real) \<le> 9 \<and> 9 \<le> (9::real)"
    by simp
  have c3: "(1::real) \<le> 1 \<and> 1 \<le> (1::real)"
    by simp
  have n4: "(10::real) \<le> 1 + 9 \<and> 1 + 9 \<le> (10::real)"
    by (rule iv_add[OF c3 c2]) simp_all
  have s5: "(1 + 9::real) \<noteq> 0"
    by (rule iv_nonzero[OF n4]) simp
  have n6: "(135::real) \<le> 1350 / (1 + 9) \<and> 1350 / (1 + 9) \<le> (135::real)"
    by (rule iv_div[OF c1 n4]) simp_all
  have eq: "m_core_abs drag_inputs = Fin (1350 / (1 + 9))"
    by (rule m_core_abs_Fin[OF drag_inputs_fields(3) drag_inputs_fields(4) s5])
  from eq n6 show ?thesis
    by blast
qed

lemma drag_inputs_KE_out_eff:
  "\<exists>t. KE_out_eff drag_inputs = Fin t \<and> 318621249.2498495 \<le> t \<and> t \<le> 318621249.2989876"
proof -
  from drag_inputs_m_core_abs obtain v1 where v1_eq: "m_core_abs drag_inputs = Fin v1"
    and v1_iv: "(135::real) \<le> v1 \<and> v1 \<le> (135::real)"
    by blast
  from drag_inputs_f obtain v2 where v2_eq: "f drag_inputs = Fin v2"
    and v2_iv: "(0.02610384449781::real) \<le> v2 \<and> v2 \<le> (0.02610384449802::real)"
    by blast
  from drag_inputs_V9_eff obtain v3 where v3_eq: "V9_eff drag_inputs = Fin v3"
    and v3_iv: "(108.5780831506::real) \<le> v3 \<and> v3 \<le> (108.578085537::real)"
    by blast
  have c1: "(1350::real) \<le> 1350 \<and> 1350 \<le> (1350::real)"
    by simp
  from drag_inputs_V19_eff obtain v4 where v4_eq: "V19_eff drag_inputs = Fin v4"
    and v4_iv: "(723.2809397395::real) \<le> v4 \<and> v4 \<le> (723.2809397545::real)"
    by blast
  have c2: "(0.5::real) \<le> 0.5 \<and> 0.5 \<le> (0.5::real)"
    by simp
  have n3: "(67.5::real) \<le> 0.5 * v1 \<and> 0.5 * v1 \<le> (67.5::real)"
    by (rule iv_mul[OF c2 v1_iv]) simp_all
  have c4: "(1::real) \<le> 1 \<and> 1 \<le> (1::real)"
    by simp
  have n5: "(1.02610384449781::real) \<le> 1 + v2 \<and> 1 + v2 \<le> (1.02610384449802::real)"
    by (rule iv_add[OF c4 v2_iv]) simp_all
  have n6: "(69.2620095036::real) \<le> (0.5 * v1) * (1 + v2) \<and> (0.5 * v1) * (1 + v2) \<le> (69.26200950361635::real)"
    by (rule iv_mul[OF n3 n5]) simp_all
  have n7: "(11789.20014065::real) \<le> v3\<^sup>2 \<and> v3\<^sup>2 \<le> (11789.20065889::real)"
    by (rule iv_sq[OF v3_iv]) (simp_all add: power_divide)
  have n8: "(816543.6921815::real) \<le> ((0.5 * v1) * (1 + v2)) * (v3\<^sup>2) \<and> ((0.5 * v1) * (1 + v2)) * (v3\<^sup>2) \<le> (816543.7280761::real)"
    by (rule iv_mul[OF n6 n7]) simp_all
  have n9: "(1215::real) \<le> 1350 - v1 \<and> 1350 - v1 \<le> (1215::real)"
    by (rule iv_sub[OF c1 v1_iv]) simp_all
  have n10: "(607.5::real) \<le> 0.5 * (1350 - v1) \<and> 0.5 * (1350 - v1) \<le> (607.5::real)"
    by (rule iv_mul[OF c2 n9]) simp_all
  have n11: "(523135.3177904::real) \<le> v4\<^sup>2 \<and> v4\<^sup>2 \<le> (523135.3178122::real)"
    by (rule iv_sq[OF v4_iv]) (simp_all add: power_divide)
  have n12: "(317804705.557668::real) \<le> (0.5 * (1350 - v1)) * (v4\<^sup>2) \<and> (0.5 * (1350 - v1)) * (v4\<^sup>2) \<le> (317804705.5709115::real)"
    by (rule iv_mul[OF n10 n11]) simp_all
  have n13: "(318621249.2498495::real) \<le> (((0.5 * v1) * (1 + v2)) * (v3\<^sup>2)) + ((0.5 * (1350 - v1)) * (v4\<^sup>2)) \<and> (((0.5 * v1) * (1 + v2)) * (v3\<^sup>2)) + ((0.5 * (1350 - v1)) * (v4\<^sup>2)) \<le> (318621249.2989876::real)"
    by (rule iv_add[OF n8 n12]) simp_all
  have eq: "KE_out_eff drag_inputs = Fin ((((0.5 * v1) * (1 + v2)) * (v3\<^sup>2)) + ((0.5 * (1350 - v1)) * (v4\<^sup>2)))"
    by (rule KE_out_eff_Fin[OF v1_eq v2_eq v3_eq drag_inputs_fields(3) v4_eq])
  from eq n13 show ?thesis
    by blast
qed

lemma drag_inputs_KE_in:
  "\<exists>t. KE_in drag_inputs = Fin t \<and> 312656869.3497975 \<le> t \<and> t \<le> 312656869.3500675"
proof -
  have c1: "(1350::real) \<le> 1350 \<and> 1350 \<le> (1350::real)"
    by simp
  from drag_inputs_V0 obtain v1 where v1_eq: "V0 drag_inputs = Fin v1"
    and v1_iv: "(680.5845737304::real) \<le> v1 \<and> v1 \<le> (680.5845737306::real)"
    by blast
  have c2: "(0.5::real) \<le> 0.5 \<and> 0.5 \<le> (0.5::real)"
    by simp
  have n3: "(675::real) \<le> 0.5 * 1350 \<and> 0.5 * 1350 \<le> (675::real)"
    by (rule iv_mul[OF c2 c1]) simp_all
  have n4: "(463195.3619997::real) \<le> v1\<^sup>2 \<and> v1\<^sup>2 \<le> (463195.3620001::real)"
    by (rule iv_sq[OF v1_iv]) (simp_all add: power_divide)
  have n5: "(312656869.3497975::real) \<le> (0.5 * 1350) * (v1\<^sup>2) \<and> (0.5 * 1350) * (v1\<^sup>2) \<le> (312656869.3500675::real)"
    by (rule iv_mul[OF n3 n4]) simp_all
  have eq: "KE_in drag_inputs = Fin ((0.5 * 1350) * (v1\<^sup>2))"
    by (rule KE_in_Fin[OF drag_inputs_fields(3) v1_eq])
  from eq n5 show ?thesis
    by blast
qed

lemma drag_inputs_Q_in:
  "\<exists>t. Q_in drag_inputs = Fin t \<and> 151885219.2105 \<le> t \<and> t \<le> 151885219.2118"
proof -
  from drag_inputs_m_core_abs obtain v1 where v1_eq: "m_core_abs drag_inputs = Fin v1"
    and v1_iv: "(135::real) \<le> v1 \<and> v1 \<le> (135::real)"
    by blast
  from drag_inputs_f obtain v2 where v2_eq: "f drag_inputs = Fin v2"
    and v2_iv: "(0.02610384449781::real) \<le> v2 \<and> v2 \<le> (0.02610384449802::real)"
    by blast
  from drag_inputs_Hu_J obtain v3 where v3_eq: "Hu_J drag_inputs = Fin v3"
    and v3_iv: "(43100000::real) \<le> v3 \<and> v3 \<le> (43100000::real)"
    by blast
  have n1: "(3.52401900720435::real) \<le> v1 * v2 \<and> v1 * v2 \<le> (3.5240190072327::real)"
    by (rule iv_mul[OF v1_iv v2_iv]) simp_all
  have n2: "(151885219.2105::real) \<le> (v1 * v2) * v3 \<and> (v1 * v2) * v3 \<le> (151885219.2118::real)"
    by (rule iv_mul[OF n1 v3_iv]) simp_all
  have eq: "Q_in drag_inputs = Fin ((v1 * v2) * v3)"
    by (rule Q_in_Fin[OF v1_eq v2_eq v3_eq])
  from eq n2 show ?thesis
    by blast
qed

lemma drag_inputs_isValid_final:
  "isValid_final drag_inputs"
  using drag_inputs_isValid_core by (simp add: isValid_final_def)

lemma drag_inputs_specific_thrust:
  "\<exists>t. fst (performance_block drag_inputs) = Fin t \<and> - 18.49048911016 \<le> t \<and> t \<le> - 18.4904888515"
proof -
  from drag_inputs_F_core obtain v1 where v1_eq: "F_core drag_inputs = Fin v1"
    and v1_iv: "(- 569.1721851816::real) \<le> v1 \<and> v1 \<le> (- 569.1721827326::real)"
    by blast
  from drag_inputs_F_bypass obtain v2 where v2_eq: "F_bypass drag_inputs = Fin v2"
    and v2_iv: "(384.26729408::real) \<le> v2 \<and> v2 \<le> (384.2672942176::real)"
    by blast
  have c1: "(9::real) \<le> 9 \<and> 9 \<le> (9::real)"
    by simp
  have c2: "(1::real) \<le> 1 \<and> 1 \<le> (1::real)"
    by simp
  have n3: "(10::real) \<le> 1 + 9 \<and> 1 + 9 \<le> (10::real)"
    by (rule iv_add[OF c2 c1]) simp_all
  have s4: "(1 + 9::real) \<noteq> 0"
    by (rule iv_nonzero[OF n3]) simp
  have n5: "(- 184.9048911016::real) \<le> v1 + v2 \<and> v1 + v2 \<le> (- 184.904888515::real)"
    by (rule iv_add[OF v1_iv v2_iv]) simp_all
  have n6: "(- 18.49048911016::real) \<le> (v1 + v2) / (1 + 9) \<and> (v1 + v2) / (1 + 9) \<le> (- 18.4904888515::real)"
    by (rule iv_div[OF n5 n3]) simp_all
  have eq: "fst (performance_block drag_inputs) = Fin ((v1 + v2) / (1 + 9))"
    by (rule specific_thrust_Fin[OF drag_inputs_isValid_final v1_eq v2_eq drag_inputs_fields(4) s4])
  from eq n6 show ?thesis
    by blast
qed

lemma drag_inputs_total_thrust:
  "\<exists>t. fst (snd (performance_block drag_inputs)) = Fin t \<and> - 24962.160298716 \<le> t \<and> t \<le> - 24962.159949525"
proof -
  from drag_inputs_specific_thrust obtain v1 where v1_eq: "fst (performance_block drag_inputs) = Fin v1"
    and v1_iv: "(- 18.49048911016::real) \<le> v1 \<and> v1 \<le> (- 18.4904888515::real)"
    by blast
  have c1: "(1350::real) \<le> 1350 \<and> 1350 \<le> (1350::real)"
    by simp
  have n2: "(- 24962.160298716::real) \<le> v1 * 1350 \<and> v1 * 1350 \<le> (- 24962.159949525::real)"
    by (rule iv_mul[OF v1_iv c1]) simp_all
  have eq: "fst (snd (performance_block drag_inputs)) = Fin (v1 * 1350)"
    by (rule total_thrust_Fin[OF drag_inputs_isValid_final v1_eq drag_inputs_fields(3)])
  from eq n2 show ?thesis
    by blast
qed

lemma drag_inputs_sfc:
  "\<exists>t. fst (snd (snd (performance_block drag_inputs))) = Fin t \<and> 0 \<le> t \<and> t \<le> 0"
proof -
  from drag_inputs_total_thrust obtain v1 where v1_eq: "fst (snd (performance_block drag_inputs)) = Fin v1"
    and v1_iv: "(- 24962.160298716::real) \<le> v1 \<and> v1 \<le> (- 24962.159949525::real)"
    by blast
  have c1: "(0::real) \<le> 0 \<and> 0 \<le> (0::real)"
    by simp
  have s2: "(v1::real) \<le> 0"
    by (rule iv_le[OF v1_iv c1]) simp
  have eq: "fst (snd (snd (performance_block drag_inputs))) = Fin 0"
    by (rule sfc_zero_Fin[OF drag_inputs_isValid_final v1_eq s2])
  from eq c1 show ?thesis
    by blast
qed

subsection \<open>The solver at \<open>floored_inputs\<close>\<close>

lemma floored_inputs_fields:
  "altitude floored_inputs = Fin 0"
  "mach floored_inputs = Fin 0"
  "massFlow floored_inputs = Fin 1350"
  "bypassRatio floored_inputs = Fin 0"
  "overallPressureRatio floored_inputs = Fin 1.5"
  "fanPressureRatio floored_inputs = Fin 1.65"
  "turbineEntryTemp floored_inputs = Fin 1650"
  "efficiencyFan floored_inputs = Fin 0.92"
  "efficiencyLPC floored_inputs = Fin 0.90"
  "efficiencyHPC floored_inputs = Fin 0.90"
  "efficiencyHPT floored_inputs = Fin 0.92"
  "efficiencyLPT floored_inputs = Fin 0.93"
  "efficiencyBurner floored_inputs = Fin 0.995"
  "pressureRecoveryInlet floored_inputs = Fin 0.98"
  "pressureRecoveryBurner floored_inputs = Fin 0.96"
  "pressureRecoveryNozzle floored_inputs = Fin 0.99"
  "mechEfficiencyHigh floored_inputs = Fin 0.99"
  "mechEfficiencyLow floored_inputs = Fin 0.99"
  "heatingValue floored_inputs = Fin 43.1"
  by (simp_all add: floored_inputs_def)

lemma floored_inputs_T0:
  "\<exists>t. T0 floored_inputs = Fin t \<and> 288.15 \<le> t \<and> t \<le> 288.15"
proof -
  have eq: "T0 floored_inputs = Fin 288.15"
    by (rule sea_level_Fin(1)[OF floored_inputs_fields(1)])
  have iv: "(288.15::real) \<le> 288.15 \<and> 288.15 \<le> (288.15::real)"
    by simp
  from eq iv show ?thesis
    by blast
qed

lemma floored_inputs_P0:
  "\<exists>t. P0 floored_inputs = Fin t \<and> 101325 \<le> t \<and> t \<le> 101325"
proof -
  have eq: "P0 floored_inputs = Fin 101325"
    by (rule sea_level_Fin(2)[OF floored_inputs_fields(1)])
  have iv: "(101325::real) \<le> 101325 \<and> 101325 \<le> (101325::real)"
    by simp
  from eq iv show ?thesis
    by blast
qed

lemma floored_inputs_V0:
  "\<exists>t. V0 floored_inputs = Fin t \<and> 0 \<le> t \<and> t \<le> 0"
proof -
  have c1: "(0::real) \<le> 0 \<and> 0 \<le> (0::real)"
    by simp
  from floored_inputs_T0 obtain v1 where v1_eq: "T0 floored_inputs = Fin v1"
    and v1_iv: "(288.15::real) \<le> v1 \<and> v1 \<le> (288.15::real)"
    by blast
  have s2: "(0::real) \<le> v1"
    by (rule iv_nonneg[OF v1_iv]) simp
  have c3: "(1.4::real) \<le> 1.4 \<and> 1.4 \<le> (1.4::real)"
    by simp
  have c4: "(287.05::real) \<le> 287.05 \<and> 287.05 \<le> (287.05::real)"
    by simp
  have n5: "(401.87::real) \<le> 1.4 * 287.05 \<and> 1.4 * 287.05 \<le> (401.87::real)"
    by (rule iv_mul[OF c3 c4]) simp_all
  have n6: "(115798.8405::real) \<le> (1.4 * 287.05) * v1 \<and> (1.4 * 287.05) * v1 \<le> (115798.8405::real)"
    by (rule iv_mul[OF n5 v1_iv]) simp_all
  have n7: "(340.2922868652::real) \<le> sqrt ((1.4 * 287.05) * v1) \<and> sqrt ((1.4 * 287.05) * v1) \<le> (340.2922868653::real)"
    by (rule iv_sqrt[OF n6]) (simp_all add: power_divide)
  have n8: "(0::real) \<le> 0 * (sqrt ((1.4 * 287.05) * v1)) \<and> 0 * (sqrt ((1.4 * 287.05) * v1)) \<le> (0::real)"
    by (rule iv_mul[OF c1 n7]) simp_all
  have eq: "V0 floored_inputs = Fin (0 * (sqrt ((1.4 * 287.05) * v1)))"
    by (rule V0_Fin[OF floored_inputs_fields(2) v1_eq s2])
  from eq n8 show ?thesis
    by blast
qed

lemma floored_inputs_tau_r:
  "\<exists>t. tau_r floored_inputs = Fin t \<and> 1 \<le> t \<and> t \<le> 1"
proof -
  have c1: "(0::real) \<le> 0 \<and> 0 \<le> (0::real)"
    by simp
  have c2: "(1::real) \<le> 1 \<and> 1 \<le> (1::real)"
    by simp
  have c3: "(1.4::real) \<le> 1.4 \<and> 1.4 \<le> (1.4::real)"
    by simp
  have n4: "(0.4::real) \<le> 1.4 - 1 \<and> 1.4 - 1 \<le> (0.4::real)"
    by (rule iv_sub[OF c3 c2]) simp_all
  have c5: "(2::real) \<le> 2 \<and> 2 \<le> (2::real)"
    by simp
  have n6: "(0.2::real) \<le> (1.4 - 1) / 2 \<and> (1.4 - 1) / 2 \<le> (0.2::real)"
    by (rule iv_div[OF n4 c5]) simp_all
  have n7: "(0::real) \<le> ((1.4 - 1) / 2) * 0 \<and> ((1.4 - 1) / 2) * 0 \<le> (0::real)"
    by (rule iv_mul[OF n6 c1]) simp_all
  have n8: "(0::real) \<le> (((1.4 - 1) / 2) * 0) * 0 \<and> (((1.4 - 1) / 2) * 0) * 0 \<le> (0::real)"
    by (rule iv_mul[OF n7 c1]) simp_all
  have n9: "(1::real) \<le> 1 + ((((1.4 - 1) / 2) * 0) * 0) \<and> 1 + ((((1.4 - 1) / 2) * 0) * 0) \<le> (1::real)"
    by (rule iv_add[OF c2 n8]) simp_all
  have eq: "tau_r floored_inputs = Fin (1 + ((((1.4 - 1) / 2) * 0) * 0))"
    by (rule tau_r_Fin[OF floored_inputs_fields(2)])
  from eq n9 show ?thesis
    by blast
qed

lemma floored_inputs_pi_r:
  "\<exists>t. pi_r floored_inputs = Fin t \<and> 1 \<le> t \<and> t \<le> 1"
proof -
  from floored_inputs_tau_r obtain v1 where v1_eq: "tau_r floored_inputs = Fin v1"
    and v1_iv: "(1::real) \<le> v1 \<and> v1 \<le> (1::real)"
    by blast
  have s1: "(0::real) < v1"
    by (rule iv_pos[OF v1_iv]) simp
  have s2: "(0::real) < v1"
    by (rule iv_pos[OF v1_iv]) simp
  have n3: "(1::real) \<le> v1 powr (1 / 2) \<and> v1 powr (1 / 2) \<le> (1::real)"
    by (rule iv_root[where n=2, OF v1_iv]) (simp_all add: power_divide)
  have n4: "(1::real) \<le> (v1 powr (1 / 2)) ^ 1 \<and> (v1 powr (1 / 2)) ^ 1 \<le> (1::real)"
    by (rule iv_pow_one[OF n3])
  have n5: "(1::real) \<le> (v1 powr (1 / 2)) ^ 2 \<and> (v1 powr (1 / 2)) ^ 2 \<le> (1::real)"
    by (rule iv_pow_sq[OF n4]) (simp_all add: power_divide)
  have n6: "(1::real) \<le> (v1 powr (1 / 2)) ^ 4 \<and> (v1 powr (1 / 2)) ^ 4 \<le> (1::real)"
    by (rule iv_pow_sq[OF n5]) (simp_all add: power_divide)
  have n7: "(1::real) \<le> (v1 powr (1 / 2)) ^ 6 \<and> (v1 powr (1 / 2)) ^ 6 \<le> (1::real)"
    by (rule iv_pow_mul[OF n6 n5]) simp_all
  have n8: "(1::real) \<le> (v1 powr (1 / 2)) ^ 7 \<and> (v1 powr (1 / 2)) ^ 7 \<le> (1::real)"
    by (rule iv_pow_mul[OF n7 n4]) simp_all
  have n9: "(1::real) \<le> v1 powr (7 / 2) \<and> v1 powr (7 / 2) \<le> (1::real)"
    by (rule powr_via_root[OF n8 s2]) simp_all
  have eq: "pi_r floored_inputs = Fin (v1 powr (7 / 2))"
    by (rule pi_r_Fin[OF v1_eq s1])
  from eq n9 show ?thesis
    by blast
qed

lemma floored_inputs_Tt0:
  "\<exists>t. Tt0 floored_inputs = Fin t \<and> 288.15 \<le> t \<and> t \<le> 288.15"
proof -
  from floored_inputs_T0 obtain v1 where v1_eq: "T0 floored_inputs = Fin v1"
    and v1_iv: "(288.15::real) \<le> v1 \<and> v1 \<le> (288.15::real)"
    by blast
  from floored_inputs_tau_r obtain v2 where v2_eq: "tau_r floored_inputs = Fin v2"
    and v2_iv: "(1::real) \<le> v2 \<and> v2 \<le> (1::real)"
    by blast
  have n1: "(288.15::real) \<le> v1 * v2 \<and> v1 * v2 \<le> (288.15::real)"
    by (rule iv_mul[OF v1_iv v2_iv]) simp_all
  have eq: "Tt0 floored_inputs = Fin (v1 * v2)"
    by (rule Tt0_Fin[OF v1_eq v2_eq])
  from eq n1 show ?thesis
    by blast
qed

lemma floored_inputs_Pt0:
  "\<exists>t. Pt0 floored_inputs = Fin t \<and> 101325 \<le> t \<and> t \<le> 101325"
proof -
  from floored_inputs_P0 obtain v1 where v1_eq: "P0 floored_inputs = Fin v1"
    and v1_iv: "(101325::real) \<le> v1 \<and> v1 \<le> (101325::real)"
    by blast
  from floored_inputs_pi_r obtain v2 where v2_eq: "pi_r floored_inputs = Fin v2"
    and v2_iv: "(1::real) \<le> v2 \<and> v2 \<le> (1::real)"
    by blast
  have n1: "(101325::real) \<le> v1 * v2 \<and> v1 * v2 \<le> (101325::real)"
    by (rule iv_mul[OF v1_iv v2_iv]) simp_all
  have eq: "Pt0 floored_inputs = Fin (v1 * v2)"
    by (rule Pt0_Fin[OF v1_eq v2_eq])
  from eq n1 show ?thesis
    by blast
qed

lemma floored_inputs_Tt2:
  "\<exists>t. Tt2 floored_inputs = Fin t \<and> 288.15 \<le> t \<and> t \<le> 288.15"
proof -
  from floored_inputs_Tt0 obtain v1 where v1_eq: "Tt0 floored_inputs = Fin v1"
    and v1_iv: "(288.15::real) \<le> v1 \<and> v1 \<le> (288.15::real)"
    by blast
  have eq: "Tt2 floored_inputs = Fin v1"
    by (rule Tt2_Fin[OF v1_eq])
  from eq v1_iv show ?thesis
    by blast
qed

lemma floored_inputs_Pt2:
  "\<exists>t. Pt2 floored_inputs = Fin t \<and> 99298.5 \<le> t \<and> t \<le> 99298.5"
proof -
  from floored_inputs_Pt0 obtain v1 where v1_eq: "Pt0 floored_inputs = Fin v1"
    and v1_iv: "(101325::real) \<le> v1 \<and> v1 \<le> (101325::real)"
    by blast
  have c1: "(0.98::real) \<le> 0.98 \<and> 0.98 \<le> (0.98::real)"
    by simp
  have n2: "(99298.5::real) \<le> v1 * 0.98 \<and> v1 * 0.98 \<le> (99298.5::real)"
    by (rule iv_mul[OF v1_iv c1]) simp_all
  have eq: "Pt2 floored_inputs = Fin (v1 * 0.98)"
    by (rule Pt2_Fin[OF v1_eq floored_inputs_fields(14)])
  from eq n2 show ?thesis
    by blast
qed

lemma floored_inputs_Pt13:
  "\<exists>t. Pt13 floored_inputs = Fin t \<and> 163842.525 \<le> t \<and> t \<le> 163842.525"
proof -
  from floored_inputs_Pt2 obtain v1 where v1_eq: "Pt2 floored_inputs = Fin v1"
    and v1_iv: "(99298.5::real) \<le> v1 \<and> v1 \<le> (99298.5::real)"
    by blast
  have c1: "(1.65::real) \<le> 1.65 \<and> 1.65 \<le> (1.65::real)"
    by simp
  have n2: "(163842.525::real) \<le> v1 * 1.65 \<and> v1 * 1.65 \<le> (163842.525::real)"
    by (rule iv_mul[OF v1_iv c1]) simp_all
  have eq: "Pt13 floored_inputs = Fin (v1 * 1.65)"
    by (rule Pt13_Fin[OF v1_eq floored_inputs_fields(6)])
  from eq n2 show ?thesis
    by blast
qed

lemma floored_inputs_Tt13:
  "\<exists>t. Tt13 floored_inputs = Fin t \<and> 336.3275995433 \<le> t \<and> t \<le> 336.3275995447"
proof -
  from floored_inputs_Tt2 obtain v1 where v1_eq: "Tt2 floored_inputs = Fin v1"
    and v1_iv: "(288.15::real) \<le> v1 \<and> v1 \<le> (288.15::real)"
    by blast
  have c1: "(1.65::real) \<le> 1.65 \<and> 1.65 \<le> (1.65::real)"
    by simp
  have c2: "(0.92::real) \<le> 0.92 \<and> 0.92 \<le> (0.92::real)"
    by simp
  have s3: "(0::real) < 1.65"
    by (rule iv_pos[OF c1]) simp
  have s4: "(0.92::real) \<noteq> 0"
    by (rule iv_nonzero[OF c2]) simp
  have c5: "(1::real) \<le> 1 \<and> 1 \<le> (1::real)"
    by simp
  have s6: "(0::real) < 1.65"
    by (rule iv_pos[OF c1]) simp
  have n7: "(1.074160393209::real) \<le> 1.65 powr (1 / 7) \<and> 1.65 powr (1 / 7) \<le> (1.07416039321::real)"
    by (rule iv_root[where n=7, OF c1]) (simp_all add: power_divide)
  have n8: "(1.074160393209::real) \<le> (1.65 powr (1 / 7)) ^ 1 \<and> (1.65 powr (1 / 7)) ^ 1 \<le> (1.07416039321::real)"
    by (rule iv_pow_one[OF n7])
  have n9: "(1.153820550338::real) \<le> (1.65 powr (1 / 7)) ^ 2 \<and> (1.65 powr (1 / 7)) ^ 2 \<le> (1.153820550342::real)"
    by (rule iv_pow_sq[OF n8]) (simp_all add: power_divide)
  have n10: "(1.153820550338::real) \<le> 1.65 powr (2 / 7) \<and> 1.65 powr (2 / 7) \<le> (1.153820550342::real)"
    by (rule powr_via_root[OF n9 s6]) simp_all
  have n11: "(0.153820550338::real) \<le> (1.65 powr (2 / 7)) - 1 \<and> (1.65 powr (2 / 7)) - 1 \<le> (0.153820550342::real)"
    by (rule iv_sub[OF n10 c5]) simp_all
  have n12: "(0.1671962503673::real) \<le> ((1.65 powr (2 / 7)) - 1) / 0.92 \<and> ((1.65 powr (2 / 7)) - 1) / 0.92 \<le> (0.1671962503718::real)"
    by (rule iv_div[OF n11 c2]) simp_all
  have n13: "(1.1671962503673::real) \<le> 1 + (((1.65 powr (2 / 7)) - 1) / 0.92) \<and> 1 + (((1.65 powr (2 / 7)) - 1) / 0.92) \<le> (1.1671962503718::real)"
    by (rule iv_add[OF c5 n12]) simp_all
  have n14: "(336.3275995433::real) \<le> v1 * (1 + (((1.65 powr (2 / 7)) - 1) / 0.92)) \<and> v1 * (1 + (((1.65 powr (2 / 7)) - 1) / 0.92)) \<le> (336.3275995447::real)"
    by (rule iv_mul[OF v1_iv n13]) simp_all
  have eq: "Tt13 floored_inputs = Fin (v1 * (1 + (((1.65 powr (2 / 7)) - 1) / 0.92)))"
    by (rule Tt13_Fin[OF v1_eq floored_inputs_fields(6) floored_inputs_fields(8) s3 s4])
  from eq n14 show ?thesis
    by blast
qed

lemma floored_inputs_Pt21:
  "\<exists>t. Pt21 floored_inputs = Fin t \<and> 163842.525 \<le> t \<and> t \<le> 163842.525"
proof -
  from floored_inputs_Pt13 obtain v1 where v1_eq: "Pt13 floored_inputs = Fin v1"
    and v1_iv: "(163842.525::real) \<le> v1 \<and> v1 \<le> (163842.525::real)"
    by blast
  have eq: "Pt21 floored_inputs = Fin v1"
    by (rule Pt21_Fin[OF v1_eq])
  from eq v1_iv show ?thesis
    by blast
qed

lemma floored_inputs_Tt21:
  "\<exists>t. Tt21 floored_inputs = Fin t \<and> 336.3275995433 \<le> t \<and> t \<le> 336.3275995447"
proof -
  from floored_inputs_Tt13 obtain v1 where v1_eq: "Tt13 floored_inputs = Fin v1"
    and v1_iv: "(336.3275995433::real) \<le> v1 \<and> v1 \<le> (336.3275995447::real)"
    by blast
  have eq: "Tt21 floored_inputs = Fin v1"
    by (rule Tt21_Fin[OF v1_eq])
  from eq v1_iv show ?thesis
    by blast
qed

lemma floored_inputs_pi_ch:
  "\<exists>t. pi_ch floored_inputs = Fin t \<and> 1.1 \<le> t \<and> t \<le> 1.1"
proof -
  have c1: "(1.5::real) \<le> 1.5 \<and> 1.5 \<le> (1.5::real)"
    by simp
  have c2: "(1.65::real) \<le> 1.65 \<and> 1.65 \<le> (1.65::real)"
    by simp
  have s3: "(1.65::real) \<noteq> 0"
    by (rule iv_nonzero[OF c2]) simp
  have c4: "(1.1::real) \<le> 1.1 \<and> 1.1 \<le> (1.1::real)"
    by simp
  have n5: "(0.9090909090909::real) \<le> 1.5 / 1.65 \<and> 1.5 / 1.65 \<le> (0.909090909091::real)"
    by (rule iv_div[OF c1 c2]) simp_all
  have n6: "(1.1::real) \<le> max 1.1 (1.5 / 1.65) \<and> max 1.1 (1.5 / 1.65) \<le> (1.1::real)"
    by (rule iv_max[OF c4 n5]) simp_all
  have eq: "pi_ch floored_inputs = Fin (max 1.1 (1.5 / 1.65))"
    by (rule pi_ch_Fin[OF floored_inputs_fields(5) floored_inputs_fields(6) s3])
  from eq n6 show ?thesis
    by blast
qed

lemma floored_inputs_Pt3:
  "\<exists>t. Pt3 floored_inputs = Fin t \<and> 180226.7775 \<le> t \<and> t \<le> 180226.7775"
proof -
  from floored_inputs_Pt21 obtain v1 where v1_eq: "Pt21 floored_inputs = Fin v1"
    and v1_iv: "(163842.525::real) \<le> v1 \<and> v1 \<le> (163842.525::real)"
    by blast
  from floored_inputs_pi_ch obtain v2 where v2_eq: "pi_ch floored_inputs = Fin v2"
    and v2_iv: "(1.1::real) \<le> v2 \<and> v2 \<le> (1.1::real)"
    by blast
  have n1: "(180226.7775::real) \<le> v1 * v2 \<and> v1 * v2 \<le> (180226.7775::real)"
    by (rule iv_mul[OF v1_iv v2_iv]) simp_all
  have eq: "Pt3 floored_inputs = Fin (v1 * v2)"
    by (rule Pt3_Fin[OF v1_eq v2_eq])
  from eq n1 show ?thesis
    by blast
qed

lemma floored_inputs_Tt3:
  "\<exists>t. Tt3 floored_inputs = Fin t \<and> 346.643755574 \<le> t \<and> t \<le> 346.6437555767"
proof -
  from floored_inputs_Tt21 obtain v1 where v1_eq: "Tt21 floored_inputs = Fin v1"
    and v1_iv: "(336.3275995433::real) \<le> v1 \<and> v1 \<le> (336.3275995447::real)"
    by blast
  from floored_inputs_pi_ch obtain v2 where v2_eq: "pi_ch floored_inputs = Fin v2"
    and v2_iv: "(1.1::real) \<le> v2 \<and> v2 \<le> (1.1::real)"
    by blast
  have c1: "(0.9::real) \<le> 0.90 \<and> 0.90 \<le> (0.9::real)"
    by simp
  have s2: "(0::real) < v2"
    by (rule iv_pos[OF v2_iv]) simp
  have s3: "(0.90::real) \<noteq> 0"
    by (rule iv_nonzero[OF c1]) simp
  have c4: "(1::real) \<le> 1 \<and> 1 \<le> (1::real)"
    by simp
  have s5: "(0::real) < v2"
    by (rule iv_pos[OF v2_iv]) simp
  have n6: "(1.013708856295::real) \<le> v2 powr (1 / 7) \<and> v2 powr (1 / 7) \<le> (1.013708856296::real)"
    by (rule iv_root[where n=7, OF v2_iv]) (simp_all add: power_divide)
  have n7: "(1.013708856295::real) \<le> (v2 powr (1 / 7)) ^ 1 \<and> (v2 powr (1 / 7)) ^ 1 \<le> (1.013708856296::real)"
    by (rule iv_pow_one[OF n6])
  have n8: "(1.02760564533::real) \<le> (v2 powr (1 / 7)) ^ 2 \<and> (v2 powr (1 / 7)) ^ 2 \<le> (1.027605645333::real)"
    by (rule iv_pow_sq[OF n7]) (simp_all add: power_divide)
  have n9: "(1.02760564533::real) \<le> v2 powr (2 / 7) \<and> v2 powr (2 / 7) \<le> (1.027605645333::real)"
    by (rule powr_via_root[OF n8 s5]) simp_all
  have n10: "(0.02760564533::real) \<le> (v2 powr (2 / 7)) - 1 \<and> (v2 powr (2 / 7)) - 1 \<le> (0.027605645333::real)"
    by (rule iv_sub[OF n9 c4]) simp_all
  have n11: "(0.03067293925555::real) \<le> ((v2 powr (2 / 7)) - 1) / 0.90 \<and> ((v2 powr (2 / 7)) - 1) / 0.90 \<le> (0.03067293925889::real)"
    by (rule iv_div[OF n10 c1]) simp_all
  have n12: "(1.03067293925555::real) \<le> 1 + (((v2 powr (2 / 7)) - 1) / 0.90) \<and> 1 + (((v2 powr (2 / 7)) - 1) / 0.90) \<le> (1.03067293925889::real)"
    by (rule iv_add[OF c4 n11]) simp_all
  have n13: "(346.643755574::real) \<le> v1 * (1 + (((v2 powr (2 / 7)) - 1) / 0.90)) \<and> v1 * (1 + (((v2 powr (2 / 7)) - 1) / 0.90)) \<le> (346.6437555767::real)"
    by (rule iv_mul[OF v1_iv n12]) simp_all
  have eq: "Tt3 floored_inputs = Fin (v1 * (1 + (((v2 powr (2 / 7)) - 1) / 0.90)))"
    by (rule Tt3_Fin[OF v1_eq v2_eq floored_inputs_fields(10) s2 s3])
  from eq n13 show ?thesis
    by blast
qed

lemma floored_inputs_Pt4:
  "\<exists>t. Pt4 floored_inputs = Fin t \<and> 173017.7064 \<le> t \<and> t \<le> 173017.7064"
proof -
  from floored_inputs_Pt3 obtain v1 where v1_eq: "Pt3 floored_inputs = Fin v1"
    and v1_iv: "(180226.7775::real) \<le> v1 \<and> v1 \<le> (180226.7775::real)"
    by blast
  have c1: "(0.96::real) \<le> 0.96 \<and> 0.96 \<le> (0.96::real)"
    by simp
  have n2: "(173017.7064::real) \<le> v1 * 0.96 \<and> v1 * 0.96 \<le> (173017.7064::real)"
    by (rule iv_mul[OF v1_iv c1]) simp_all
  have eq: "Pt4 floored_inputs = Fin (v1 * 0.96)"
    by (rule Pt4_Fin[OF v1_eq floored_inputs_fields(15)])
  from eq n2 show ?thesis
    by blast
qed

lemma floored_inputs_Tt4:
  "\<exists>t. Tt4 floored_inputs = Fin t \<and> 1650 \<le> t \<and> t \<le> 1650"
proof -
  have c1: "(1650::real) \<le> 1650 \<and> 1650 \<le> (1650::real)"
    by simp
  have eq: "Tt4 floored_inputs = Fin 1650"
    by (rule Tt4_Fin[OF floored_inputs_fields(7)])
  from eq c1 show ?thesis
    by blast
qed

lemma floored_inputs_Hu_J:
  "\<exists>t. Hu_J floored_inputs = Fin t \<and> 43100000 \<le> t \<and> t \<le> 43100000"
proof -
  have c1: "(43.1::real) \<le> 43.1 \<and> 43.1 \<le> (43.1::real)"
    by simp
  have c2: "(1000000::real) \<le> 1000000 \<and> 1000000 \<le> (1000000::real)"
    by simp
  have n3: "(43100000::real) \<le> 43.1 * 1000000 \<and> 43.1 * 1000000 \<le> (43100000::real)"
    by (rule iv_mul[OF c1 c2]) simp_all
  have eq: "Hu_J floored_inputs = Fin (43.1 * 1000000)"
    by (rule Hu_J_Fin[OF floored_inputs_fields(19)])
  from eq n3 show ?thesis
    by blast
qed

lemma floored_inputs_numerator:
  "\<exists>t. numerator floored_inputs = Fin t \<and> 1549123.025645 \<le> t \<and> t \<le> 1549123.02564813"
proof -
  from floored_inputs_Tt4 obtain v1 where v1_eq: "Tt4 floored_inputs = Fin v1"
    and v1_iv: "(1650::real) \<le> v1 \<and> v1 \<le> (1650::real)"
    by blast
  from floored_inputs_Tt3 obtain v2 where v2_eq: "Tt3 floored_inputs = Fin v2"
    and v2_iv: "(346.643755574::real) \<le> v2 \<and> v2 \<le> (346.6437555767::real)"
    by blast
  have c1: "(1150::real) \<le> 1150 \<and> 1150 \<le> (1150::real)"
    by simp
  have n2: "(1897500::real) \<le> 1150 * v1 \<and> 1150 * v1 \<le> (1897500::real)"
    by (rule iv_mul[OF c1 v1_iv]) simp_all
  have c3: "(1005::real) \<le> 1005 \<and> 1005 \<le> (1005::real)"
    by simp
  have n4: "(348376.97435187::real) \<le> 1005 * v2 \<and> 1005 * v2 \<le> (348376.9743545835::real)"
    by (rule iv_mul[OF c3 v2_iv]) simp_all
  have n5: "(1549123.025645::real) \<le> (1150 * v1) - (1005 * v2) \<and> (1150 * v1) - (1005 * v2) \<le> (1549123.02564813::real)"
    by (rule iv_sub[OF n2 n4]) simp_all
  have eq: "numerator floored_inputs = Fin ((1150 * v1) - (1005 * v2))"
    by (rule numerator_Fin[OF v1_eq v2_eq])
  from eq n5 show ?thesis
    by blast
qed

lemma floored_inputs_denominator:
  "\<exists>t. denominator floored_inputs = Fin t \<and> 40987000 \<le> t \<and> t \<le> 40987000"
proof -
  have c1: "(0.995::real) \<le> 0.995 \<and> 0.995 \<le> (0.995::real)"
    by simp
  from floored_inputs_Hu_J obtain v1 where v1_eq: "Hu_J floored_inputs = Fin v1"
    and v1_iv: "(43100000::real) \<le> v1 \<and> v1 \<le> (43100000::real)"
    by blast
  from floored_inputs_Tt4 obtain v2 where v2_eq: "Tt4 floored_inputs = Fin v2"
    and v2_iv: "(1650::real) \<le> v2 \<and> v2 \<le> (1650::real)"
    by blast
  have n2: "(42884500::real) \<le> 0.995 * v1 \<and> 0.995 * v1 \<le> (42884500::real)"
    by (rule iv_mul[OF c1 v1_iv]) simp_all
  have c3: "(1150::real) \<le> 1150 \<and> 1150 \<le> (1150::real)"
    by simp
  have n4: "(1897500::real) \<le> 1150 * v2 \<and> 1150 * v2 \<le> (1897500::real)"
    by (rule iv_mul[OF c3 v2_iv]) simp_all
  have n5: "(40987000::real) \<le> (0.995 * v1) - (1150 * v2) \<and> (0.995 * v1) - (1150 * v2) \<le> (40987000::real)"
    by (rule iv_sub[OF n2 n4]) simp_all
  have eq: "denominator floored_inputs = Fin ((0.995 * v1) - (1150 * v2))"
    by (rule denominator_Fin[OF floored_inputs_fields(13) v1_eq v2_eq])
  from eq n5 show ?thesis
    by blast
qed

lemma floored_inputs_f:
  "\<exists>t. f floored_inputs = Fin t \<and> 0.03779547236062 \<le> t \<and> t \<le> 0.03779547236071"
proof -
  from floored_inputs_numerator obtain v1 where v1_eq: "numerator floored_inputs = Fin v1"
    and v1_iv: "(1549123.025645::real) \<le> v1 \<and> v1 \<le> (1549123.02564813::real)"
    by blast
  from floored_inputs_denominator obtain v2 where v2_eq: "denominator floored_inputs = Fin v2"
    and v2_iv: "(40987000::real) \<le> v2 \<and> v2 \<le> (40987000::real)"
    by blast
  have s1: "(v2::real) \<noteq> 0"
    by (rule iv_nonzero[OF v2_iv]) simp
  have c2: "(0::real) \<le> 0 \<and> 0 \<le> (0::real)"
    by simp
  have n3: "(0.03779547236062::real) \<le> v1 / v2 \<and> v1 / v2 \<le> (0.03779547236071::real)"
    by (rule iv_div[OF v1_iv v2_iv]) simp_all
  have n4: "(0.03779547236062::real) \<le> max 0 (v1 / v2) \<and> max 0 (v1 / v2) \<le> (0.03779547236071::real)"
    by (rule iv_max[OF c2 n3]) simp_all
  have eq: "f floored_inputs = Fin (max 0 (v1 / v2))"
    by (rule f_Fin[OF v1_eq v2_eq s1])
  from eq n4 show ?thesis
    by blast
qed

lemma floored_inputs_work_req_HPC:
  "\<exists>t. work_req_HPC floored_inputs = Fin t \<and> 10367.7368094465 \<le> t \<and> t \<le> 10367.736813567"
proof -
  from floored_inputs_Tt3 obtain v1 where v1_eq: "Tt3 floored_inputs = Fin v1"
    and v1_iv: "(346.643755574::real) \<le> v1 \<and> v1 \<le> (346.6437555767::real)"
    by blast
  from floored_inputs_Tt21 obtain v2 where v2_eq: "Tt21 floored_inputs = Fin v2"
    and v2_iv: "(336.3275995433::real) \<le> v2 \<and> v2 \<le> (336.3275995447::real)"
    by blast
  have c1: "(1005::real) \<le> 1005 \<and> 1005 \<le> (1005::real)"
    by simp
  have n2: "(10.3161560293::real) \<le> v1 - v2 \<and> v1 - v2 \<le> (10.3161560334::real)"
    by (rule iv_sub[OF v1_iv v2_iv]) simp_all
  have n3: "(10367.7368094465::real) \<le> 1005 * (v1 - v2) \<and> 1005 * (v1 - v2) \<le> (10367.736813567::real)"
    by (rule iv_mul[OF c1 n2]) simp_all
  have eq: "work_req_HPC floored_inputs = Fin (1005 * (v1 - v2))"
    by (rule work_req_HPC_Fin[OF v1_eq v2_eq])
  from eq n3 show ?thesis
    by blast
qed

lemma floored_inputs_work_avail_HPT:
  "\<exists>t. work_avail_HPT floored_inputs = Fin t \<and> 10472.46142368 \<le> t \<and> t \<le> 10472.46142785"
proof -
  from floored_inputs_work_req_HPC obtain v1 where v1_eq: "work_req_HPC floored_inputs = Fin v1"
    and v1_iv: "(10367.7368094465::real) \<le> v1 \<and> v1 \<le> (10367.736813567::real)"
    by blast
  have c1: "(0.99::real) \<le> 0.99 \<and> 0.99 \<le> (0.99::real)"
    by simp
  have s2: "(0.99::real) \<noteq> 0"
    by (rule iv_nonzero[OF c1]) simp
  have n3: "(10472.46142368::real) \<le> v1 / 0.99 \<and> v1 / 0.99 \<le> (10472.46142785::real)"
    by (rule iv_div[OF v1_iv c1]) simp_all
  have eq: "work_avail_HPT floored_inputs = Fin (v1 / 0.99)"
    by (rule work_avail_HPT_Fin[OF v1_eq floored_inputs_fields(17) s2])
  from eq n3 show ?thesis
    by blast
qed

lemma floored_inputs_deltaT_HPT:
  "\<exists>t. deltaT_HPT floored_inputs = Fin t \<and> 8.774839009258 \<le> t \<and> t \<le> 8.774839012755"
proof -
  from floored_inputs_work_avail_HPT obtain v1 where v1_eq: "work_avail_HPT floored_inputs = Fin v1"
    and v1_iv: "(10472.46142368::real) \<le> v1 \<and> v1 \<le> (10472.46142785::real)"
    by blast
  from floored_inputs_f obtain v2 where v2_eq: "f floored_inputs = Fin v2"
    and v2_iv: "(0.03779547236062::real) \<le> v2 \<and> v2 \<le> (0.03779547236071::real)"
    by blast
  have c1: "(1::real) \<le> 1 \<and> 1 \<le> (1::real)"
    by simp
  have n2: "(1.03779547236062::real) \<le> 1 + v2 \<and> 1 + v2 \<le> (1.03779547236071::real)"
    by (rule iv_add[OF c1 v2_iv]) simp_all
  have c3: "(1150::real) \<le> 1150 \<and> 1150 \<le> (1150::real)"
    by simp
  have n4: "(1193.464793214713::real) \<le> (1 + v2) * 1150 \<and> (1 + v2) * 1150 \<le> (1193.464793215::real)"
    by (rule iv_mul[OF n2 c3]) simp_all
  have s5: "((1 + v2) * 1150::real) \<noteq> 0"
    by (rule iv_nonzero[OF n4]) simp
  have n6: "(8.774839009258::real) \<le> v1 / ((1 + v2) * 1150) \<and> v1 / ((1 + v2) * 1150) \<le> (8.774839012755::real)"
    by (rule iv_div[OF v1_iv n4]) simp_all
  have eq: "deltaT_HPT floored_inputs = Fin (v1 / ((1 + v2) * 1150))"
    by (rule deltaT_HPT_Fin[OF v1_eq v2_eq s5])
  from eq n6 show ?thesis
    by blast
qed

lemma floored_inputs_Tt45:
  "\<exists>t. Tt45 floored_inputs = Fin t \<and> 1641.225160987245 \<le> t \<and> t \<le> 1641.225160990742"
proof -
  from floored_inputs_Tt4 obtain v1 where v1_eq: "Tt4 floored_inputs = Fin v1"
    and v1_iv: "(1650::real) \<le> v1 \<and> v1 \<le> (1650::real)"
    by blast
  from floored_inputs_deltaT_HPT obtain v2 where v2_eq: "deltaT_HPT floored_inputs = Fin v2"
    and v2_iv: "(8.774839009258::real) \<le> v2 \<and> v2 \<le> (8.774839012755::real)"
    by blast
  have n1: "(1641.225160987245::real) \<le> v1 - v2 \<and> v1 - v2 \<le> (1641.225160990742::real)"
    by (rule iv_sub[OF v1_iv v2_iv]) simp_all
  have eq: "Tt45 floored_inputs = Fin (v1 - v2)"
    by (rule Tt45_Fin[OF v1_eq v2_eq])
  from eq n1 show ?thesis
    by blast
qed

lemma floored_inputs_temp_ratio_HPT:
  "\<exists>t. temp_ratio_HPT floored_inputs = Fin t \<and> 0.9946819157498 \<le> t \<and> t \<le> 0.994681915752"
proof -
  from floored_inputs_Tt45 obtain v1 where v1_eq: "Tt45 floored_inputs = Fin v1"
    and v1_iv: "(1641.225160987245::real) \<le> v1 \<and> v1 \<le> (1641.225160990742::real)"
    by blast
  from floored_inputs_Tt4 obtain v2 where v2_eq: "Tt4 floored_inputs = Fin v2"
    and v2_iv: "(1650::real) \<le> v2 \<and> v2 \<le> (1650::real)"
    by blast
  have s1: "(v2::real) \<noteq> 0"
    by (rule iv_nonzero[OF v2_iv]) simp
  have n2: "(0.9946819157498::real) \<le> v1 / v2 \<and> v1 / v2 \<le> (0.994681915752::real)"
    by (rule iv_div[OF v1_iv v2_iv]) simp_all
  have eq: "temp_ratio_HPT floored_inputs = Fin (v1 / v2)"
    by (rule temp_ratio_HPT_Fin[OF v1_eq v2_eq s1])
  from eq n2 show ?thesis
    by blast
qed

lemma floored_inputs_pressure_term_HPT:
  "\<exists>t. pressure_term_HPT floored_inputs = Fin t \<and> 0.005780526356521 \<le> t \<and> t \<le> 0.005780526358914"
proof -
  from floored_inputs_temp_ratio_HPT obtain v1 where v1_eq: "temp_ratio_HPT floored_inputs = Fin v1"
    and v1_iv: "(0.9946819157498::real) \<le> v1 \<and> v1 \<le> (0.994681915752::real)"
    by blast
  have c1: "(0.92::real) \<le> 0.92 \<and> 0.92 \<le> (0.92::real)"
    by simp
  have s2: "(0.92::real) \<noteq> 0"
    by (rule iv_nonzero[OF c1]) simp
  have c3: "(1::real) \<le> 1 \<and> 1 \<le> (1::real)"
    by simp
  have n4: "(0.005318084248::real) \<le> 1 - v1 \<and> 1 - v1 \<le> (0.0053180842502::real)"
    by (rule iv_sub[OF c3 v1_iv]) simp_all
  have n5: "(0.005780526356521::real) \<le> (1 - v1) / 0.92 \<and> (1 - v1) / 0.92 \<le> (0.005780526358914::real)"
    by (rule iv_div[OF n4 c1]) simp_all
  have eq: "pressure_term_HPT floored_inputs = Fin ((1 - v1) / 0.92)"
    by (rule pressure_term_HPT_Fin[OF v1_eq floored_inputs_fields(11) s2])
  from eq n5 show ?thesis
    by blast
qed

lemma floored_inputs_pi_HPT:
  "\<exists>t. pi_HPT floored_inputs = Fin t \<and> 1.023639965502 \<le> t \<and> t \<le> 1.023639965906"
proof -
  from floored_inputs_pressure_term_HPT obtain v1 where v1_eq: "pressure_term_HPT floored_inputs = Fin v1"
    and v1_iv: "(0.005780526356521::real) \<le> v1 \<and> v1 \<le> (0.005780526358914::real)"
    by blast
  have c1: "(1::real) \<le> 1 \<and> 1 \<le> (1::real)"
    by simp
  have s2: "(v1::real) < 1"
    by (rule iv_less[OF v1_iv c1]) simp
  have n3: "(0.994219473641086::real) \<le> 1 - v1 \<and> 1 - v1 \<le> (0.994219473643479::real)"
    by (rule iv_sub[OF c1 v1_iv]) simp_all
  have n4: "(1.005814135117::real) \<le> 1 / (1 - v1) \<and> 1 / (1 - v1) \<le> (1.005814135121::real)"
    by (rule iv_div[OF c1 n3]) simp_all
  have s5: "(0::real) < (1 / (1 - v1))"
    by (rule iv_pos[OF n4]) simp
  have n6: "(1.001934301105::real) \<le> (1 / (1 - v1)) powr (1 / 3) \<and> (1 / (1 - v1)) powr (1 / 3) \<le> (1.001934301108::real)"
    by (rule iv_root[where n=3, OF n4]) (simp_all add: power_divide)
  have n7: "(1.000175691136::real) \<le> ((1 / (1 - v1)) powr (1 / 3)) powr (1 / 11) \<and> ((1 / (1 - v1)) powr (1 / 3)) powr (1 / 11) \<le> (1.000175691138::real)"
    by (rule iv_root[where n=11, OF n6]) (simp_all add: power_divide)
  have n8: "(1.000175691136::real) \<le> (((1 / (1 - v1)) powr (1 / 3)) powr (1 / 11)) ^ 1 \<and> (((1 / (1 - v1)) powr (1 / 3)) powr (1 / 11)) ^ 1 \<le> (1.000175691138::real)"
    by (rule iv_pow_one[OF n7])
  have n9: "(1.000351413139::real) \<le> (((1 / (1 - v1)) powr (1 / 3)) powr (1 / 11)) ^ 2 \<and> (((1 / (1 - v1)) powr (1 / 3)) powr (1 / 11)) ^ 2 \<le> (1.000351413144::real)"
    by (rule iv_pow_sq[OF n8]) (simp_all add: power_divide)
  have n10: "(1.000702949769::real) \<le> (((1 / (1 - v1)) powr (1 / 3)) powr (1 / 11)) ^ 4 \<and> (((1 / (1 - v1)) powr (1 / 3)) powr (1 / 11)) ^ 4 \<le> (1.00070294978::real)"
    by (rule iv_pow_sq[OF n9]) (simp_all add: power_divide)
  have n11: "(1.001406393676::real) \<le> (((1 / (1 - v1)) powr (1 / 3)) powr (1 / 11)) ^ 8 \<and> (((1 / (1 - v1)) powr (1 / 3)) powr (1 / 11)) ^ 8 \<le> (1.001406393699::real)"
    by (rule iv_pow_sq[OF n10]) (simp_all add: power_divide)
  have n12: "(1.002814765295::real) \<le> (((1 / (1 - v1)) powr (1 / 3)) powr (1 / 11)) ^ 16 \<and> (((1 / (1 - v1)) powr (1 / 3)) powr (1 / 11)) ^ 16 \<le> (1.002814765342::real)"
    by (rule iv_pow_sq[OF n11]) (simp_all add: power_divide)
  have n13: "(1.005637453493::real) \<le> (((1 / (1 - v1)) powr (1 / 3)) powr (1 / 11)) ^ 32 \<and> (((1 / (1 - v1)) powr (1 / 3)) powr (1 / 11)) ^ 32 \<le> (1.005637453588::real)"
    by (rule iv_pow_sq[OF n12]) (simp_all add: power_divide)
  have n14: "(1.011306687867::real) \<le> (((1 / (1 - v1)) powr (1 / 3)) powr (1 / 11)) ^ 64 \<and> (((1 / (1 - v1)) powr (1 / 3)) powr (1 / 11)) ^ 64 \<le> (1.011306688059::real)"
    by (rule iv_pow_sq[OF n13]) (simp_all add: power_divide)
  have n15: "(1.022741216924::real) \<le> (((1 / (1 - v1)) powr (1 / 3)) powr (1 / 11)) ^ 128 \<and> (((1 / (1 - v1)) powr (1 / 3)) powr (1 / 11)) ^ 128 \<le> (1.022741217313::real)"
    by (rule iv_pow_sq[OF n14]) (simp_all add: power_divide)
  have n16: "(1.023460152626::real) \<le> (((1 / (1 - v1)) powr (1 / 3)) powr (1 / 11)) ^ 132 \<and> (((1 / (1 - v1)) powr (1 / 3)) powr (1 / 11)) ^ 132 \<le> (1.023460153027::real)"
    by (rule iv_pow_mul[OF n15 n10]) simp_all
  have n17: "(1.023639965502::real) \<le> (((1 / (1 - v1)) powr (1 / 3)) powr (1 / 11)) ^ 133 \<and> (((1 / (1 - v1)) powr (1 / 3)) powr (1 / 11)) ^ 133 \<le> (1.023639965906::real)"
    by (rule iv_pow_mul[OF n16 n8]) simp_all
  have n18: "(1.023639965502::real) \<le> (1 / (1 - v1)) powr (133 / 33) \<and> (1 / (1 - v1)) powr (133 / 33) \<le> (1.023639965906::real)"
    by (rule powr_via_roots[OF n17 s5]) simp_all
  have eq: "pi_HPT floored_inputs = Fin ((1 / (1 - v1)) powr (133 / 33))"
    by (rule pi_HPT_Fin[OF v1_eq s2])
  from eq n18 show ?thesis
    by blast
qed

lemma floored_inputs_Pt45:
  "\<exists>t. Pt45 floored_inputs = Fin t \<and> 169022.0313417 \<le> t \<and> t \<le> 169022.0314085"
proof -
  from floored_inputs_Tt45 obtain v1 where v1_eq: "Tt45 floored_inputs = Fin v1"
    and v1_iv: "(1641.225160987245::real) \<le> v1 \<and> v1 \<le> (1641.225160990742::real)"
    by blast
  from floored_inputs_Tt3 obtain v2 where v2_eq: "Tt3 floored_inputs = Fin v2"
    and v2_iv: "(346.643755574::real) \<le> v2 \<and> v2 \<le> (346.6437555767::real)"
    by blast
  from floored_inputs_temp_ratio_HPT obtain v3 where v3_eq: "temp_ratio_HPT floored_inputs = Fin v3"
    and v3_iv: "(0.9946819157498::real) \<le> v3 \<and> v3 \<le> (0.994681915752::real)"
    by blast
  from floored_inputs_pressure_term_HPT obtain v4 where v4_eq: "pressure_term_HPT floored_inputs = Fin v4"
    and v4_iv: "(0.005780526356521::real) \<le> v4 \<and> v4 \<le> (0.005780526358914::real)"
    by blast
  from floored_inputs_Pt4 obtain v5 where v5_eq: "Pt4 floored_inputs = Fin v5"
    and v5_iv: "(173017.7064::real) \<le> v5 \<and> v5 \<le> (173017.7064::real)"
    by blast
  from floored_inputs_pi_HPT obtain v6 where v6_eq: "pi_HPT floored_inputs = Fin v6"
    and v6_iv: "(1.023639965502::real) \<le> v6 \<and> v6 \<le> (1.023639965906::real)"
    by blast
  have c1: "(1::real) \<le> 1 \<and> 1 \<le> (1::real)"
    by simp
  have s2: "(v2::real) \<le> v1"
    by (rule iv_le[OF v2_iv v1_iv]) simp
  have s3: "(0::real) < v3"
    by (rule iv_pos[OF v3_iv]) simp
  have s4: "(v3::real) < 1"
    by (rule iv_less[OF v3_iv c1]) simp
  have s5: "(v4::real) < 1"
    by (rule iv_less[OF v4_iv c1]) simp
  have s6: "(v6::real) \<noteq> 0"
    by (rule iv_nonzero[OF v6_iv]) simp
  have n7: "(169022.0313417::real) \<le> v5 / v6 \<and> v5 / v6 \<le> (169022.0314085::real)"
    by (rule iv_div[OF v5_iv v6_iv]) simp_all
  have eq: "Pt45 floored_inputs = Fin (v5 / v6)"
    by (rule hpt_block_Fin(1)[OF v1_eq v2_eq v3_eq v4_eq v5_eq v6_eq s2 s3 s4 s5 s6])
  from eq n7 show ?thesis
    by blast
qed

lemma floored_inputs_isValid_HPT:
  "isValid_HPT floored_inputs"
proof -
  from floored_inputs_Tt45 obtain v1 where v1_eq: "Tt45 floored_inputs = Fin v1"
    and v1_iv: "(1641.225160987245::real) \<le> v1 \<and> v1 \<le> (1641.225160990742::real)"
    by blast
  from floored_inputs_Tt3 obtain v2 where v2_eq: "Tt3 floored_inputs = Fin v2"
    and v2_iv: "(346.643755574::real) \<le> v2 \<and> v2 \<le> (346.6437555767::real)"
    by blast
  from floored_inputs_temp_ratio_HPT obtain v3 where v3_eq: "temp_ratio_HPT floored_inputs = Fin v3"
    and v3_iv: "(0.9946819157498::real) \<le> v3 \<and> v3 \<le> (0.994681915752::real)"
    by blast
  from floored_inputs_pressure_term_HPT obtain v4 where v4_eq: "pressure_term_HPT floored_inputs = Fin v4"
    and v4_iv: "(0.005780526356521::real) \<le> v4 \<and> v4 \<le> (0.005780526358914::real)"
    by blast
  from floored_inputs_Pt4 obtain v5 where v5_eq: "Pt4 floored_inputs = Fin v5"
    and v5_iv: "(173017.7064::real) \<le> v5 \<and> v5 \<le> (173017.7064::real)"
    by blast
  from floored_inputs_pi_HPT obtain v6 where v6_eq: "pi_HPT floored_inputs = Fin v6"
    and v6_iv: "(1.023639965502::real) \<le> v6 \<and> v6 \<le> (1.023639965906::real)"
    by blast
  have c1: "(1::real) \<le> 1 \<and> 1 \<le> (1::real)"
    by simp
  have s2: "(v2::real) \<le> v1"
    by (rule iv_le[OF v2_iv v1_iv]) simp
  have s3: "(0::real) < v3"
    by (rule iv_pos[OF v3_iv]) simp
  have s4: "(v3::real) < 1"
    by (rule iv_less[OF v3_iv c1]) simp
  have s5: "(v4::real) < 1"
    by (rule iv_less[OF v4_iv c1]) simp
  have s6: "(v6::real) \<noteq> 0"
    by (rule iv_nonzero[OF v6_iv]) simp
  show ?thesis
    by (rule hpt_block_Fin(2)[OF v1_eq v2_eq v3_eq v4_eq v5_eq v6_eq s2 s3 s4 s5 s6])
qed

lemma floored_inputs_work_req_Fan:
  "\<exists>t. work_req_Fan floored_inputs = Fin t \<and> 48418.4875410165 \<le> t \<and> t \<le> 48418.4875424235"
proof -
  have c1: "(0::real) \<le> 0 \<and> 0 \<le> (0::real)"
    by simp
  from floored_inputs_Tt13 obtain v1 where v1_eq: "Tt13 floored_inputs = Fin v1"
    and v1_iv: "(336.3275995433::real) \<le> v1 \<and> v1 \<le> (336.3275995447::real)"
    by blast
  from floored_inputs_Tt2 obtain v2 where v2_eq: "Tt2 floored_inputs = Fin v2"
    and v2_iv: "(288.15::real) \<le> v2 \<and> v2 \<le> (288.15::real)"
    by blast
  have c2: "(1::real) \<le> 1 \<and> 1 \<le> (1::real)"
    by simp
  have n3: "(1::real) \<le> 1 + 0 \<and> 1 + 0 \<le> (1::real)"
    by (rule iv_add[OF c2 c1]) simp_all
  have c4: "(1005::real) \<le> 1005 \<and> 1005 \<le> (1005::real)"
    by simp
  have n5: "(1005::real) \<le> (1 + 0) * 1005 \<and> (1 + 0) * 1005 \<le> (1005::real)"
    by (rule iv_mul[OF n3 c4]) simp_all
  have n6: "(48.1775995433::real) \<le> v1 - v2 \<and> v1 - v2 \<le> (48.1775995447::real)"
    by (rule iv_sub[OF v1_iv v2_iv]) simp_all
  have n7: "(48418.4875410165::real) \<le> ((1 + 0) * 1005) * (v1 - v2) \<and> ((1 + 0) * 1005) * (v1 - v2) \<le> (48418.4875424235::real)"
    by (rule iv_mul[OF n5 n6]) simp_all
  have eq: "work_req_Fan floored_inputs = Fin (((1 + 0) * 1005) * (v1 - v2))"
    by (rule work_req_Fan_Fin[OF floored_inputs_fields(4) v1_eq v2_eq])
  from eq n7 show ?thesis
    by blast
qed

lemma floored_inputs_work_extraction_LPT:
  "\<exists>t. work_extraction_LPT floored_inputs = Fin t \<and> 48907.56317274 \<le> t \<and> t \<le> 48907.56317417"
proof -
  from floored_inputs_work_req_Fan obtain v1 where v1_eq: "work_req_Fan floored_inputs = Fin v1"
    and v1_iv: "(48418.4875410165::real) \<le> v1 \<and> v1 \<le> (48418.4875424235::real)"
    by blast
  have c1: "(0.99::real) \<le> 0.99 \<and> 0.99 \<le> (0.99::real)"
    by simp
  have s2: "(0.99::real) \<noteq> 0"
    by (rule iv_nonzero[OF c1]) simp
  have n3: "(48907.56317274::real) \<le> v1 / 0.99 \<and> v1 / 0.99 \<le> (48907.56317417::real)"
    by (rule iv_div[OF v1_iv c1]) simp_all
  have eq: "work_extraction_LPT floored_inputs = Fin (v1 / 0.99)"
    by (rule work_extraction_LPT_Fin[OF v1_eq floored_inputs_fields(18) s2])
  from eq n3 show ?thesis
    by blast
qed

lemma floored_inputs_deltaT_LPT:
  "\<exists>t. deltaT_LPT floored_inputs = Fin t \<and> 40.97947710798 \<le> t \<and> t \<le> 40.9794771092"
proof -
  from floored_inputs_work_extraction_LPT obtain v1 where v1_eq: "work_extraction_LPT floored_inputs = Fin v1"
    and v1_iv: "(48907.56317274::real) \<le> v1 \<and> v1 \<le> (48907.56317417::real)"
    by blast
  from floored_inputs_f obtain v2 where v2_eq: "f floored_inputs = Fin v2"
    and v2_iv: "(0.03779547236062::real) \<le> v2 \<and> v2 \<le> (0.03779547236071::real)"
    by blast
  have c1: "(1::real) \<le> 1 \<and> 1 \<le> (1::real)"
    by simp
  have n2: "(1.03779547236062::real) \<le> 1 + v2 \<and> 1 + v2 \<le> (1.03779547236071::real)"
    by (rule iv_add[OF c1 v2_iv]) simp_all
  have c3: "(1150::real) \<le> 1150 \<and> 1150 \<le> (1150::real)"
    by simp
  have n4: "(1193.464793214713::real) \<le> (1 + v2) * 1150 \<and> (1 + v2) * 1150 \<le> (1193.464793215::real)"
    by (rule iv_mul[OF n2 c3]) simp_all
  have s5: "((1 + v2) * 1150::real) \<noteq> 0"
    by (rule iv_nonzero[OF n4]) simp
  have n6: "(40.97947710798::real) \<le> v1 / ((1 + v2) * 1150) \<and> v1 / ((1 + v2) * 1150) \<le> (40.9794771092::real)"
    by (rule iv_div[OF v1_iv n4]) simp_all
  have eq: "deltaT_LPT floored_inputs = Fin (v1 / ((1 + v2) * 1150))"
    by (rule deltaT_LPT_Fin[OF v1_eq v2_eq s5])
  from eq n6 show ?thesis
    by blast
qed

lemma floored_inputs_Tt5:
  "\<exists>t. Tt5 floored_inputs = Fin t \<and> 1600.245683878045 \<le> t \<and> t \<le> 1600.245683882762"
proof -
  from floored_inputs_Tt45 obtain v1 where v1_eq: "Tt45 floored_inputs = Fin v1"
    and v1_iv: "(1641.225160987245::real) \<le> v1 \<and> v1 \<le> (1641.225160990742::real)"
    by blast
  from floored_inputs_deltaT_LPT obtain v2 where v2_eq: "deltaT_LPT floored_inputs = Fin v2"
    and v2_iv: "(40.97947710798::real) \<le> v2 \<and> v2 \<le> (40.9794771092::real)"
    by blast
  have n1: "(1600.245683878045::real) \<le> v1 - v2 \<and> v1 - v2 \<le> (1600.245683882762::real)"
    by (rule iv_sub[OF v1_iv v2_iv]) simp_all
  have eq: "Tt5 floored_inputs = Fin (v1 - v2)"
    by (rule Tt5_Fin[OF v1_eq v2_eq])
  from eq n1 show ?thesis
    by blast
qed

lemma floored_inputs_temp_ratio_LPT:
  "\<exists>t. temp_ratio_LPT floored_inputs = Fin t \<and> 0.975031166907 \<le> t \<and> t \<le> 0.9750311669121"
proof -
  from floored_inputs_Tt5 obtain v1 where v1_eq: "Tt5 floored_inputs = Fin v1"
    and v1_iv: "(1600.245683878045::real) \<le> v1 \<and> v1 \<le> (1600.245683882762::real)"
    by blast
  from floored_inputs_Tt45 obtain v2 where v2_eq: "Tt45 floored_inputs = Fin v2"
    and v2_iv: "(1641.225160987245::real) \<le> v2 \<and> v2 \<le> (1641.225160990742::real)"
    by blast
  have s1: "(v2::real) \<noteq> 0"
    by (rule iv_nonzero[OF v2_iv]) simp
  have n2: "(0.975031166907::real) \<le> v1 / v2 \<and> v1 / v2 \<le> (0.9750311669121::real)"
    by (rule iv_div[OF v1_iv v2_iv]) simp_all
  have eq: "temp_ratio_LPT floored_inputs = Fin (v1 / v2)"
    by (rule temp_ratio_LPT_Fin[OF v1_eq v2_eq s1])
  from eq n2 show ?thesis
    by blast
qed

lemma floored_inputs_pressure_term_LPT:
  "\<exists>t. pressure_term_LPT floored_inputs = Fin t \<and> 0.02684820762139 \<le> t \<and> t \<le> 0.02684820762689"
proof -
  from floored_inputs_temp_ratio_LPT obtain v1 where v1_eq: "temp_ratio_LPT floored_inputs = Fin v1"
    and v1_iv: "(0.975031166907::real) \<le> v1 \<and> v1 \<le> (0.9750311669121::real)"
    by blast
  have c1: "(0.93::real) \<le> 0.93 \<and> 0.93 \<le> (0.93::real)"
    by simp
  have s2: "(0.93::real) \<noteq> 0"
    by (rule iv_nonzero[OF c1]) simp
  have c3: "(1::real) \<le> 1 \<and> 1 \<le> (1::real)"
    by simp
  have n4: "(0.0249688330879::real) \<le> 1 - v1 \<and> 1 - v1 \<le> (0.024968833093::real)"
    by (rule iv_sub[OF c3 v1_iv]) simp_all
  have n5: "(0.02684820762139::real) \<le> (1 - v1) / 0.93 \<and> (1 - v1) / 0.93 \<le> (0.02684820762689::real)"
    by (rule iv_div[OF n4 c1]) simp_all
  have eq: "pressure_term_LPT floored_inputs = Fin ((1 - v1) / 0.93)"
    by (rule pressure_term_LPT_Fin[OF v1_eq floored_inputs_fields(12) s2])
  from eq n5 show ?thesis
    by blast
qed

lemma floored_inputs_pi_LPT:
  "\<exists>t. pi_LPT floored_inputs = Fin t \<and> 1.115927079469 \<le> t \<and> t \<le> 1.115927079772"
proof -
  from floored_inputs_pressure_term_LPT obtain v1 where v1_eq: "pressure_term_LPT floored_inputs = Fin v1"
    and v1_iv: "(0.02684820762139::real) \<le> v1 \<and> v1 \<le> (0.02684820762689::real)"
    by blast
  have c1: "(1::real) \<le> 1 \<and> 1 \<le> (1::real)"
    by simp
  have s2: "(v1::real) < 1"
    by (rule iv_less[OF v1_iv c1]) simp
  have n3: "(0.97315179237311::real) \<le> 1 - v1 \<and> 1 - v1 \<le> (0.97315179237861::real)"
    by (rule iv_sub[OF c1 v1_iv]) simp_all
  have n4: "(1.027588920692::real) \<le> 1 / (1 - v1) \<and> 1 / (1 - v1) \<le> (1.027588920698::real)"
    by (rule iv_div[OF c1 n3]) simp_all
  have s5: "(0::real) < (1 / (1 - v1))"
    by (rule iv_pos[OF n4]) simp
  have n6: "(1.009113007718::real) \<le> (1 / (1 - v1)) powr (1 / 3) \<and> (1 / (1 - v1)) powr (1 / 3) \<le> (1.009113007721::real)"
    by (rule iv_root[where n=3, OF n4]) (simp_all add: power_divide)
  have n7: "(1.000825043326::real) \<le> ((1 / (1 - v1)) powr (1 / 3)) powr (1 / 11) \<and> ((1 / (1 - v1)) powr (1 / 3)) powr (1 / 11) \<le> (1.000825043327::real)"
    by (rule iv_root[where n=11, OF n6]) (simp_all add: power_divide)
  have n8: "(1.000825043326::real) \<le> (((1 / (1 - v1)) powr (1 / 3)) powr (1 / 11)) ^ 1 \<and> (((1 / (1 - v1)) powr (1 / 3)) powr (1 / 11)) ^ 1 \<le> (1.000825043327::real)"
    by (rule iv_pow_one[OF n7])
  have n9: "(1.001650767348::real) \<le> (((1 / (1 - v1)) powr (1 / 3)) powr (1 / 11)) ^ 2 \<and> (((1 / (1 - v1)) powr (1 / 3)) powr (1 / 11)) ^ 2 \<le> (1.001650767351::real)"
    by (rule iv_pow_sq[OF n8]) (simp_all add: power_divide)
  have n10: "(1.003304259728::real) \<le> (((1 / (1 - v1)) powr (1 / 3)) powr (1 / 11)) ^ 4 \<and> (((1 / (1 - v1)) powr (1 / 3)) powr (1 / 11)) ^ 4 \<le> (1.003304259735::real)"
    by (rule iv_pow_sq[OF n9]) (simp_all add: power_divide)
  have n11: "(1.006619437588::real) \<le> (((1 / (1 - v1)) powr (1 / 3)) powr (1 / 11)) ^ 8 \<and> (((1 / (1 - v1)) powr (1 / 3)) powr (1 / 11)) ^ 8 \<le> (1.006619437603::real)"
    by (rule iv_pow_sq[OF n10]) (simp_all add: power_divide)
  have n12: "(1.013282692129::real) \<le> (((1 / (1 - v1)) powr (1 / 3)) powr (1 / 11)) ^ 16 \<and> (((1 / (1 - v1)) powr (1 / 3)) powr (1 / 11)) ^ 16 \<le> (1.013282692161::real)"
    by (rule iv_pow_sq[OF n11]) (simp_all add: power_divide)
  have n13: "(1.026741814168::real) \<le> (((1 / (1 - v1)) powr (1 / 3)) powr (1 / 11)) ^ 32 \<and> (((1 / (1 - v1)) powr (1 / 3)) powr (1 / 11)) ^ 32 \<le> (1.026741814234::real)"
    by (rule iv_pow_sq[OF n12]) (simp_all add: power_divide)
  have n14: "(1.05419875296::real) \<le> (((1 / (1 - v1)) powr (1 / 3)) powr (1 / 11)) ^ 64 \<and> (((1 / (1 - v1)) powr (1 / 3)) powr (1 / 11)) ^ 64 \<le> (1.054198753097::real)"
    by (rule iv_pow_sq[OF n13]) (simp_all add: power_divide)
  have n15: "(1.111335010742::real) \<le> (((1 / (1 - v1)) powr (1 / 3)) powr (1 / 11)) ^ 128 \<and> (((1 / (1 - v1)) powr (1 / 3)) powr (1 / 11)) ^ 128 \<le> (1.111335011032::real)"
    by (rule iv_pow_sq[OF n14]) (simp_all add: power_divide)
  have n16: "(1.115007150262::real) \<le> (((1 / (1 - v1)) powr (1 / 3)) powr (1 / 11)) ^ 132 \<and> (((1 / (1 - v1)) powr (1 / 3)) powr (1 / 11)) ^ 132 \<le> (1.115007150562::real)"
    by (rule iv_pow_mul[OF n15 n10]) simp_all
  have n17: "(1.115927079469::real) \<le> (((1 / (1 - v1)) powr (1 / 3)) powr (1 / 11)) ^ 133 \<and> (((1 / (1 - v1)) powr (1 / 3)) powr (1 / 11)) ^ 133 \<le> (1.115927079772::real)"
    by (rule iv_pow_mul[OF n16 n8]) simp_all
  have n18: "(1.115927079469::real) \<le> (1 / (1 - v1)) powr (133 / 33) \<and> (1 / (1 - v1)) powr (133 / 33) \<le> (1.115927079772::real)"
    by (rule powr_via_roots[OF n17 s5]) simp_all
  have eq: "pi_LPT floored_inputs = Fin ((1 / (1 - v1)) powr (133 / 33))"
    by (rule pi_LPT_Fin[OF v1_eq s2])
  from eq n18 show ?thesis
    by blast
qed

lemma floored_inputs_Pt5:
  "\<exists>t. Pt5 floored_inputs = Fin t \<and> 151463.3298227 \<le> t \<and> t \<le> 151463.3299238"
proof -
  from floored_inputs_Tt5 obtain v1 where v1_eq: "Tt5 floored_inputs = Fin v1"
    and v1_iv: "(1600.245683878045::real) \<le> v1 \<and> v1 \<le> (1600.245683882762::real)"
    by blast
  from floored_inputs_T0 obtain v2 where v2_eq: "T0 floored_inputs = Fin v2"
    and v2_iv: "(288.15::real) \<le> v2 \<and> v2 \<le> (288.15::real)"
    by blast
  from floored_inputs_temp_ratio_LPT obtain v3 where v3_eq: "temp_ratio_LPT floored_inputs = Fin v3"
    and v3_iv: "(0.975031166907::real) \<le> v3 \<and> v3 \<le> (0.9750311669121::real)"
    by blast
  from floored_inputs_pressure_term_LPT obtain v4 where v4_eq: "pressure_term_LPT floored_inputs = Fin v4"
    and v4_iv: "(0.02684820762139::real) \<le> v4 \<and> v4 \<le> (0.02684820762689::real)"
    by blast
  from floored_inputs_Pt45 obtain v5 where v5_eq: "Pt45 floored_inputs = Fin v5"
    and v5_iv: "(169022.0313417::real) \<le> v5 \<and> v5 \<le> (169022.0314085::real)"
    by blast
  from floored_inputs_pi_LPT obtain v6 where v6_eq: "pi_LPT floored_inputs = Fin v6"
    and v6_iv: "(1.115927079469::real) \<le> v6 \<and> v6 \<le> (1.115927079772::real)"
    by blast
  have c1: "(1::real) \<le> 1 \<and> 1 \<le> (1::real)"
    by simp
  have s2: "(v2::real) \<le> v1"
    by (rule iv_le[OF v2_iv v1_iv]) simp
  have s3: "(0::real) < v3"
    by (rule iv_pos[OF v3_iv]) simp
  have s4: "(v3::real) < 1"
    by (rule iv_less[OF v3_iv c1]) simp
  have s5: "(v4::real) < 1"
    by (rule iv_less[OF v4_iv c1]) simp
  have s6: "(v6::real) \<noteq> 0"
    by (rule iv_nonzero[OF v6_iv]) simp
  have n7: "(151463.3298227::real) \<le> v5 / v6 \<and> v5 / v6 \<le> (151463.3299238::real)"
    by (rule iv_div[OF v5_iv v6_iv]) simp_all
  have eq: "Pt5 floored_inputs = Fin (v5 / v6)"
    by (rule lpt_block_Fin(1)[OF floored_inputs_isValid_HPT v1_eq v2_eq v3_eq v4_eq v5_eq v6_eq s2 s3 s4 s5 s6])
  from eq n7 show ?thesis
    by blast
qed

lemma floored_inputs_isValid_LPT:
  "isValid_LPT floored_inputs"
proof -
  from floored_inputs_Tt5 obtain v1 where v1_eq: "Tt5 floored_inputs = Fin v1"
    and v1_iv: "(1600.245683878045::real) \<le> v1 \<and> v1 \<le> (1600.245683882762::real)"
    by blast
  from floored_inputs_T0 obtain v2 where v2_eq: "T0 floored_inputs = Fin v2"
    and v2_iv: "(288.15::real) \<le> v2 \<and> v2 \<le> (288.15::real)"
    by blast
  from floored_inputs_temp_ratio_LPT obtain v3 where v3_eq: "temp_ratio_LPT floored_inputs = Fin v3"
    and v3_iv: "(0.975031166907::real) \<le> v3 \<and> v3 \<le> (0.9750311669121::real)"
    by blast
  from floored_inputs_pressure_term_LPT obtain v4 where v4_eq: "pressure_term_LPT floored_inputs = Fin v4"
    and v4_iv: "(0.02684820762139::real) \<le> v4 \<and> v4 \<le> (0.02684820762689::real)"
    by blast
  from floored_inputs_Pt45 obtain v5 where v5_eq: "Pt45 floored_inputs = Fin v5"
    and v5_iv: "(169022.0313417::real) \<le> v5 \<and> v5 \<le> (169022.0314085::real)"
    by blast
  from floored_inputs_pi_LPT obtain v6 where v6_eq: "pi_LPT floored_inputs = Fin v6"
    and v6_iv: "(1.115927079469::real) \<le> v6 \<and> v6 \<le> (1.115927079772::real)"
    by blast
  have c1: "(1::real) \<le> 1 \<and> 1 \<le> (1::real)"
    by simp
  have s2: "(v2::real) \<le> v1"
    by (rule iv_le[OF v2_iv v1_iv]) simp
  have s3: "(0::real) < v3"
    by (rule iv_pos[OF v3_iv]) simp
  have s4: "(v3::real) < 1"
    by (rule iv_less[OF v3_iv c1]) simp
  have s5: "(v4::real) < 1"
    by (rule iv_less[OF v4_iv c1]) simp
  have s6: "(v6::real) \<noteq> 0"
    by (rule iv_nonzero[OF v6_iv]) simp
  show ?thesis
    by (rule lpt_block_Fin(2)[OF floored_inputs_isValid_HPT v1_eq v2_eq v3_eq v4_eq v5_eq v6_eq s2 s3 s4 s5 s6])
qed

lemma floored_inputs_Pt9:
  "\<exists>t. Pt9 floored_inputs = Fin t \<and> 149948.696524473 \<le> t \<and> t \<le> 149948.696624562"
proof -
  from floored_inputs_Pt5 obtain v1 where v1_eq: "Pt5 floored_inputs = Fin v1"
    and v1_iv: "(151463.3298227::real) \<le> v1 \<and> v1 \<le> (151463.3299238::real)"
    by blast
  have c1: "(0.99::real) \<le> 0.99 \<and> 0.99 \<le> (0.99::real)"
    by simp
  have n2: "(149948.696524473::real) \<le> v1 * 0.99 \<and> v1 * 0.99 \<le> (149948.696624562::real)"
    by (rule iv_mul[OF v1_iv c1]) simp_all
  have eq: "Pt9 floored_inputs = Fin (v1 * 0.99)"
    by (rule Pt9_Fin[OF v1_eq floored_inputs_fields(16)])
  from eq n2 show ?thesis
    by blast
qed

lemma floored_inputs_P9:
  "\<exists>t. P9 floored_inputs = Fin t \<and> 101325 \<le> t \<and> t \<le> 101325"
proof -
  from floored_inputs_Pt9 obtain v1 where v1_eq: "Pt9 floored_inputs = Fin v1"
    and v1_iv: "(149948.696524473::real) \<le> v1 \<and> v1 \<le> (149948.696624562::real)"
    by blast
  from floored_inputs_P0 obtain v2 where v2_eq: "P0 floored_inputs = Fin v2"
    and v2_iv: "(101325::real) \<le> v2 \<and> v2 \<le> (101325::real)"
    by blast
  from floored_inputs_Tt5 obtain v3 where v3_eq: "Tt5 floored_inputs = Fin v3"
    and v3_iv: "(1600.245683878045::real) \<le> v3 \<and> v3 \<le> (1600.245683882762::real)"
    by blast
  have c1: "(1.33::real) \<le> 1.33 \<and> 1.33 \<le> (1.33::real)"
    by simp
  have c2: "(1::real) \<le> 1 \<and> 1 \<le> (1::real)"
    by simp
  have n3: "(2.33::real) \<le> 1.33 + 1 \<and> 1.33 + 1 \<le> (2.33::real)"
    by (rule iv_add[OF c1 c2]) simp_all
  have c4: "(2::real) \<le> 2 \<and> 2 \<le> (2::real)"
    by simp
  have n5: "(1.165::real) \<le> (1.33 + 1) / 2 \<and> (1.33 + 1) / 2 \<le> (1.165::real)"
    by (rule iv_div[OF n3 c4]) simp_all
  have s6: "(0::real) < ((1.33 + 1) / 2)"
    by (rule iv_pos[OF n5]) simp
  have n7: "(1.052225062325::real) \<le> ((1.33 + 1) / 2) powr (1 / 3) \<and> ((1.33 + 1) / 2) powr (1 / 3) \<le> (1.052225062326::real)"
    by (rule iv_root[where n=3, OF n5]) (simp_all add: power_divide)
  have n8: "(1.00463863705::real) \<le> (((1.33 + 1) / 2) powr (1 / 3)) powr (1 / 11) \<and> (((1.33 + 1) / 2) powr (1 / 3)) powr (1 / 11) \<le> (1.004638637051::real)"
    by (rule iv_root[where n=11, OF n7]) (simp_all add: power_divide)
  have n9: "(1.00463863705::real) \<le> ((((1.33 + 1) / 2) powr (1 / 3)) powr (1 / 11)) ^ 1 \<and> ((((1.33 + 1) / 2) powr (1 / 3)) powr (1 / 11)) ^ 1 \<le> (1.004638637051::real)"
    by (rule iv_pow_one[OF n8])
  have n10: "(1.009298791053::real) \<le> ((((1.33 + 1) / 2) powr (1 / 3)) powr (1 / 11)) ^ 2 \<and> ((((1.33 + 1) / 2) powr (1 / 3)) powr (1 / 11)) ^ 2 \<le> (1.009298791056::real)"
    by (rule iv_pow_sq[OF n9]) (simp_all add: power_divide)
  have n11: "(1.018684049621::real) \<le> ((((1.33 + 1) / 2) powr (1 / 3)) powr (1 / 11)) ^ 4 \<and> ((((1.33 + 1) / 2) powr (1 / 3)) powr (1 / 11)) ^ 4 \<le> (1.018684049628::real)"
    by (rule iv_pow_sq[OF n10]) (simp_all add: power_divide)
  have n12: "(1.037717192952::real) \<le> ((((1.33 + 1) / 2) powr (1 / 3)) powr (1 / 11)) ^ 8 \<and> ((((1.33 + 1) / 2) powr (1 / 3)) powr (1 / 11)) ^ 8 \<le> (1.037717192967::real)"
    by (rule iv_pow_sq[OF n11]) (simp_all add: power_divide)
  have n13: "(1.076856972548::real) \<le> ((((1.33 + 1) / 2) powr (1 / 3)) powr (1 / 11)) ^ 16 \<and> ((((1.33 + 1) / 2) powr (1 / 3)) powr (1 / 11)) ^ 16 \<le> (1.07685697258::real)"
    by (rule iv_pow_sq[OF n12]) (simp_all add: power_divide)
  have n14: "(1.159620939325::real) \<le> ((((1.33 + 1) / 2) powr (1 / 3)) powr (1 / 11)) ^ 32 \<and> ((((1.33 + 1) / 2) powr (1 / 3)) powr (1 / 11)) ^ 32 \<le> (1.159620939395::real)"
    by (rule iv_pow_sq[OF n13]) (simp_all add: power_divide)
  have n15: "(1.34472072292::real) \<le> ((((1.33 + 1) / 2) powr (1 / 3)) powr (1 / 11)) ^ 64 \<and> ((((1.33 + 1) / 2) powr (1 / 3)) powr (1 / 11)) ^ 64 \<le> (1.344720723084::real)"
    by (rule iv_pow_sq[OF n14]) (simp_all add: power_divide)
  have n16: "(1.80827382265::real) \<le> ((((1.33 + 1) / 2) powr (1 / 3)) powr (1 / 11)) ^ 128 \<and> ((((1.33 + 1) / 2) powr (1 / 3)) powr (1 / 11)) ^ 128 \<le> (1.808273823092::real)"
    by (rule iv_pow_sq[OF n15]) (simp_all add: power_divide)
  have n17: "(1.84205970048::real) \<le> ((((1.33 + 1) / 2) powr (1 / 3)) powr (1 / 11)) ^ 132 \<and> ((((1.33 + 1) / 2) powr (1 / 3)) powr (1 / 11)) ^ 132 \<le> (1.842059700944::real)"
    by (rule iv_pow_mul[OF n16 n11]) simp_all
  have n18: "(1.850604346854::real) \<le> ((((1.33 + 1) / 2) powr (1 / 3)) powr (1 / 11)) ^ 133 \<and> ((((1.33 + 1) / 2) powr (1 / 3)) powr (1 / 11)) ^ 133 \<le> (1.850604347323::real)"
    by (rule iv_pow_mul[OF n17 n9]) simp_all
  have n19: "(1.850604346854::real) \<le> ((1.33 + 1) / 2) powr (133 / 33) \<and> ((1.33 + 1) / 2) powr (133 / 33) \<le> (1.850604347323::real)"
    by (rule powr_via_roots[OF n18 s6]) simp_all
  have n20: "(1.479878574137::real) \<le> v1 / v2 \<and> v1 / v2 \<le> (1.479878575126::real)"
    by (rule iv_div[OF v1_iv v2_iv]) simp_all
  have s21: "(0::real) < v2"
    by (rule iv_pos[OF v2_iv]) simp
  have s22: "(v1 / v2::real) \<le> (((1.33 + 1) / 2) powr (133 / 33))"
    by (rule iv_le[OF n20 n19]) simp
  have s23: "(v2::real) < v1"
    by (rule iv_less[OF v2_iv v1_iv]) simp
  have eq: "P9 floored_inputs = Fin v2"
    by (rule core_nozzle_expanding_Fin(1)[OF floored_inputs_isValid_LPT v1_eq v2_eq v3_eq s21 s22 s23])
  from eq v2_iv show ?thesis
    by blast
qed

lemma floored_inputs_T9:
  "\<exists>t. T9 floored_inputs = Fin t \<and> 1451.94484004 \<le> t \<and> t \<le> 1451.944840295"
proof -
  from floored_inputs_Pt9 obtain v1 where v1_eq: "Pt9 floored_inputs = Fin v1"
    and v1_iv: "(149948.696524473::real) \<le> v1 \<and> v1 \<le> (149948.696624562::real)"
    by blast
  from floored_inputs_P0 obtain v2 where v2_eq: "P0 floored_inputs = Fin v2"
    and v2_iv: "(101325::real) \<le> v2 \<and> v2 \<le> (101325::real)"
    by blast
  from floored_inputs_Tt5 obtain v3 where v3_eq: "Tt5 floored_inputs = Fin v3"
    and v3_iv: "(1600.245683878045::real) \<le> v3 \<and> v3 \<le> (1600.245683882762::real)"
    by blast
  have c1: "(1.33::real) \<le> 1.33 \<and> 1.33 \<le> (1.33::real)"
    by simp
  have c2: "(1::real) \<le> 1 \<and> 1 \<le> (1::real)"
    by simp
  have n3: "(2.33::real) \<le> 1.33 + 1 \<and> 1.33 + 1 \<le> (2.33::real)"
    by (rule iv_add[OF c1 c2]) simp_all
  have c4: "(2::real) \<le> 2 \<and> 2 \<le> (2::real)"
    by simp
  have n5: "(1.165::real) \<le> (1.33 + 1) / 2 \<and> (1.33 + 1) / 2 \<le> (1.165::real)"
    by (rule iv_div[OF n3 c4]) simp_all
  have s6: "(0::real) < ((1.33 + 1) / 2)"
    by (rule iv_pos[OF n5]) simp
  have n7: "(1.052225062325::real) \<le> ((1.33 + 1) / 2) powr (1 / 3) \<and> ((1.33 + 1) / 2) powr (1 / 3) \<le> (1.052225062326::real)"
    by (rule iv_root[where n=3, OF n5]) (simp_all add: power_divide)
  have n8: "(1.00463863705::real) \<le> (((1.33 + 1) / 2) powr (1 / 3)) powr (1 / 11) \<and> (((1.33 + 1) / 2) powr (1 / 3)) powr (1 / 11) \<le> (1.004638637051::real)"
    by (rule iv_root[where n=11, OF n7]) (simp_all add: power_divide)
  have n9: "(1.00463863705::real) \<le> ((((1.33 + 1) / 2) powr (1 / 3)) powr (1 / 11)) ^ 1 \<and> ((((1.33 + 1) / 2) powr (1 / 3)) powr (1 / 11)) ^ 1 \<le> (1.004638637051::real)"
    by (rule iv_pow_one[OF n8])
  have n10: "(1.009298791053::real) \<le> ((((1.33 + 1) / 2) powr (1 / 3)) powr (1 / 11)) ^ 2 \<and> ((((1.33 + 1) / 2) powr (1 / 3)) powr (1 / 11)) ^ 2 \<le> (1.009298791056::real)"
    by (rule iv_pow_sq[OF n9]) (simp_all add: power_divide)
  have n11: "(1.018684049621::real) \<le> ((((1.33 + 1) / 2) powr (1 / 3)) powr (1 / 11)) ^ 4 \<and> ((((1.33 + 1) / 2) powr (1 / 3)) powr (1 / 11)) ^ 4 \<le> (1.018684049628::real)"
    by (rule iv_pow_sq[OF n10]) (simp_all add: power_divide)
  have n12: "(1.037717192952::real) \<le> ((((1.33 + 1) / 2) powr (1 / 3)) powr (1 / 11)) ^ 8 \<and> ((((1.33 + 1) / 2) powr (1 / 3)) powr (1 / 11)) ^ 8 \<le> (1.037717192967::real)"
    by (rule iv_pow_sq[OF n11]) (simp_all add: power_divide)
  have n13: "(1.076856972548::real) \<le> ((((1.33 + 1) / 2) powr (1 / 3)) powr (1 / 11)) ^ 16 \<and> ((((1.33 + 1) / 2) powr (1 / 3)) powr (1 / 11)) ^ 16 \<le> (1.07685697258::real)"
    by (rule iv_pow_sq[OF n12]) (simp_all add: power_divide)
  have n14: "(1.159620939325::real) \<le> ((((1.33 + 1) / 2) powr (1 / 3)) powr (1 / 11)) ^ 32 \<and> ((((1.33 + 1) / 2) powr (1 / 3)) powr (1 / 11)) ^ 32 \<le> (1.159620939395::real)"
    by (rule iv_pow_sq[OF n13]) (simp_all add: power_divide)
  have n15: "(1.34472072292::real) \<le> ((((1.33 + 1) / 2) powr (1 / 3)) powr (1 / 11)) ^ 64 \<and> ((((1.33 + 1) / 2) powr (1 / 3)) powr (1 / 11)) ^ 64 \<le> (1.344720723084::real)"
    by (rule iv_pow_sq[OF n14]) (simp_all add: power_divide)
  have n16: "(1.80827382265::real) \<le> ((((1.33 + 1) / 2) powr (1 / 3)) powr (1 / 11)) ^ 128 \<and> ((((1.33 + 1) / 2) powr (1 / 3)) powr (1 / 11)) ^ 128 \<le> (1.808273823092::real)"
    by (rule iv_pow_sq[OF n15]) (simp_all add: power_divide)
  have n17: "(1.84205970048::real) \<le> ((((1.33 + 1) / 2) powr (1 / 3)) powr (1 / 11)) ^ 132 \<and> ((((1.33 + 1) / 2) powr (1 / 3)) powr (1 / 11)) ^ 132 \<le> (1.842059700944::real)"
    by (rule iv_pow_mul[OF n16 n11]) simp_all
  have n18: "(1.850604346854::real) \<le> ((((1.33 + 1) / 2) powr (1 / 3)) powr (1 / 11)) ^ 133 \<and> ((((1.33 + 1) / 2) powr (1 / 3)) powr (1 / 11)) ^ 133 \<le> (1.850604347323::real)"
    by (rule iv_pow_mul[OF n17 n9]) simp_all
  have n19: "(1.850604346854::real) \<le> ((1.33 + 1) / 2) powr (133 / 33) \<and> ((1.33 + 1) / 2) powr (133 / 33) \<le> (1.850604347323::real)"
    by (rule powr_via_roots[OF n18 s6]) simp_all
  have n20: "(1.479878574137::real) \<le> v1 / v2 \<and> v1 / v2 \<le> (1.479878575126::real)"
    by (rule iv_div[OF v1_iv v2_iv]) simp_all
  have s21: "(0::real) < v2"
    by (rule iv_pos[OF v2_iv]) simp
  have s22: "(v1 / v2::real) \<le> (((1.33 + 1) / 2) powr (133 / 33))"
    by (rule iv_le[OF n20 n19]) simp
  have s23: "(v2::real) < v1"
    by (rule iv_less[OF v2_iv v1_iv]) simp
  have n24: "(0.6757311152473::real) \<le> v2 / v1 \<and> v2 / v1 \<le> (0.6757311156984::real)"
    by (rule iv_div[OF v2_iv v1_iv]) simp_all
  have s25: "(0::real) < (v2 / v1)"
    by (rule iv_pos[OF n24]) simp
  have n26: "(0.9455445335056::real) \<le> (v2 / v1) powr (1 / 7) \<and> (v2 / v1) powr (1 / 7) \<le> (0.9455445335959::real)"
    by (rule iv_root[where n=7, OF n24]) (simp_all add: power_divide)
  have n27: "(0.9970572703677::real) \<le> ((v2 / v1) powr (1 / 7)) powr (1 / 19) \<and> ((v2 / v1) powr (1 / 7)) powr (1 / 19) \<le> (0.9970572703728::real)"
    by (rule iv_root[where n=19, OF n26]) (simp_all add: power_divide)
  have n28: "(0.9970572703677::real) \<le> (((v2 / v1) powr (1 / 7)) powr (1 / 19)) ^ 1 \<and> (((v2 / v1) powr (1 / 7)) powr (1 / 19)) ^ 1 \<le> (0.9970572703728::real)"
    by (rule iv_pow_one[OF n27])
  have n29: "(0.994123200393::real) \<le> (((v2 / v1) powr (1 / 7)) powr (1 / 19)) ^ 2 \<and> (((v2 / v1) powr (1 / 7)) powr (1 / 19)) ^ 2 \<le> (0.9941232004033::real)"
    by (rule iv_pow_sq[OF n28]) (simp_all add: power_divide)
  have n30: "(0.9882809375596::real) \<le> (((v2 / v1) powr (1 / 7)) powr (1 / 19)) ^ 4 \<and> (((v2 / v1) powr (1 / 7)) powr (1 / 19)) ^ 4 \<le> (0.9882809375801::real)"
    by (rule iv_pow_sq[OF n29]) (simp_all add: power_divide)
  have n31: "(0.9766992115436::real) \<le> (((v2 / v1) powr (1 / 7)) powr (1 / 19)) ^ 8 \<and> (((v2 / v1) powr (1 / 7)) powr (1 / 19)) ^ 8 \<le> (0.9766992115843::real)"
    by (rule iv_pow_sq[OF n30]) (simp_all add: power_divide)
  have n32: "(0.9539413498298::real) \<le> (((v2 / v1) powr (1 / 7)) powr (1 / 19)) ^ 16 \<and> (((v2 / v1) powr (1 / 7)) powr (1 / 19)) ^ 16 \<le> (0.9539413499094::real)"
    by (rule iv_pow_sq[OF n31]) (simp_all add: power_divide)
  have n33: "(0.9100040989151::real) \<le> (((v2 / v1) powr (1 / 7)) powr (1 / 19)) ^ 32 \<and> (((v2 / v1) powr (1 / 7)) powr (1 / 19)) ^ 32 \<le> (0.910004099067::real)"
    by (rule iv_pow_sq[OF n32]) (simp_all add: power_divide)
  have n34: "(0.9073262028877::real) \<le> (((v2 / v1) powr (1 / 7)) powr (1 / 19)) ^ 33 \<and> (((v2 / v1) powr (1 / 7)) powr (1 / 19)) ^ 33 \<le> (0.9073262030439::real)"
    by (rule iv_pow_mul[OF n33 n28]) simp_all
  have n35: "(0.9073262028877::real) \<le> (v2 / v1) powr ((1.33 - 1) / 1.33) \<and> (v2 / v1) powr ((1.33 - 1) / 1.33) \<le> (0.9073262030439::real)"
    by (rule powr_via_roots[OF n34 s25]) simp_all
  have n36: "(1451.94484004::real) \<le> v3 * ((v2 / v1) powr ((1.33 - 1) / 1.33)) \<and> v3 * ((v2 / v1) powr ((1.33 - 1) / 1.33)) \<le> (1451.944840295::real)"
    by (rule iv_mul[OF v3_iv n35]) simp_all
  have eq: "T9 floored_inputs = Fin (v3 * ((v2 / v1) powr ((1.33 - 1) / 1.33)))"
    by (rule core_nozzle_expanding_Fin(2)[OF floored_inputs_isValid_LPT v1_eq v2_eq v3_eq s21 s22 s23])
  from eq n36 show ?thesis
    by blast
qed

lemma floored_inputs_V9:
  "\<exists>t. V9 floored_inputs = Fin t \<and> 584.0307699436 \<le> t \<and> t \<le> 584.0307704551"
proof -
  from floored_inputs_Pt9 obtain v1 where v1_eq: "Pt9 floored_inputs = Fin v1"
    and v1_iv: "(149948.696524473::real) \<le> v1 \<and> v1 \<le> (149948.696624562::real)"
    by blast
  from floored_inputs_P0 obtain v2 where v2_eq: "P0 floored_inputs = Fin v2"
    and v2_iv: "(101325::real) \<le> v2 \<and> v2 \<le> (101325::real)"
    by blast
  from floored_inputs_Tt5 obtain v3 where v3_eq: "Tt5 floored_inputs = Fin v3"
    and v3_iv: "(1600.245683878045::real) \<le> v3 \<and> v3 \<le> (1600.245683882762::real)"
    by blast
  have c1: "(1.33::real) \<le> 1.33 \<and> 1.33 \<le> (1.33::real)"
    by simp
  have c2: "(1::real) \<le> 1 \<and> 1 \<le> (1::real)"
    by simp
  have n3: "(2.33::real) \<le> 1.33 + 1 \<and> 1.33 + 1 \<le> (2.33::real)"
    by (rule iv_add[OF c1 c2]) simp_all
  have c4: "(2::real) \<le> 2 \<and> 2 \<le> (2::real)"
    by simp
  have n5: "(1.165::real) \<le> (1.33 + 1) / 2 \<and> (1.33 + 1) / 2 \<le> (1.165::real)"
    by (rule iv_div[OF n3 c4]) simp_all
  have s6: "(0::real) < ((1.33 + 1) / 2)"
    by (rule iv_pos[OF n5]) simp
  have n7: "(1.052225062325::real) \<le> ((1.33 + 1) / 2) powr (1 / 3) \<and> ((1.33 + 1) / 2) powr (1 / 3) \<le> (1.052225062326::real)"
    by (rule iv_root[where n=3, OF n5]) (simp_all add: power_divide)
  have n8: "(1.00463863705::real) \<le> (((1.33 + 1) / 2) powr (1 / 3)) powr (1 / 11) \<and> (((1.33 + 1) / 2) powr (1 / 3)) powr (1 / 11) \<le> (1.004638637051::real)"
    by (rule iv_root[where n=11, OF n7]) (simp_all add: power_divide)
  have n9: "(1.00463863705::real) \<le> ((((1.33 + 1) / 2) powr (1 / 3)) powr (1 / 11)) ^ 1 \<and> ((((1.33 + 1) / 2) powr (1 / 3)) powr (1 / 11)) ^ 1 \<le> (1.004638637051::real)"
    by (rule iv_pow_one[OF n8])
  have n10: "(1.009298791053::real) \<le> ((((1.33 + 1) / 2) powr (1 / 3)) powr (1 / 11)) ^ 2 \<and> ((((1.33 + 1) / 2) powr (1 / 3)) powr (1 / 11)) ^ 2 \<le> (1.009298791056::real)"
    by (rule iv_pow_sq[OF n9]) (simp_all add: power_divide)
  have n11: "(1.018684049621::real) \<le> ((((1.33 + 1) / 2) powr (1 / 3)) powr (1 / 11)) ^ 4 \<and> ((((1.33 + 1) / 2) powr (1 / 3)) powr (1 / 11)) ^ 4 \<le> (1.018684049628::real)"
    by (rule iv_pow_sq[OF n10]) (simp_all add: power_divide)
  have n12: "(1.037717192952::real) \<le> ((((1.33 + 1) / 2) powr (1 / 3)) powr (1 / 11)) ^ 8 \<and> ((((1.33 + 1) / 2) powr (1 / 3)) powr (1 / 11)) ^ 8 \<le> (1.037717192967::real)"
    by (rule iv_pow_sq[OF n11]) (simp_all add: power_divide)
  have n13: "(1.076856972548::real) \<le> ((((1.33 + 1) / 2) powr (1 / 3)) powr (1 / 11)) ^ 16 \<and> ((((1.33 + 1) / 2) powr (1 / 3)) powr (1 / 11)) ^ 16 \<le> (1.07685697258::real)"
    by (rule iv_pow_sq[OF n12]) (simp_all add: power_divide)
  have n14: "(1.159620939325::real) \<le> ((((1.33 + 1) / 2) powr (1 / 3)) powr (1 / 11)) ^ 32 \<and> ((((1.33 + 1) / 2) powr (1 / 3)) powr (1 / 11)) ^ 32 \<le> (1.159620939395::real)"
    by (rule iv_pow_sq[OF n13]) (simp_all add: power_divide)
  have n15: "(1.34472072292::real) \<le> ((((1.33 + 1) / 2) powr (1 / 3)) powr (1 / 11)) ^ 64 \<and> ((((1.33 + 1) / 2) powr (1 / 3)) powr (1 / 11)) ^ 64 \<le> (1.344720723084::real)"
    by (rule iv_pow_sq[OF n14]) (simp_all add: power_divide)
  have n16: "(1.80827382265::real) \<le> ((((1.33 + 1) / 2) powr (1 / 3)) powr (1 / 11)) ^ 128 \<and> ((((1.33 + 1) / 2) powr (1 / 3)) powr (1 / 11)) ^ 128 \<le> (1.808273823092::real)"
    by (rule iv_pow_sq[OF n15]) (simp_all add: power_divide)
  have n17: "(1.84205970048::real) \<le> ((((1.33 + 1) / 2) powr (1 / 3)) powr (1 / 11)) ^ 132 \<and> ((((1.33 + 1) / 2) powr (1 / 3)) powr (1 / 11)) ^ 132 \<le> (1.842059700944::real)"
    by (rule iv_pow_mul[OF n16 n11]) simp_all
  have n18: "(1.850604346854::real) \<le> ((((1.33 + 1) / 2) powr (1 / 3)) powr (1 / 11)) ^ 133 \<and> ((((1.33 + 1) / 2) powr (1 / 3)) powr (1 / 11)) ^ 133 \<le> (1.850604347323::real)"
    by (rule iv_pow_mul[OF n17 n9]) simp_all
  have n19: "(1.850604346854::real) \<le> ((1.33 + 1) / 2) powr (133 / 33) \<and> ((1.33 + 1) / 2) powr (133 / 33) \<le> (1.850604347323::real)"
    by (rule powr_via_roots[OF n18 s6]) simp_all
  have n20: "(1.479878574137::real) \<le> v1 / v2 \<and> v1 / v2 \<le> (1.479878575126::real)"
    by (rule iv_div[OF v1_iv v2_iv]) simp_all
  have s21: "(0::real) < v2"
    by (rule iv_pos[OF v2_iv]) simp
  have s22: "(v1 / v2::real) \<le> (((1.33 + 1) / 2) powr (133 / 33))"
    by (rule iv_le[OF n20 n19]) simp
  have s23: "(v2::real) < v1"
    by (rule iv_less[OF v2_iv v1_iv]) simp
  have n24: "(0.6757311152473::real) \<le> v2 / v1 \<and> v2 / v1 \<le> (0.6757311156984::real)"
    by (rule iv_div[OF v2_iv v1_iv]) simp_all
  have s25: "(0::real) < (v2 / v1)"
    by (rule iv_pos[OF n24]) simp
  have n26: "(0.9455445335056::real) \<le> (v2 / v1) powr (1 / 7) \<and> (v2 / v1) powr (1 / 7) \<le> (0.9455445335959::real)"
    by (rule iv_root[where n=7, OF n24]) (simp_all add: power_divide)
  have n27: "(0.9970572703677::real) \<le> ((v2 / v1) powr (1 / 7)) powr (1 / 19) \<and> ((v2 / v1) powr (1 / 7)) powr (1 / 19) \<le> (0.9970572703728::real)"
    by (rule iv_root[where n=19, OF n26]) (simp_all add: power_divide)
  have n28: "(0.9970572703677::real) \<le> (((v2 / v1) powr (1 / 7)) powr (1 / 19)) ^ 1 \<and> (((v2 / v1) powr (1 / 7)) powr (1 / 19)) ^ 1 \<le> (0.9970572703728::real)"
    by (rule iv_pow_one[OF n27])
  have n29: "(0.994123200393::real) \<le> (((v2 / v1) powr (1 / 7)) powr (1 / 19)) ^ 2 \<and> (((v2 / v1) powr (1 / 7)) powr (1 / 19)) ^ 2 \<le> (0.9941232004033::real)"
    by (rule iv_pow_sq[OF n28]) (simp_all add: power_divide)
  have n30: "(0.9882809375596::real) \<le> (((v2 / v1) powr (1 / 7)) powr (1 / 19)) ^ 4 \<and> (((v2 / v1) powr (1 / 7)) powr (1 / 19)) ^ 4 \<le> (0.9882809375801::real)"
    by (rule iv_pow_sq[OF n29]) (simp_all add: power_divide)
  have n31: "(0.9766992115436::real) \<le> (((v2 / v1) powr (1 / 7)) powr (1 / 19)) ^ 8 \<and> (((v2 / v1) powr (1 / 7)) powr (1 / 19)) ^ 8 \<le> (0.9766992115843::real)"
    by (rule iv_pow_sq[OF n30]) (simp_all add: power_divide)
  have n32: "(0.9539413498298::real) \<le> (((v2 / v1) powr (1 / 7)) powr (1 / 19)) ^ 16 \<and> (((v2 / v1) powr (1 / 7)) powr (1 / 19)) ^ 16 \<le> (0.9539413499094::real)"
    by (rule iv_pow_sq[OF n31]) (simp_all add: power_divide)
  have n33: "(0.9100040989151::real) \<le> (((v2 / v1) powr (1 / 7)) powr (1 / 19)) ^ 32 \<and> (((v2 / v1) powr (1 / 7)) powr (1 / 19)) ^ 32 \<le> (0.910004099067::real)"
    by (rule iv_pow_sq[OF n32]) (simp_all add: power_divide)
  have n34: "(0.9073262028877::real) \<le> (((v2 / v1) powr (1 / 7)) powr (1 / 19)) ^ 33 \<and> (((v2 / v1) powr (1 / 7)) powr (1 / 19)) ^ 33 \<le> (0.9073262030439::real)"
    by (rule iv_pow_mul[OF n33 n28]) simp_all
  have n35: "(0.9073262028877::real) \<le> (v2 / v1) powr ((1.33 - 1) / 1.33) \<and> (v2 / v1) powr ((1.33 - 1) / 1.33) \<le> (0.9073262030439::real)"
    by (rule powr_via_roots[OF n34 s25]) simp_all
  have n36: "(1451.94484004::real) \<le> v3 * ((v2 / v1) powr ((1.33 - 1) / 1.33)) \<and> v3 * ((v2 / v1) powr ((1.33 - 1) / 1.33)) \<le> (1451.944840295::real)"
    by (rule iv_mul[OF v3_iv n35]) simp_all
  have c37: "(0::real) \<le> 0 \<and> 0 \<le> (0::real)"
    by simp
  have c38: "(1150::real) \<le> 1150 \<and> 1150 \<le> (1150::real)"
    by simp
  have n39: "(2300::real) \<le> 2 * 1150 \<and> 2 * 1150 \<le> (2300::real)"
    by (rule iv_mul[OF c4 c38]) simp_all
  have n40: "(148.300843583045::real) \<le> v3 - (v3 * ((v2 / v1) powr ((1.33 - 1) / 1.33))) \<and> v3 - (v3 * ((v2 / v1) powr ((1.33 - 1) / 1.33))) \<le> (148.300843842762::real)"
    by (rule iv_sub[OF v3_iv n36]) simp_all
  have n41: "(341091.9402410035::real) \<le> (2 * 1150) * (v3 - (v3 * ((v2 / v1) powr ((1.33 - 1) / 1.33)))) \<and> (2 * 1150) * (v3 - (v3 * ((v2 / v1) powr ((1.33 - 1) / 1.33)))) \<le> (341091.9408383526::real)"
    by (rule iv_mul[OF n39 n40]) simp_all
  have n42: "(341091.9402410035::real) \<le> max 0 ((2 * 1150) * (v3 - (v3 * ((v2 / v1) powr ((1.33 - 1) / 1.33))))) \<and> max 0 ((2 * 1150) * (v3 - (v3 * ((v2 / v1) powr ((1.33 - 1) / 1.33))))) \<le> (341091.9408383526::real)"
    by (rule iv_max[OF c37 n41]) simp_all
  have n43: "(584.0307699436::real) \<le> sqrt (max 0 ((2 * 1150) * (v3 - (v3 * ((v2 / v1) powr ((1.33 - 1) / 1.33)))))) \<and> sqrt (max 0 ((2 * 1150) * (v3 - (v3 * ((v2 / v1) powr ((1.33 - 1) / 1.33)))))) \<le> (584.0307704551::real)"
    by (rule iv_sqrt[OF n42]) (simp_all add: power_divide)
  have eq: "V9 floored_inputs = Fin (sqrt (max 0 ((2 * 1150) * (v3 - (v3 * ((v2 / v1) powr ((1.33 - 1) / 1.33)))))))"
    by (rule core_nozzle_expanding_Fin(3)[OF floored_inputs_isValid_LPT v1_eq v2_eq v3_eq s21 s22 s23])
  from eq n43 show ?thesis
    by blast
qed

lemma floored_inputs_isValid_core:
  "isValid_core floored_inputs"
proof -
  from floored_inputs_Pt9 obtain v1 where v1_eq: "Pt9 floored_inputs = Fin v1"
    and v1_iv: "(149948.696524473::real) \<le> v1 \<and> v1 \<le> (149948.696624562::real)"
    by blast
  from floored_inputs_P0 obtain v2 where v2_eq: "P0 floored_inputs = Fin v2"
    and v2_iv: "(101325::real) \<le> v2 \<and> v2 \<le> (101325::real)"
    by blast
  from floored_inputs_Tt5 obtain v3 where v3_eq: "Tt5 floored_inputs = Fin v3"
    and v3_iv: "(1600.245683878045::real) \<le> v3 \<and> v3 \<le> (1600.245683882762::real)"
    by blast
  have c1: "(1.33::real) \<le> 1.33 \<and> 1.33 \<le> (1.33::real)"
    by simp
  have c2: "(1::real) \<le> 1 \<and> 1 \<le> (1::real)"
    by simp
  have n3: "(2.33::real) \<le> 1.33 + 1 \<and> 1.33 + 1 \<le> (2.33::real)"
    by (rule iv_add[OF c1 c2]) simp_all
  have c4: "(2::real) \<le> 2 \<and> 2 \<le> (2::real)"
    by simp
  have n5: "(1.165::real) \<le> (1.33 + 1) / 2 \<and> (1.33 + 1) / 2 \<le> (1.165::real)"
    by (rule iv_div[OF n3 c4]) simp_all
  have s6: "(0::real) < ((1.33 + 1) / 2)"
    by (rule iv_pos[OF n5]) simp
  have n7: "(1.052225062325::real) \<le> ((1.33 + 1) / 2) powr (1 / 3) \<and> ((1.33 + 1) / 2) powr (1 / 3) \<le> (1.052225062326::real)"
    by (rule iv_root[where n=3, OF n5]) (simp_all add: power_divide)
  have n8: "(1.00463863705::real) \<le> (((1.33 + 1) / 2) powr (1 / 3)) powr (1 / 11) \<and> (((1.33 + 1) / 2) powr (1 / 3)) powr (1 / 11) \<le> (1.004638637051::real)"
    by (rule iv_root[where n=11, OF n7]) (simp_all add: power_divide)
  have n9: "(1.00463863705::real) \<le> ((((1.33 + 1) / 2) powr (1 / 3)) powr (1 / 11)) ^ 1 \<and> ((((1.33 + 1) / 2) powr (1 / 3)) powr (1 / 11)) ^ 1 \<le> (1.004638637051::real)"
    by (rule iv_pow_one[OF n8])
  have n10: "(1.009298791053::real) \<le> ((((1.33 + 1) / 2) powr (1 / 3)) powr (1 / 11)) ^ 2 \<and> ((((1.33 + 1) / 2) powr (1 / 3)) powr (1 / 11)) ^ 2 \<le> (1.009298791056::real)"
    by (rule iv_pow_sq[OF n9]) (simp_all add: power_divide)
  have n11: "(1.018684049621::real) \<le> ((((1.33 + 1) / 2) powr (1 / 3)) powr (1 / 11)) ^ 4 \<and> ((((1.33 + 1) / 2) powr (1 / 3)) powr (1 / 11)) ^ 4 \<le> (1.018684049628::real)"
    by (rule iv_pow_sq[OF n10]) (simp_all add: power_divide)
  have n12: "(1.037717192952::real) \<le> ((((1.33 + 1) / 2) powr (1 / 3)) powr (1 / 11)) ^ 8 \<and> ((((1.33 + 1) / 2) powr (1 / 3)) powr (1 / 11)) ^ 8 \<le> (1.037717192967::real)"
    by (rule iv_pow_sq[OF n11]) (simp_all add: power_divide)
  have n13: "(1.076856972548::real) \<le> ((((1.33 + 1) / 2) powr (1 / 3)) powr (1 / 11)) ^ 16 \<and> ((((1.33 + 1) / 2) powr (1 / 3)) powr (1 / 11)) ^ 16 \<le> (1.07685697258::real)"
    by (rule iv_pow_sq[OF n12]) (simp_all add: power_divide)
  have n14: "(1.159620939325::real) \<le> ((((1.33 + 1) / 2) powr (1 / 3)) powr (1 / 11)) ^ 32 \<and> ((((1.33 + 1) / 2) powr (1 / 3)) powr (1 / 11)) ^ 32 \<le> (1.159620939395::real)"
    by (rule iv_pow_sq[OF n13]) (simp_all add: power_divide)
  have n15: "(1.34472072292::real) \<le> ((((1.33 + 1) / 2) powr (1 / 3)) powr (1 / 11)) ^ 64 \<and> ((((1.33 + 1) / 2) powr (1 / 3)) powr (1 / 11)) ^ 64 \<le> (1.344720723084::real)"
    by (rule iv_pow_sq[OF n14]) (simp_all add: power_divide)
  have n16: "(1.80827382265::real) \<le> ((((1.33 + 1) / 2) powr (1 / 3)) powr (1 / 11)) ^ 128 \<and> ((((1.33 + 1) / 2) powr (1 / 3)) powr (1 / 11)) ^ 128 \<le> (1.808273823092::real)"
    by (rule iv_pow_sq[OF n15]) (simp_all add: power_divide)
  have n17: "(1.84205970048::real) \<le> ((((1.33 + 1) / 2) powr (1 / 3)) powr (1 / 11)) ^ 132 \<and> ((((1.33 + 1) / 2) powr (1 / 3)) powr (1 / 11)) ^ 132 \<le> (1.842059700944::real)"
    by (rule iv_pow_mul[OF n16 n11]) simp_all
  have n18: "(1.850604346854::real) \<le> ((((1.33 + 1) / 2) powr (1 / 3)) powr (1 / 11)) ^ 133 \<and> ((((1.33 + 1) / 2) powr (1 / 3)) powr (1 / 11)) ^ 133 \<le> (1.850604347323::real)"
    by (rule iv_pow_mul[OF n17 n9]) simp_all
  have n19: "(1.850604346854::real) \<le> ((1.33 + 1) / 2) powr (133 / 33) \<and> ((1.33 + 1) / 2) powr (133 / 33) \<le> (1.850604347323::real)"
    by (rule powr_via_roots[OF n18 s6]) simp_all
  have n20: "(1.479878574137::real) \<le> v1 / v2 \<and> v1 / v2 \<le> (1.479878575126::real)"
    by (rule iv_div[OF v1_iv v2_iv]) simp_all
  have s21: "(0::real) < v2"
    by (rule iv_pos[OF v2_iv]) simp
  have s22: "(v1 / v2::real) \<le> (((1.33 + 1) / 2) powr (133 / 33))"
    by (rule iv_le[OF n20 n19]) simp
  have s23: "(v2::real) < v1"
    by (rule iv_less[OF v2_iv v1_iv]) simp
  show ?thesis
    by (rule core_nozzle_expanding_Fin(4)[OF floored_inputs_isValid_LPT v1_eq v2_eq v3_eq s21 s22 s23])
qed

lemma floored_inputs_Pt19:
  "\<exists>t. Pt19 floored_inputs = Fin t \<and> 162204.09975 \<le> t \<and> t \<le> 162204.09975"
proof -
  from floored_inputs_Pt13 obtain v1 where v1_eq: "Pt13 floored_inputs = Fin v1"
    and v1_iv: "(163842.525::real) \<le> v1 \<and> v1 \<le> (163842.525::real)"
    by blast
  have c1: "(0.99::real) \<le> 0.99 \<and> 0.99 \<le> (0.99::real)"
    by simp
  have n2: "(162204.09975::real) \<le> v1 * 0.99 \<and> v1 * 0.99 \<le> (162204.09975::real)"
    by (rule iv_mul[OF v1_iv c1]) simp_all
  have eq: "Pt19 floored_inputs = Fin (v1 * 0.99)"
    by (rule Pt19_Fin[OF v1_eq floored_inputs_fields(16)])
  from eq n2 show ?thesis
    by blast
qed

lemma floored_inputs_P19:
  "\<exists>t. P19 floored_inputs = Fin t \<and> 101325 \<le> t \<and> t \<le> 101325"
proof -
  from floored_inputs_Pt19 obtain v1 where v1_eq: "Pt19 floored_inputs = Fin v1"
    and v1_iv: "(162204.09975::real) \<le> v1 \<and> v1 \<le> (162204.09975::real)"
    by blast
  from floored_inputs_P0 obtain v2 where v2_eq: "P0 floored_inputs = Fin v2"
    and v2_iv: "(101325::real) \<le> v2 \<and> v2 \<le> (101325::real)"
    by blast
  from floored_inputs_Tt13 obtain v3 where v3_eq: "Tt13 floored_inputs = Fin v3"
    and v3_iv: "(336.3275995433::real) \<le> v3 \<and> v3 \<le> (336.3275995447::real)"
    by blast
  have c1: "(1.4::real) \<le> 1.4 \<and> 1.4 \<le> (1.4::real)"
    by simp
  have c2: "(1::real) \<le> 1 \<and> 1 \<le> (1::real)"
    by simp
  have n3: "(2.4::real) \<le> 1.4 + 1 \<and> 1.4 + 1 \<le> (2.4::real)"
    by (rule iv_add[OF c1 c2]) simp_all
  have c4: "(2::real) \<le> 2 \<and> 2 \<le> (2::real)"
    by simp
  have n5: "(1.2::real) \<le> (1.4 + 1) / 2 \<and> (1.4 + 1) / 2 \<le> (1.2::real)"
    by (rule iv_div[OF n3 c4]) simp_all
  have s6: "(0::real) < ((1.4 + 1) / 2)"
    by (rule iv_pos[OF n5]) simp
  have n7: "(1.09544511501::real) \<le> ((1.4 + 1) / 2) powr (1 / 2) \<and> ((1.4 + 1) / 2) powr (1 / 2) \<le> (1.095445115011::real)"
    by (rule iv_root[where n=2, OF n5]) (simp_all add: power_divide)
  have n8: "(1.09544511501::real) \<le> (((1.4 + 1) / 2) powr (1 / 2)) ^ 1 \<and> (((1.4 + 1) / 2) powr (1 / 2)) ^ 1 \<le> (1.095445115011::real)"
    by (rule iv_pow_one[OF n7])
  have n9: "(1.199999999999::real) \<le> (((1.4 + 1) / 2) powr (1 / 2)) ^ 2 \<and> (((1.4 + 1) / 2) powr (1 / 2)) ^ 2 \<le> (1.200000000002::real)"
    by (rule iv_pow_sq[OF n8]) (simp_all add: power_divide)
  have n10: "(1.439999999997::real) \<le> (((1.4 + 1) / 2) powr (1 / 2)) ^ 4 \<and> (((1.4 + 1) / 2) powr (1 / 2)) ^ 4 \<le> (1.440000000005::real)"
    by (rule iv_pow_sq[OF n9]) (simp_all add: power_divide)
  have n11: "(1.727999999994::real) \<le> (((1.4 + 1) / 2) powr (1 / 2)) ^ 6 \<and> (((1.4 + 1) / 2) powr (1 / 2)) ^ 6 \<le> (1.728000000009::real)"
    by (rule iv_pow_mul[OF n10 n9]) simp_all
  have n12: "(1.89292915873::real) \<le> (((1.4 + 1) / 2) powr (1 / 2)) ^ 7 \<and> (((1.4 + 1) / 2) powr (1 / 2)) ^ 7 \<le> (1.892929158749::real)"
    by (rule iv_pow_mul[OF n11 n8]) simp_all
  have n13: "(1.89292915873::real) \<le> ((1.4 + 1) / 2) powr (7 / 2) \<and> ((1.4 + 1) / 2) powr (7 / 2) \<le> (1.892929158749::real)"
    by (rule powr_via_root[OF n12 s6]) simp_all
  have n14: "(1.60083::real) \<le> v1 / v2 \<and> v1 / v2 \<le> (1.60083::real)"
    by (rule iv_div[OF v1_iv v2_iv]) simp_all
  have s15: "(0::real) < v2"
    by (rule iv_pos[OF v2_iv]) simp
  have s16: "(v1 / v2::real) \<le> (((1.4 + 1) / 2) powr (7 / 2))"
    by (rule iv_le[OF n14 n13]) simp
  have s17: "(v2::real) < v1"
    by (rule iv_less[OF v2_iv v1_iv]) simp
  have eq: "P19 floored_inputs = Fin v2"
    by (rule bypass_nozzle_expanding_Fin(1)[OF floored_inputs_isValid_core v1_eq v2_eq v3_eq s15 s16 s17])
  from eq v2_iv show ?thesis
    by blast
qed

lemma floored_inputs_T19:
  "\<exists>t. T19 floored_inputs = Fin t \<and> 294.0208715637 \<le> t \<and> t \<le> 294.0208715652"
proof -
  from floored_inputs_Pt19 obtain v1 where v1_eq: "Pt19 floored_inputs = Fin v1"
    and v1_iv: "(162204.09975::real) \<le> v1 \<and> v1 \<le> (162204.09975::real)"
    by blast
  from floored_inputs_P0 obtain v2 where v2_eq: "P0 floored_inputs = Fin v2"
    and v2_iv: "(101325::real) \<le> v2 \<and> v2 \<le> (101325::real)"
    by blast
  from floored_inputs_Tt13 obtain v3 where v3_eq: "Tt13 floored_inputs = Fin v3"
    and v3_iv: "(336.3275995433::real) \<le> v3 \<and> v3 \<le> (336.3275995447::real)"
    by blast
  have c1: "(1.4::real) \<le> 1.4 \<and> 1.4 \<le> (1.4::real)"
    by simp
  have c2: "(1::real) \<le> 1 \<and> 1 \<le> (1::real)"
    by simp
  have n3: "(2.4::real) \<le> 1.4 + 1 \<and> 1.4 + 1 \<le> (2.4::real)"
    by (rule iv_add[OF c1 c2]) simp_all
  have c4: "(2::real) \<le> 2 \<and> 2 \<le> (2::real)"
    by simp
  have n5: "(1.2::real) \<le> (1.4 + 1) / 2 \<and> (1.4 + 1) / 2 \<le> (1.2::real)"
    by (rule iv_div[OF n3 c4]) simp_all
  have s6: "(0::real) < ((1.4 + 1) / 2)"
    by (rule iv_pos[OF n5]) simp
  have n7: "(1.09544511501::real) \<le> ((1.4 + 1) / 2) powr (1 / 2) \<and> ((1.4 + 1) / 2) powr (1 / 2) \<le> (1.095445115011::real)"
    by (rule iv_root[where n=2, OF n5]) (simp_all add: power_divide)
  have n8: "(1.09544511501::real) \<le> (((1.4 + 1) / 2) powr (1 / 2)) ^ 1 \<and> (((1.4 + 1) / 2) powr (1 / 2)) ^ 1 \<le> (1.095445115011::real)"
    by (rule iv_pow_one[OF n7])
  have n9: "(1.199999999999::real) \<le> (((1.4 + 1) / 2) powr (1 / 2)) ^ 2 \<and> (((1.4 + 1) / 2) powr (1 / 2)) ^ 2 \<le> (1.200000000002::real)"
    by (rule iv_pow_sq[OF n8]) (simp_all add: power_divide)
  have n10: "(1.439999999997::real) \<le> (((1.4 + 1) / 2) powr (1 / 2)) ^ 4 \<and> (((1.4 + 1) / 2) powr (1 / 2)) ^ 4 \<le> (1.440000000005::real)"
    by (rule iv_pow_sq[OF n9]) (simp_all add: power_divide)
  have n11: "(1.727999999994::real) \<le> (((1.4 + 1) / 2) powr (1 / 2)) ^ 6 \<and> (((1.4 + 1) / 2) powr (1 / 2)) ^ 6 \<le> (1.728000000009::real)"
    by (rule iv_pow_mul[OF n10 n9]) simp_all
  have n12: "(1.89292915873::real) \<le> (((1.4 + 1) / 2) powr (1 / 2)) ^ 7 \<and> (((1.4 + 1) / 2) powr (1 / 2)) ^ 7 \<le> (1.892929158749::real)"
    by (rule iv_pow_mul[OF n11 n8]) simp_all
  have n13: "(1.89292915873::real) \<le> ((1.4 + 1) / 2) powr (7 / 2) \<and> ((1.4 + 1) / 2) powr (7 / 2) \<le> (1.892929158749::real)"
    by (rule powr_via_root[OF n12 s6]) simp_all
  have n14: "(1.60083::real) \<le> v1 / v2 \<and> v1 / v2 \<le> (1.60083::real)"
    by (rule iv_div[OF v1_iv v2_iv]) simp_all
  have s15: "(0::real) < v2"
    by (rule iv_pos[OF v2_iv]) simp
  have s16: "(v1 / v2::real) \<le> (((1.4 + 1) / 2) powr (7 / 2))"
    by (rule iv_le[OF n14 n13]) simp
  have s17: "(v2::real) < v1"
    by (rule iv_less[OF v2_iv v1_iv]) simp
  have n18: "(0.6246759493512::real) \<le> v2 / v1 \<and> v2 / v1 \<le> (0.6246759493513::real)"
    by (rule iv_div[OF v2_iv v1_iv]) simp_all
  have s19: "(0::real) < (v2 / v1)"
    by (rule iv_pos[OF n18]) simp
  have n20: "(0.9349918525941::real) \<le> (v2 / v1) powr (1 / 7) \<and> (v2 / v1) powr (1 / 7) \<le> (0.9349918525942::real)"
    by (rule iv_root[where n=7, OF n18]) (simp_all add: power_divide)
  have n21: "(0.9349918525941::real) \<le> ((v2 / v1) powr (1 / 7)) ^ 1 \<and> ((v2 / v1) powr (1 / 7)) ^ 1 \<le> (0.9349918525942::real)"
    by (rule iv_pow_one[OF n20])
  have n22: "(0.8742097644173::real) \<le> ((v2 / v1) powr (1 / 7)) ^ 2 \<and> ((v2 / v1) powr (1 / 7)) ^ 2 \<le> (0.8742097644176::real)"
    by (rule iv_pow_sq[OF n21]) (simp_all add: power_divide)
  have n23: "(0.8742097644173::real) \<le> (v2 / v1) powr ((1.4 - 1) / 1.4) \<and> (v2 / v1) powr ((1.4 - 1) / 1.4) \<le> (0.8742097644176::real)"
    by (rule powr_via_root[OF n22 s19]) simp_all
  have n24: "(294.0208715637::real) \<le> v3 * ((v2 / v1) powr ((1.4 - 1) / 1.4)) \<and> v3 * ((v2 / v1) powr ((1.4 - 1) / 1.4)) \<le> (294.0208715652::real)"
    by (rule iv_mul[OF v3_iv n23]) simp_all
  have eq: "T19 floored_inputs = Fin (v3 * ((v2 / v1) powr ((1.4 - 1) / 1.4)))"
    by (rule bypass_nozzle_expanding_Fin(2)[OF floored_inputs_isValid_core v1_eq v2_eq v3_eq s15 s16 s17])
  from eq n24 show ?thesis
    by blast
qed

lemma floored_inputs_V19:
  "\<exists>t. V19 floored_inputs = Fin t \<and> 291.6102248481 \<le> t \<and> t \<le> 291.6102248582"
proof -
  from floored_inputs_Pt19 obtain v1 where v1_eq: "Pt19 floored_inputs = Fin v1"
    and v1_iv: "(162204.09975::real) \<le> v1 \<and> v1 \<le> (162204.09975::real)"
    by blast
  from floored_inputs_P0 obtain v2 where v2_eq: "P0 floored_inputs = Fin v2"
    and v2_iv: "(101325::real) \<le> v2 \<and> v2 \<le> (101325::real)"
    by blast
  from floored_inputs_Tt13 obtain v3 where v3_eq: "Tt13 floored_inputs = Fin v3"
    and v3_iv: "(336.3275995433::real) \<le> v3 \<and> v3 \<le> (336.3275995447::real)"
    by blast
  have c1: "(1.4::real) \<le> 1.4 \<and> 1.4 \<le> (1.4::real)"
    by simp
  have c2: "(1::real) \<le> 1 \<and> 1 \<le> (1::real)"
    by simp
  have n3: "(2.4::real) \<le> 1.4 + 1 \<and> 1.4 + 1 \<le> (2.4::real)"
    by (rule iv_add[OF c1 c2]) simp_all
  have c4: "(2::real) \<le> 2 \<and> 2 \<le> (2::real)"
    by simp
  have n5: "(1.2::real) \<le> (1.4 + 1) / 2 \<and> (1.4 + 1) / 2 \<le> (1.2::real)"
    by (rule iv_div[OF n3 c4]) simp_all
  have s6: "(0::real) < ((1.4 + 1) / 2)"
    by (rule iv_pos[OF n5]) simp
  have n7: "(1.09544511501::real) \<le> ((1.4 + 1) / 2) powr (1 / 2) \<and> ((1.4 + 1) / 2) powr (1 / 2) \<le> (1.095445115011::real)"
    by (rule iv_root[where n=2, OF n5]) (simp_all add: power_divide)
  have n8: "(1.09544511501::real) \<le> (((1.4 + 1) / 2) powr (1 / 2)) ^ 1 \<and> (((1.4 + 1) / 2) powr (1 / 2)) ^ 1 \<le> (1.095445115011::real)"
    by (rule iv_pow_one[OF n7])
  have n9: "(1.199999999999::real) \<le> (((1.4 + 1) / 2) powr (1 / 2)) ^ 2 \<and> (((1.4 + 1) / 2) powr (1 / 2)) ^ 2 \<le> (1.200000000002::real)"
    by (rule iv_pow_sq[OF n8]) (simp_all add: power_divide)
  have n10: "(1.439999999997::real) \<le> (((1.4 + 1) / 2) powr (1 / 2)) ^ 4 \<and> (((1.4 + 1) / 2) powr (1 / 2)) ^ 4 \<le> (1.440000000005::real)"
    by (rule iv_pow_sq[OF n9]) (simp_all add: power_divide)
  have n11: "(1.727999999994::real) \<le> (((1.4 + 1) / 2) powr (1 / 2)) ^ 6 \<and> (((1.4 + 1) / 2) powr (1 / 2)) ^ 6 \<le> (1.728000000009::real)"
    by (rule iv_pow_mul[OF n10 n9]) simp_all
  have n12: "(1.89292915873::real) \<le> (((1.4 + 1) / 2) powr (1 / 2)) ^ 7 \<and> (((1.4 + 1) / 2) powr (1 / 2)) ^ 7 \<le> (1.892929158749::real)"
    by (rule iv_pow_mul[OF n11 n8]) simp_all
  have n13: "(1.89292915873::real) \<le> ((1.4 + 1) / 2) powr (7 / 2) \<and> ((1.4 + 1) / 2) powr (7 / 2) \<le> (1.892929158749::real)"
    by (rule powr_via_root[OF n12 s6]) simp_all
  have n14: "(1.60083::real) \<le> v1 / v2 \<and> v1 / v2 \<le> (1.60083::real)"
    by (rule iv_div[OF v1_iv v2_iv]) simp_all
  have s15: "(0::real) < v2"
    by (rule iv_pos[OF v2_iv]) simp
  have s16: "(v1 / v2::real) \<le> (((1.4 + 1) / 2) powr (7 / 2))"
    by (rule iv_le[OF n14 n13]) simp
  have s17: "(v2::real) < v1"
    by (rule iv_less[OF v2_iv v1_iv]) simp
  have n18: "(0.6246759493512::real) \<le> v2 / v1 \<and> v2 / v1 \<le> (0.6246759493513::real)"
    by (rule iv_div[OF v2_iv v1_iv]) simp_all
  have s19: "(0::real) < (v2 / v1)"
    by (rule iv_pos[OF n18]) simp
  have n20: "(0.9349918525941::real) \<le> (v2 / v1) powr (1 / 7) \<and> (v2 / v1) powr (1 / 7) \<le> (0.9349918525942::real)"
    by (rule iv_root[where n=7, OF n18]) (simp_all add: power_divide)
  have n21: "(0.9349918525941::real) \<le> ((v2 / v1) powr (1 / 7)) ^ 1 \<and> ((v2 / v1) powr (1 / 7)) ^ 1 \<le> (0.9349918525942::real)"
    by (rule iv_pow_one[OF n20])
  have n22: "(0.8742097644173::real) \<le> ((v2 / v1) powr (1 / 7)) ^ 2 \<and> ((v2 / v1) powr (1 / 7)) ^ 2 \<le> (0.8742097644176::real)"
    by (rule iv_pow_sq[OF n21]) (simp_all add: power_divide)
  have n23: "(0.8742097644173::real) \<le> (v2 / v1) powr ((1.4 - 1) / 1.4) \<and> (v2 / v1) powr ((1.4 - 1) / 1.4) \<le> (0.8742097644176::real)"
    by (rule powr_via_root[OF n22 s19]) simp_all
  have n24: "(294.0208715637::real) \<le> v3 * ((v2 / v1) powr ((1.4 - 1) / 1.4)) \<and> v3 * ((v2 / v1) powr ((1.4 - 1) / 1.4)) \<le> (294.0208715652::real)"
    by (rule iv_mul[OF v3_iv n23]) simp_all
  have c25: "(0::real) \<le> 0 \<and> 0 \<le> (0::real)"
    by simp
  have c26: "(1005::real) \<le> 1005 \<and> 1005 \<le> (1005::real)"
    by simp
  have n27: "(2010::real) \<le> 2 * 1005 \<and> 2 * 1005 \<le> (2010::real)"
    by (rule iv_mul[OF c4 c26]) simp_all
  have n28: "(42.3067279781::real) \<le> v3 - (v3 * ((v2 / v1) powr ((1.4 - 1) / 1.4))) \<and> v3 - (v3 * ((v2 / v1) powr ((1.4 - 1) / 1.4))) \<le> (42.306727981::real)"
    by (rule iv_sub[OF v3_iv n24]) simp_all
  have n29: "(85036.523235981::real) \<le> (2 * 1005) * (v3 - (v3 * ((v2 / v1) powr ((1.4 - 1) / 1.4)))) \<and> (2 * 1005) * (v3 - (v3 * ((v2 / v1) powr ((1.4 - 1) / 1.4)))) \<le> (85036.52324181::real)"
    by (rule iv_mul[OF n27 n28]) simp_all
  have n30: "(85036.523235981::real) \<le> max 0 ((2 * 1005) * (v3 - (v3 * ((v2 / v1) powr ((1.4 - 1) / 1.4))))) \<and> max 0 ((2 * 1005) * (v3 - (v3 * ((v2 / v1) powr ((1.4 - 1) / 1.4))))) \<le> (85036.52324181::real)"
    by (rule iv_max[OF c25 n29]) simp_all
  have n31: "(291.6102248481::real) \<le> sqrt (max 0 ((2 * 1005) * (v3 - (v3 * ((v2 / v1) powr ((1.4 - 1) / 1.4)))))) \<and> sqrt (max 0 ((2 * 1005) * (v3 - (v3 * ((v2 / v1) powr ((1.4 - 1) / 1.4)))))) \<le> (291.6102248582::real)"
    by (rule iv_sqrt[OF n30]) (simp_all add: power_divide)
  have eq: "V19 floored_inputs = Fin (sqrt (max 0 ((2 * 1005) * (v3 - (v3 * ((v2 / v1) powr ((1.4 - 1) / 1.4)))))))"
    by (rule bypass_nozzle_expanding_Fin(3)[OF floored_inputs_isValid_core v1_eq v2_eq v3_eq s15 s16 s17])
  from eq n31 show ?thesis
    by blast
qed

subsection \<open>The solver at \<open>cold_inputs\<close>\<close>

lemma cold_inputs_fields:
  "altitude cold_inputs = Fin 0"
  "mach cold_inputs = Fin 0.83"
  "massFlow cold_inputs = Fin 1350"
  "bypassRatio cold_inputs = Fin 9"
  "overallPressureRatio cold_inputs = Fin 42"
  "fanPressureRatio cold_inputs = Fin 1.65"
  "turbineEntryTemp cold_inputs = Fin 1000"
  "efficiencyFan cold_inputs = Fin 0.92"
  "efficiencyLPC cold_inputs = Fin 0.90"
  "efficiencyHPC cold_inputs = Fin 0.90"
  "efficiencyHPT cold_inputs = Fin 0.92"
  "efficiencyLPT cold_inputs = Fin 0.93"
  "efficiencyBurner cold_inputs = Fin 0.995"
  "pressureRecoveryInlet cold_inputs = Fin 0.98"
  "pressureRecoveryBurner cold_inputs = Fin 0.96"
  "pressureRecoveryNozzle cold_inputs = Fin 0.99"
  "mechEfficiencyHigh cold_inputs = Fin 0.99"
  "mechEfficiencyLow cold_inputs = Fin 0.99"
  "heatingValue cold_inputs = Fin 43.1"
  by (simp_all add: cold_inputs_def)

lemma cold_inputs_T0:
  "\<exists>t. T0 cold_inputs = Fin t \<and> 288.15 \<le> t \<and> t \<le> 288.15"
proof -
  have eq: "T0 cold_inputs = Fin 288.15"
    by (rule sea_level_Fin(1)[OF cold_inputs_fields(1)])
  have iv: "(288.15::real) \<le> 288.15 \<and> 288.15 \<le> (288.15::real)"
    by simp
  from eq iv show ?thesis
    by blast
qed

lemma cold_inputs_P0:
  "\<exists>t. P0 cold_inputs = Fin t \<and> 101325 \<le> t \<and> t \<le> 101325"
proof -
  have eq: "P0 cold_inputs = Fin 101325"
    by (rule sea_level_Fin(2)[OF cold_inputs_fields(1)])
  have iv: "(101325::real) \<le> 101325 \<and> 101325 \<le> (101325::real)"
    by simp
  from eq iv show ?thesis
    by blast
qed

lemma cold_inputs_V0:
  "\<exists>t. V0 cold_inputs = Fin t \<and> 282.442598098116 \<le> t \<and> t \<le> 282.442598098199"
proof -
  have c1: "(0.83::real) \<le> 0.83 \<and> 0.83 \<le> (0.83::real)"
    by simp
  from cold_inputs_T0 obtain v1 where v1_eq: "T0 cold_inputs = Fin v1"
    and v1_iv: "(288.15::real) \<le> v1 \<and> v1 \<le> (288.15::real)"
    by blast
  have s2: "(0::real) \<le> v1"
    by (rule iv_nonneg[OF v1_iv]) simp
  have c3: "(1.4::real) \<le> 1.4 \<and> 1.4 \<le> (1.4::real)"
    by simp
  have c4: "(287.05::real) \<le> 287.05 \<and> 287.05 \<le> (287.05::real)"
    by simp
  have n5: "(401.87::real) \<le> 1.4 * 287.05 \<and> 1.4 * 287.05 \<le> (401.87::real)"
    by (rule iv_mul[OF c3 c4]) simp_all
  have n6: "(115798.8405::real) \<le> (1.4 * 287.05) * v1 \<and> (1.4 * 287.05) * v1 \<le> (115798.8405::real)"
    by (rule iv_mul[OF n5 v1_iv]) simp_all
  have n7: "(340.2922868652::real) \<le> sqrt ((1.4 * 287.05) * v1) \<and> sqrt ((1.4 * 287.05) * v1) \<le> (340.2922868653::real)"
    by (rule iv_sqrt[OF n6]) (simp_all add: power_divide)
  have n8: "(282.442598098116::real) \<le> 0.83 * (sqrt ((1.4 * 287.05) * v1)) \<and> 0.83 * (sqrt ((1.4 * 287.05) * v1)) \<le> (282.442598098199::real)"
    by (rule iv_mul[OF c1 n7]) simp_all
  have eq: "V0 cold_inputs = Fin (0.83 * (sqrt ((1.4 * 287.05) * v1)))"
    by (rule V0_Fin[OF cold_inputs_fields(2) v1_eq s2])
  from eq n8 show ?thesis
    by blast
qed

lemma cold_inputs_tau_r:
  "\<exists>t. tau_r cold_inputs = Fin t \<and> 1.13778 \<le> t \<and> t \<le> 1.13778"
proof -
  have c1: "(0.83::real) \<le> 0.83 \<and> 0.83 \<le> (0.83::real)"
    by simp
  have c2: "(1::real) \<le> 1 \<and> 1 \<le> (1::real)"
    by simp
  have c3: "(1.4::real) \<le> 1.4 \<and> 1.4 \<le> (1.4::real)"
    by simp
  have n4: "(0.4::real) \<le> 1.4 - 1 \<and> 1.4 - 1 \<le> (0.4::real)"
    by (rule iv_sub[OF c3 c2]) simp_all
  have c5: "(2::real) \<le> 2 \<and> 2 \<le> (2::real)"
    by simp
  have n6: "(0.2::real) \<le> (1.4 - 1) / 2 \<and> (1.4 - 1) / 2 \<le> (0.2::real)"
    by (rule iv_div[OF n4 c5]) simp_all
  have n7: "(0.166::real) \<le> ((1.4 - 1) / 2) * 0.83 \<and> ((1.4 - 1) / 2) * 0.83 \<le> (0.166::real)"
    by (rule iv_mul[OF n6 c1]) simp_all
  have n8: "(0.13778::real) \<le> (((1.4 - 1) / 2) * 0.83) * 0.83 \<and> (((1.4 - 1) / 2) * 0.83) * 0.83 \<le> (0.13778::real)"
    by (rule iv_mul[OF n7 c1]) simp_all
  have n9: "(1.13778::real) \<le> 1 + ((((1.4 - 1) / 2) * 0.83) * 0.83) \<and> 1 + ((((1.4 - 1) / 2) * 0.83) * 0.83) \<le> (1.13778::real)"
    by (rule iv_add[OF c2 n8]) simp_all
  have eq: "tau_r cold_inputs = Fin (1 + ((((1.4 - 1) / 2) * 0.83) * 0.83))"
    by (rule tau_r_Fin[OF cold_inputs_fields(2)])
  from eq n9 show ?thesis
    by blast
qed

lemma cold_inputs_pi_r:
  "\<exists>t. pi_r cold_inputs = Fin t \<and> 1.571100742997 \<le> t \<and> t \<le> 1.571100743015"
proof -
  from cold_inputs_tau_r obtain v1 where v1_eq: "tau_r cold_inputs = Fin v1"
    and v1_iv: "(1.13778::real) \<le> v1 \<and> v1 \<le> (1.13778::real)"
    by blast
  have s1: "(0::real) < v1"
    by (rule iv_pos[OF v1_iv]) simp
  have s2: "(0::real) < v1"
    by (rule iv_pos[OF v1_iv]) simp
  have n3: "(1.066667708332::real) \<le> v1 powr (1 / 2) \<and> v1 powr (1 / 2) \<le> (1.066667708333::real)"
    by (rule iv_root[where n=2, OF v1_iv]) (simp_all add: power_divide)
  have n4: "(1.066667708332::real) \<le> (v1 powr (1 / 2)) ^ 1 \<and> (v1 powr (1 / 2)) ^ 1 \<le> (1.066667708333::real)"
    by (rule iv_pow_one[OF n3])
  have n5: "(1.137779999998::real) \<le> (v1 powr (1 / 2)) ^ 2 \<and> (v1 powr (1 / 2)) ^ 2 \<le> (1.137780000001::real)"
    by (rule iv_pow_sq[OF n4]) (simp_all add: power_divide)
  have n6: "(1.294543328395::real) \<le> (v1 powr (1 / 2)) ^ 4 \<and> (v1 powr (1 / 2)) ^ 4 \<le> (1.294543328403::real)"
    by (rule iv_pow_sq[OF n5]) (simp_all add: power_divide)
  have n7: "(1.472905508178::real) \<le> (v1 powr (1 / 2)) ^ 6 \<and> (v1 powr (1 / 2)) ^ 6 \<le> (1.472905508192::real)"
    by (rule iv_pow_mul[OF n6 n5]) simp_all
  have n8: "(1.571100742997::real) \<le> (v1 powr (1 / 2)) ^ 7 \<and> (v1 powr (1 / 2)) ^ 7 \<le> (1.571100743015::real)"
    by (rule iv_pow_mul[OF n7 n4]) simp_all
  have n9: "(1.571100742997::real) \<le> v1 powr (7 / 2) \<and> v1 powr (7 / 2) \<le> (1.571100743015::real)"
    by (rule powr_via_root[OF n8 s2]) simp_all
  have eq: "pi_r cold_inputs = Fin (v1 powr (7 / 2))"
    by (rule pi_r_Fin[OF v1_eq s1])
  from eq n9 show ?thesis
    by blast
qed

lemma cold_inputs_Tt0:
  "\<exists>t. Tt0 cold_inputs = Fin t \<and> 327.851307 \<le> t \<and> t \<le> 327.851307"
proof -
  from cold_inputs_T0 obtain v1 where v1_eq: "T0 cold_inputs = Fin v1"
    and v1_iv: "(288.15::real) \<le> v1 \<and> v1 \<le> (288.15::real)"
    by blast
  from cold_inputs_tau_r obtain v2 where v2_eq: "tau_r cold_inputs = Fin v2"
    and v2_iv: "(1.13778::real) \<le> v2 \<and> v2 \<le> (1.13778::real)"
    by blast
  have n1: "(327.851307::real) \<le> v1 * v2 \<and> v1 * v2 \<le> (327.851307::real)"
    by (rule iv_mul[OF v1_iv v2_iv]) simp_all
  have eq: "Tt0 cold_inputs = Fin (v1 * v2)"
    by (rule Tt0_Fin[OF v1_eq v2_eq])
  from eq n1 show ?thesis
    by blast
qed

lemma cold_inputs_Pt0:
  "\<exists>t. Pt0 cold_inputs = Fin t \<and> 159191.7827841 \<le> t \<and> t \<le> 159191.782786"
proof -
  from cold_inputs_P0 obtain v1 where v1_eq: "P0 cold_inputs = Fin v1"
    and v1_iv: "(101325::real) \<le> v1 \<and> v1 \<le> (101325::real)"
    by blast
  from cold_inputs_pi_r obtain v2 where v2_eq: "pi_r cold_inputs = Fin v2"
    and v2_iv: "(1.571100742997::real) \<le> v2 \<and> v2 \<le> (1.571100743015::real)"
    by blast
  have n1: "(159191.7827841::real) \<le> v1 * v2 \<and> v1 * v2 \<le> (159191.782786::real)"
    by (rule iv_mul[OF v1_iv v2_iv]) simp_all
  have eq: "Pt0 cold_inputs = Fin (v1 * v2)"
    by (rule Pt0_Fin[OF v1_eq v2_eq])
  from eq n1 show ?thesis
    by blast
qed

lemma cold_inputs_Tt2:
  "\<exists>t. Tt2 cold_inputs = Fin t \<and> 327.851307 \<le> t \<and> t \<le> 327.851307"
proof -
  from cold_inputs_Tt0 obtain v1 where v1_eq: "Tt0 cold_inputs = Fin v1"
    and v1_iv: "(327.851307::real) \<le> v1 \<and> v1 \<le> (327.851307::real)"
    by blast
  have eq: "Tt2 cold_inputs = Fin v1"
    by (rule Tt2_Fin[OF v1_eq])
  from eq v1_iv show ?thesis
    by blast
qed

lemma cold_inputs_Pt2:
  "\<exists>t. Pt2 cold_inputs = Fin t \<and> 156007.947128418 \<le> t \<and> t \<le> 156007.94713028"
proof -
  from cold_inputs_Pt0 obtain v1 where v1_eq: "Pt0 cold_inputs = Fin v1"
    and v1_iv: "(159191.7827841::real) \<le> v1 \<and> v1 \<le> (159191.782786::real)"
    by blast
  have c1: "(0.98::real) \<le> 0.98 \<and> 0.98 \<le> (0.98::real)"
    by simp
  have n2: "(156007.947128418::real) \<le> v1 * 0.98 \<and> v1 * 0.98 \<le> (156007.94713028::real)"
    by (rule iv_mul[OF v1_iv c1]) simp_all
  have eq: "Pt2 cold_inputs = Fin (v1 * 0.98)"
    by (rule Pt2_Fin[OF v1_eq cold_inputs_fields(14)])
  from eq n2 show ?thesis
    by blast
qed

lemma cold_inputs_Pt13:
  "\<exists>t. Pt13 cold_inputs = Fin t \<and> 257413.1127618897 \<le> t \<and> t \<le> 257413.112764962"
proof -
  from cold_inputs_Pt2 obtain v1 where v1_eq: "Pt2 cold_inputs = Fin v1"
    and v1_iv: "(156007.947128418::real) \<le> v1 \<and> v1 \<le> (156007.94713028::real)"
    by blast
  have c1: "(1.65::real) \<le> 1.65 \<and> 1.65 \<le> (1.65::real)"
    by simp
  have n2: "(257413.1127618897::real) \<le> v1 * 1.65 \<and> v1 * 1.65 \<le> (257413.112764962::real)"
    by (rule iv_mul[OF v1_iv c1]) simp_all
  have eq: "Pt13 cold_inputs = Fin (v1 * 1.65)"
    by (rule Pt13_Fin[OF v1_eq cold_inputs_fields(6)])
  from eq n2 show ?thesis
    by blast
qed

lemma cold_inputs_Tt13:
  "\<exists>t. Tt13 cold_inputs = Fin t \<and> 382.6668162084 \<le> t \<and> t \<le> 382.6668162099"
proof -
  from cold_inputs_Tt2 obtain v1 where v1_eq: "Tt2 cold_inputs = Fin v1"
    and v1_iv: "(327.851307::real) \<le> v1 \<and> v1 \<le> (327.851307::real)"
    by blast
  have c1: "(1.65::real) \<le> 1.65 \<and> 1.65 \<le> (1.65::real)"
    by simp
  have c2: "(0.92::real) \<le> 0.92 \<and> 0.92 \<le> (0.92::real)"
    by simp
  have s3: "(0::real) < 1.65"
    by (rule iv_pos[OF c1]) simp
  have s4: "(0.92::real) \<noteq> 0"
    by (rule iv_nonzero[OF c2]) simp
  have c5: "(1::real) \<le> 1 \<and> 1 \<le> (1::real)"
    by simp
  have s6: "(0::real) < 1.65"
    by (rule iv_pos[OF c1]) simp
  have n7: "(1.074160393209::real) \<le> 1.65 powr (1 / 7) \<and> 1.65 powr (1 / 7) \<le> (1.07416039321::real)"
    by (rule iv_root[where n=7, OF c1]) (simp_all add: power_divide)
  have n8: "(1.074160393209::real) \<le> (1.65 powr (1 / 7)) ^ 1 \<and> (1.65 powr (1 / 7)) ^ 1 \<le> (1.07416039321::real)"
    by (rule iv_pow_one[OF n7])
  have n9: "(1.153820550338::real) \<le> (1.65 powr (1 / 7)) ^ 2 \<and> (1.65 powr (1 / 7)) ^ 2 \<le> (1.153820550342::real)"
    by (rule iv_pow_sq[OF n8]) (simp_all add: power_divide)
  have n10: "(1.153820550338::real) \<le> 1.65 powr (2 / 7) \<and> 1.65 powr (2 / 7) \<le> (1.153820550342::real)"
    by (rule powr_via_root[OF n9 s6]) simp_all
  have n11: "(0.153820550338::real) \<le> (1.65 powr (2 / 7)) - 1 \<and> (1.65 powr (2 / 7)) - 1 \<le> (0.153820550342::real)"
    by (rule iv_sub[OF n10 c5]) simp_all
  have n12: "(0.1671962503673::real) \<le> ((1.65 powr (2 / 7)) - 1) / 0.92 \<and> ((1.65 powr (2 / 7)) - 1) / 0.92 \<le> (0.1671962503718::real)"
    by (rule iv_div[OF n11 c2]) simp_all
  have n13: "(1.1671962503673::real) \<le> 1 + (((1.65 powr (2 / 7)) - 1) / 0.92) \<and> 1 + (((1.65 powr (2 / 7)) - 1) / 0.92) \<le> (1.1671962503718::real)"
    by (rule iv_add[OF c5 n12]) simp_all
  have n14: "(382.6668162084::real) \<le> v1 * (1 + (((1.65 powr (2 / 7)) - 1) / 0.92)) \<and> v1 * (1 + (((1.65 powr (2 / 7)) - 1) / 0.92)) \<le> (382.6668162099::real)"
    by (rule iv_mul[OF v1_iv n13]) simp_all
  have eq: "Tt13 cold_inputs = Fin (v1 * (1 + (((1.65 powr (2 / 7)) - 1) / 0.92)))"
    by (rule Tt13_Fin[OF v1_eq cold_inputs_fields(6) cold_inputs_fields(8) s3 s4])
  from eq n14 show ?thesis
    by blast
qed

lemma cold_inputs_Pt21:
  "\<exists>t. Pt21 cold_inputs = Fin t \<and> 257413.1127618897 \<le> t \<and> t \<le> 257413.112764962"
proof -
  from cold_inputs_Pt13 obtain v1 where v1_eq: "Pt13 cold_inputs = Fin v1"
    and v1_iv: "(257413.1127618897::real) \<le> v1 \<and> v1 \<le> (257413.112764962::real)"
    by blast
  have eq: "Pt21 cold_inputs = Fin v1"
    by (rule Pt21_Fin[OF v1_eq])
  from eq v1_iv show ?thesis
    by blast
qed

lemma cold_inputs_Tt21:
  "\<exists>t. Tt21 cold_inputs = Fin t \<and> 382.6668162084 \<le> t \<and> t \<le> 382.6668162099"
proof -
  from cold_inputs_Tt13 obtain v1 where v1_eq: "Tt13 cold_inputs = Fin v1"
    and v1_iv: "(382.6668162084::real) \<le> v1 \<and> v1 \<le> (382.6668162099::real)"
    by blast
  have eq: "Tt21 cold_inputs = Fin v1"
    by (rule Tt21_Fin[OF v1_eq])
  from eq v1_iv show ?thesis
    by blast
qed

lemma cold_inputs_pi_ch:
  "\<exists>t. pi_ch cold_inputs = Fin t \<and> 25.45454545454 \<le> t \<and> t \<le> 25.45454545455"
proof -
  have c1: "(42::real) \<le> 42 \<and> 42 \<le> (42::real)"
    by simp
  have c2: "(1.65::real) \<le> 1.65 \<and> 1.65 \<le> (1.65::real)"
    by simp
  have s3: "(1.65::real) \<noteq> 0"
    by (rule iv_nonzero[OF c2]) simp
  have c4: "(1.1::real) \<le> 1.1 \<and> 1.1 \<le> (1.1::real)"
    by simp
  have n5: "(25.45454545454::real) \<le> 42 / 1.65 \<and> 42 / 1.65 \<le> (25.45454545455::real)"
    by (rule iv_div[OF c1 c2]) simp_all
  have n6: "(25.45454545454::real) \<le> max 1.1 (42 / 1.65) \<and> max 1.1 (42 / 1.65) \<le> (25.45454545455::real)"
    by (rule iv_max[OF c4 n5]) simp_all
  have eq: "pi_ch cold_inputs = Fin (max 1.1 (42 / 1.65))"
    by (rule pi_ch_Fin[OF cold_inputs_fields(5) cold_inputs_fields(6) s3])
  from eq n6 show ?thesis
    by blast
qed

lemma cold_inputs_Pt3:
  "\<exists>t. Pt3 cold_inputs = Fin t \<and> 6552333.779392 \<le> t \<and> t \<le> 6552333.779473"
proof -
  from cold_inputs_Pt21 obtain v1 where v1_eq: "Pt21 cold_inputs = Fin v1"
    and v1_iv: "(257413.1127618897::real) \<le> v1 \<and> v1 \<le> (257413.112764962::real)"
    by blast
  from cold_inputs_pi_ch obtain v2 where v2_eq: "pi_ch cold_inputs = Fin v2"
    and v2_iv: "(25.45454545454::real) \<le> v2 \<and> v2 \<le> (25.45454545455::real)"
    by blast
  have n1: "(6552333.779392::real) \<le> v1 * v2 \<and> v1 * v2 \<le> (6552333.779473::real)"
    by (rule iv_mul[OF v1_iv v2_iv]) simp_all
  have eq: "Pt3 cold_inputs = Fin (v1 * v2)"
    by (rule Pt3_Fin[OF v1_eq v2_eq])
  from eq n1 show ?thesis
    by blast
qed

lemma cold_inputs_Tt3:
  "\<exists>t. Tt3 cold_inputs = Fin t \<and> 1029.557370041 \<le> t \<and> t \<le> 1029.557370049"
proof -
  from cold_inputs_Tt21 obtain v1 where v1_eq: "Tt21 cold_inputs = Fin v1"
    and v1_iv: "(382.6668162084::real) \<le> v1 \<and> v1 \<le> (382.6668162099::real)"
    by blast
  from cold_inputs_pi_ch obtain v2 where v2_eq: "pi_ch cold_inputs = Fin v2"
    and v2_iv: "(25.45454545454::real) \<le> v2 \<and> v2 \<le> (25.45454545455::real)"
    by blast
  have c1: "(0.9::real) \<le> 0.90 \<and> 0.90 \<le> (0.9::real)"
    by simp
  have s2: "(0::real) < v2"
    by (rule iv_pos[OF v2_iv]) simp
  have s3: "(0.90::real) \<noteq> 0"
    by (rule iv_nonzero[OF c1]) simp
  have c4: "(1::real) \<le> 1 \<and> 1 \<le> (1::real)"
    by simp
  have s5: "(0::real) < v2"
    by (rule iv_pos[OF v2_iv]) simp
  have n6: "(1.587901726393::real) \<le> v2 powr (1 / 7) \<and> v2 powr (1 / 7) \<le> (1.587901726394::real)"
    by (rule iv_root[where n=7, OF v2_iv]) (simp_all add: power_divide)
  have n7: "(1.587901726393::real) \<le> (v2 powr (1 / 7)) ^ 1 \<and> (v2 powr (1 / 7)) ^ 1 \<le> (1.587901726394::real)"
    by (rule iv_pow_one[OF n6])
  have n8: "(2.521431892681::real) \<le> (v2 powr (1 / 7)) ^ 2 \<and> (v2 powr (1 / 7)) ^ 2 \<le> (2.521431892686::real)"
    by (rule iv_pow_sq[OF n7]) (simp_all add: power_divide)
  have n9: "(2.521431892681::real) \<le> v2 powr (2 / 7) \<and> v2 powr (2 / 7) \<le> (2.521431892686::real)"
    by (rule powr_via_root[OF n8 s5]) simp_all
  have n10: "(1.521431892681::real) \<le> (v2 powr (2 / 7)) - 1 \<and> (v2 powr (2 / 7)) - 1 \<le> (1.521431892686::real)"
    by (rule iv_sub[OF n9 c4]) simp_all
  have n11: "(1.690479880756::real) \<le> ((v2 powr (2 / 7)) - 1) / 0.90 \<and> ((v2 powr (2 / 7)) - 1) / 0.90 \<le> (1.690479880763::real)"
    by (rule iv_div[OF n10 c1]) simp_all
  have n12: "(2.690479880756::real) \<le> 1 + (((v2 powr (2 / 7)) - 1) / 0.90) \<and> 1 + (((v2 powr (2 / 7)) - 1) / 0.90) \<le> (2.690479880763::real)"
    by (rule iv_add[OF c4 n11]) simp_all
  have n13: "(1029.557370041::real) \<le> v1 * (1 + (((v2 powr (2 / 7)) - 1) / 0.90)) \<and> v1 * (1 + (((v2 powr (2 / 7)) - 1) / 0.90)) \<le> (1029.557370049::real)"
    by (rule iv_mul[OF v1_iv n12]) simp_all
  have eq: "Tt3 cold_inputs = Fin (v1 * (1 + (((v2 powr (2 / 7)) - 1) / 0.90)))"
    by (rule Tt3_Fin[OF v1_eq v2_eq cold_inputs_fields(10) s2 s3])
  from eq n13 show ?thesis
    by blast
qed

lemma cold_inputs_Pt4:
  "\<exists>t. Pt4 cold_inputs = Fin t \<and> 6290240.42821632 \<le> t \<and> t \<le> 6290240.42829408"
proof -
  from cold_inputs_Pt3 obtain v1 where v1_eq: "Pt3 cold_inputs = Fin v1"
    and v1_iv: "(6552333.779392::real) \<le> v1 \<and> v1 \<le> (6552333.779473::real)"
    by blast
  have c1: "(0.96::real) \<le> 0.96 \<and> 0.96 \<le> (0.96::real)"
    by simp
  have n2: "(6290240.42821632::real) \<le> v1 * 0.96 \<and> v1 * 0.96 \<le> (6290240.42829408::real)"
    by (rule iv_mul[OF v1_iv c1]) simp_all
  have eq: "Pt4 cold_inputs = Fin (v1 * 0.96)"
    by (rule Pt4_Fin[OF v1_eq cold_inputs_fields(15)])
  from eq n2 show ?thesis
    by blast
qed

lemma cold_inputs_Tt4:
  "\<exists>t. Tt4 cold_inputs = Fin t \<and> 1000 \<le> t \<and> t \<le> 1000"
proof -
  have c1: "(1000::real) \<le> 1000 \<and> 1000 \<le> (1000::real)"
    by simp
  have eq: "Tt4 cold_inputs = Fin 1000"
    by (rule Tt4_Fin[OF cold_inputs_fields(7)])
  from eq c1 show ?thesis
    by blast
qed

lemma cold_inputs_Hu_J:
  "\<exists>t. Hu_J cold_inputs = Fin t \<and> 43100000 \<le> t \<and> t \<le> 43100000"
proof -
  have c1: "(43.1::real) \<le> 43.1 \<and> 43.1 \<le> (43.1::real)"
    by simp
  have c2: "(1000000::real) \<le> 1000000 \<and> 1000000 \<le> (1000000::real)"
    by simp
  have n3: "(43100000::real) \<le> 43.1 * 1000000 \<and> 43.1 * 1000000 \<le> (43100000::real)"
    by (rule iv_mul[OF c1 c2]) simp_all
  have eq: "Hu_J cold_inputs = Fin (43.1 * 1000000)"
    by (rule Hu_J_Fin[OF cold_inputs_fields(19)])
  from eq n3 show ?thesis
    by blast
qed

lemma cold_inputs_numerator:
  "\<exists>t. numerator cold_inputs = Fin t \<and> 115294.843100755 \<le> t \<and> t \<le> 115294.843108795"
proof -
  from cold_inputs_Tt4 obtain v1 where v1_eq: "Tt4 cold_inputs = Fin v1"
    and v1_iv: "(1000::real) \<le> v1 \<and> v1 \<le> (1000::real)"
    by blast
  from cold_inputs_Tt3 obtain v2 where v2_eq: "Tt3 cold_inputs = Fin v2"
    and v2_iv: "(1029.557370041::real) \<le> v2 \<and> v2 \<le> (1029.557370049::real)"
    by blast
  have c1: "(1150::real) \<le> 1150 \<and> 1150 \<le> (1150::real)"
    by simp
  have n2: "(1150000::real) \<le> 1150 * v1 \<and> 1150 * v1 \<le> (1150000::real)"
    by (rule iv_mul[OF c1 v1_iv]) simp_all
  have c3: "(1005::real) \<le> 1005 \<and> 1005 \<le> (1005::real)"
    by simp
  have n4: "(1034705.156891205::real) \<le> 1005 * v2 \<and> 1005 * v2 \<le> (1034705.156899245::real)"
    by (rule iv_mul[OF c3 v2_iv]) simp_all
  have n5: "(115294.843100755::real) \<le> (1150 * v1) - (1005 * v2) \<and> (1150 * v1) - (1005 * v2) \<le> (115294.843108795::real)"
    by (rule iv_sub[OF n2 n4]) simp_all
  have eq: "numerator cold_inputs = Fin ((1150 * v1) - (1005 * v2))"
    by (rule numerator_Fin[OF v1_eq v2_eq])
  from eq n5 show ?thesis
    by blast
qed

lemma cold_inputs_denominator:
  "\<exists>t. denominator cold_inputs = Fin t \<and> 41734500 \<le> t \<and> t \<le> 41734500"
proof -
  have c1: "(0.995::real) \<le> 0.995 \<and> 0.995 \<le> (0.995::real)"
    by simp
  from cold_inputs_Hu_J obtain v1 where v1_eq: "Hu_J cold_inputs = Fin v1"
    and v1_iv: "(43100000::real) \<le> v1 \<and> v1 \<le> (43100000::real)"
    by blast
  from cold_inputs_Tt4 obtain v2 where v2_eq: "Tt4 cold_inputs = Fin v2"
    and v2_iv: "(1000::real) \<le> v2 \<and> v2 \<le> (1000::real)"
    by blast
  have n2: "(42884500::real) \<le> 0.995 * v1 \<and> 0.995 * v1 \<le> (42884500::real)"
    by (rule iv_mul[OF c1 v1_iv]) simp_all
  have c3: "(1150::real) \<le> 1150 \<and> 1150 \<le> (1150::real)"
    by simp
  have n4: "(1150000::real) \<le> 1150 * v2 \<and> 1150 * v2 \<le> (1150000::real)"
    by (rule iv_mul[OF c3 v2_iv]) simp_all
  have n5: "(41734500::real) \<le> (0.995 * v1) - (1150 * v2) \<and> (0.995 * v1) - (1150 * v2) \<le> (41734500::real)"
    by (rule iv_sub[OF n2 n4]) simp_all
  have eq: "denominator cold_inputs = Fin ((0.995 * v1) - (1150 * v2))"
    by (rule denominator_Fin[OF cold_inputs_fields(13) v1_eq v2_eq])
  from eq n5 show ?thesis
    by blast
qed

lemma cold_inputs_f:
  "\<exists>t. f cold_inputs = Fin t \<and> 0.002762578756203 \<le> t \<and> t \<le> 0.002762578756396"
proof -
  from cold_inputs_numerator obtain v1 where v1_eq: "numerator cold_inputs = Fin v1"
    and v1_iv: "(115294.843100755::real) \<le> v1 \<and> v1 \<le> (115294.843108795::real)"
    by blast
  from cold_inputs_denominator obtain v2 where v2_eq: "denominator cold_inputs = Fin v2"
    and v2_iv: "(41734500::real) \<le> v2 \<and> v2 \<le> (41734500::real)"
    by blast
  have s1: "(v2::real) \<noteq> 0"
    by (rule iv_nonzero[OF v2_iv]) simp
  have c2: "(0::real) \<le> 0 \<and> 0 \<le> (0::real)"
    by simp
  have n3: "(0.002762578756203::real) \<le> v1 / v2 \<and> v1 / v2 \<le> (0.002762578756396::real)"
    by (rule iv_div[OF v1_iv v2_iv]) simp_all
  have n4: "(0.002762578756203::real) \<le> max 0 (v1 / v2) \<and> max 0 (v1 / v2) \<le> (0.002762578756396::real)"
    by (rule iv_max[OF c2 n3]) simp_all
  have eq: "f cold_inputs = Fin (max 0 (v1 / v2))"
    by (rule f_Fin[OF v1_eq v2_eq s1])
  from eq n4 show ?thesis
    by blast
qed

lemma cold_inputs_work_req_HPC:
  "\<exists>t. work_req_HPC cold_inputs = Fin t \<and> 650125.0066002555 \<le> t \<and> t \<le> 650125.006609803"
proof -
  from cold_inputs_Tt3 obtain v1 where v1_eq: "Tt3 cold_inputs = Fin v1"
    and v1_iv: "(1029.557370041::real) \<le> v1 \<and> v1 \<le> (1029.557370049::real)"
    by blast
  from cold_inputs_Tt21 obtain v2 where v2_eq: "Tt21 cold_inputs = Fin v2"
    and v2_iv: "(382.6668162084::real) \<le> v2 \<and> v2 \<le> (382.6668162099::real)"
    by blast
  have c1: "(1005::real) \<le> 1005 \<and> 1005 \<le> (1005::real)"
    by simp
  have n2: "(646.8905538311::real) \<le> v1 - v2 \<and> v1 - v2 \<le> (646.8905538406::real)"
    by (rule iv_sub[OF v1_iv v2_iv]) simp_all
  have n3: "(650125.0066002555::real) \<le> 1005 * (v1 - v2) \<and> 1005 * (v1 - v2) \<le> (650125.006609803::real)"
    by (rule iv_mul[OF c1 n2]) simp_all
  have eq: "work_req_HPC cold_inputs = Fin (1005 * (v1 - v2))"
    by (rule work_req_HPC_Fin[OF v1_eq v2_eq])
  from eq n3 show ?thesis
    by blast
qed

lemma cold_inputs_work_avail_HPT:
  "\<exists>t. work_avail_HPT cold_inputs = Fin t \<and> 656691.9258588 \<le> t \<and> t \<le> 656691.9258685"
proof -
  from cold_inputs_work_req_HPC obtain v1 where v1_eq: "work_req_HPC cold_inputs = Fin v1"
    and v1_iv: "(650125.0066002555::real) \<le> v1 \<and> v1 \<le> (650125.006609803::real)"
    by blast
  have c1: "(0.99::real) \<le> 0.99 \<and> 0.99 \<le> (0.99::real)"
    by simp
  have s2: "(0.99::real) \<noteq> 0"
    by (rule iv_nonzero[OF c1]) simp
  have n3: "(656691.9258588::real) \<le> v1 / 0.99 \<and> v1 / 0.99 \<le> (656691.9258685::real)"
    by (rule iv_div[OF v1_iv c1]) simp_all
  have eq: "work_avail_HPT cold_inputs = Fin (v1 / 0.99)"
    by (rule work_avail_HPT_Fin[OF v1_eq cold_inputs_fields(17) s2])
  from eq n3 show ?thesis
    by blast
qed

lemma cold_inputs_deltaT_HPT:
  "\<exists>t. deltaT_HPT cold_inputs = Fin t \<and> 569.4632701358 \<le> t \<and> t \<le> 569.4632701448"
proof -
  from cold_inputs_work_avail_HPT obtain v1 where v1_eq: "work_avail_HPT cold_inputs = Fin v1"
    and v1_iv: "(656691.9258588::real) \<le> v1 \<and> v1 \<le> (656691.9258685::real)"
    by blast
  from cold_inputs_f obtain v2 where v2_eq: "f cold_inputs = Fin v2"
    and v2_iv: "(0.002762578756203::real) \<le> v2 \<and> v2 \<le> (0.002762578756396::real)"
    by blast
  have c1: "(1::real) \<le> 1 \<and> 1 \<le> (1::real)"
    by simp
  have n2: "(1.002762578756203::real) \<le> 1 + v2 \<and> 1 + v2 \<le> (1.002762578756396::real)"
    by (rule iv_add[OF c1 v2_iv]) simp_all
  have c3: "(1150::real) \<le> 1150 \<and> 1150 \<le> (1150::real)"
    by simp
  have n4: "(1153.176965569::real) \<le> (1 + v2) * 1150 \<and> (1 + v2) * 1150 \<le> (1153.17696557::real)"
    by (rule iv_mul[OF n2 c3]) simp_all
  have s5: "((1 + v2) * 1150::real) \<noteq> 0"
    by (rule iv_nonzero[OF n4]) simp
  have n6: "(569.4632701358::real) \<le> v1 / ((1 + v2) * 1150) \<and> v1 / ((1 + v2) * 1150) \<le> (569.4632701448::real)"
    by (rule iv_div[OF v1_iv n4]) simp_all
  have eq: "deltaT_HPT cold_inputs = Fin (v1 / ((1 + v2) * 1150))"
    by (rule deltaT_HPT_Fin[OF v1_eq v2_eq s5])
  from eq n6 show ?thesis
    by blast
qed

lemma cold_inputs_Tt45:
  "\<exists>t. Tt45 cold_inputs = Fin t \<and> 430.5367298552 \<le> t \<and> t \<le> 430.5367298642"
proof -
  from cold_inputs_Tt4 obtain v1 where v1_eq: "Tt4 cold_inputs = Fin v1"
    and v1_iv: "(1000::real) \<le> v1 \<and> v1 \<le> (1000::real)"
    by blast
  from cold_inputs_deltaT_HPT obtain v2 where v2_eq: "deltaT_HPT cold_inputs = Fin v2"
    and v2_iv: "(569.4632701358::real) \<le> v2 \<and> v2 \<le> (569.4632701448::real)"
    by blast
  have n1: "(430.5367298552::real) \<le> v1 - v2 \<and> v1 - v2 \<le> (430.5367298642::real)"
    by (rule iv_sub[OF v1_iv v2_iv]) simp_all
  have eq: "Tt45 cold_inputs = Fin (v1 - v2)"
    by (rule Tt45_Fin[OF v1_eq v2_eq])
  from eq n1 show ?thesis
    by blast
qed

section \<open>The atmosphere model\<close>

text \<open>
  Claim C5.  For a finite altitude in kilometres, \<open>getAtmosphere\<close> returns the
  temperature and the pressure of the specification's two layers at that altitude in
  metres: \<open>288.15 - 0.0065 h\<close> and \<open>101325 (1 - 0.0065 h / 288.15)\<close> to the power
  5.25588 up to 11000 m, and 216.65 K and \<open>22632.1 exp (- 9.80665 (h - 11000) /
  (287.05 * 216.65))\<close> above.  At altitude 0 it returns exactly 288.15 K and 101325 Pa.
\<close>

theorem getAtmosphere_layers:
  "getAtmosphere (Fin a) =
     (Fin (fst (atmosphere_spec (a * 1000))), Fin (snd (atmosphere_spec (a * 1000))))
   \<and> getAtmosphere (Fin 0) = (Fin 288.15, Fin 101325)"
proof -
  have pos: "0 < 1 - 0.0065 * (a * 1000) / 288.15" if "a * 1000 \<le> 11000"
    using that by simp
  show ?thesis
    using pos by (simp add: getAtmosphere_def atmosphere_spec_def Let_def G_def R_GAS_def)
qed

section \<open>Fields passed through\<close>

text \<open>
  Claim C10.  For every input, valid or not, the result's \<open>massFlowRateAir\<close> is the
  input's \<open>massFlow\<close> and the result's \<open>fanPressureRatio\<close> is the input's
  \<open>fanPressureRatio\<close>.
\<close>

theorem pass_through_fields:
  "massFlowRateAir (performance (calculateCycle inputs)) = massFlow inputs
   \<and> PerformanceResult.fanPressureRatio (performance (calculateCycle inputs)) =
       fanPressureRatio inputs"
  by (simp add: performance_calculateCycle)

section \<open>The low-pressure-compressor efficiency is not read\<close>

named_theorems lpc_free \<open>quantities that do not read efficiencyLPC\<close>

lemma lpc_T0 [lpc_free]:
  "T0 (inputs\<lparr>efficiencyLPC := e\<rparr>) = T0 inputs"
  by (simp add: T0_def lpc_free Let_def split del: if_split cong: if_cong)

lemma lpc_P0 [lpc_free]:
  "P0 (inputs\<lparr>efficiencyLPC := e\<rparr>) = P0 inputs"
  by (simp add: P0_def lpc_free Let_def split del: if_split cong: if_cong)

lemma lpc_V0 [lpc_free]:
  "V0 (inputs\<lparr>efficiencyLPC := e\<rparr>) = V0 inputs"
  by (simp add: V0_def lpc_free Let_def split del: if_split cong: if_cong)

lemma lpc_tau_r [lpc_free]:
  "tau_r (inputs\<lparr>efficiencyLPC := e\<rparr>) = tau_r inputs"
  by (simp add: tau_r_def lpc_free Let_def split del: if_split cong: if_cong)

lemma lpc_pi_r [lpc_free]:
  "pi_r (inputs\<lparr>efficiencyLPC := e\<rparr>) = pi_r inputs"
  by (simp add: pi_r_def lpc_free Let_def split del: if_split cong: if_cong)

lemma lpc_Tt0 [lpc_free]:
  "Tt0 (inputs\<lparr>efficiencyLPC := e\<rparr>) = Tt0 inputs"
  by (simp add: Tt0_def lpc_free Let_def split del: if_split cong: if_cong)

lemma lpc_Pt0 [lpc_free]:
  "Pt0 (inputs\<lparr>efficiencyLPC := e\<rparr>) = Pt0 inputs"
  by (simp add: Pt0_def lpc_free Let_def split del: if_split cong: if_cong)

lemma lpc_Tt2 [lpc_free]:
  "Tt2 (inputs\<lparr>efficiencyLPC := e\<rparr>) = Tt2 inputs"
  by (simp add: Tt2_def lpc_free Let_def split del: if_split cong: if_cong)

lemma lpc_Pt2 [lpc_free]:
  "Pt2 (inputs\<lparr>efficiencyLPC := e\<rparr>) = Pt2 inputs"
  by (simp add: Pt2_def lpc_free Let_def split del: if_split cong: if_cong)

lemma lpc_Pt13 [lpc_free]:
  "Pt13 (inputs\<lparr>efficiencyLPC := e\<rparr>) = Pt13 inputs"
  by (simp add: Pt13_def lpc_free Let_def split del: if_split cong: if_cong)

lemma lpc_Tt13 [lpc_free]:
  "Tt13 (inputs\<lparr>efficiencyLPC := e\<rparr>) = Tt13 inputs"
  by (simp add: Tt13_def lpc_free Let_def split del: if_split cong: if_cong)

lemma lpc_Pt21 [lpc_free]:
  "Pt21 (inputs\<lparr>efficiencyLPC := e\<rparr>) = Pt21 inputs"
  by (simp add: Pt21_def lpc_free Let_def split del: if_split cong: if_cong)

lemma lpc_Tt21 [lpc_free]:
  "Tt21 (inputs\<lparr>efficiencyLPC := e\<rparr>) = Tt21 inputs"
  by (simp add: Tt21_def lpc_free Let_def split del: if_split cong: if_cong)

lemma lpc_pi_ch [lpc_free]:
  "pi_ch (inputs\<lparr>efficiencyLPC := e\<rparr>) = pi_ch inputs"
  by (simp add: pi_ch_def lpc_free Let_def split del: if_split cong: if_cong)

lemma lpc_Pt3 [lpc_free]:
  "Pt3 (inputs\<lparr>efficiencyLPC := e\<rparr>) = Pt3 inputs"
  by (simp add: Pt3_def lpc_free Let_def split del: if_split cong: if_cong)

lemma lpc_Tt3 [lpc_free]:
  "Tt3 (inputs\<lparr>efficiencyLPC := e\<rparr>) = Tt3 inputs"
  by (simp add: Tt3_def lpc_free Let_def split del: if_split cong: if_cong)

lemma lpc_Pt4 [lpc_free]:
  "Pt4 (inputs\<lparr>efficiencyLPC := e\<rparr>) = Pt4 inputs"
  by (simp add: Pt4_def lpc_free Let_def split del: if_split cong: if_cong)

lemma lpc_Tt4 [lpc_free]:
  "Tt4 (inputs\<lparr>efficiencyLPC := e\<rparr>) = Tt4 inputs"
  by (simp add: Tt4_def lpc_free Let_def split del: if_split cong: if_cong)

lemma lpc_Hu_J [lpc_free]:
  "Hu_J (inputs\<lparr>efficiencyLPC := e\<rparr>) = Hu_J inputs"
  by (simp add: Hu_J_def lpc_free Let_def split del: if_split cong: if_cong)

lemma lpc_numerator [lpc_free]:
  "numerator (inputs\<lparr>efficiencyLPC := e\<rparr>) = numerator inputs"
  by (simp add: numerator_def lpc_free Let_def split del: if_split cong: if_cong)

lemma lpc_denominator [lpc_free]:
  "denominator (inputs\<lparr>efficiencyLPC := e\<rparr>) = denominator inputs"
  by (simp add: denominator_def lpc_free Let_def split del: if_split cong: if_cong)

lemma lpc_f [lpc_free]:
  "f (inputs\<lparr>efficiencyLPC := e\<rparr>) = f inputs"
  by (simp add: f_def lpc_free Let_def split del: if_split cong: if_cong)

lemma lpc_work_req_HPC [lpc_free]:
  "work_req_HPC (inputs\<lparr>efficiencyLPC := e\<rparr>) = work_req_HPC inputs"
  by (simp add: work_req_HPC_def lpc_free Let_def split del: if_split cong: if_cong)

lemma lpc_work_avail_HPT [lpc_free]:
  "work_avail_HPT (inputs\<lparr>efficiencyLPC := e\<rparr>) = work_avail_HPT inputs"
  by (simp add: work_avail_HPT_def lpc_free Let_def split del: if_split cong: if_cong)

lemma lpc_deltaT_HPT [lpc_free]:
  "deltaT_HPT (inputs\<lparr>efficiencyLPC := e\<rparr>) = deltaT_HPT inputs"
  by (simp add: deltaT_HPT_def lpc_free Let_def split del: if_split cong: if_cong)

lemma lpc_Tt45 [lpc_free]:
  "Tt45 (inputs\<lparr>efficiencyLPC := e\<rparr>) = Tt45 inputs"
  by (simp add: Tt45_def lpc_free Let_def split del: if_split cong: if_cong)

lemma lpc_temp_ratio_HPT [lpc_free]:
  "temp_ratio_HPT (inputs\<lparr>efficiencyLPC := e\<rparr>) = temp_ratio_HPT inputs"
  by (simp add: temp_ratio_HPT_def lpc_free Let_def split del: if_split cong: if_cong)

lemma lpc_pressure_term_HPT [lpc_free]:
  "pressure_term_HPT (inputs\<lparr>efficiencyLPC := e\<rparr>) = pressure_term_HPT inputs"
  by (simp add: pressure_term_HPT_def lpc_free Let_def split del: if_split cong: if_cong)

lemma lpc_pi_HPT [lpc_free]:
  "pi_HPT (inputs\<lparr>efficiencyLPC := e\<rparr>) = pi_HPT inputs"
  by (simp add: pi_HPT_def lpc_free Let_def split del: if_split cong: if_cong)

lemma lpc_hpt_block [lpc_free]:
  "hpt_block (inputs\<lparr>efficiencyLPC := e\<rparr>) = hpt_block inputs"
  by (simp add: hpt_block_def lpc_free Let_def split del: if_split cong: if_cong)

lemma lpc_Pt45 [lpc_free]:
  "Pt45 (inputs\<lparr>efficiencyLPC := e\<rparr>) = Pt45 inputs"
  by (simp add: Pt45_def lpc_free Let_def split del: if_split cong: if_cong)

lemma lpc_isValid_HPT [lpc_free]:
  "isValid_HPT (inputs\<lparr>efficiencyLPC := e\<rparr>) = isValid_HPT inputs"
  by (simp add: isValid_HPT_def lpc_free Let_def split del: if_split cong: if_cong)

lemma lpc_work_req_Fan [lpc_free]:
  "work_req_Fan (inputs\<lparr>efficiencyLPC := e\<rparr>) = work_req_Fan inputs"
  by (simp add: work_req_Fan_def lpc_free Let_def split del: if_split cong: if_cong)

lemma lpc_work_extraction_LPT [lpc_free]:
  "work_extraction_LPT (inputs\<lparr>efficiencyLPC := e\<rparr>) = work_extraction_LPT inputs"
  by (simp add: work_extraction_LPT_def lpc_free Let_def split del: if_split cong: if_cong)

lemma lpc_deltaT_LPT [lpc_free]:
  "deltaT_LPT (inputs\<lparr>efficiencyLPC := e\<rparr>) = deltaT_LPT inputs"
  by (simp add: deltaT_LPT_def lpc_free Let_def split del: if_split cong: if_cong)

lemma lpc_Tt5 [lpc_free]:
  "Tt5 (inputs\<lparr>efficiencyLPC := e\<rparr>) = Tt5 inputs"
  by (simp add: Tt5_def lpc_free Let_def split del: if_split cong: if_cong)

lemma lpc_temp_ratio_LPT [lpc_free]:
  "temp_ratio_LPT (inputs\<lparr>efficiencyLPC := e\<rparr>) = temp_ratio_LPT inputs"
  by (simp add: temp_ratio_LPT_def lpc_free Let_def split del: if_split cong: if_cong)

lemma lpc_pressure_term_LPT [lpc_free]:
  "pressure_term_LPT (inputs\<lparr>efficiencyLPC := e\<rparr>) = pressure_term_LPT inputs"
  by (simp add: pressure_term_LPT_def lpc_free Let_def split del: if_split cong: if_cong)

lemma lpc_pi_LPT [lpc_free]:
  "pi_LPT (inputs\<lparr>efficiencyLPC := e\<rparr>) = pi_LPT inputs"
  by (simp add: pi_LPT_def lpc_free Let_def split del: if_split cong: if_cong)

lemma lpc_lpt_block [lpc_free]:
  "lpt_block (inputs\<lparr>efficiencyLPC := e\<rparr>) = lpt_block inputs"
  by (simp add: lpt_block_def lpc_free Let_def split del: if_split cong: if_cong)

lemma lpc_Pt5 [lpc_free]:
  "Pt5 (inputs\<lparr>efficiencyLPC := e\<rparr>) = Pt5 inputs"
  by (simp add: Pt5_def lpc_free Let_def split del: if_split cong: if_cong)

lemma lpc_isValid_LPT [lpc_free]:
  "isValid_LPT (inputs\<lparr>efficiencyLPC := e\<rparr>) = isValid_LPT inputs"
  by (simp add: isValid_LPT_def lpc_free Let_def split del: if_split cong: if_cong)

lemma lpc_Pt9 [lpc_free]:
  "Pt9 (inputs\<lparr>efficiencyLPC := e\<rparr>) = Pt9 inputs"
  by (simp add: Pt9_def lpc_free Let_def split del: if_split cong: if_cong)

lemma lpc_core_nozzle [lpc_free]:
  "core_nozzle (inputs\<lparr>efficiencyLPC := e\<rparr>) = core_nozzle inputs"
  by (simp add: core_nozzle_def lpc_free Let_def split del: if_split cong: if_cong)

lemma lpc_P9 [lpc_free]:
  "P9 (inputs\<lparr>efficiencyLPC := e\<rparr>) = P9 inputs"
  by (simp add: P9_def lpc_free Let_def split del: if_split cong: if_cong)

lemma lpc_T9 [lpc_free]:
  "T9 (inputs\<lparr>efficiencyLPC := e\<rparr>) = T9 inputs"
  by (simp add: T9_def lpc_free Let_def split del: if_split cong: if_cong)

lemma lpc_V9 [lpc_free]:
  "V9 (inputs\<lparr>efficiencyLPC := e\<rparr>) = V9 inputs"
  by (simp add: V9_def lpc_free Let_def split del: if_split cong: if_cong)

lemma lpc_isValid_core [lpc_free]:
  "isValid_core (inputs\<lparr>efficiencyLPC := e\<rparr>) = isValid_core inputs"
  by (simp add: isValid_core_def lpc_free Let_def split del: if_split cong: if_cong)

lemma lpc_Pt19 [lpc_free]:
  "Pt19 (inputs\<lparr>efficiencyLPC := e\<rparr>) = Pt19 inputs"
  by (simp add: Pt19_def lpc_free Let_def split del: if_split cong: if_cong)

lemma lpc_bypass_nozzle [lpc_free]:
  "bypass_nozzle (inputs\<lparr>efficiencyLPC := e\<rparr>) = bypass_nozzle inputs"
  by (simp add: bypass_nozzle_def lpc_free Let_def split del: if_split cong: if_cong)

lemma lpc_P19 [lpc_free]:
  "P19 (inputs\<lparr>efficiencyLPC := e\<rparr>) = P19 inputs"
  by (simp add: P19_def lpc_free Let_def split del: if_split cong: if_cong)

lemma lpc_T19 [lpc_free]:
  "T19 (inputs\<lparr>efficiencyLPC := e\<rparr>) = T19 inputs"
  by (simp add: T19_def lpc_free Let_def split del: if_split cong: if_cong)

lemma lpc_V19 [lpc_free]:
  "V19 (inputs\<lparr>efficiencyLPC := e\<rparr>) = V19 inputs"
  by (simp add: V19_def lpc_free Let_def split del: if_split cong: if_cong)

lemma lpc_isValid_final [lpc_free]:
  "isValid_final (inputs\<lparr>efficiencyLPC := e\<rparr>) = isValid_final inputs"
  by (simp add: isValid_final_def lpc_free Let_def split del: if_split cong: if_cong)

lemma lpc_rho9 [lpc_free]:
  "rho9 (inputs\<lparr>efficiencyLPC := e\<rparr>) = rho9 inputs"
  by (simp add: rho9_def lpc_free Let_def split del: if_split cong: if_cong)

lemma lpc_A9_per_unit [lpc_free]:
  "A9_per_unit (inputs\<lparr>efficiencyLPC := e\<rparr>) = A9_per_unit inputs"
  by (simp add: A9_per_unit_def lpc_free Let_def split del: if_split cong: if_cong)

lemma lpc_F_core [lpc_free]:
  "F_core (inputs\<lparr>efficiencyLPC := e\<rparr>) = F_core inputs"
  by (simp add: F_core_def lpc_free Let_def split del: if_split cong: if_cong)

lemma lpc_rho19 [lpc_free]:
  "rho19 (inputs\<lparr>efficiencyLPC := e\<rparr>) = rho19 inputs"
  by (simp add: rho19_def lpc_free Let_def split del: if_split cong: if_cong)

lemma lpc_A19_per_unit [lpc_free]:
  "A19_per_unit (inputs\<lparr>efficiencyLPC := e\<rparr>) = A19_per_unit inputs"
  by (simp add: A19_per_unit_def lpc_free Let_def split del: if_split cong: if_cong)

lemma lpc_F_bypass [lpc_free]:
  "F_bypass (inputs\<lparr>efficiencyLPC := e\<rparr>) = F_bypass inputs"
  by (simp add: F_bypass_def lpc_free Let_def split del: if_split cong: if_cong)

lemma lpc_V9_eff [lpc_free]:
  "V9_eff (inputs\<lparr>efficiencyLPC := e\<rparr>) = V9_eff inputs"
  by (simp add: V9_eff_def lpc_free Let_def split del: if_split cong: if_cong)

lemma lpc_V19_eff [lpc_free]:
  "V19_eff (inputs\<lparr>efficiencyLPC := e\<rparr>) = V19_eff inputs"
  by (simp add: V19_eff_def lpc_free Let_def split del: if_split cong: if_cong)

lemma lpc_m_core_abs [lpc_free]:
  "m_core_abs (inputs\<lparr>efficiencyLPC := e\<rparr>) = m_core_abs inputs"
  by (simp add: m_core_abs_def lpc_free Let_def split del: if_split cong: if_cong)

lemma lpc_KE_out_eff [lpc_free]:
  "KE_out_eff (inputs\<lparr>efficiencyLPC := e\<rparr>) = KE_out_eff inputs"
  by (simp add: KE_out_eff_def lpc_free Let_def split del: if_split cong: if_cong)

lemma lpc_KE_in [lpc_free]:
  "KE_in (inputs\<lparr>efficiencyLPC := e\<rparr>) = KE_in inputs"
  by (simp add: KE_in_def lpc_free Let_def split del: if_split cong: if_cong)

lemma lpc_Q_in [lpc_free]:
  "Q_in (inputs\<lparr>efficiencyLPC := e\<rparr>) = Q_in inputs"
  by (simp add: Q_in_def lpc_free Let_def split del: if_split cong: if_cong)

lemma lpc_performance_block [lpc_free]:
  "performance_block (inputs\<lparr>efficiencyLPC := e\<rparr>) = performance_block inputs"
  by (simp add: performance_block_def lpc_free Let_def split del: if_split cong: if_cong)

lemma lpc_calculateCycle [lpc_free]:
  "calculateCycle (inputs\<lparr>efficiencyLPC := e\<rparr>) = calculateCycle inputs"
  by (simp add: calculateCycle_def lpc_free Let_def split del: if_split cong: if_cong)


text \<open>
  Claim C9.  Two inputs that differ in \<open>efficiencyLPC\<close> only give the same result:
  the same stations and the same performance.
\<close>

theorem efficiencyLPC_no_influence:
  "calculateCycle (inputs\<lparr>efficiencyLPC := e\<rparr>) = calculateCycle inputs"
  by (rule lpc_calculateCycle)

section \<open>Invalid cycles\<close>

lemma isValid_HPT_cold:
  "Tt45 inputs < Tt3 inputs \<Longrightarrow> \<not> isValid_HPT inputs"
  by (simp add: isValid_HPT_def hpt_block_def)

lemma isValid_LPT_after_HPT:
  "\<not> isValid_HPT inputs \<Longrightarrow> \<not> isValid_LPT inputs"
  by (simp add: isValid_LPT_def lpt_block_def)

lemma isValid_final_after_LPT:
  "\<not> isValid_LPT inputs \<Longrightarrow> \<not> isValid_final inputs"
  by (simp add: isValid_final_def isValid_core_def core_nozzle_def)

text \<open>
  Claim C4.  When the returned \<open>isValid\<close> is false, the returned \<open>thrust\<close>,
  \<open>specificThrust\<close> and \<open>sfc\<close> are exactly 0.
\<close>

theorem invalid_cycle_zeroed:
  "isValid (performance (calculateCycle inputs)) = False \<Longrightarrow>
   thrust (performance (calculateCycle inputs)) = Fin 0 \<and>
   specificThrust (performance (calculateCycle inputs)) = Fin 0 \<and>
   PerformanceResult.sfc (performance (calculateCycle inputs)) = Fin 0"
  by (simp add: performance_calculateCycle performance_block_invalid)

text \<open>
  At \<open>cold_inputs\<close> the high-pressure turbine leaves its gas colder than the
  compressor delivers it, and the cycle is invalid.
\<close>

theorem invalid_cycle_zeroed_witness:
  "isValid (performance (calculateCycle cold_inputs)) = False \<and>
   thrust (performance (calculateCycle cold_inputs)) = Fin 0 \<and>
   specificThrust (performance (calculateCycle cold_inputs)) = Fin 0 \<and>
   PerformanceResult.sfc (performance (calculateCycle cold_inputs)) = Fin 0"
proof -
  from cold_inputs_Tt45 obtain a where a: "Tt45 cold_inputs = Fin a" "a < 431"
    by force
  from cold_inputs_Tt3 obtain b where b: "Tt3 cold_inputs = Fin b" "1029 < b"
    by force
  have "Tt45 cold_inputs < Tt3 cold_inputs"
    using a b by simp
  then have "\<not> isValid_final cold_inputs"
    by (intro isValid_final_after_LPT isValid_LPT_after_HPT isValid_HPT_cold)
  then have inv: "isValid (performance (calculateCycle cold_inputs)) = False"
    by (simp add: performance_calculateCycle)
  from invalid_cycle_zeroed[OF inv] inv show ?thesis
    by simp
qed

section \<open>The floor of the compressor pressure ratio\<close>

text \<open>
  The solver reads \<open>overallPressureRatio\<close> in \<open>pi_ch\<close> only: changing it without
  changing \<open>pi_ch\<close> changes no quantity of the solver.
\<close>

named_theorems opr_only \<open>quantities that read overallPressureRatio through pi_ch only\<close>

lemma opr_T0 [opr_only]:
  "pi_ch (inputs\<lparr>overallPressureRatio := x\<rparr>) = pi_ch inputs \<Longrightarrow>
   T0 (inputs\<lparr>overallPressureRatio := x\<rparr>) = T0 inputs"
  by (simp add: T0_def opr_only Let_def split del: if_split cong: if_cong)

lemma opr_P0 [opr_only]:
  "pi_ch (inputs\<lparr>overallPressureRatio := x\<rparr>) = pi_ch inputs \<Longrightarrow>
   P0 (inputs\<lparr>overallPressureRatio := x\<rparr>) = P0 inputs"
  by (simp add: P0_def opr_only Let_def split del: if_split cong: if_cong)

lemma opr_V0 [opr_only]:
  "pi_ch (inputs\<lparr>overallPressureRatio := x\<rparr>) = pi_ch inputs \<Longrightarrow>
   V0 (inputs\<lparr>overallPressureRatio := x\<rparr>) = V0 inputs"
  by (simp add: V0_def opr_only Let_def split del: if_split cong: if_cong)

lemma opr_tau_r [opr_only]:
  "pi_ch (inputs\<lparr>overallPressureRatio := x\<rparr>) = pi_ch inputs \<Longrightarrow>
   tau_r (inputs\<lparr>overallPressureRatio := x\<rparr>) = tau_r inputs"
  by (simp add: tau_r_def opr_only Let_def split del: if_split cong: if_cong)

lemma opr_pi_r [opr_only]:
  "pi_ch (inputs\<lparr>overallPressureRatio := x\<rparr>) = pi_ch inputs \<Longrightarrow>
   pi_r (inputs\<lparr>overallPressureRatio := x\<rparr>) = pi_r inputs"
  by (simp add: pi_r_def opr_only Let_def split del: if_split cong: if_cong)

lemma opr_Tt0 [opr_only]:
  "pi_ch (inputs\<lparr>overallPressureRatio := x\<rparr>) = pi_ch inputs \<Longrightarrow>
   Tt0 (inputs\<lparr>overallPressureRatio := x\<rparr>) = Tt0 inputs"
  by (simp add: Tt0_def opr_only Let_def split del: if_split cong: if_cong)

lemma opr_Pt0 [opr_only]:
  "pi_ch (inputs\<lparr>overallPressureRatio := x\<rparr>) = pi_ch inputs \<Longrightarrow>
   Pt0 (inputs\<lparr>overallPressureRatio := x\<rparr>) = Pt0 inputs"
  by (simp add: Pt0_def opr_only Let_def split del: if_split cong: if_cong)

lemma opr_Tt2 [opr_only]:
  "pi_ch (inputs\<lparr>overallPressureRatio := x\<rparr>) = pi_ch inputs \<Longrightarrow>
   Tt2 (inputs\<lparr>overallPressureRatio := x\<rparr>) = Tt2 inputs"
  by (simp add: Tt2_def opr_only Let_def split del: if_split cong: if_cong)

lemma opr_Pt2 [opr_only]:
  "pi_ch (inputs\<lparr>overallPressureRatio := x\<rparr>) = pi_ch inputs \<Longrightarrow>
   Pt2 (inputs\<lparr>overallPressureRatio := x\<rparr>) = Pt2 inputs"
  by (simp add: Pt2_def opr_only Let_def split del: if_split cong: if_cong)

lemma opr_Pt13 [opr_only]:
  "pi_ch (inputs\<lparr>overallPressureRatio := x\<rparr>) = pi_ch inputs \<Longrightarrow>
   Pt13 (inputs\<lparr>overallPressureRatio := x\<rparr>) = Pt13 inputs"
  by (simp add: Pt13_def opr_only Let_def split del: if_split cong: if_cong)

lemma opr_Tt13 [opr_only]:
  "pi_ch (inputs\<lparr>overallPressureRatio := x\<rparr>) = pi_ch inputs \<Longrightarrow>
   Tt13 (inputs\<lparr>overallPressureRatio := x\<rparr>) = Tt13 inputs"
  by (simp add: Tt13_def opr_only Let_def split del: if_split cong: if_cong)

lemma opr_Pt21 [opr_only]:
  "pi_ch (inputs\<lparr>overallPressureRatio := x\<rparr>) = pi_ch inputs \<Longrightarrow>
   Pt21 (inputs\<lparr>overallPressureRatio := x\<rparr>) = Pt21 inputs"
  by (simp add: Pt21_def opr_only Let_def split del: if_split cong: if_cong)

lemma opr_Tt21 [opr_only]:
  "pi_ch (inputs\<lparr>overallPressureRatio := x\<rparr>) = pi_ch inputs \<Longrightarrow>
   Tt21 (inputs\<lparr>overallPressureRatio := x\<rparr>) = Tt21 inputs"
  by (simp add: Tt21_def opr_only Let_def split del: if_split cong: if_cong)

lemma opr_Pt3 [opr_only]:
  "pi_ch (inputs\<lparr>overallPressureRatio := x\<rparr>) = pi_ch inputs \<Longrightarrow>
   Pt3 (inputs\<lparr>overallPressureRatio := x\<rparr>) = Pt3 inputs"
  by (simp add: Pt3_def opr_only Let_def split del: if_split cong: if_cong)

lemma opr_Tt3 [opr_only]:
  "pi_ch (inputs\<lparr>overallPressureRatio := x\<rparr>) = pi_ch inputs \<Longrightarrow>
   Tt3 (inputs\<lparr>overallPressureRatio := x\<rparr>) = Tt3 inputs"
  by (simp add: Tt3_def opr_only Let_def split del: if_split cong: if_cong)

lemma opr_Pt4 [opr_only]:
  "pi_ch (inputs\<lparr>overallPressureRatio := x\<rparr>) = pi_ch inputs \<Longrightarrow>
   Pt4 (inputs\<lparr>overallPressureRatio := x\<rparr>) = Pt4 inputs"
  by (simp add: Pt4_def opr_only Let_def split del: if_split cong: if_cong)

lemma opr_Tt4 [opr_only]:
  "pi_ch (inputs\<lparr>overallPressureRatio := x\<rparr>) = pi_ch inputs \<Longrightarrow>
   Tt4 (inputs\<lparr>overallPressureRatio := x\<rparr>) = Tt4 inputs"
  by (simp add: Tt4_def opr_only Let_def split del: if_split cong: if_cong)

lemma opr_Hu_J [opr_only]:
  "pi_ch (inputs\<lparr>overallPressureRatio := x\<rparr>) = pi_ch inputs \<Longrightarrow>
   Hu_J (inputs\<lparr>overallPressureRatio := x\<rparr>) = Hu_J inputs"
  by (simp add: Hu_J_def opr_only Let_def split del: if_split cong: if_cong)

lemma opr_numerator [opr_only]:
  "pi_ch (inputs\<lparr>overallPressureRatio := x\<rparr>) = pi_ch inputs \<Longrightarrow>
   numerator (inputs\<lparr>overallPressureRatio := x\<rparr>) = numerator inputs"
  by (simp add: numerator_def opr_only Let_def split del: if_split cong: if_cong)

lemma opr_denominator [opr_only]:
  "pi_ch (inputs\<lparr>overallPressureRatio := x\<rparr>) = pi_ch inputs \<Longrightarrow>
   denominator (inputs\<lparr>overallPressureRatio := x\<rparr>) = denominator inputs"
  by (simp add: denominator_def opr_only Let_def split del: if_split cong: if_cong)

lemma opr_f [opr_only]:
  "pi_ch (inputs\<lparr>overallPressureRatio := x\<rparr>) = pi_ch inputs \<Longrightarrow>
   f (inputs\<lparr>overallPressureRatio := x\<rparr>) = f inputs"
  by (simp add: f_def opr_only Let_def split del: if_split cong: if_cong)

lemma opr_work_req_HPC [opr_only]:
  "pi_ch (inputs\<lparr>overallPressureRatio := x\<rparr>) = pi_ch inputs \<Longrightarrow>
   work_req_HPC (inputs\<lparr>overallPressureRatio := x\<rparr>) = work_req_HPC inputs"
  by (simp add: work_req_HPC_def opr_only Let_def split del: if_split cong: if_cong)

lemma opr_work_avail_HPT [opr_only]:
  "pi_ch (inputs\<lparr>overallPressureRatio := x\<rparr>) = pi_ch inputs \<Longrightarrow>
   work_avail_HPT (inputs\<lparr>overallPressureRatio := x\<rparr>) = work_avail_HPT inputs"
  by (simp add: work_avail_HPT_def opr_only Let_def split del: if_split cong: if_cong)

lemma opr_deltaT_HPT [opr_only]:
  "pi_ch (inputs\<lparr>overallPressureRatio := x\<rparr>) = pi_ch inputs \<Longrightarrow>
   deltaT_HPT (inputs\<lparr>overallPressureRatio := x\<rparr>) = deltaT_HPT inputs"
  by (simp add: deltaT_HPT_def opr_only Let_def split del: if_split cong: if_cong)

lemma opr_Tt45 [opr_only]:
  "pi_ch (inputs\<lparr>overallPressureRatio := x\<rparr>) = pi_ch inputs \<Longrightarrow>
   Tt45 (inputs\<lparr>overallPressureRatio := x\<rparr>) = Tt45 inputs"
  by (simp add: Tt45_def opr_only Let_def split del: if_split cong: if_cong)

lemma opr_temp_ratio_HPT [opr_only]:
  "pi_ch (inputs\<lparr>overallPressureRatio := x\<rparr>) = pi_ch inputs \<Longrightarrow>
   temp_ratio_HPT (inputs\<lparr>overallPressureRatio := x\<rparr>) = temp_ratio_HPT inputs"
  by (simp add: temp_ratio_HPT_def opr_only Let_def split del: if_split cong: if_cong)

lemma opr_pressure_term_HPT [opr_only]:
  "pi_ch (inputs\<lparr>overallPressureRatio := x\<rparr>) = pi_ch inputs \<Longrightarrow>
   pressure_term_HPT (inputs\<lparr>overallPressureRatio := x\<rparr>) = pressure_term_HPT inputs"
  by (simp add: pressure_term_HPT_def opr_only Let_def split del: if_split cong: if_cong)

lemma opr_pi_HPT [opr_only]:
  "pi_ch (inputs\<lparr>overallPressureRatio := x\<rparr>) = pi_ch inputs \<Longrightarrow>
   pi_HPT (inputs\<lparr>overallPressureRatio := x\<rparr>) = pi_HPT inputs"
  by (simp add: pi_HPT_def opr_only Let_def split del: if_split cong: if_cong)

lemma opr_hpt_block [opr_only]:
  "pi_ch (inputs\<lparr>overallPressureRatio := x\<rparr>) = pi_ch inputs \<Longrightarrow>
   hpt_block (inputs\<lparr>overallPressureRatio := x\<rparr>) = hpt_block inputs"
  by (simp add: hpt_block_def opr_only Let_def split del: if_split cong: if_cong)

lemma opr_Pt45 [opr_only]:
  "pi_ch (inputs\<lparr>overallPressureRatio := x\<rparr>) = pi_ch inputs \<Longrightarrow>
   Pt45 (inputs\<lparr>overallPressureRatio := x\<rparr>) = Pt45 inputs"
  by (simp add: Pt45_def opr_only Let_def split del: if_split cong: if_cong)

lemma opr_isValid_HPT [opr_only]:
  "pi_ch (inputs\<lparr>overallPressureRatio := x\<rparr>) = pi_ch inputs \<Longrightarrow>
   isValid_HPT (inputs\<lparr>overallPressureRatio := x\<rparr>) = isValid_HPT inputs"
  by (simp add: isValid_HPT_def opr_only Let_def split del: if_split cong: if_cong)

lemma opr_work_req_Fan [opr_only]:
  "pi_ch (inputs\<lparr>overallPressureRatio := x\<rparr>) = pi_ch inputs \<Longrightarrow>
   work_req_Fan (inputs\<lparr>overallPressureRatio := x\<rparr>) = work_req_Fan inputs"
  by (simp add: work_req_Fan_def opr_only Let_def split del: if_split cong: if_cong)

lemma opr_work_extraction_LPT [opr_only]:
  "pi_ch (inputs\<lparr>overallPressureRatio := x\<rparr>) = pi_ch inputs \<Longrightarrow>
   work_extraction_LPT (inputs\<lparr>overallPressureRatio := x\<rparr>) = work_extraction_LPT inputs"
  by (simp add: work_extraction_LPT_def opr_only Let_def split del: if_split cong: if_cong)

lemma opr_deltaT_LPT [opr_only]:
  "pi_ch (inputs\<lparr>overallPressureRatio := x\<rparr>) = pi_ch inputs \<Longrightarrow>
   deltaT_LPT (inputs\<lparr>overallPressureRatio := x\<rparr>) = deltaT_LPT inputs"
  by (simp add: deltaT_LPT_def opr_only Let_def split del: if_split cong: if_cong)

lemma opr_Tt5 [opr_only]:
  "pi_ch (inputs\<lparr>overallPressureRatio := x\<rparr>) = pi_ch inputs \<Longrightarrow>
   Tt5 (inputs\<lparr>overallPressureRatio := x\<rparr>) = Tt5 inputs"
  by (simp add: Tt5_def opr_only Let_def split del: if_split cong: if_cong)

lemma opr_temp_ratio_LPT [opr_only]:
  "pi_ch (inputs\<lparr>overallPressureRatio := x\<rparr>) = pi_ch inputs \<Longrightarrow>
   temp_ratio_LPT (inputs\<lparr>overallPressureRatio := x\<rparr>) = temp_ratio_LPT inputs"
  by (simp add: temp_ratio_LPT_def opr_only Let_def split del: if_split cong: if_cong)

lemma opr_pressure_term_LPT [opr_only]:
  "pi_ch (inputs\<lparr>overallPressureRatio := x\<rparr>) = pi_ch inputs \<Longrightarrow>
   pressure_term_LPT (inputs\<lparr>overallPressureRatio := x\<rparr>) = pressure_term_LPT inputs"
  by (simp add: pressure_term_LPT_def opr_only Let_def split del: if_split cong: if_cong)

lemma opr_pi_LPT [opr_only]:
  "pi_ch (inputs\<lparr>overallPressureRatio := x\<rparr>) = pi_ch inputs \<Longrightarrow>
   pi_LPT (inputs\<lparr>overallPressureRatio := x\<rparr>) = pi_LPT inputs"
  by (simp add: pi_LPT_def opr_only Let_def split del: if_split cong: if_cong)

lemma opr_lpt_block [opr_only]:
  "pi_ch (inputs\<lparr>overallPressureRatio := x\<rparr>) = pi_ch inputs \<Longrightarrow>
   lpt_block (inputs\<lparr>overallPressureRatio := x\<rparr>) = lpt_block inputs"
  by (simp add: lpt_block_def opr_only Let_def split del: if_split cong: if_cong)

lemma opr_Pt5 [opr_only]:
  "pi_ch (inputs\<lparr>overallPressureRatio := x\<rparr>) = pi_ch inputs \<Longrightarrow>
   Pt5 (inputs\<lparr>overallPressureRatio := x\<rparr>) = Pt5 inputs"
  by (simp add: Pt5_def opr_only Let_def split del: if_split cong: if_cong)

lemma opr_isValid_LPT [opr_only]:
  "pi_ch (inputs\<lparr>overallPressureRatio := x\<rparr>) = pi_ch inputs \<Longrightarrow>
   isValid_LPT (inputs\<lparr>overallPressureRatio := x\<rparr>) = isValid_LPT inputs"
  by (simp add: isValid_LPT_def opr_only Let_def split del: if_split cong: if_cong)

lemma opr_Pt9 [opr_only]:
  "pi_ch (inputs\<lparr>overallPressureRatio := x\<rparr>) = pi_ch inputs \<Longrightarrow>
   Pt9 (inputs\<lparr>overallPressureRatio := x\<rparr>) = Pt9 inputs"
  by (simp add: Pt9_def opr_only Let_def split del: if_split cong: if_cong)

lemma opr_core_nozzle [opr_only]:
  "pi_ch (inputs\<lparr>overallPressureRatio := x\<rparr>) = pi_ch inputs \<Longrightarrow>
   core_nozzle (inputs\<lparr>overallPressureRatio := x\<rparr>) = core_nozzle inputs"
  by (simp add: core_nozzle_def opr_only Let_def split del: if_split cong: if_cong)

lemma opr_P9 [opr_only]:
  "pi_ch (inputs\<lparr>overallPressureRatio := x\<rparr>) = pi_ch inputs \<Longrightarrow>
   P9 (inputs\<lparr>overallPressureRatio := x\<rparr>) = P9 inputs"
  by (simp add: P9_def opr_only Let_def split del: if_split cong: if_cong)

lemma opr_T9 [opr_only]:
  "pi_ch (inputs\<lparr>overallPressureRatio := x\<rparr>) = pi_ch inputs \<Longrightarrow>
   T9 (inputs\<lparr>overallPressureRatio := x\<rparr>) = T9 inputs"
  by (simp add: T9_def opr_only Let_def split del: if_split cong: if_cong)

lemma opr_V9 [opr_only]:
  "pi_ch (inputs\<lparr>overallPressureRatio := x\<rparr>) = pi_ch inputs \<Longrightarrow>
   V9 (inputs\<lparr>overallPressureRatio := x\<rparr>) = V9 inputs"
  by (simp add: V9_def opr_only Let_def split del: if_split cong: if_cong)

lemma opr_isValid_core [opr_only]:
  "pi_ch (inputs\<lparr>overallPressureRatio := x\<rparr>) = pi_ch inputs \<Longrightarrow>
   isValid_core (inputs\<lparr>overallPressureRatio := x\<rparr>) = isValid_core inputs"
  by (simp add: isValid_core_def opr_only Let_def split del: if_split cong: if_cong)

lemma opr_Pt19 [opr_only]:
  "pi_ch (inputs\<lparr>overallPressureRatio := x\<rparr>) = pi_ch inputs \<Longrightarrow>
   Pt19 (inputs\<lparr>overallPressureRatio := x\<rparr>) = Pt19 inputs"
  by (simp add: Pt19_def opr_only Let_def split del: if_split cong: if_cong)

lemma opr_bypass_nozzle [opr_only]:
  "pi_ch (inputs\<lparr>overallPressureRatio := x\<rparr>) = pi_ch inputs \<Longrightarrow>
   bypass_nozzle (inputs\<lparr>overallPressureRatio := x\<rparr>) = bypass_nozzle inputs"
  by (simp add: bypass_nozzle_def opr_only Let_def split del: if_split cong: if_cong)

lemma opr_P19 [opr_only]:
  "pi_ch (inputs\<lparr>overallPressureRatio := x\<rparr>) = pi_ch inputs \<Longrightarrow>
   P19 (inputs\<lparr>overallPressureRatio := x\<rparr>) = P19 inputs"
  by (simp add: P19_def opr_only Let_def split del: if_split cong: if_cong)

lemma opr_T19 [opr_only]:
  "pi_ch (inputs\<lparr>overallPressureRatio := x\<rparr>) = pi_ch inputs \<Longrightarrow>
   T19 (inputs\<lparr>overallPressureRatio := x\<rparr>) = T19 inputs"
  by (simp add: T19_def opr_only Let_def split del: if_split cong: if_cong)

lemma opr_V19 [opr_only]:
  "pi_ch (inputs\<lparr>overallPressureRatio := x\<rparr>) = pi_ch inputs \<Longrightarrow>
   V19 (inputs\<lparr>overallPressureRatio := x\<rparr>) = V19 inputs"
  by (simp add: V19_def opr_only Let_def split del: if_split cong: if_cong)

lemma opr_isValid_final [opr_only]:
  "pi_ch (inputs\<lparr>overallPressureRatio := x\<rparr>) = pi_ch inputs \<Longrightarrow>
   isValid_final (inputs\<lparr>overallPressureRatio := x\<rparr>) = isValid_final inputs"
  by (simp add: isValid_final_def opr_only Let_def split del: if_split cong: if_cong)

lemma opr_rho9 [opr_only]:
  "pi_ch (inputs\<lparr>overallPressureRatio := x\<rparr>) = pi_ch inputs \<Longrightarrow>
   rho9 (inputs\<lparr>overallPressureRatio := x\<rparr>) = rho9 inputs"
  by (simp add: rho9_def opr_only Let_def split del: if_split cong: if_cong)

lemma opr_A9_per_unit [opr_only]:
  "pi_ch (inputs\<lparr>overallPressureRatio := x\<rparr>) = pi_ch inputs \<Longrightarrow>
   A9_per_unit (inputs\<lparr>overallPressureRatio := x\<rparr>) = A9_per_unit inputs"
  by (simp add: A9_per_unit_def opr_only Let_def split del: if_split cong: if_cong)

lemma opr_F_core [opr_only]:
  "pi_ch (inputs\<lparr>overallPressureRatio := x\<rparr>) = pi_ch inputs \<Longrightarrow>
   F_core (inputs\<lparr>overallPressureRatio := x\<rparr>) = F_core inputs"
  by (simp add: F_core_def opr_only Let_def split del: if_split cong: if_cong)

lemma opr_rho19 [opr_only]:
  "pi_ch (inputs\<lparr>overallPressureRatio := x\<rparr>) = pi_ch inputs \<Longrightarrow>
   rho19 (inputs\<lparr>overallPressureRatio := x\<rparr>) = rho19 inputs"
  by (simp add: rho19_def opr_only Let_def split del: if_split cong: if_cong)

lemma opr_A19_per_unit [opr_only]:
  "pi_ch (inputs\<lparr>overallPressureRatio := x\<rparr>) = pi_ch inputs \<Longrightarrow>
   A19_per_unit (inputs\<lparr>overallPressureRatio := x\<rparr>) = A19_per_unit inputs"
  by (simp add: A19_per_unit_def opr_only Let_def split del: if_split cong: if_cong)

lemma opr_F_bypass [opr_only]:
  "pi_ch (inputs\<lparr>overallPressureRatio := x\<rparr>) = pi_ch inputs \<Longrightarrow>
   F_bypass (inputs\<lparr>overallPressureRatio := x\<rparr>) = F_bypass inputs"
  by (simp add: F_bypass_def opr_only Let_def split del: if_split cong: if_cong)

lemma opr_V9_eff [opr_only]:
  "pi_ch (inputs\<lparr>overallPressureRatio := x\<rparr>) = pi_ch inputs \<Longrightarrow>
   V9_eff (inputs\<lparr>overallPressureRatio := x\<rparr>) = V9_eff inputs"
  by (simp add: V9_eff_def opr_only Let_def split del: if_split cong: if_cong)

lemma opr_V19_eff [opr_only]:
  "pi_ch (inputs\<lparr>overallPressureRatio := x\<rparr>) = pi_ch inputs \<Longrightarrow>
   V19_eff (inputs\<lparr>overallPressureRatio := x\<rparr>) = V19_eff inputs"
  by (simp add: V19_eff_def opr_only Let_def split del: if_split cong: if_cong)

lemma opr_m_core_abs [opr_only]:
  "pi_ch (inputs\<lparr>overallPressureRatio := x\<rparr>) = pi_ch inputs \<Longrightarrow>
   m_core_abs (inputs\<lparr>overallPressureRatio := x\<rparr>) = m_core_abs inputs"
  by (simp add: m_core_abs_def opr_only Let_def split del: if_split cong: if_cong)

lemma opr_KE_out_eff [opr_only]:
  "pi_ch (inputs\<lparr>overallPressureRatio := x\<rparr>) = pi_ch inputs \<Longrightarrow>
   KE_out_eff (inputs\<lparr>overallPressureRatio := x\<rparr>) = KE_out_eff inputs"
  by (simp add: KE_out_eff_def opr_only Let_def split del: if_split cong: if_cong)

lemma opr_KE_in [opr_only]:
  "pi_ch (inputs\<lparr>overallPressureRatio := x\<rparr>) = pi_ch inputs \<Longrightarrow>
   KE_in (inputs\<lparr>overallPressureRatio := x\<rparr>) = KE_in inputs"
  by (simp add: KE_in_def opr_only Let_def split del: if_split cong: if_cong)

lemma opr_Q_in [opr_only]:
  "pi_ch (inputs\<lparr>overallPressureRatio := x\<rparr>) = pi_ch inputs \<Longrightarrow>
   Q_in (inputs\<lparr>overallPressureRatio := x\<rparr>) = Q_in inputs"
  by (simp add: Q_in_def opr_only Let_def split del: if_split cong: if_cong)

lemma opr_performance_block [opr_only]:
  "pi_ch (inputs\<lparr>overallPressureRatio := x\<rparr>) = pi_ch inputs \<Longrightarrow>
   performance_block (inputs\<lparr>overallPressureRatio := x\<rparr>) = performance_block inputs"
  by (simp add: performance_block_def opr_only Let_def split del: if_split cong: if_cong)

lemma opr_calculateCycle [opr_only]:
  "pi_ch (inputs\<lparr>overallPressureRatio := x\<rparr>) = pi_ch inputs \<Longrightarrow>
   calculateCycle (inputs\<lparr>overallPressureRatio := x\<rparr>) = calculateCycle inputs"
  by (simp add: calculateCycle_def opr_only Let_def split del: if_split cong: if_cong)


lemma pi_ch_floored:
  "overallPressureRatio inputs / fanPressureRatio inputs < Fin 1.1 \<Longrightarrow> pi_ch inputs = Fin 1.1"
  by (cases "overallPressureRatio inputs / fanPressureRatio inputs")
     (simp_all add: pi_ch_def less_number_def)

lemma pi_ch_at_floor:
  "x / fanPressureRatio inputs = Fin 1.1 \<Longrightarrow>
   pi_ch (inputs\<lparr>overallPressureRatio := x\<rparr>) = Fin 1.1"
  by (simp add: pi_ch_def)

lemma stations_calculateCycle:
  "stations (calculateCycle inputs) ! 2 =
     \<lparr>name = ''Fan'', label = ''2.5'', temp = Tt13 inputs, pressure = Pt13 inputs,
      isTotal = True\<rparr>"
  "stations (calculateCycle inputs) ! 3 =
     \<lparr>name = ''HPC'', label = ''3'', temp = Tt3 inputs, pressure = Pt3 inputs,
      isTotal = True\<rparr>"
  by (simp_all add: calculateCycle_def split: prod.splits)

text \<open>
  Claim C6.  The compressor pressure ratio is
  \<open>Math.max(1.1, overallPressureRatio / fanPressureRatio)\<close>: it is the ratio that the
  result reports, and it is the ratio that the solver uses.  \<open>Pt3\<close> is \<open>Pt21\<close> times
  it and \<open>Tt3\<close> is the compressor relation at it with the efficiency of the
  high-pressure compressor; these are the pressure and the temperature of the station
  \<open>HPC\<close> of the result, so that station is obtained with this ratio from the station
  \<open>Fan\<close> of the result.  The floor raises no flag of its own: an input whose ratio is
  below 1.1 gives the same result, stations and performance and so \<open>isValid\<close>, as the
  input that differs from it only in an overall pressure ratio that makes the ratio
  exactly 1.1, where the floor changes nothing.
\<close>

theorem hpc_ratio_floor:
  "hpcPressureRatio (performance (calculateCycle inputs)) =
     Math_max (Fin 1.1) (overallPressureRatio inputs / fanPressureRatio inputs)
   \<and> Pt3 inputs =
       Pt21 inputs * Math_max (Fin 1.1) (overallPressureRatio inputs / fanPressureRatio inputs)
   \<and> Tt3 inputs =
       isentropicT (Tt21 inputs)
         (Math_max (Fin 1.1) (overallPressureRatio inputs / fanPressureRatio inputs))
         (k PROP_COLD) (efficiencyHPC inputs) True
   \<and> stations (calculateCycle inputs) ! 3 =
       \<lparr>name = ''HPC'', label = ''3'', temp = Tt3 inputs, pressure = Pt3 inputs,
        isTotal = True\<rparr>
   \<and> pressure (stations (calculateCycle inputs) ! 3) =
       pressure (stations (calculateCycle inputs) ! 2)
         * Math_max (Fin 1.1) (overallPressureRatio inputs / fanPressureRatio inputs)
   \<and> temp (stations (calculateCycle inputs) ! 3) =
       isentropicT (temp (stations (calculateCycle inputs) ! 2))
         (Math_max (Fin 1.1) (overallPressureRatio inputs / fanPressureRatio inputs))
         (k PROP_COLD) (efficiencyHPC inputs) True
   \<and> (overallPressureRatio inputs / fanPressureRatio inputs < Fin 1.1 \<longrightarrow>
        x / fanPressureRatio inputs = Fin 1.1 \<longrightarrow>
        calculateCycle inputs = calculateCycle (inputs\<lparr>overallPressureRatio := x\<rparr>))"
proof (intro conjI impI)
  show "hpcPressureRatio (performance (calculateCycle inputs)) =
      Math_max (Fin 1.1) (overallPressureRatio inputs / fanPressureRatio inputs)"
    by (simp add: performance_calculateCycle pi_ch_def)
next
  show "Pt3 inputs =
      Pt21 inputs * Math_max (Fin 1.1) (overallPressureRatio inputs / fanPressureRatio inputs)"
    by (simp add: Pt3_def pi_ch_def)
next
  show "Tt3 inputs =
      isentropicT (Tt21 inputs)
        (Math_max (Fin 1.1) (overallPressureRatio inputs / fanPressureRatio inputs))
        (k PROP_COLD) (efficiencyHPC inputs) True"
    by (simp add: Tt3_def pi_ch_def)
next
  show "stations (calculateCycle inputs) ! 3 =
      \<lparr>name = ''HPC'', label = ''3'', temp = Tt3 inputs, pressure = Pt3 inputs,
       isTotal = True\<rparr>"
    by (rule stations_calculateCycle(2))
next
  show "pressure (stations (calculateCycle inputs) ! 3) =
      pressure (stations (calculateCycle inputs) ! 2)
        * Math_max (Fin 1.1) (overallPressureRatio inputs / fanPressureRatio inputs)"
    by (simp add: stations_calculateCycle Pt3_def Pt21_def pi_ch_def)
next
  show "temp (stations (calculateCycle inputs) ! 3) =
      isentropicT (temp (stations (calculateCycle inputs) ! 2))
        (Math_max (Fin 1.1) (overallPressureRatio inputs / fanPressureRatio inputs))
        (k PROP_COLD) (efficiencyHPC inputs) True"
    by (simp add: stations_calculateCycle Tt3_def Tt21_def pi_ch_def)
next
  assume "overallPressureRatio inputs / fanPressureRatio inputs < Fin 1.1"
    and "x / fanPressureRatio inputs = Fin 1.1"
  then have "pi_ch (inputs\<lparr>overallPressureRatio := x\<rparr>) = pi_ch inputs"
    by (simp add: pi_ch_floored pi_ch_at_floor)
  then show "calculateCycle inputs = calculateCycle (inputs\<lparr>overallPressureRatio := x\<rparr>)"
    by (simp add: opr_calculateCycle)
qed

text \<open>
  At \<open>floored_inputs\<close> the ratio is 1.5 / 1.65, below 1.1; with an overall pressure
  ratio of 1.815 it is exactly 1.1.  The reported ratio is 1.1, and the pressure of the
  station \<open>HPC\<close> is 1.1 times the 163842.525 Pa of the station \<open>Fan\<close>, which is
  180226.7775 Pa, not the 148947.75 Pa of the ratio 1.5 / 1.65.  The two inputs give
  the same result, and the cycle is valid.
\<close>

theorem hpc_ratio_floor_witness:
  "overallPressureRatio floored_inputs / fanPressureRatio floored_inputs < Fin 1.1
   \<and> Fin 1.815 / fanPressureRatio floored_inputs = Fin 1.1
   \<and> hpcPressureRatio (performance (calculateCycle floored_inputs)) = Fin 1.1
   \<and> pressure (stations (calculateCycle floored_inputs) ! 2) = Fin 163842.525
   \<and> pressure (stations (calculateCycle floored_inputs) ! 3) = Fin 180226.7775
   \<and> calculateCycle floored_inputs =
       calculateCycle (floored_inputs\<lparr>overallPressureRatio := Fin 1.815\<rparr>)
   \<and> isValid (performance (calculateCycle floored_inputs))"
proof -
  have below: "overallPressureRatio floored_inputs / fanPressureRatio floored_inputs < Fin 1.1"
    by (simp add: floored_inputs_fields)
  have at: "Fin 1.815 / fanPressureRatio floored_inputs = Fin 1.1"
    by (simp add: floored_inputs_fields)
  have valid: "isValid (performance (calculateCycle floored_inputs))"
    using floored_inputs_isValid_core
    by (simp add: performance_calculateCycle isValid_final_def)
  have ratio: "Math_max (Fin 1.1)
      (overallPressureRatio floored_inputs / fanPressureRatio floored_inputs) = Fin 1.1"
    by (simp add: floored_inputs_fields)
  from floored_inputs_Pt13 have "Pt13 floored_inputs = Fin 163842.525"
    by force
  then have fan: "pressure (stations (calculateCycle floored_inputs) ! 2) = Fin 163842.525"
    by (simp add: stations_calculateCycle)
  note floor = hpc_ratio_floor[of floored_inputs "Fin 1.815"]
  have same: "calculateCycle floored_inputs =
      calculateCycle (floored_inputs\<lparr>overallPressureRatio := Fin 1.815\<rparr>)"
    using floor below at by blast
  have "hpcPressureRatio (performance (calculateCycle floored_inputs)) =
      Math_max (Fin 1.1) (overallPressureRatio floored_inputs / fanPressureRatio floored_inputs)"
    using floor by blast
  then have hpc: "hpcPressureRatio (performance (calculateCycle floored_inputs)) = Fin 1.1"
    by (simp only: ratio)
  have "pressure (stations (calculateCycle floored_inputs) ! 3) =
      pressure (stations (calculateCycle floored_inputs) ! 2)
        * Math_max (Fin 1.1)
            (overallPressureRatio floored_inputs / fanPressureRatio floored_inputs)"
    using floor by blast
  then have hpc_station:
    "pressure (stations (calculateCycle floored_inputs) ! 3) = Fin 180226.7775"
    by (simp only: ratio fan) simp
  from below at hpc fan hpc_station same valid show ?thesis
    by blast
qed

section \<open>Nozzles\<close>

text \<open>
  The core nozzle marks the cycle invalid when it is not choked and its total pressure
  does not exceed the ambient pressure.
\<close>

lemma core_nozzle_marks_invalid:
  "isValid_LPT inputs \<Longrightarrow> \<not> Pt9 inputs / P0 inputs > critical_ratio_hot \<Longrightarrow>
   \<not> Pt9 inputs > P0 inputs \<Longrightarrow> \<not> isValid (performance (calculateCycle inputs))"
  by (simp add: performance_calculateCycle isValid_final_def isValid_core_def core_nozzle_def)

text \<open>
  Claim C1.  The claim holds of the core nozzle (lemma \<open>core_nozzle_marks_invalid\<close>)
  and fails of the bypass nozzle, whose \<open>if (Pt19 > P0)\<close> has no \<open>else\<close>.  At
  \<open>idle_bypass_inputs\<close> the cycle is valid when the bypass nozzle is reached, that
  nozzle is not choked and its total pressure does not exceed the ambient pressure, and
  the solver returns \<open>isValid = true\<close>.
\<close>

theorem bypass_nozzle_leaves_cycle_valid:
  "isValid_core idle_bypass_inputs
   \<and> \<not> Pt19 idle_bypass_inputs / P0 idle_bypass_inputs > critical_ratio_cold
   \<and> Pt19 idle_bypass_inputs \<le> P0 idle_bypass_inputs
   \<and> isValid (performance (calculateCycle idle_bypass_inputs))"
proof -
  from idle_bypass_inputs_Pt19 obtain p where p: "Pt19 idle_bypass_inputs = Fin p" "p < 99309"
    by force
  from idle_bypass_inputs_P0 obtain p0 where p0: "P0 idle_bypass_inputs = Fin p0" "p0 = 101325"
    by force
  have "1 \<le> ((1.4 + 1) / 2 :: real) powr (7 / 2)"
    by (intro ge_one_powr_ge_zero) simp_all
  moreover have "p / p0 < 1"
    using p p0 by simp
  ultimately have unchoked:
    "\<not> Pt19 idle_bypass_inputs / P0 idle_bypass_inputs > critical_ratio_cold"
    using p p0 by (simp add: critical_ratio_cold_Fin)
  have below: "Pt19 idle_bypass_inputs \<le> P0 idle_bypass_inputs"
    using p p0 by simp
  have valid: "isValid (performance (calculateCycle idle_bypass_inputs))"
    using idle_bypass_inputs_isValid_core
    by (simp add: performance_calculateCycle isValid_final_def)
  from idle_bypass_inputs_isValid_core unchoked below valid show ?thesis
    by blast
qed

text \<open>
  Further down at \<open>idle_bypass_inputs\<close>, the bypass velocity is 0 and the solver
  divides by it: the thrust of the bypass stream is \<open>NaN\<close>, and the specific thrust
  and the net thrust are cleaned to 0 while \<open>isValid\<close> is true.
\<close>

lemma idle_bypass_inputs_thrust:
  "bypassVelocity (performance (calculateCycle idle_bypass_inputs)) = Fin 0
   \<and> F_bypass idle_bypass_inputs = NaN
   \<and> specificThrust (performance (calculateCycle idle_bypass_inputs)) = Fin 0
   \<and> thrust (performance (calculateCycle idle_bypass_inputs)) = Fin 0"
proof -
  from idle_bypass_inputs_V19 have v: "V19 idle_bypass_inputs = Fin 0"
    by force
  from idle_bypass_inputs_P19 have p: "P19 idle_bypass_inputs = Fin 101325"
    by force
  from idle_bypass_inputs_P0 have p0: "P0 idle_bypass_inputs = Fin 101325"
    by force
  from idle_bypass_inputs_T19 obtain t where t: "T19 idle_bypass_inputs = Fin t" "0 < t"
    by force
  have "rho19 idle_bypass_inputs = Fin (101325 / (287.05 * t))"
    using t by (intro rho19_Fin[OF p]) simp_all
  then have "A19_per_unit idle_bypass_inputs = PInf"
    by (simp add: A19_per_unit_def v idle_bypass_inputs_fields Fin_div_zero signed_inf_def)
  then have "(P19 idle_bypass_inputs - P0 idle_bypass_inputs) * A19_per_unit idle_bypass_inputs = NaN"
    by (simp add: p p0 times_number_def)
  then have nan: "F_bypass idle_bypass_inputs = NaN"
    by (simp add: F_bypass_def)
  have valid: "isValid_final idle_bypass_inputs"
    using idle_bypass_inputs_isValid_core by (simp add: isValid_final_def)
  have "fst (performance_block idle_bypass_inputs) = NaN"
    using valid nan by (simp add: performance_block_def Let_def)
  moreover have "fst (snd (performance_block idle_bypass_inputs)) = NaN"
    using valid nan by (simp add: performance_block_def Let_def)
  ultimately show ?thesis
    using v nan by (simp add: performance_calculateCycle clean_def)
qed

section \<open>Propulsive efficiency\<close>

text \<open>
  The value that the performance block computes for \<open>propulsiveEfficiency\<close>: 0 unless
  the cycle is valid and both the heat input and the gain of kinetic energy are
  positive, and then the thrust power over the gain of kinetic energy.
\<close>

lemma propulsiveEfficiency_computed_unfold:
  "propulsiveEfficiency_computed inputs =
     (if isValid_final inputs \<and> Q_in inputs > Fin 0
         \<and> KE_out_eff inputs - KE_in inputs > Fin 0
      then (fst (snd (performance_block inputs)) * V0 inputs)
             / (KE_out_eff inputs - KE_in inputs)
      else Fin 0)"
  by (simp add: propulsiveEfficiency_computed_def performance_block_def Let_def)

text \<open>
  Claim C2, as amended.  The returned \<open>propulsiveEfficiency\<close> is the computed value
  when that is not greater than 1.0, and 0.999 when it is greater than 1.0.  So the
  returned value is either \<open>NaN\<close> or at most 1.0, it is \<open>NaN\<close> exactly when the
  computed value is \<open>NaN\<close>, and a computed value between 0.999 and 1.0 is returned as
  it is.
\<close>

theorem propulsiveEfficiency_clamped_above_one:
  "propulsiveEfficiency (performance (calculateCycle inputs)) =
     (if Fin 1 < propulsiveEfficiency_computed inputs then Fin 0.999
      else propulsiveEfficiency_computed inputs)
   \<and> (propulsiveEfficiency (performance (calculateCycle inputs)) = NaN
        \<or> propulsiveEfficiency (performance (calculateCycle inputs)) \<le> Fin 1)
   \<and> (propulsiveEfficiency (performance (calculateCycle inputs)) = NaN
        \<longleftrightarrow> propulsiveEfficiency_computed inputs = NaN)"
proof -
  have eq: "propulsiveEfficiency (performance (calculateCycle inputs)) =
      (if Fin 1 < propulsiveEfficiency_computed inputs then Fin 0.999
       else propulsiveEfficiency_computed inputs)"
    by (simp add: performance_calculateCycle clamp_propulsive_def
        propulsiveEfficiency_computed_def)
  have bound: "propulsiveEfficiency (performance (calculateCycle inputs)) = NaN
      \<or> propulsiveEfficiency (performance (calculateCycle inputs)) \<le> Fin 1"
    unfolding eq
    by (cases "propulsiveEfficiency_computed inputs")
       (auto simp: less_number_def less_eq_number_def)
  have nan: "propulsiveEfficiency (performance (calculateCycle inputs)) = NaN
      \<longleftrightarrow> propulsiveEfficiency_computed inputs = NaN"
    unfolding eq
    by (cases "propulsiveEfficiency_computed inputs")
       (auto simp: less_number_def)
  from eq bound nan show ?thesis
    by blast
qed

text \<open>
  At \<open>clamped_inputs\<close> the cycle is valid and the computed value is between 1.0006
  and 1.0007, above 1.0: the returned value is 0.999.
\<close>

theorem propulsiveEfficiency_clamped_above_one_witness:
  "isValid (performance (calculateCycle clamped_inputs))
   \<and> Fin 1.0006 < propulsiveEfficiency_computed clamped_inputs
   \<and> propulsiveEfficiency_computed clamped_inputs < Fin 1.0007
   \<and> propulsiveEfficiency (performance (calculateCycle clamped_inputs)) = Fin 0.999
   \<and> propulsiveEfficiency (performance (calculateCycle clamped_inputs)) \<le> Fin 1"
proof -
  from clamped_inputs_propulsiveEfficiency obtain t
    where t: "propulsiveEfficiency_computed clamped_inputs = Fin t" "1.0006 < t" "t < 1.0007"
    unfolding propulsiveEfficiency_computed_def by force
  have valid: "isValid (performance (calculateCycle clamped_inputs))"
    using clamped_inputs_isValid_final by (simp add: performance_calculateCycle)
  from propulsiveEfficiency_clamped_above_one[of clamped_inputs] t valid show ?thesis
    by simp
qed

text \<open>
  At \<open>idle_bypass_inputs\<close> the cycle is valid, the net thrust is \<open>NaN\<close> before
  cleaning, and the heat input and the gain of kinetic energy are positive: the
  computed and the returned \<open>propulsiveEfficiency\<close> are \<open>NaN\<close>.
\<close>

lemma idle_bypass_inputs_propulsiveEfficiency:
  "isValid (performance (calculateCycle idle_bypass_inputs))
   \<and> propulsiveEfficiency_computed idle_bypass_inputs = NaN
   \<and> propulsiveEfficiency (performance (calculateCycle idle_bypass_inputs)) = NaN"
proof -
  have valid: "isValid_final idle_bypass_inputs"
    using idle_bypass_inputs_isValid_core by (simp add: isValid_final_def)
  from idle_bypass_inputs_V19 have v19: "V19 idle_bypass_inputs = Fin 0"
    by force
  from idle_bypass_inputs_V0 have v0: "V0 idle_bypass_inputs = Fin 0"
    by force
  from idle_bypass_inputs_Hu_J have h: "Hu_J idle_bypass_inputs = Fin 43100000"
    by force
  from idle_bypass_inputs_P0 have p0: "P0 idle_bypass_inputs = Fin 101325"
    by force
  from idle_bypass_inputs_f obtain x where x: "f idle_bypass_inputs = Fin x" "0 < x"
    by force
  from idle_bypass_inputs_P9 obtain p where p: "P9 idle_bypass_inputs = Fin p" "101325 < p"
    by force
  from idle_bypass_inputs_T9 obtain t where t: "T9 idle_bypass_inputs = Fin t" "0 < t"
    by force
  from idle_bypass_inputs_V9 obtain v where v: "V9 idle_bypass_inputs = Fin v" "1 < v"
    by force
  have mc: "m_core_abs idle_bypass_inputs = Fin (1350 / (1 + 9))"
    by (rule m_core_abs_Fin[OF idle_bypass_inputs_fields(3) idle_bypass_inputs_fields(4)]) simp
  have r: "rho9 idle_bypass_inputs = Fin (p / (287.05 * t))"
    using t by (intro rho9_Fin[OF p(1)]) simp_all
  have rpos: "0 < p / (287.05 * t)"
    using p(2) t(2) by simp
  have v9: "V9_eff idle_bypass_inputs = Fin (v + (p - 101325) / (p / (287.05 * t) * v))"
    by (rule V9_eff_Fin[OF v(1) r p(1) p0 v(2) rpos])
  have v9pos: "0 < v + (p - 101325) / (p / (287.05 * t) * v)"
    using p(2) t(2) v(2) rpos by (intro add_pos_nonneg divide_nonneg_nonneg mult_nonneg_nonneg) simp_all
  have v19e: "V19_eff idle_bypass_inputs = Fin 0"
    by (simp add: V19_eff_def v19)
  have ko: "KE_out_eff idle_bypass_inputs =
      Fin (0.5 * (1350 / (1 + 9)) * (1 + x) * (v + (p - 101325) / (p / (287.05 * t) * v))\<^sup>2
           + 0.5 * (1350 - 1350 / (1 + 9)) * 0\<^sup>2)"
    by (rule KE_out_eff_Fin[OF mc x(1) v9 idle_bypass_inputs_fields(3) v19e])
  have ki: "KE_in idle_bypass_inputs = Fin (0.5 * 1350 * 0\<^sup>2)"
    by (rule KE_in_Fin[OF idle_bypass_inputs_fields(3) v0])
  have q: "Q_in idle_bypass_inputs = Fin (1350 / (1 + 9) * x * 43100000)"
    by (rule Q_in_Fin[OF mc x(1) h])
  have qpos: "Fin 0 < Q_in idle_bypass_inputs"
    using x(2) by (simp add: q)
  have "0 < (1 + x) * (v + (p - 101325) / (p / (287.05 * t) * v))\<^sup>2"
    using x(2) v9pos by (intro mult_pos_pos zero_less_power) simp_all
  then have "0 < 67.5 * ((1 + x) * (v + (p - 101325) / (p / (287.05 * t) * v))\<^sup>2)"
    by (rule mult_pos_pos[rotated]) simp
  moreover have "KE_out_eff idle_bypass_inputs - KE_in idle_bypass_inputs =
      Fin (67.5 * ((1 + x) * (v + (p - 101325) / (p / (287.05 * t) * v))\<^sup>2))"
    unfolding ko ki by (simp add: Fin_arith)
  ultimately have kpos: "Fin 0 < KE_out_eff idle_bypass_inputs - KE_in idle_bypass_inputs"
    by (simp only: Fin_arith(5))
  have nan: "fst (snd (performance_block idle_bypass_inputs)) = NaN"
    using valid idle_bypass_inputs_thrust by (simp add: performance_block_def Let_def)
  have computed: "propulsiveEfficiency_computed idle_bypass_inputs = NaN"
    using valid qpos kpos by (simp add: propulsiveEfficiency_computed_unfold nan)
  then have "propulsiveEfficiency (performance (calculateCycle idle_bypass_inputs)) = NaN"
    by (simp add: performance_calculateCycle clamp_propulsive_def
        propulsiveEfficiency_computed_def[symmetric])
  with valid computed show ?thesis
    by (simp add: performance_calculateCycle)
qed

text \<open>
  At \<open>supersonic_inputs\<close> the propulsive efficiency is between 0.9994 and 0.9995: it
  is not above 1.0, is returned as computed, and is greater than 0.999.
\<close>

theorem propulsiveEfficiency_above_0999:
  "\<not> propulsiveEfficiency (performance (calculateCycle supersonic_inputs)) \<le> Fin 0.999
   \<and> Fin 0.9994 < propulsiveEfficiency (performance (calculateCycle supersonic_inputs))
   \<and> propulsiveEfficiency (performance (calculateCycle supersonic_inputs)) < Fin 0.9995"
proof -
  from supersonic_inputs_propulsiveEfficiency obtain t
    where t: "fst (snd (snd (snd (snd (performance_block supersonic_inputs))))) = Fin t"
      "0.9994 < t" "t < 0.9995"
    by force
  then show ?thesis
    by (simp add: performance_calculateCycle clamp_propulsive_def)
qed

section \<open>Signs of the fuel consumption and of the thrust\<close>

lemma nonneg_mul:
  "a = NaN \<or> Fin 0 \<le> a \<Longrightarrow> b = NaN \<or> Fin 0 \<le> b \<Longrightarrow> a * b = NaN \<or> Fin 0 \<le> a * b"
  by (cases a; cases b)
     (auto simp: times_number_def less_eq_number_def signed_inf_def)

lemma nonneg_div:
  "a = NaN \<or> Fin 0 \<le> a \<Longrightarrow> Fin 0 < b \<Longrightarrow> a / b = NaN \<or> Fin 0 \<le> a / b"
  by (cases a; cases b)
     (auto simp: divide_number_def less_eq_number_def less_number_def signed_inf_def)

lemma one_plus_nonneg:
  "Fin 0 \<le> b \<Longrightarrow> Fin 0 < Fin 1 + b"
  by (cases b) (auto simp: plus_number_def less_eq_number_def less_number_def)

lemma f_nonneg: "f inputs = NaN \<or> Fin 0 \<le> f inputs"
  by (cases "numerator inputs / denominator inputs")
     (auto simp: f_def less_eq_number_def less_number_def)

lemma clean_nonneg: "x = NaN \<or> Fin 0 \<le> x \<Longrightarrow> Fin 0 \<le> clean x"
  by (cases x) (auto simp: clean_def less_eq_number_def)

lemma sfc_block_nonneg:
  assumes "Fin 0 \<le> massFlow inputs" "Fin 0 \<le> bypassRatio inputs"
  shows "fst (snd (snd (performance_block inputs))) = NaN
         \<or> Fin 0 \<le> fst (snd (snd (performance_block inputs)))"
proof -
  have m: "massFlow inputs / (Fin 1 + bypassRatio inputs) = NaN
           \<or> Fin 0 \<le> massFlow inputs / (Fin 1 + bypassRatio inputs)"
    using assms by (intro nonneg_div one_plus_nonneg) simp_all
  have fuel: "f inputs * (massFlow inputs / (Fin 1 + bypassRatio inputs)) * Fin 3600 = NaN
           \<or> Fin 0 \<le> f inputs * (massFlow inputs / (Fin 1 + bypassRatio inputs)) * Fin 3600"
    by (intro nonneg_mul f_nonneg m) simp
  show ?thesis
    using nonneg_div[OF fuel] by (simp add: performance_block_def Let_def)
qed

text \<open>
  Claim C3, as amended.  For every input with a mass flow and a bypass ratio that are
  not negative and for which the returned \<open>isValid\<close> is true, the returned \<open>sfc\<close>
  is greater than or equal to 0.  (Nothing is said of the sign of the thrust.)
\<close>

theorem valid_cycle_sfc_nonneg:
  "isValid (performance (calculateCycle inputs)) \<Longrightarrow>
   Fin 0 \<le> massFlow inputs \<Longrightarrow> Fin 0 \<le> bypassRatio inputs \<Longrightarrow>
   Fin 0 \<le> PerformanceResult.sfc (performance (calculateCycle inputs))"
  by (simp add: performance_calculateCycle clean_nonneg sfc_block_nonneg)

text \<open>
  At \<open>supersonic_inputs\<close> the cycle is valid, the mass flow is 1350 and the bypass
  ratio 5, and the fuel consumption is about 0.297.
\<close>

theorem valid_cycle_sfc_nonneg_witness:
  "isValid (performance (calculateCycle supersonic_inputs))
   \<and> Fin 0 \<le> massFlow supersonic_inputs \<and> Fin 0 \<le> bypassRatio supersonic_inputs
   \<and> Fin 0 \<le> PerformanceResult.sfc (performance (calculateCycle supersonic_inputs))
   \<and> Fin 0.29 < PerformanceResult.sfc (performance (calculateCycle supersonic_inputs))"
proof -
  have valid: "isValid (performance (calculateCycle supersonic_inputs))"
    using supersonic_inputs_isValid_final by (simp add: performance_calculateCycle)
  have m: "Fin 0 \<le> massFlow supersonic_inputs" and b: "Fin 0 \<le> bypassRatio supersonic_inputs"
    by (simp_all add: supersonic_inputs_fields)
  from supersonic_inputs_sfc obtain t
    where "fst (snd (snd (performance_block supersonic_inputs))) = Fin t" "0.29 < t"
    by force
  then have "Fin 0.29 < PerformanceResult.sfc (performance (calculateCycle supersonic_inputs))"
    by (simp add: performance_calculateCycle clean_def)
  with valid_cycle_sfc_nonneg[OF valid m b] valid m b show ?thesis
    by blast
qed

text \<open>The quantities of the solver up to the thrust of each stream do not read the mass flow.\<close>

named_theorems mf_free \<open>quantities that do not read massFlow\<close>

lemma mf_T0 [mf_free]:
  "T0 (inputs\<lparr>massFlow := x\<rparr>) = T0 inputs"
  by (simp add: T0_def mf_free Let_def split del: if_split cong: if_cong)

lemma mf_P0 [mf_free]:
  "P0 (inputs\<lparr>massFlow := x\<rparr>) = P0 inputs"
  by (simp add: P0_def mf_free Let_def split del: if_split cong: if_cong)

lemma mf_V0 [mf_free]:
  "V0 (inputs\<lparr>massFlow := x\<rparr>) = V0 inputs"
  by (simp add: V0_def mf_free Let_def split del: if_split cong: if_cong)

lemma mf_tau_r [mf_free]:
  "tau_r (inputs\<lparr>massFlow := x\<rparr>) = tau_r inputs"
  by (simp add: tau_r_def mf_free Let_def split del: if_split cong: if_cong)

lemma mf_pi_r [mf_free]:
  "pi_r (inputs\<lparr>massFlow := x\<rparr>) = pi_r inputs"
  by (simp add: pi_r_def mf_free Let_def split del: if_split cong: if_cong)

lemma mf_Tt0 [mf_free]:
  "Tt0 (inputs\<lparr>massFlow := x\<rparr>) = Tt0 inputs"
  by (simp add: Tt0_def mf_free Let_def split del: if_split cong: if_cong)

lemma mf_Pt0 [mf_free]:
  "Pt0 (inputs\<lparr>massFlow := x\<rparr>) = Pt0 inputs"
  by (simp add: Pt0_def mf_free Let_def split del: if_split cong: if_cong)

lemma mf_Tt2 [mf_free]:
  "Tt2 (inputs\<lparr>massFlow := x\<rparr>) = Tt2 inputs"
  by (simp add: Tt2_def mf_free Let_def split del: if_split cong: if_cong)

lemma mf_Pt2 [mf_free]:
  "Pt2 (inputs\<lparr>massFlow := x\<rparr>) = Pt2 inputs"
  by (simp add: Pt2_def mf_free Let_def split del: if_split cong: if_cong)

lemma mf_Pt13 [mf_free]:
  "Pt13 (inputs\<lparr>massFlow := x\<rparr>) = Pt13 inputs"
  by (simp add: Pt13_def mf_free Let_def split del: if_split cong: if_cong)

lemma mf_Tt13 [mf_free]:
  "Tt13 (inputs\<lparr>massFlow := x\<rparr>) = Tt13 inputs"
  by (simp add: Tt13_def mf_free Let_def split del: if_split cong: if_cong)

lemma mf_Pt21 [mf_free]:
  "Pt21 (inputs\<lparr>massFlow := x\<rparr>) = Pt21 inputs"
  by (simp add: Pt21_def mf_free Let_def split del: if_split cong: if_cong)

lemma mf_Tt21 [mf_free]:
  "Tt21 (inputs\<lparr>massFlow := x\<rparr>) = Tt21 inputs"
  by (simp add: Tt21_def mf_free Let_def split del: if_split cong: if_cong)

lemma mf_pi_ch [mf_free]:
  "pi_ch (inputs\<lparr>massFlow := x\<rparr>) = pi_ch inputs"
  by (simp add: pi_ch_def mf_free Let_def split del: if_split cong: if_cong)

lemma mf_Pt3 [mf_free]:
  "Pt3 (inputs\<lparr>massFlow := x\<rparr>) = Pt3 inputs"
  by (simp add: Pt3_def mf_free Let_def split del: if_split cong: if_cong)

lemma mf_Tt3 [mf_free]:
  "Tt3 (inputs\<lparr>massFlow := x\<rparr>) = Tt3 inputs"
  by (simp add: Tt3_def mf_free Let_def split del: if_split cong: if_cong)

lemma mf_Pt4 [mf_free]:
  "Pt4 (inputs\<lparr>massFlow := x\<rparr>) = Pt4 inputs"
  by (simp add: Pt4_def mf_free Let_def split del: if_split cong: if_cong)

lemma mf_Tt4 [mf_free]:
  "Tt4 (inputs\<lparr>massFlow := x\<rparr>) = Tt4 inputs"
  by (simp add: Tt4_def mf_free Let_def split del: if_split cong: if_cong)

lemma mf_Hu_J [mf_free]:
  "Hu_J (inputs\<lparr>massFlow := x\<rparr>) = Hu_J inputs"
  by (simp add: Hu_J_def mf_free Let_def split del: if_split cong: if_cong)

lemma mf_numerator [mf_free]:
  "numerator (inputs\<lparr>massFlow := x\<rparr>) = numerator inputs"
  by (simp add: numerator_def mf_free Let_def split del: if_split cong: if_cong)

lemma mf_denominator [mf_free]:
  "denominator (inputs\<lparr>massFlow := x\<rparr>) = denominator inputs"
  by (simp add: denominator_def mf_free Let_def split del: if_split cong: if_cong)

lemma mf_f [mf_free]:
  "f (inputs\<lparr>massFlow := x\<rparr>) = f inputs"
  by (simp add: f_def mf_free Let_def split del: if_split cong: if_cong)

lemma mf_work_req_HPC [mf_free]:
  "work_req_HPC (inputs\<lparr>massFlow := x\<rparr>) = work_req_HPC inputs"
  by (simp add: work_req_HPC_def mf_free Let_def split del: if_split cong: if_cong)

lemma mf_work_avail_HPT [mf_free]:
  "work_avail_HPT (inputs\<lparr>massFlow := x\<rparr>) = work_avail_HPT inputs"
  by (simp add: work_avail_HPT_def mf_free Let_def split del: if_split cong: if_cong)

lemma mf_deltaT_HPT [mf_free]:
  "deltaT_HPT (inputs\<lparr>massFlow := x\<rparr>) = deltaT_HPT inputs"
  by (simp add: deltaT_HPT_def mf_free Let_def split del: if_split cong: if_cong)

lemma mf_Tt45 [mf_free]:
  "Tt45 (inputs\<lparr>massFlow := x\<rparr>) = Tt45 inputs"
  by (simp add: Tt45_def mf_free Let_def split del: if_split cong: if_cong)

lemma mf_temp_ratio_HPT [mf_free]:
  "temp_ratio_HPT (inputs\<lparr>massFlow := x\<rparr>) = temp_ratio_HPT inputs"
  by (simp add: temp_ratio_HPT_def mf_free Let_def split del: if_split cong: if_cong)

lemma mf_pressure_term_HPT [mf_free]:
  "pressure_term_HPT (inputs\<lparr>massFlow := x\<rparr>) = pressure_term_HPT inputs"
  by (simp add: pressure_term_HPT_def mf_free Let_def split del: if_split cong: if_cong)

lemma mf_pi_HPT [mf_free]:
  "pi_HPT (inputs\<lparr>massFlow := x\<rparr>) = pi_HPT inputs"
  by (simp add: pi_HPT_def mf_free Let_def split del: if_split cong: if_cong)

lemma mf_hpt_block [mf_free]:
  "hpt_block (inputs\<lparr>massFlow := x\<rparr>) = hpt_block inputs"
  by (simp add: hpt_block_def mf_free Let_def split del: if_split cong: if_cong)

lemma mf_Pt45 [mf_free]:
  "Pt45 (inputs\<lparr>massFlow := x\<rparr>) = Pt45 inputs"
  by (simp add: Pt45_def mf_free Let_def split del: if_split cong: if_cong)

lemma mf_isValid_HPT [mf_free]:
  "isValid_HPT (inputs\<lparr>massFlow := x\<rparr>) = isValid_HPT inputs"
  by (simp add: isValid_HPT_def mf_free Let_def split del: if_split cong: if_cong)

lemma mf_work_req_Fan [mf_free]:
  "work_req_Fan (inputs\<lparr>massFlow := x\<rparr>) = work_req_Fan inputs"
  by (simp add: work_req_Fan_def mf_free Let_def split del: if_split cong: if_cong)

lemma mf_work_extraction_LPT [mf_free]:
  "work_extraction_LPT (inputs\<lparr>massFlow := x\<rparr>) = work_extraction_LPT inputs"
  by (simp add: work_extraction_LPT_def mf_free Let_def split del: if_split cong: if_cong)

lemma mf_deltaT_LPT [mf_free]:
  "deltaT_LPT (inputs\<lparr>massFlow := x\<rparr>) = deltaT_LPT inputs"
  by (simp add: deltaT_LPT_def mf_free Let_def split del: if_split cong: if_cong)

lemma mf_Tt5 [mf_free]:
  "Tt5 (inputs\<lparr>massFlow := x\<rparr>) = Tt5 inputs"
  by (simp add: Tt5_def mf_free Let_def split del: if_split cong: if_cong)

lemma mf_temp_ratio_LPT [mf_free]:
  "temp_ratio_LPT (inputs\<lparr>massFlow := x\<rparr>) = temp_ratio_LPT inputs"
  by (simp add: temp_ratio_LPT_def mf_free Let_def split del: if_split cong: if_cong)

lemma mf_pressure_term_LPT [mf_free]:
  "pressure_term_LPT (inputs\<lparr>massFlow := x\<rparr>) = pressure_term_LPT inputs"
  by (simp add: pressure_term_LPT_def mf_free Let_def split del: if_split cong: if_cong)

lemma mf_pi_LPT [mf_free]:
  "pi_LPT (inputs\<lparr>massFlow := x\<rparr>) = pi_LPT inputs"
  by (simp add: pi_LPT_def mf_free Let_def split del: if_split cong: if_cong)

lemma mf_lpt_block [mf_free]:
  "lpt_block (inputs\<lparr>massFlow := x\<rparr>) = lpt_block inputs"
  by (simp add: lpt_block_def mf_free Let_def split del: if_split cong: if_cong)

lemma mf_Pt5 [mf_free]:
  "Pt5 (inputs\<lparr>massFlow := x\<rparr>) = Pt5 inputs"
  by (simp add: Pt5_def mf_free Let_def split del: if_split cong: if_cong)

lemma mf_isValid_LPT [mf_free]:
  "isValid_LPT (inputs\<lparr>massFlow := x\<rparr>) = isValid_LPT inputs"
  by (simp add: isValid_LPT_def mf_free Let_def split del: if_split cong: if_cong)

lemma mf_Pt9 [mf_free]:
  "Pt9 (inputs\<lparr>massFlow := x\<rparr>) = Pt9 inputs"
  by (simp add: Pt9_def mf_free Let_def split del: if_split cong: if_cong)

lemma mf_core_nozzle [mf_free]:
  "core_nozzle (inputs\<lparr>massFlow := x\<rparr>) = core_nozzle inputs"
  by (simp add: core_nozzle_def mf_free Let_def split del: if_split cong: if_cong)

lemma mf_P9 [mf_free]:
  "P9 (inputs\<lparr>massFlow := x\<rparr>) = P9 inputs"
  by (simp add: P9_def mf_free Let_def split del: if_split cong: if_cong)

lemma mf_T9 [mf_free]:
  "T9 (inputs\<lparr>massFlow := x\<rparr>) = T9 inputs"
  by (simp add: T9_def mf_free Let_def split del: if_split cong: if_cong)

lemma mf_V9 [mf_free]:
  "V9 (inputs\<lparr>massFlow := x\<rparr>) = V9 inputs"
  by (simp add: V9_def mf_free Let_def split del: if_split cong: if_cong)

lemma mf_isValid_core [mf_free]:
  "isValid_core (inputs\<lparr>massFlow := x\<rparr>) = isValid_core inputs"
  by (simp add: isValid_core_def mf_free Let_def split del: if_split cong: if_cong)

lemma mf_Pt19 [mf_free]:
  "Pt19 (inputs\<lparr>massFlow := x\<rparr>) = Pt19 inputs"
  by (simp add: Pt19_def mf_free Let_def split del: if_split cong: if_cong)

lemma mf_bypass_nozzle [mf_free]:
  "bypass_nozzle (inputs\<lparr>massFlow := x\<rparr>) = bypass_nozzle inputs"
  by (simp add: bypass_nozzle_def mf_free Let_def split del: if_split cong: if_cong)

lemma mf_P19 [mf_free]:
  "P19 (inputs\<lparr>massFlow := x\<rparr>) = P19 inputs"
  by (simp add: P19_def mf_free Let_def split del: if_split cong: if_cong)

lemma mf_T19 [mf_free]:
  "T19 (inputs\<lparr>massFlow := x\<rparr>) = T19 inputs"
  by (simp add: T19_def mf_free Let_def split del: if_split cong: if_cong)

lemma mf_V19 [mf_free]:
  "V19 (inputs\<lparr>massFlow := x\<rparr>) = V19 inputs"
  by (simp add: V19_def mf_free Let_def split del: if_split cong: if_cong)

lemma mf_isValid_final [mf_free]:
  "isValid_final (inputs\<lparr>massFlow := x\<rparr>) = isValid_final inputs"
  by (simp add: isValid_final_def mf_free Let_def split del: if_split cong: if_cong)

lemma mf_rho9 [mf_free]:
  "rho9 (inputs\<lparr>massFlow := x\<rparr>) = rho9 inputs"
  by (simp add: rho9_def mf_free Let_def split del: if_split cong: if_cong)

lemma mf_A9_per_unit [mf_free]:
  "A9_per_unit (inputs\<lparr>massFlow := x\<rparr>) = A9_per_unit inputs"
  by (simp add: A9_per_unit_def mf_free Let_def split del: if_split cong: if_cong)

lemma mf_F_core [mf_free]:
  "F_core (inputs\<lparr>massFlow := x\<rparr>) = F_core inputs"
  by (simp add: F_core_def mf_free Let_def split del: if_split cong: if_cong)

lemma mf_rho19 [mf_free]:
  "rho19 (inputs\<lparr>massFlow := x\<rparr>) = rho19 inputs"
  by (simp add: rho19_def mf_free Let_def split del: if_split cong: if_cong)

lemma mf_A19_per_unit [mf_free]:
  "A19_per_unit (inputs\<lparr>massFlow := x\<rparr>) = A19_per_unit inputs"
  by (simp add: A19_per_unit_def mf_free Let_def split del: if_split cong: if_cong)

lemma mf_F_bypass [mf_free]:
  "F_bypass (inputs\<lparr>massFlow := x\<rparr>) = F_bypass inputs"
  by (simp add: F_bypass_def mf_free Let_def split del: if_split cong: if_cong)

lemma mf_V9_eff [mf_free]:
  "V9_eff (inputs\<lparr>massFlow := x\<rparr>) = V9_eff inputs"
  by (simp add: V9_eff_def mf_free Let_def split del: if_split cong: if_cong)

lemma mf_V19_eff [mf_free]:
  "V19_eff (inputs\<lparr>massFlow := x\<rparr>) = V19_eff inputs"
  by (simp add: V19_eff_def mf_free Let_def split del: if_split cong: if_cong)

lemma specific_thrust_valid:
  "isValid_final inputs \<Longrightarrow>
   fst (performance_block inputs) =
     (F_core inputs + F_bypass inputs) / (Fin 1 + bypassRatio inputs)"
  by (simp add: performance_block_def Let_def)

text \<open>
  The claim as stated fails in both of its parts.  At \<open>drag_inputs\<close> the cycle is
  valid and the net thrust is negative: about -24962 N.  With the mass flow of
  \<open>drag_inputs\<close> negated the cycle is valid, the net thrust is positive and the fuel
  consumption is negative.
\<close>

theorem valid_cycle_negative_thrust:
  "isValid (performance (calculateCycle drag_inputs))
   \<and> thrust (performance (calculateCycle drag_inputs)) < Fin 0
   \<and> isValid (performance (calculateCycle (drag_inputs\<lparr>massFlow := Fin (- 1350)\<rparr>)))
   \<and> PerformanceResult.sfc (performance (calculateCycle (drag_inputs\<lparr>massFlow := Fin (- 1350)\<rparr>)))
       < Fin 0"
proof -
  let ?r = "drag_inputs\<lparr>massFlow := Fin (- 1350)\<rparr>"
  have valid: "isValid (performance (calculateCycle drag_inputs))"
    using drag_inputs_isValid_final by (simp add: performance_calculateCycle)
  from drag_inputs_total_thrust obtain t
    where "fst (snd (performance_block drag_inputs)) = Fin t" "t < - 24962"
    by force
  then have thrust: "thrust (performance (calculateCycle drag_inputs)) < Fin 0"
    by (simp add: performance_calculateCycle clean_def)
  have valid_r: "isValid_final ?r"
    using drag_inputs_isValid_final by (simp add: mf_free)
  from drag_inputs_specific_thrust obtain s
    where s: "fst (performance_block drag_inputs) = Fin s" "s < - 18"
    by force
  have "fst (performance_block ?r) = fst (performance_block drag_inputs)"
    using valid_r drag_inputs_isValid_final by (simp add: specific_thrust_valid mf_free)
  with s have st_r: "fst (performance_block ?r) = Fin s"
    by simp
  have m_r: "massFlow ?r = Fin (- 1350)" and b_r: "bypassRatio ?r = Fin 9"
    by (simp_all add: drag_inputs_fields)
  have tt_r: "fst (snd (performance_block ?r)) = Fin (s * - 1350)"
    by (rule total_thrust_Fin[OF valid_r st_r m_r])
  have pos: "0 < s * - 1350"
    using s by simp
  from drag_inputs_f obtain x where x: "f drag_inputs = Fin x" "0.02 < x"
    by force
  then have f_r: "f ?r = Fin x"
    by (simp add: mf_free)
  have "fst (snd (snd (performance_block ?r))) = Fin (x * (- 1350 / (1 + 9)) * 3600 / (s * - 1350))"
    by (rule sfc_Fin[OF valid_r tt_r pos f_r m_r b_r]) simp
  moreover have "x * (- 1350 / (1 + 9)) * 3600 / (s * - 1350) < 0"
  proof -
    have "x * (- 1350 / (1 + 9)) * 3600 < 0"
      using x by simp
    then show ?thesis
      using pos by (rule divide_neg_pos)
  qed
  ultimately have sfc_r: "PerformanceResult.sfc (performance (calculateCycle ?r)) < Fin 0"
    by (simp add: performance_calculateCycle clean_def)
  have "isValid (performance (calculateCycle ?r))"
    using valid_r by (simp add: performance_calculateCycle)
  with valid thrust sfc_r show ?thesis
    by blast
qed

section \<open>The overall-pressure-ratio trend\<close>

lemma calculateTrends_body_eq:
  "calculateTrends_body baseInputs x points =
     points @ (if trend_kept baseInputs x then [trend_point baseInputs x] else [])"
  by (simp add: calculateTrends_body_def trend_kept_def trend_point_def trend_solve_def Let_def)

text \<open>The loop from the counter \<open>n\<close> appends the kept samples from \<open>n\<close> to 60.\<close>

lemma calculateTrends_loop_eq:
  "n \<le> 61 \<Longrightarrow>
   calculateTrends_loop baseInputs (real n) points =
     points @ map (trend_point baseInputs)
                (filter (trend_kept baseInputs) (map (\<lambda>n. Fin (real n)) [n..<61]))"
proof (induction "61 - n" arbitrary: n points)
  case 0
  then have "n = 61" by simp
  then show ?case
    by (subst calculateTrends_loop.simps) simp
next
  case (Suc d)
  then have n: "n < 61" and d: "d = 61 - Suc n" and le: "Suc n \<le> 61"
    by simp_all
  have step: "calculateTrends_loop baseInputs (real n) points =
      calculateTrends_loop baseInputs (real (Suc n))
        (calculateTrends_body baseInputs (Fin (real n)) points)"
    using n by (subst calculateTrends_loop.simps) (simp add: add.commute)
  have "[n..<61] = n # [Suc n..<61]"
    using n by (simp add: upt_conv_Cons)
  then show ?case
    using Suc.hyps(1)[OF d le] step by (simp add: calculateTrends_body_eq)
qed

lemma calculateTrends_eq: "calculateTrends baseInputs = trends_spec baseInputs"
  using calculateTrends_loop_eq[of 10 baseInputs "[]"]
  by (simp add: calculateTrends_def trends_spec_def trend_samples_def)

lemma opr_trend_point [simp]: "opr (trend_point baseInputs x) = x"
  by (simp add: trend_point_def)

lemma trend_samples_increasing: "sorted_wrt (<) trend_samples"
  by (simp add: trend_samples_def sorted_wrt_map)

text \<open>
  Claim C7.  \<open>calculateTrends\<close> returns, in the order of the sweep, the points of the
  samples 10, 11, ..., 60 that are kept: not skipped for being at most the base fan
  pressure ratio, valid, and with a positive specific thrust.  So no point of the result
  has an \<open>opr\<close> at most the base fan pressure ratio, and the \<open>opr\<close> values of the
  result are strictly increasing.
\<close>

theorem calculateTrends_sweep:
  "calculateTrends baseInputs = trends_spec baseInputs
   \<and> (\<forall>p \<in> set (calculateTrends baseInputs). \<not> opr p \<le> fanPressureRatio baseInputs)
   \<and> sorted_wrt (<) (map opr (calculateTrends baseInputs))"
proof (intro conjI)
  show "calculateTrends baseInputs = trends_spec baseInputs"
    by (rule calculateTrends_eq)
  show "\<forall>p \<in> set (calculateTrends baseInputs). \<not> opr p \<le> fanPressureRatio baseInputs"
    by (auto simp: calculateTrends_eq trends_spec_def trend_kept_def)
  have "map opr (trends_spec baseInputs) = filter (trend_kept baseInputs) trend_samples"
    by (simp add: trends_spec_def comp_def)
  then show "sorted_wrt (<) (map opr (calculateTrends baseInputs))"
    by (simp add: calculateTrends_eq sorted_wrt_filter trend_samples_increasing)
qed

text \<open>
  At \<open>supersonic_inputs\<close>, whose overall pressure ratio is 10 and whose fan pressure
  ratio is 1.65, the sample 10 is kept: its point is in the result.
\<close>

theorem calculateTrends_sweep_witness:
  "trend_point supersonic_inputs (Fin 10) \<in> set (calculateTrends supersonic_inputs)
   \<and> \<not> opr (trend_point supersonic_inputs (Fin 10)) \<le> fanPressureRatio supersonic_inputs"
proof -
  have same: "supersonic_inputs\<lparr>overallPressureRatio := Fin 10\<rparr> = supersonic_inputs"
    by (simp add: supersonic_inputs_def)
  have valid: "isValid (trend_solve supersonic_inputs (Fin 10))"
    using supersonic_inputs_isValid_final
    by (simp add: trend_solve_def same performance_calculateCycle)
  from supersonic_inputs_specific_thrust obtain t
    where "fst (performance_block supersonic_inputs) = Fin t" "43 < t"
    by force
  then have positive: "specificThrust (trend_solve supersonic_inputs (Fin 10)) > Fin 0"
    by (simp add: trend_solve_def same performance_calculateCycle clean_def)
  have kept: "trend_kept supersonic_inputs (Fin 10)"
    using valid positive by (simp add: trend_kept_def supersonic_inputs_fields)
  have "Fin 10 \<in> set trend_samples"
    by (auto simp: trend_samples_def intro!: image_eqI[where x=10])
  with kept have "trend_point supersonic_inputs (Fin 10) \<in> set (trends_spec supersonic_inputs)"
    by (simp add: trends_spec_def)
  with calculateTrends_sweep[of supersonic_inputs]
  have member: "trend_point supersonic_inputs (Fin 10) \<in> set (calculateTrends supersonic_inputs)"
    by simp
  with calculateTrends_sweep[of supersonic_inputs] show ?thesis
    by blast
qed

section \<open>The flight envelope\<close>

text \<open>
  \<open>getInletConditions\<close> returns the inlet stagnation temperature and pressure that the
  solver itself computes at that altitude, Mach number and inlet recovery.
\<close>

lemma getInletConditions_eq:
  "getInletConditions h m (pressureRecoveryInlet baseInputs) =
     (Tt2 (baseInputs\<lparr>altitude := h, mach := m\<rparr>), Pt2 (baseInputs\<lparr>altitude := h, mach := m\<rparr>))"
  by (simp add: getInletConditions_def Tt2_def Tt0_def T0_def tau_r_def Pt2_def Pt0_def P0_def
      pi_r_def Let_def split: prod.splits)

lemma calculateEnvelope_body_eq:
  "calculateEnvelope_body baseInputs (cell_mach i) (cell_altitude j) data =
     data @ (if cell_kept baseInputs (i, j) then [cell_point baseInputs (i, j)] else [])"
  by (simp add: calculateEnvelope_body_def getInletConditions_eq cell_kept_def cell_point_def
      cell_inputs_def designCorrectedFlow_def Let_def)

lemma cell_altitude_eq: "(Fin (real j) / Fin (real altSteps)) * maxAlt = cell_altitude j"
  by (simp add: cell_altitude_def altSteps_def maxAlt_def)

lemma cell_mach_eq: "(Fin (real i) / Fin (real machSteps)) * maxMach = cell_mach i"
  by (simp add: cell_mach_def machSteps_def maxMach_def)

text \<open>The inner loop from \<open>j\<close> appends the kept cells of the row from \<open>j\<close> to 40.\<close>

lemma calculateEnvelope_inner_eq:
  "j \<le> 41 \<Longrightarrow>
   calculateEnvelope_inner baseInputs (cell_mach i) j data =
     data @ map (cell_point baseInputs)
              (filter (cell_kept baseInputs) (map (\<lambda>j. (i, j)) [j..<41]))"
proof (induction "41 - j" arbitrary: j data)
  case 0
  then have "j = 41" by simp
  then show ?case
    by (subst calculateEnvelope_inner.simps) (simp add: altSteps_def)
next
  case (Suc d)
  then have j: "j < 41" and d: "d = 41 - Suc j" and le: "Suc j \<le> 41"
    by simp_all
  have step: "calculateEnvelope_inner baseInputs (cell_mach i) j data =
      calculateEnvelope_inner baseInputs (cell_mach i) (Suc j)
        (calculateEnvelope_body baseInputs (cell_mach i) (cell_altitude j) data)"
    using j by (subst calculateEnvelope_inner.simps) (simp add: cell_altitude_eq, simp add: altSteps_def)
  have "[j..<41] = j # [Suc j..<41]"
    using j by (simp add: upt_conv_Cons)
  then show ?case
    using Suc.hyps(1)[OF d le] step by (simp add: calculateEnvelope_body_eq)
qed

text \<open>The outer loop from \<open>i\<close> appends the kept cells of the rows from \<open>i\<close> to 50.\<close>

lemma calculateEnvelope_outer_eq:
  "i \<le> 51 \<Longrightarrow>
   calculateEnvelope_outer baseInputs i data =
     data @ map (cell_point baseInputs)
              (filter (cell_kept baseInputs)
                 (concat (map (\<lambda>i. map (\<lambda>j. (i, j)) [0..<41]) [i..<51])))"
proof (induction "51 - i" arbitrary: i data)
  case 0
  then have "i = 51" by simp
  then show ?case
    by (subst calculateEnvelope_outer.simps) (simp add: machSteps_def)
next
  case (Suc d)
  then have i: "i < 51" and d: "d = 51 - Suc i" and le: "Suc i \<le> 51"
    by simp_all
  have step: "calculateEnvelope_outer baseInputs i data =
      calculateEnvelope_outer baseInputs (Suc i)
        (calculateEnvelope_inner baseInputs (cell_mach i) 0 data)"
    using i by (subst calculateEnvelope_outer.simps) (simp add: cell_mach_eq, simp add: machSteps_def)
  have "[i..<51] = i # [Suc i..<51]"
    using i by (simp add: upt_conv_Cons)
  then show ?case
    using Suc.hyps(1)[OF d le] step calculateEnvelope_inner_eq[of 0 baseInputs i data]
    by simp
qed

lemma length_envelope_cells: "length envelope_cells = 2091"
  by (simp add: envelope_cells_def length_concat comp_def sum_list_triv)

text \<open>
  Claim C8.  \<open>calculateEnvelope\<close> returns, Mach index first and altitude index second,
  the points of the kept cells of the grid of 51 Mach indices and 41 altitude indices:
  the cell \<open>(i, j)\<close> has the Mach number \<open>(i / 50) * 2.5\<close> and the altitude
  \<open>(j / 40) * 20\<close>, its solve takes these two and the base mass flow times
  \<open>delta / sqrt theta\<close>, with \<open>theta = Tt2 / 288.15\<close> and \<open>delta = Pt2 / 101325\<close> at
  the cell, and the cell is kept when its solve is valid with a positive thrust.  The
  result has at most 2091 points.
\<close>

theorem calculateEnvelope_grid:
  "calculateEnvelope baseInputs = envelope_spec baseInputs
   \<and> length (calculateEnvelope baseInputs) \<le> 2091"
proof -
  have eq: "calculateEnvelope baseInputs = envelope_spec baseInputs"
    using calculateEnvelope_outer_eq[of 0 baseInputs "[]"]
    by (simp add: calculateEnvelope_def envelope_spec_def envelope_cells_def)
  have "length (envelope_spec baseInputs) \<le> length envelope_cells"
    by (simp add: envelope_spec_def)
  with eq show ?thesis
    by (simp add: length_envelope_cells)
qed

end
